(* ===== verification/Prelude.thy ===== *)
theory Prelude
  imports Complex_Main "HOL-Library.Product_Lexorder"
begin

section \<open>Shared types, tables and their lemmas\<close>

text \<open>
  What every other theory of the development uses: the types of identifiers and of
  instants, JSON values, and the three statements the repositories issue against a table
  (a table is the list of its rows): \<open>UPDATE .. WHERE .. SET\<close> is \<open>update_where\<close>, its
  \<open>RETURNING\<close> clause is \<open>returning\<close>, \<open>SELECT count(*) .. WHERE\<close> is \<open>count_where\<close>, and a
  lookup by a unique column is \<open>row\<close>.  The order of the rows stands for the physical order
  PostgreSQL is free to choose, so every statement about a table is for every order.

  Instants are integers of microseconds since the epoch in UTC, the grid of PostgreSQL's
  \<open>timestamptz\<close> and of Python's \<open>datetime\<close>.  A number of seconds (a Python \<open>float\<close>) is a real
  number; \<open>interval\<close> rounds it to the grid, to the nearest even microsecond on a tie, as
  both do.  The rounding errors of binary floating point are not modelled.
\<close>

type_synonym uuid = nat
type_synonym time = int

definition round_half_even :: "real \<Rightarrow> int" where
  "round_half_even x =
     (let f = \<lfloor>x\<rfloor>; r = x - real_of_int f
      in if r < 1 / 2 then f else if 1 / 2 < r then f + 1 else if even f then f else f + 1)"

definition interval :: "real \<Rightarrow> time" where
  "interval seconds = round_half_even (seconds * 1000000)"

text \<open>\<open>extract(epoch from t)\<close>, in seconds.\<close>

definition epoch :: "time \<Rightarrow> real" where
  "epoch t = real_of_int t / 1000000"

lemma round_half_even_of_int [simp]: "round_half_even (real_of_int n) = n"
  by (simp add: round_half_even_def)

lemma round_half_even_bounds: "x - 1 / 2 \<le> real_of_int (round_half_even x)
    \<and> real_of_int (round_half_even x) \<le> x + 1 / 2"
  by (auto simp: round_half_even_def Let_def) linarith+

lemma round_half_even_mono:
  assumes "x \<le> y" shows "round_half_even x \<le> round_half_even y"
proof (cases "\<lfloor>x\<rfloor> = \<lfloor>y\<rfloor>")
  case True
  with assms show ?thesis by (auto simp: round_half_even_def Let_def)
next
  case False
  then have "\<lfloor>x\<rfloor> + 1 \<le> \<lfloor>y\<rfloor>" using floor_mono [OF assms] by linarith
  then show ?thesis by (auto simp: round_half_even_def Let_def)
qed

lemma interval_of_int [simp]: "interval (real_of_int n) = n * 1000000"
proof -
  have "interval (real_of_int n) = round_half_even (real_of_int (n * 1000000))"
    by (simp add: interval_def)
  then show ?thesis by (simp only: round_half_even_of_int)
qed

lemma interval_mono: "x \<le> y \<Longrightarrow> interval x \<le> interval y"
  by (simp add: interval_def round_half_even_mono)

lemma interval_nonneg: "0 \<le> x \<Longrightarrow> 0 \<le> interval x"
  using interval_mono [of 0 x] interval_of_int [of 0] by simp

datatype json =
    JNull
  | JBool bool
  | JNum real
  | JStr string
  | JArr "json list"
  | JObj "(string \<times> json) list"

text \<open>The collections: facts that rewrite table statements, and the definitions of guarded
  updates.\<close>

named_theorems table_simps
named_theorems guard_defs
named_theorems op_defs

subsection \<open>Statements against one table\<close>

definition update_where :: "('r \<Rightarrow> bool) \<Rightarrow> ('r \<Rightarrow> 'r) \<Rightarrow> 'r list \<Rightarrow> 'r list" where
  "update_where P f rs = map (\<lambda>r. if P r then f r else r) rs"

definition returning :: "('r \<Rightarrow> bool) \<Rightarrow> ('r \<Rightarrow> 'r) \<Rightarrow> 'r list \<Rightarrow> 'r list" where
  "returning P f rs = map f (filter P rs)"

definition count_where :: "('r \<Rightarrow> bool) \<Rightarrow> 'r list \<Rightarrow> nat" where
  "count_where P rs = length (filter P rs)"

definition row :: "('r \<Rightarrow> 'k) \<Rightarrow> 'k \<Rightarrow> 'r list \<Rightarrow> 'r option" where
  "row key k rs = List.find (\<lambda>r. key r = k) rs"

definition unique_on :: "('r \<Rightarrow> 'k) \<Rightarrow> 'r list \<Rightarrow> bool" where
  "unique_on key rs \<longleftrightarrow> distinct (map key rs)"

lemma length_update_where [simp]: "length (update_where P f rs) = length rs"
  by (simp add: update_where_def)

lemma update_where_Nil [simp]: "update_where P f [] = []"
  by (simp add: update_where_def)

lemma update_where_Cons [simp]:
  "update_where P f (r # rs) = (if P r then f r else r) # update_where P f rs"
  by (simp add: update_where_def)

lemma update_where_append [simp]:
  "update_where P f (rs @ ss) = update_where P f rs @ update_where P f ss"
  by (simp add: update_where_def)

lemma in_update_where:
  "x \<in> set (update_where P f rs) \<longleftrightarrow> (\<exists>r \<in> set rs. x = (if P r then f r else r))"
  by (auto simp: update_where_def)

lemma update_where_cases:
  assumes "x \<in> set (update_where P f rs)"
  obtains (changed) r where "r \<in> set rs" and "P r" and "x = f r"
    | (kept) "x \<in> set rs" and "\<not> P x"
  using assms by (auto simp: in_update_where split: if_splits)

lemma update_where_none: "(\<And>r. r \<in> set rs \<Longrightarrow> \<not> P r) \<Longrightarrow> update_where P f rs = rs"
  by (induction rs) auto

lemma update_where_cong:
  "(\<And>r. r \<in> set rs \<Longrightarrow> P r = Q r) \<Longrightarrow> update_where P f rs = update_where Q f rs"
  by (simp add: update_where_def)

lemma map_update_where:
  "(\<And>r. key (f r) = key r) \<Longrightarrow> map key (update_where P f rs) = map key rs"
  by (induction rs) auto

lemma unique_update_where:
  "(\<And>r. key (f r) = key r) \<Longrightarrow> unique_on key (update_where P f rs) = unique_on key rs"
  by (simp add: unique_on_def map_update_where)

lemma row_Nil [simp]: "row key k [] = None"
  by (simp add: row_def)

lemma row_Cons [simp]: "row key k (r # rs) = (if key r = k then Some r else row key k rs)"
  by (simp add: row_def)

lemma row_append:
  "row key k (rs @ ss) = (case row key k rs of None \<Rightarrow> row key k ss | Some r \<Rightarrow> Some r)"
  by (induction rs) auto

lemma row_SomeD: "row key k rs = Some r \<Longrightarrow> r \<in> set rs \<and> key r = k"
  by (induction rs) (auto split: if_splits)

lemma row_None_iff: "row key k rs = None \<longleftrightarrow> k \<notin> key ` set rs"
  by (induction rs) auto

lemma row_Some_iff:
  "unique_on key rs \<Longrightarrow> row key k rs = Some r \<longleftrightarrow> r \<in> set rs \<and> key r = k"
  by (induction rs) (auto simp: unique_on_def image_iff)

lemma row_of_member: "unique_on key rs \<Longrightarrow> r \<in> set rs \<Longrightarrow> row key (key r) rs = Some r"
  by (simp add: row_Some_iff)

lemma row_update_where:
  "(\<And>r. key (f r) = key r) \<Longrightarrow>
   row key k (update_where P f rs) = map_option (\<lambda>r. if P r then f r else r) (row key k rs)"
  by (induction rs) auto

text \<open>Replacing the row with a given key.\<close>

lemma row_replace:
  "key s = i \<Longrightarrow> row key k (update_where (\<lambda>r. key r = i) (\<lambda>_. s) rs) =
     map_option (\<lambda>r. if key r = i then s else r) (row key k rs)"
  by (induction rs) auto

lemma map_replace:
  "key s = i \<Longrightarrow> map key (update_where (\<lambda>r. key r = i) (\<lambda>_. s) rs) = map key rs"
  by (induction rs) auto

lemma unique_onD:
  "unique_on key rs \<Longrightarrow> r \<in> set rs \<Longrightarrow> s \<in> set rs \<Longrightarrow> key r = key s \<Longrightarrow> r = s"
  by (metis row_of_member option.inject)

lemma unique_on_append1:
  "unique_on key (rs @ [r]) \<longleftrightarrow> unique_on key rs \<and> key r \<notin> key ` set rs"
  by (auto simp: unique_on_def)

lemma count_where_Nil [simp]: "count_where P [] = 0"
  by (simp add: count_where_def)

lemma count_where_Cons [simp]:
  "count_where P (r # rs) = (if P r then Suc (count_where P rs) else count_where P rs)"
  by (simp add: count_where_def)

lemma count_where_append [simp]: "count_where P (rs @ ss) = count_where P rs + count_where P ss"
  by (simp add: count_where_def)

lemma count_where_mono: "(\<And>r. r \<in> set rs \<Longrightarrow> P r \<Longrightarrow> Q r) \<Longrightarrow> count_where P rs \<le> count_where Q rs"
  by (induction rs) (auto simp: le_Suc_eq)

lemma count_where_cong: "(\<And>r. r \<in> set rs \<Longrightarrow> P r = Q r) \<Longrightarrow> count_where P rs = count_where Q rs"
  by (induction rs) auto

lemma count_where_zero: "count_where P rs = 0 \<longleftrightarrow> (\<forall>r \<in> set rs. \<not> P r)"
  by (induction rs) auto

lemma count_where_update:
  "count_where Q (update_where P f rs) \<le> count_where Q rs + count_where P rs"
  by (induction rs) auto

lemma count_where_update_kept:
  "(\<And>r. r \<in> set rs \<Longrightarrow> P r \<Longrightarrow> Q (f r) = Q r) \<Longrightarrow>
   count_where Q (update_where P f rs) = count_where Q rs"
  by (induction rs) auto

lemma count_where_update_sub:
  "(\<And>r. r \<in> set rs \<Longrightarrow> P r \<Longrightarrow> Q (f r) \<Longrightarrow> Q r) \<Longrightarrow>
   count_where Q (update_where P f rs) \<le> count_where Q rs"
  by (induction rs) (auto simp: le_Suc_eq)

lemma returning_Nil [simp]: "returning P f [] = []"
  by (simp add: returning_def)

lemma in_returning: "x \<in> set (returning P f rs) \<longleftrightarrow> (\<exists>r \<in> set rs. P r \<and> x = f r)"
  by (auto simp: returning_def)

lemma returning_subset: "set (returning P f rs) \<subseteq> set (update_where P f rs)"
  by (auto simp: in_returning in_update_where)

lemma length_returning: "length (returning P f rs) = count_where P rs"
  by (simp add: returning_def count_where_def)

lemma distinct_map_returning:
  "unique_on key rs \<Longrightarrow> (\<And>r. key (f r) = key r) \<Longrightarrow> distinct (map key (returning P f rs))"
  by (induction rs) (auto simp: unique_on_def returning_def)

text \<open>Selecting by the keys of a chosen list of rows selects exactly these rows.\<close>

lemma filter_keys_eq:
  assumes "unique_on key rs" and "set cs \<subseteq> set rs" and "r \<in> set rs"
  shows "key r \<in> key ` set cs \<longleftrightarrow> r \<in> set cs"
  using assms by (auto dest: unique_onD)

lemma count_keys_eq:
  assumes "unique_on key rs" and "set cs \<subseteq> set rs" and "distinct cs"
  shows "count_where (\<lambda>r. key r \<in> key ` set cs) rs = length cs"
proof -
  have "filter (\<lambda>r. key r \<in> key ` set cs) rs = filter (\<lambda>r. r \<in> set cs) rs"
    using filter_keys_eq [OF assms(1,2)] by (auto intro: filter_cong)
  moreover have "distinct rs"
    using assms(1) by (simp add: unique_on_def distinct_map)
  then have "card (set (filter (\<lambda>r. r \<in> set cs) rs)) = length (filter (\<lambda>r. r \<in> set cs) rs)"
    by (simp add: distinct_card del: set_filter)
  moreover have "set (filter (\<lambda>r. r \<in> set cs) rs) = set cs"
    using assms(2) by auto
  ultimately show ?thesis
    using assms(3) by (simp add: count_where_def distinct_card)
qed

subsection \<open>Sorting and limits\<close>

lemma take_sort_key_subset: "set (take n (sort_key k (filter P rs))) \<subseteq> {r \<in> set rs. P r}"
  by (auto dest: in_set_takeD)

lemma distinct_take_sort_key: "distinct rs \<Longrightarrow> distinct (take n (sort_key k (filter P rs)))"
  by (simp add: distinct_sort)

lemma sorted_take_le:
  assumes "sorted (map k xs)" and "x \<in> set (take n xs)" and "y \<in> set xs" and "y \<notin> set (take n xs)"
  shows "k x \<le> k y"
proof -
  have "y \<in> set (drop n xs)"
    using assms(3,4) by (metis UnE append_take_drop_id set_append)
  moreover have "sorted (map k (take n xs) @ map k (drop n xs))"
    using assms(1) by (metis append_take_drop_id map_append)
  ultimately show ?thesis
    using assms(2) by (auto simp: sorted_append)
qed

lemma take_short: "length (take n xs) < n \<Longrightarrow> take n xs = xs"
  by simp

subsection \<open>A row update that keeps the key\<close>

text \<open>
  Every statement of the repositories changes some columns of a row and never its
  identity.  The locale states this once; each table statement interprets it.
\<close>

locale keyed_update =
  fixes key :: "'r \<Rightarrow> 'k"
    and act :: "'r \<Rightarrow> 'r"
  assumes key_kept: "key (act r) = key r"
begin

lemma keys: "map key (update_where P act rs) = map key rs"
  by (rule map_update_where) (rule key_kept)

lemma key_set: "key ` set (update_where P act rs) = key ` set rs"
  by (metis keys list.set_map)

lemma unique: "unique_on key (update_where P act rs) = unique_on key rs"
  by (rule unique_update_where) (rule key_kept)

lemma lookup:
  "row key k (update_where P act rs) = map_option (\<lambda>r. if P r then act r else r) (row key k rs)"
  by (rule row_update_where) (rule key_kept)

lemma lookup_other:
  "(\<And>r. r \<in> set rs \<Longrightarrow> key r = k \<Longrightarrow> \<not> P r) \<Longrightarrow> row key k (update_where P act rs) = row key k rs"
  by (cases "row key k rs") (auto simp: lookup dest: row_SomeD)

end

end
