(* ===== verification/Retry.thy ===== *)
theory Retry
  imports Prelude
begin

section \<open>Retry policy decisions (app/domain/retry.py)\<close>

text \<open>
  The pure decision the worker's failure path and the reaper share.  A draw of
  \<open>rng.random()\<close> is the argument \<open>u\<close>; the random number generator promises
  \<open>0 \<le> u < 1\<close>.  The \<open>ValueError\<close> of an attempt number below 1 is an \<open>Inl\<close>.
\<close>

datatype RetryStrategy = FIXED | LINEAR | EXPONENTIAL

record RetryPolicy =
  max_attempts :: int
  backoff_base_seconds :: int
  backoff_factor :: real
  backoff_max_seconds :: int
  strategy :: RetryStrategy

record FailureDecision =
  retry :: bool
  delay_seconds :: real

datatype value_error = ValueError string

definition raw_backoff :: "RetryPolicy \<Rightarrow> int \<Rightarrow> real" where
  "raw_backoff policy attempt_number =
     (case strategy policy of
        FIXED \<Rightarrow> real_of_int (backoff_base_seconds policy)
      | LINEAR \<Rightarrow> real_of_int (backoff_base_seconds policy * attempt_number)
      | EXPONENTIAL \<Rightarrow>
          real_of_int (backoff_base_seconds policy)
            * backoff_factor policy ^ nat (attempt_number - 1))"

definition compute_backoff_seconds :: "RetryPolicy \<Rightarrow> int \<Rightarrow> real \<Rightarrow> value_error + real" where
  "compute_backoff_seconds policy attempt_number u =
     (if attempt_number < 1 then Inl (ValueError ''attempt_number must be >= 1'')
      else let capped = min (raw_backoff policy attempt_number)
                            (real_of_int (backoff_max_seconds policy));
               jitter = capped * (1 / 5) * u
           in Inr (capped + jitter))"

definition decide_failure :: "RetryPolicy \<Rightarrow> int \<Rightarrow> real \<Rightarrow> value_error + FailureDecision" where
  "decide_failure policy attempt_number u =
     (if attempt_number \<ge> max_attempts policy
      then Inr \<lparr>retry = False, delay_seconds = 0\<rparr>
      else case compute_backoff_seconds policy attempt_number u of
             Inl e \<Rightarrow> Inl e
           | Inr d \<Rightarrow> Inr \<lparr>retry = True, delay_seconds = d\<rparr>)"

text \<open>The ranges the CHECK constraints and the request schemas put on a stored policy.\<close>

definition policy_in_range :: "RetryPolicy \<Rightarrow> bool" where
  "policy_in_range p \<longleftrightarrow>
     1 \<le> max_attempts p \<and> max_attempts p \<le> 20 \<and>
     0 \<le> backoff_base_seconds p \<and> backoff_base_seconds p \<le> 3600 \<and>
     1 \<le> backoff_factor p \<and> backoff_factor p \<le> 10 \<and>
     1 \<le> backoff_max_seconds p \<and> backoff_max_seconds p \<le> 86400"

subsection \<open>The raw curve\<close>

lemma raw_backoff_nonneg: "policy_in_range p \<Longrightarrow> 1 \<le> n \<Longrightarrow> 0 \<le> raw_backoff p n"
  by (cases "strategy p") (auto simp: raw_backoff_def policy_in_range_def)

lemma raw_backoff_first: "raw_backoff p 1 = real_of_int (backoff_base_seconds p)"
  by (cases "strategy p") (auto simp: raw_backoff_def)

lemma raw_backoff_mono:
  assumes "policy_in_range p" and "1 \<le> m" and "m \<le> n"
  shows "raw_backoff p m \<le> raw_backoff p n"
proof (cases "strategy p")
  case FIXED
  then show ?thesis by (simp add: raw_backoff_def)
next
  case LINEAR
  then show ?thesis
    using assms by (simp add: raw_backoff_def policy_in_range_def mult_left_mono)
next
  case EXPONENTIAL
  have "backoff_factor p ^ nat (m - 1) \<le> backoff_factor p ^ nat (n - 1)"
    using assms by (intro power_increasing) (auto simp: policy_in_range_def)
  with EXPONENTIAL show ?thesis
    using assms by (simp add: raw_backoff_def policy_in_range_def mult_left_mono)
qed

subsection \<open>The delay\<close>

definition capped_backoff :: "RetryPolicy \<Rightarrow> int \<Rightarrow> real" where
  "capped_backoff p n = min (raw_backoff p n) (real_of_int (backoff_max_seconds p))"

lemma compute_backoff_eq:
  "1 \<le> n \<Longrightarrow> compute_backoff_seconds p n u = Inr (capped_backoff p n * (1 + u / 5))"
  by (simp add: compute_backoff_seconds_def capped_backoff_def Let_def algebra_simps)

lemma capped_backoff_bounds:
  "policy_in_range p \<Longrightarrow> 1 \<le> n \<Longrightarrow>
   0 \<le> capped_backoff p n \<and> capped_backoff p n \<le> real_of_int (backoff_max_seconds p)"
  using raw_backoff_nonneg [of p n] by (auto simp: capped_backoff_def policy_in_range_def)

lemma capped_backoff_mono:
  "policy_in_range p \<Longrightarrow> 1 \<le> m \<Longrightarrow> m \<le> n \<Longrightarrow> capped_backoff p m \<le> capped_backoff p n"
  using raw_backoff_mono [of p m n] by (auto simp: capped_backoff_def)

lemma decide_failure_retry:
  "1 \<le> n \<Longrightarrow> n < max_attempts p \<Longrightarrow>
   decide_failure p n u = Inr \<lparr>retry = True, delay_seconds = capped_backoff p n * (1 + u / 5)\<rparr>"
  by (simp add: decide_failure_def compute_backoff_eq)

lemma decide_failure_dead:
  "max_attempts p \<le> n \<Longrightarrow> decide_failure p n u = Inr \<lparr>retry = False, delay_seconds = 0\<rparr>"
  by (simp add: decide_failure_def)

lemma decide_failure_total: "1 \<le> n \<Longrightarrow> \<exists>d. decide_failure p n u = Inr d"
  by (cases "n < max_attempts p") (auto simp: decide_failure_retry decide_failure_dead)

lemma decide_failure_retry_iff:
  "decide_failure p n u = Inr d \<Longrightarrow> retry d \<longleftrightarrow> n < max_attempts p"
  by (auto simp: decide_failure_def split: if_splits sum.splits)

subsection \<open>Properties\<close>

definition sample_policy :: RetryPolicy where
  "sample_policy = \<lparr>max_attempts = 5, backoff_base_seconds = 5, backoff_factor = 2,
     backoff_max_seconds = 60, strategy = EXPONENTIAL\<rparr>"

lemma sample_policy_in_range: "policy_in_range sample_policy"
  by (simp add: sample_policy_def policy_in_range_def)

text \<open>C40: The retry delay of a stored policy is never negative, never below the capped backoff
  curve, and exceeds the configured maximum by less than the jitter of a fifth.\<close>

theorem backoff_delay_bounds:
  assumes "policy_in_range p" and "1 \<le> n" and "0 \<le> u" and "u < 1"
  shows "\<exists>x. compute_backoff_seconds p n u = Inr x \<and> 0 \<le> x \<and> capped_backoff p n \<le> x \<and>
    x \<le> 6 / 5 * capped_backoff p n \<and> x < 6 / 5 * real_of_int (backoff_max_seconds p)"
proof -
  let ?c = "capped_backoff p n" and ?M = "real_of_int (backoff_max_seconds p)"
  have c: "0 \<le> ?c" "?c \<le> ?M" and M: "1 \<le> ?M"
    using capped_backoff_bounds [OF assms(1,2)] assms(1) by (auto simp: policy_in_range_def)
  have "?c * (1 + u / 5) \<le> ?M * (1 + u / 5)"
    using c assms(3) by (intro mult_right_mono) auto
  also have "\<dots> < ?M * (6 / 5)"
    using M assms(4) by (intro mult_strict_left_mono) auto
  finally have "?c * (1 + u / 5) < 6 / 5 * ?M"
    by (simp add: mult.commute)
  moreover have "?c * 1 \<le> ?c * (1 + u / 5)" "?c * (1 + u / 5) \<le> ?c * (6 / 5)"
    using c assms(3,4) by (intro mult_left_mono; simp)+
  ultimately show ?thesis
    using c assms(2) by (auto simp: compute_backoff_eq)
qed

theorem backoff_delay_bounds_witness:
  "\<exists>x. compute_backoff_seconds sample_policy 4 (1 / 2) = Inr x \<and> x < 6 / 5 * 60"
  using backoff_delay_bounds [OF sample_policy_in_range, of 4 "1 / 2"]
  by (auto simp: sample_policy_def)

text \<open>Backing off never speeds up: with the same draw, a later attempt waits at least as long as
  an earlier one, for each of the three strategies.\<close>

theorem backoff_monotone:
  assumes "policy_in_range p" and "1 \<le> m" and "m \<le> n" and "0 \<le> u"
  shows "\<exists>x y. compute_backoff_seconds p m u = Inr x \<and> compute_backoff_seconds p n u = Inr y \<and> x \<le> y"
proof -
  have "capped_backoff p m * (1 + u / 5) \<le> capped_backoff p n * (1 + u / 5)"
    using capped_backoff_mono [OF assms(1-3)] assms(4) by (intro mult_right_mono) auto
  then show ?thesis using assms(2,3) by (auto simp: compute_backoff_eq)
qed

theorem backoff_monotone_witness:
  "\<exists>x y. compute_backoff_seconds sample_policy 2 0 = Inr x \<and>
     compute_backoff_seconds sample_policy 3 0 = Inr y \<and> x \<le> y"
  using backoff_monotone [OF sample_policy_in_range, of 2 3 0] by simp

text \<open>The verdict on every branch: an attempt at or past the budget is final whatever the
  policy; one below the budget is retried after its delay; only an attempt number below 1
  that is also below the budget raises.\<close>

theorem failure_verdict:
  "decide_failure p n u =
     (if max_attempts p \<le> n then Inr \<lparr>retry = False, delay_seconds = 0\<rparr>
      else if n < 1 then Inl (ValueError ''attempt_number must be >= 1'')
      else Inr \<lparr>retry = True,
        delay_seconds = min (raw_backoff p n) (real_of_int (backoff_max_seconds p)) * (1 + u / 5)\<rparr>)"
  by (simp add: decide_failure_def compute_backoff_seconds_def Let_def algebra_simps)

end
