(* ===== verification/Models.thy ===== *)
theory Models
  imports Retry
begin

section \<open>The database schema (app/models)\<close>

text \<open>
  One record per table, one datatype per native enum, one predicate per group of CHECK
  constraints and per unique index.  A column of a record carries the first letters of its
  table as a prefix, since record fields are global constants.  \<open>db\<close> is the state of the
  whole database between two transactions.
\<close>

subsection \<open>Enums\<close>

datatype JobStatus = PENDING | RUNNING | SUCCEEDED | CANCELLED | DEAD

datatype AttemptStatus = A_RUNNING | A_SUCCEEDED | A_FAILED | A_LOST | A_ABORTED

datatype WorkerStatus = ONLINE | DRAINING | OFFLINE

datatype UserRole = OWNER | ADMIN | MEMBER | VIEWER

text \<open>The values the enums are stored under.\<close>

fun job_status_value :: "JobStatus \<Rightarrow> string" where
  "job_status_value PENDING = ''pending''"
| "job_status_value RUNNING = ''running''"
| "job_status_value SUCCEEDED = ''succeeded''"
| "job_status_value CANCELLED = ''cancelled''"
| "job_status_value DEAD = ''dead''"

fun user_role_value :: "UserRole \<Rightarrow> string" where
  "user_role_value OWNER = ''owner''"
| "user_role_value ADMIN = ''admin''"
| "user_role_value MEMBER = ''member''"
| "user_role_value VIEWER = ''viewer''"

definition job_statuses :: "JobStatus list" where
  "job_statuses = [PENDING, RUNNING, SUCCEEDED, CANCELLED, DEAD]"

lemma set_job_statuses: "s \<in> set job_statuses"
  by (cases s) (simp_all add: job_statuses_def)

text \<open>PostgreSQL orders the labels of an enum as they are declared.\<close>

fun worker_status_position :: "WorkerStatus \<Rightarrow> nat" where
  "worker_status_position ONLINE = 0"
| "worker_status_position DRAINING = 1"
| "worker_status_position OFFLINE = 2"

lemma worker_status_position_inj: "worker_status_position a = worker_status_position b \<Longrightarrow> a = b"
  by (cases a; cases b) simp_all

instantiation WorkerStatus :: linorder
begin

definition less_eq_WorkerStatus :: "WorkerStatus \<Rightarrow> WorkerStatus \<Rightarrow> bool" where
  "less_eq_WorkerStatus a b \<longleftrightarrow> worker_status_position a \<le> worker_status_position b"

definition less_WorkerStatus :: "WorkerStatus \<Rightarrow> WorkerStatus \<Rightarrow> bool" where
  "less_WorkerStatus a b \<longleftrightarrow> worker_status_position a < worker_status_position b"

instance
  by standard
    (auto simp: less_eq_WorkerStatus_def less_WorkerStatus_def intro: worker_status_position_inj)

end

subsection \<open>Tenancy: users, organizations, projects\<close>

record organization =
  o_id :: uuid
  o_name :: string
  o_created_at :: time

record project =
  p_id :: uuid
  p_org_id :: uuid
  p_name :: string
  p_created_at :: time

record user =
  u_id :: uuid
  u_org_id :: uuid
  u_email :: string
  u_password_hash :: string
  u_role :: UserRole
  u_created_at :: time

subsection \<open>Queues\<close>

record job_queue =
  q_id :: uuid
  q_project_id :: uuid
  q_name :: string
  q_paused :: bool
  q_shard_key :: int
  q_max_concurrency :: "int option"
  q_default_priority :: int
  q_default_max_attempts :: int
  q_default_backoff_strategy :: RetryStrategy
  q_default_backoff_base_seconds :: int
  q_default_backoff_factor :: real
  q_default_backoff_max_seconds :: int
  q_default_timeout_seconds :: int
  q_created_at :: time
  q_updated_at :: time

text \<open>\<open>Queue(project_id=.., name=..)\<close>: every other column takes its default.\<close>

definition new_queue :: "time \<Rightarrow> uuid \<Rightarrow> uuid \<Rightarrow> string \<Rightarrow> job_queue" where
  "new_queue now i pid nm =
     \<lparr>q_id = i, q_project_id = pid, q_name = nm, q_paused = False, q_shard_key = 0,
      q_max_concurrency = None, q_default_priority = 0, q_default_max_attempts = 3,
      q_default_backoff_strategy = EXPONENTIAL, q_default_backoff_base_seconds = 5,
      q_default_backoff_factor = 2, q_default_backoff_max_seconds = 300,
      q_default_timeout_seconds = 300, q_created_at = now, q_updated_at = now\<rparr>"

definition queue_checks :: "job_queue \<Rightarrow> bool" where
  "queue_checks q \<longleftrightarrow>
     (case q_max_concurrency q of None \<Rightarrow> True | Some c \<Rightarrow> 1 \<le> c \<and> c \<le> 10000) \<and>
     1 \<le> q_default_max_attempts q \<and> q_default_max_attempts q \<le> 20 \<and>
     -100 \<le> q_default_priority q \<and> q_default_priority q \<le> 100 \<and>
     0 \<le> q_default_backoff_base_seconds q \<and> q_default_backoff_base_seconds q \<le> 3600 \<and>
     1 \<le> q_default_backoff_factor q \<and> q_default_backoff_factor q \<le> 10 \<and>
     1 \<le> q_default_backoff_max_seconds q \<and> q_default_backoff_max_seconds q \<le> 86400 \<and>
     1 \<le> q_default_timeout_seconds q \<and> q_default_timeout_seconds q \<le> 86400"

lemma new_queue_checks: "queue_checks (new_queue now i pid nm)"
  by (simp add: queue_checks_def new_queue_def)

subsection \<open>Jobs\<close>

record job =
  j_id :: uuid
  j_owner_id :: uuid
  j_queue_id :: uuid
  j_queue :: string
  j_task_name :: string
  j_batch_id :: "uuid option"
  j_workflow_id :: "uuid option"
  j_payload :: json
  j_status :: JobStatus
  j_priority :: int
  j_run_at :: time
  j_idempotency_key :: "string option"
  j_max_attempts :: int
  j_backoff_strategy :: RetryStrategy
  j_attempt_count :: int
  j_timeout_seconds :: int
  j_backoff_base_seconds :: int
  j_backoff_factor :: real
  j_backoff_max_seconds :: int
  j_locked_by :: "uuid option"
  j_lease_expires_at :: "time option"
  j_last_error :: "string option"
  j_ai_summary :: "string option"
  j_result :: "json option"
  j_created_at :: time
  j_updated_at :: time
  j_started_at :: "time option"
  j_finished_at :: "time option"

definition job_checks :: "job \<Rightarrow> bool" where
  "job_checks j \<longleftrightarrow>
     1 \<le> j_max_attempts j \<and> j_max_attempts j \<le> 20 \<and>
     -100 \<le> j_priority j \<and> j_priority j \<le> 100 \<and>
     0 \<le> j_backoff_base_seconds j \<and> j_backoff_base_seconds j \<le> 3600 \<and>
     1 \<le> j_backoff_factor j \<and> j_backoff_factor j \<le> 10 \<and>
     1 \<le> j_backoff_max_seconds j \<and> j_backoff_max_seconds j \<le> 86400 \<and>
     1 \<le> j_timeout_seconds j \<and> j_timeout_seconds j \<le> 86400"

text \<open>The unique partial index \<open>uq_jobs_owner_idempotency\<close>.\<close>

definition same_idempotency :: "job \<Rightarrow> job \<Rightarrow> bool" where
  "same_idempotency j k \<longleftrightarrow>
     j_idempotency_key j \<noteq> None \<and> j_owner_id j = j_owner_id k
       \<and> j_idempotency_key j = j_idempotency_key k"

definition uq_jobs_owner_idempotency :: "job list \<Rightarrow> bool" where
  "uq_jobs_owner_idempotency js \<longleftrightarrow>
     unique_on (\<lambda>j. (j_owner_id j, j_idempotency_key j)) (filter (\<lambda>j. j_idempotency_key j \<noteq> None) js)"

text \<open>
  The part of a job row no operation may change once the job is stored: its identity and
  the retry policy denormalized onto it at enqueue time.
\<close>

definition contract ::
  "job \<Rightarrow> (uuid \<times> uuid \<times> uuid \<times> string) \<times> (string \<times> uuid option \<times> uuid option \<times> json)
        \<times> (int \<times> string option \<times> int \<times> RetryStrategy) \<times> (int \<times> int \<times> real \<times> int) \<times> time" where
  "contract j =
     ((j_id j, j_owner_id j, j_queue_id j, j_queue j),
      (j_task_name j, j_batch_id j, j_workflow_id j, j_payload j),
      (j_priority j, j_idempotency_key j, j_max_attempts j, j_backoff_strategy j),
      (j_timeout_seconds j, j_backoff_base_seconds j, j_backoff_factor j, j_backoff_max_seconds j),
      j_created_at j)"

lemma contract_fields:
  assumes "contract j = contract k"
  shows "j_id j = j_id k" "j_owner_id j = j_owner_id k" "j_queue_id j = j_queue_id k"
    "j_queue j = j_queue k" "j_idempotency_key j = j_idempotency_key k"
    "j_max_attempts j = j_max_attempts k" "j_payload j = j_payload k"
  using assms by (auto simp: contract_def)

lemma contract_checks: "contract j = contract k \<Longrightarrow> job_checks j = job_checks k"
  by (auto simp: contract_def job_checks_def)

subsection \<open>Attempts, dependencies, workers\<close>

record job_attempt =
  a_id :: uuid
  a_job_id :: uuid
  a_worker_id :: "uuid option"
  a_attempt_number :: int
  a_status :: AttemptStatus
  a_error :: "string option"
  a_started_at :: time
  a_finished_at :: "time option"

record job_dependency =
  d_id :: uuid
  d_job_id :: uuid
  d_depends_on_job_id :: uuid

record worker =
  w_id :: uuid
  w_name :: string
  w_status :: WorkerStatus
  w_concurrency :: int
  w_last_heartbeat_at :: time
  w_started_at :: time
  w_stopped_at :: "time option"

subsection \<open>Schedules\<close>

record schedule =
  s_id :: uuid
  s_owner_id :: uuid
  s_queue_id :: uuid
  s_queue :: string
  s_task_name :: string
  s_payload :: json
  s_cron_expr :: string
  s_paused :: bool
  s_priority :: int
  s_max_attempts :: int
  s_timeout_seconds :: int
  s_backoff_strategy :: RetryStrategy
  s_backoff_base_seconds :: int
  s_backoff_factor :: real
  s_backoff_max_seconds :: int
  s_next_run_at :: time
  s_last_run_at :: "time option"
  s_created_at :: time
  s_updated_at :: time

definition schedule_checks :: "schedule \<Rightarrow> bool" where
  "schedule_checks s \<longleftrightarrow>
     1 \<le> s_max_attempts s \<and> s_max_attempts s \<le> 20 \<and>
     -100 \<le> s_priority s \<and> s_priority s \<le> 100 \<and>
     0 \<le> s_backoff_base_seconds s \<and> s_backoff_base_seconds s \<le> 3600 \<and>
     1 \<le> s_backoff_factor s \<and> s_backoff_factor s \<le> 10 \<and>
     1 \<le> s_backoff_max_seconds s \<and> s_backoff_max_seconds s \<le> 86400 \<and>
     1 \<le> s_timeout_seconds s \<and> s_timeout_seconds s \<le> 86400"

subsection \<open>The database\<close>

record db =
  organizations :: "organization list"
  projects :: "project list"
  users :: "user list"
  queues :: "job_queue list"
  jobs :: "job list"
  attempts :: "job_attempt list"
  dependencies :: "job_dependency list"
  workers :: "worker list"
  schedules :: "schedule list"

definition empty_db :: db where
  "empty_db = \<lparr>organizations = [], projects = [], users = [], queues = [], jobs = [],
     attempts = [], dependencies = [], workers = [], schedules = []\<rparr>"

text \<open>Primary keys, unique indexes and the foreign keys the claim path relies on.\<close>

definition uq_queues_project_name :: "job_queue list \<Rightarrow> bool" where
  "uq_queues_project_name qs \<longleftrightarrow> unique_on (\<lambda>q. (q_project_id q, q_name q)) qs"

definition uq_projects_org_name :: "project list \<Rightarrow> bool" where
  "uq_projects_org_name ps \<longleftrightarrow> unique_on (\<lambda>p. (p_org_id p, p_name p)) ps"

definition uq_job_dep_pair :: "job_dependency list \<Rightarrow> bool" where
  "uq_job_dep_pair ds \<longleftrightarrow> unique_on (\<lambda>e. (d_job_id e, d_depends_on_job_id e)) ds"

definition db_keys :: "db \<Rightarrow> bool" where
  "db_keys d \<longleftrightarrow>
     unique_on j_id (jobs d) \<and> unique_on q_id (queues d) \<and>
     uq_jobs_owner_idempotency (jobs d) \<and> uq_queues_project_name (queues d) \<and>
     uq_job_dep_pair (dependencies d) \<and>
     (\<forall>j \<in> set (jobs d). j_queue_id j \<in> q_id ` set (queues d)) \<and>
     (\<forall>j \<in> set (jobs d). job_checks j) \<and> (\<forall>q \<in> set (queues d). queue_checks q)"

lemma db_keysD:
  assumes "db_keys d"
  shows "unique_on j_id (jobs d)" "unique_on q_id (queues d)"
    "uq_jobs_owner_idempotency (jobs d)" "uq_queues_project_name (queues d)"
    "uq_job_dep_pair (dependencies d)"
    "j \<in> set (jobs d) \<Longrightarrow> j_queue_id j \<in> q_id ` set (queues d)"
    "j \<in> set (jobs d) \<Longrightarrow> job_checks j" "q \<in> set (queues d) \<Longrightarrow> queue_checks q"
  using assms by (simp_all add: db_keys_def)

lemma db_keys_empty: "db_keys empty_db"
  by (simp add: db_keys_def empty_db_def unique_on_def uq_jobs_owner_idempotency_def
      uq_queues_project_name_def uq_job_dep_pair_def)

end
