(* ===== verification/Job_Repo.thy ===== *)
theory Job_Repo
  imports Models
begin

section \<open>The job repository: guarded transitions (app/repositories/jobs.py)\<close>

text \<open>
  Every state transition of a job is one guarded \<open>UPDATE\<close>: its \<open>WHERE\<close> clause restates
  the status (and the lease holder) it expects.  \<open>guarded_update\<close> is that statement with
  its \<open>RETURNING\<close> row; each method below is one instance of it.  The argument \<open>now\<close> is the
  database clock of the transaction.

  The state machine of the \<open>JobStatus\<close> docstring is the inductive relation
  \<open>job_transition\<close>.  The locale \<open>job_update\<close> states what every such statement owes the
  rest of the system: it keeps the contract of the row, it moves the status along the
  state machine or leaves it, and it keeps the lease columns in step with the status.  The
  lemmas of the locale are the fencing facts all services use.
\<close>

subsection \<open>The state machine\<close>

inductive job_transition :: "JobStatus \<Rightarrow> JobStatus \<Rightarrow> bool" where
  claim: "job_transition PENDING RUNNING"
| cancel: "job_transition PENDING CANCELLED"
| succeed: "job_transition RUNNING SUCCEEDED"
| return_to_pending: "job_transition RUNNING PENDING"
| exhaust: "job_transition RUNNING DEAD"
| requeue_dead: "job_transition DEAD PENDING"
| requeue_cancelled: "job_transition CANCELLED PENDING"

inductive_simps job_transition_simps [simp]:
  "job_transition PENDING s" "job_transition RUNNING s" "job_transition SUCCEEDED s"
  "job_transition CANCELLED s" "job_transition DEAD s"

inductive_cases to_running: "job_transition s RUNNING"

text \<open>A lease is set exactly while the job runs.\<close>

definition lease_ok :: "job \<Rightarrow> bool" where
  "lease_ok j \<longleftrightarrow>
     (j_locked_by j \<noteq> None \<longleftrightarrow> j_status j = RUNNING) \<and>
     (j_lease_expires_at j \<noteq> None \<longleftrightarrow> j_status j = RUNNING)"

text \<open>
  How one row may differ between the two ends of a statement that is allowed the edges
  \<open>moves\<close> of the state machine: the contract of the row is kept, and so are its status and
  its holder unless it takes one of the edges; the attempt count goes with the edge.
\<close>

fun counts_along :: "JobStatus \<Rightarrow> JobStatus \<Rightarrow> int \<Rightarrow> int \<Rightarrow> bool" where
  "counts_along PENDING RUNNING n m \<longleftrightarrow> m = n + 1"
| "counts_along RUNNING PENDING n m \<longleftrightarrow> m = n \<or> m = n - 1"
| "counts_along DEAD PENDING n m \<longleftrightarrow> m = 0"
| "counts_along CANCELLED PENDING n m \<longleftrightarrow> m = 0"
| "counts_along s t n m \<longleftrightarrow> m = n"

type_synonym moves = "(JobStatus \<times> JobStatus) set"

definition job_evolves :: "moves \<Rightarrow> job \<Rightarrow> job \<Rightarrow> bool" where
  "job_evolves moves j k \<longleftrightarrow>
     contract k = contract j \<and>
     (if j_status k = j_status j then j_locked_by k = j_locked_by j
      else (j_status j, j_status k) \<in> moves \<and> job_transition (j_status j) (j_status k)) \<and>
     counts_along (j_status j) (j_status k) (j_attempt_count j) (j_attempt_count k)"

lemma counts_along_same [simp]: "counts_along s s n m \<longleftrightarrow> m = n"
  by (cases s) simp_all

lemma job_evolves_refl [simp]: "job_evolves T j j"
  by (simp add: job_evolves_def)

lemma job_evolves_transition:
  "job_evolves T j k \<Longrightarrow> j_status k = j_status j \<or> job_transition (j_status j) (j_status k)"
  by (auto simp: job_evolves_def split: if_splits)

subsection \<open>Guarded updates\<close>

definition guarded_update :: "(job \<Rightarrow> bool) \<Rightarrow> (job \<Rightarrow> job) \<Rightarrow> db \<Rightarrow> job option \<times> db" where
  "guarded_update P f d =
     ((case returning P f (jobs d) of [] \<Rightarrow> None | j # _ \<Rightarrow> Some j),
      d\<lparr>jobs := update_where P f (jobs d)\<rparr>)"

lemma guarded_update_db: "snd (guarded_update P f d) = d\<lparr>jobs := update_where P f (jobs d)\<rparr>"
  by (simp add: guarded_update_def)

lemma guarded_update_None_iff:
  "fst (guarded_update P f d) = None \<longleftrightarrow> (\<forall>j \<in> set (jobs d). \<not> P j)"
  by (auto simp: guarded_update_def returning_def filter_empty_conv filter_eq_Cons_iff split: list.splits)

lemma guarded_update_None: "fst (guarded_update P f d) = None \<Longrightarrow> snd (guarded_update P f d) = d"
  by (simp add: guarded_update_None_iff guarded_update_db update_where_none)

lemma guarded_update_Some:
  assumes "fst (guarded_update P f d) = Some k"
  obtains j where "j \<in> set (jobs d)" and "P j" and "k = f j"
proof -
  have "k \<in> set (returning P f (jobs d))"
    using assms by (auto simp: guarded_update_def split: list.splits)
  then show thesis
    using that by (auto simp: in_returning)
qed

locale job_update =
  fixes guard :: "job \<Rightarrow> bool"
    and act :: "job \<Rightarrow> job"
    and moves :: moves
  assumes contract_kept: "contract (act j) = contract j"
    and status_moves: "guard j \<Longrightarrow> job_evolves moves j (act j)"
    and lease_kept: "guard j \<Longrightarrow> lease_ok j \<Longrightarrow> lease_ok (act j)"

sublocale job_update \<subseteq> keyed: keyed_update j_id act
  using contract_kept by unfold_locales (simp add: contract_def)

context job_update
begin

lemmas id_kept = keyed.key_kept
lemmas unique_ids = keyed.unique
lemmas lookup = keyed.lookup

lemma owner_key_kept:
  "j_owner_id (act j) = j_owner_id j" "j_idempotency_key (act j) = j_idempotency_key j"
  "j_queue_id (act j) = j_queue_id j"
  using contract_kept [of j] by (simp_all add: contract_def)

lemma evolves:
  assumes "\<And>j. P j \<Longrightarrow> guard j"
  shows "list_all2 (job_evolves moves) js (update_where P act js)"
  using assms status_moves
  by (auto simp: update_where_def list.rel_map intro!: list.rel_refl_strong)

lemma leases:
  assumes "\<And>j. P j \<Longrightarrow> guard j" and "\<forall>j \<in> set js. lease_ok j"
  shows "\<forall>j \<in> set (update_where P act js). lease_ok j"
  using assms lease_kept by (auto simp: in_update_where)

lemma idempotency_index:
  "uq_jobs_owner_idempotency (update_where P act js) = uq_jobs_owner_idempotency js"
proof -
  have "map (\<lambda>j. (j_owner_id j, j_idempotency_key j))
          (filter (\<lambda>j. j_idempotency_key j \<noteq> None) (update_where P act js))
      = map (\<lambda>j. (j_owner_id j, j_idempotency_key j)) (filter (\<lambda>j. j_idempotency_key j \<noteq> None) js)"
    by (induction js) (simp_all add: owner_key_kept)
  then show ?thesis
    by (simp add: uq_jobs_owner_idempotency_def unique_on_def)
qed

lemma keys: "db_keys (d\<lparr>jobs := update_where P act (jobs d)\<rparr>) = db_keys d"
proof -
  have "(\<forall>j \<in> set (update_where P act (jobs d)). j_queue_id j \<in> S) =
        (\<forall>j \<in> set (jobs d). j_queue_id j \<in> S)" for S
    by (auto simp: in_update_where owner_key_kept Ball_def) (metis owner_key_kept(3))
  moreover have "(\<forall>j \<in> set (update_where P act (jobs d)). job_checks j) =
        (\<forall>j \<in> set (jobs d). job_checks j)"
    using contract_checks [OF contract_kept]
    by (auto simp: in_update_where Ball_def) metis
  ultimately show ?thesis
    by (simp add: db_keys_def unique_ids idempotency_index)
qed

text \<open>The fencing facts: who may move a row, and what a rejected statement leaves behind.\<close>

lemma by_id_other:
  "i \<noteq> i' \<Longrightarrow> row j_id i (jobs (snd (guarded_update (\<lambda>j. j_id j = i' \<and> guard j) act d)))
     = row j_id i (jobs d)"
  by (cases "row j_id i (jobs d)") (auto simp: guarded_update_db lookup dest: row_SomeD)

lemma by_id_self:
  "row j_id i (jobs (snd (guarded_update (\<lambda>j. j_id j = i \<and> guard j) act d)))
     = map_option (\<lambda>j. if guard j then act j else j) (row j_id i (jobs d))"
  by (cases "row j_id i (jobs d)") (auto simp: guarded_update_db lookup dest: row_SomeD)

lemma by_id_result:
  assumes "unique_on j_id (jobs d)"
  shows "fst (guarded_update (\<lambda>j. j_id j = i \<and> guard j) act d)
     = (case row j_id i (jobs d) of None \<Rightarrow> None | Some j \<Rightarrow> if guard j then Some (act j) else None)"
proof (cases "\<exists>j \<in> set (jobs d). j_id j = i \<and> guard j")
  case True
  then obtain j where j: "j \<in> set (jobs d)" "j_id j = i" "guard j" by blast
  have hit: "row j_id i (jobs d) = Some j"
    using assms j by (simp add: row_Some_iff)
  from True have "fst (guarded_update (\<lambda>j. j_id j = i \<and> guard j) act d) \<noteq> None"
    by (auto simp: guarded_update_None_iff)
  then obtain k where k: "fst (guarded_update (\<lambda>j. j_id j = i \<and> guard j) act d) = Some k" by blast
  then obtain j' where "j' \<in> set (jobs d)" "j_id j' = i" "k = act j'"
    by (auto elim!: guarded_update_Some)
  moreover from this have "j' = j"
    using assms j by (auto dest: unique_onD)
  ultimately show ?thesis using hit j k by simp
next
  case False
  then have "fst (guarded_update (\<lambda>j. j_id j = i \<and> guard j) act d) = None"
    by (auto simp: guarded_update_None_iff)
  moreover have "row j_id i (jobs d) = Some j \<Longrightarrow> \<not> guard j" for j
    using False by (auto dest: row_SomeD)
  ultimately show ?thesis by (auto split: option.splits)
qed

end

subsection \<open>Transitions out of RUNNING, fenced by the lease holder\<close>

definition held_by :: "uuid \<Rightarrow> job \<Rightarrow> bool" where
  "held_by worker j \<longleftrightarrow> j_status j = RUNNING \<and> j_locked_by j = Some worker"

definition finish_success ::
  "time \<Rightarrow> uuid \<Rightarrow> uuid \<Rightarrow> json option \<Rightarrow> db \<Rightarrow> job option \<times> db" where
  "finish_success now job_id worker_id result_payload d =
     guarded_update (\<lambda>j. j_id j = job_id \<and> held_by worker_id j)
       (\<lambda>j. j\<lparr>j_status := SUCCEEDED, j_result := result_payload, j_finished_at := Some now,
              j_locked_by := None, j_lease_expires_at := None, j_last_error := None,
              j_updated_at := now\<rparr>) d"

definition failure_values :: "time \<Rightarrow> string \<Rightarrow> bool \<Rightarrow> real \<Rightarrow> job \<Rightarrow> job" where
  "failure_values now err retry_it retry_delay_seconds j =
     (let j' = j\<lparr>j_locked_by := None, j_lease_expires_at := None, j_last_error := Some err,
                 j_updated_at := now\<rparr>
      in if retry_it then j'\<lparr>j_status := PENDING, j_run_at := now + interval retry_delay_seconds\<rparr>
         else j'\<lparr>j_status := DEAD, j_finished_at := Some now\<rparr>)"

definition finish_failure ::
  "time \<Rightarrow> uuid \<Rightarrow> uuid \<Rightarrow> string \<Rightarrow> bool \<Rightarrow> real \<Rightarrow> db \<Rightarrow> job option \<times> db" where
  "finish_failure now job_id worker_id err retry_it retry_delay_seconds d =
     guarded_update (\<lambda>j. j_id j = job_id \<and> held_by worker_id j)
       (failure_values now err retry_it retry_delay_seconds) d"

definition release :: "time \<Rightarrow> uuid \<Rightarrow> uuid \<Rightarrow> db \<Rightarrow> job option \<times> db" where
  "release now job_id worker_id d =
     guarded_update (\<lambda>j. j_id j = job_id \<and> held_by worker_id j)
       (\<lambda>j. j\<lparr>j_status := PENDING, j_attempt_count := j_attempt_count j - 1, j_run_at := now,
              j_locked_by := None, j_lease_expires_at := None, j_updated_at := now\<rparr>) d"

subsection \<open>User-facing transitions\<close>

definition cancel :: "time \<Rightarrow> uuid \<Rightarrow> uuid \<Rightarrow> db \<Rightarrow> job option \<times> db" where
  "cancel now job_id owner_id d =
     guarded_update (\<lambda>j. j_id j = job_id \<and> (j_owner_id j = owner_id \<and> j_status j = PENDING))
       (\<lambda>j. j\<lparr>j_status := CANCELLED, j_finished_at := Some now, j_updated_at := now\<rparr>) d"

definition requeue :: "time \<Rightarrow> uuid \<Rightarrow> uuid \<Rightarrow> db \<Rightarrow> job option \<times> db" where
  "requeue now job_id owner_id d =
     guarded_update
       (\<lambda>j. j_id j = job_id \<and> (j_owner_id j = owner_id \<and> j_status j \<in> {DEAD, CANCELLED}))
       (\<lambda>j. j\<lparr>j_status := PENDING, j_attempt_count := 0, j_run_at := now, j_finished_at := None,
              j_result := None, j_locked_by := None, j_lease_expires_at := None,
              j_updated_at := now\<rparr>) d"

subsection \<open>Lease maintenance\<close>

definition extend_leases :: "time \<Rightarrow> uuid \<Rightarrow> real \<Rightarrow> db \<Rightarrow> nat \<times> db" where
  "extend_leases now worker_id lease_seconds d =
     (count_where (held_by worker_id) (jobs d),
      d\<lparr>jobs := update_where (held_by worker_id)
          (\<lambda>j. j\<lparr>j_lease_expires_at := Some (now + interval lease_seconds), j_updated_at := now\<rparr>) (jobs d)\<rparr>)"

definition lease_expired :: "time \<Rightarrow> job \<Rightarrow> bool" where
  "lease_expired now j \<longleftrightarrow>
     j_status j = RUNNING \<and> (case j_lease_expires_at j of None \<Rightarrow> False | Some e \<Rightarrow> e < now)"

definition select_expired_for_update :: "time \<Rightarrow> (uuid \<Rightarrow> bool) \<Rightarrow> nat \<Rightarrow> db \<Rightarrow> job list" where
  "select_expired_for_update now locked limit d =
     take limit (filter (\<lambda>j. lease_expired now j \<and> \<not> locked (j_id j)) (jobs d))"

subsection \<open>The statements are job updates\<close>

lemmas transition_defs = job_evolves_def contract_def lease_ok_def held_by_def failure_values_def Let_def

interpretation success: job_update "held_by w"
  "\<lambda>j. j\<lparr>j_status := SUCCEEDED, j_result := res, j_finished_at := Some now,
         j_locked_by := None, j_lease_expires_at := None, j_last_error := None,
         j_updated_at := now\<rparr>" "{(RUNNING, SUCCEEDED)}"
  by unfold_locales (auto simp: transition_defs)

interpretation failure: job_update "held_by w" "failure_values now err again delay" "{(RUNNING, PENDING), (RUNNING, DEAD)}"
  by unfold_locales (auto simp: transition_defs)

interpretation released: job_update "held_by w"
  "\<lambda>j. j\<lparr>j_status := PENDING, j_attempt_count := j_attempt_count j - 1, j_run_at := now,
         j_locked_by := None, j_lease_expires_at := None, j_updated_at := now\<rparr>" "{(RUNNING, PENDING)}"
  by unfold_locales (auto simp: transition_defs)

interpretation cancelled: job_update "\<lambda>j. j_owner_id j = ow \<and> j_status j = PENDING"
  "\<lambda>j. j\<lparr>j_status := CANCELLED, j_finished_at := Some now, j_updated_at := now\<rparr>" "{(PENDING, CANCELLED)}"
  by unfold_locales (auto simp: transition_defs)

interpretation requeued: job_update "\<lambda>j. j_owner_id j = ow \<and> j_status j \<in> {DEAD, CANCELLED}"
  "\<lambda>j. j\<lparr>j_status := PENDING, j_attempt_count := 0, j_run_at := now, j_finished_at := None,
         j_result := None, j_locked_by := None, j_lease_expires_at := None, j_updated_at := now\<rparr>" "{(DEAD, PENDING), (CANCELLED, PENDING)}"
  by unfold_locales (auto simp: transition_defs)

interpretation heartbeat: job_update "held_by w"
  "\<lambda>j. j\<lparr>j_lease_expires_at := Some (now + lease), j_updated_at := now\<rparr>" "{}"
  by unfold_locales (auto simp: transition_defs)

lemmas guarded_op_defs = finish_success_def finish_failure_def release_def cancel_def requeue_def

text \<open>Only the jobs table is written.\<close>

lemma guarded_update_tables:
  "\<exists>js. snd (guarded_update P f d) = d\<lparr>jobs := js\<rparr>"
  by (auto simp: guarded_update_db)

subsection \<open>Reads\<close>

definition get_for_owner :: "uuid \<Rightarrow> uuid \<Rightarrow> db \<Rightarrow> job option" where
  "get_for_owner job_id owner_id d =
     List.find (\<lambda>j. j_id j = job_id \<and> j_owner_id j = owner_id) (jobs d)"

definition get_by_idempotency_key :: "uuid \<Rightarrow> string \<Rightarrow> db \<Rightarrow> job option" where
  "get_by_idempotency_key owner_id key d =
     List.find (\<lambda>j. j_owner_id j = owner_id \<and> j_idempotency_key j = Some key) (jobs d)"

definition list_for_owner ::
  "uuid \<Rightarrow> JobStatus option \<Rightarrow> string option \<Rightarrow> uuid option \<Rightarrow> nat \<Rightarrow> nat \<Rightarrow> db \<Rightarrow> job list \<times> nat" where
  "list_for_owner owner_id status queue batch_id limit offset d =
     (let conditions = (\<lambda>j. j_owner_id j = owner_id
             \<and> (case status of None \<Rightarrow> True | Some s \<Rightarrow> j_status j = s)
             \<and> (case queue of None \<Rightarrow> True | Some n \<Rightarrow> j_queue j = n)
             \<and> (case batch_id of None \<Rightarrow> True | Some b \<Rightarrow> j_batch_id j = Some b))
      in (take limit (drop offset (sort_key (\<lambda>j. - j_created_at j) (filter conditions (jobs d)))),
          count_where conditions (jobs d)))"

definition set_ai_summary :: "time \<Rightarrow> uuid \<Rightarrow> string \<Rightarrow> db \<Rightarrow> db" where
  "set_ai_summary now job_id summary d =
     d\<lparr>jobs := update_where (\<lambda>j. j_id j = job_id)
        (\<lambda>j. j\<lparr>j_ai_summary := Some summary, j_updated_at := now\<rparr>) (jobs d)\<rparr>"

interpretation summarised: job_update "\<lambda>_. True"
  "\<lambda>j. j\<lparr>j_ai_summary := Some s, j_updated_at := now\<rparr>" "{}"
  by unfold_locales (auto simp: transition_defs)

subsection \<open>Statistics\<close>

definition counts_by_status :: "db \<Rightarrow> JobStatus \<Rightarrow> nat" where
  "counts_by_status d s = count_where (\<lambda>j. j_status j = s) (jobs d)"

definition ready_and_scheduled_counts :: "time \<Rightarrow> db \<Rightarrow> nat \<times> nat" where
  "ready_and_scheduled_counts now d =
     (count_where (\<lambda>j. j_status j = PENDING \<and> j_run_at j \<le> now) (jobs d),
      count_where (\<lambda>j. j_status j = PENDING \<and> j_run_at j > now) (jobs d))"

definition oldest_ready_age_seconds :: "time \<Rightarrow> db \<Rightarrow> real" where
  "oldest_ready_age_seconds now d =
     (case map j_run_at (filter (\<lambda>j. j_status j = PENDING \<and> j_run_at j \<le> now) (jobs d)) of
        [] \<Rightarrow> 0
      | t # ts \<Rightarrow> epoch (now - fold min ts t))"

lemma get_for_owner_SomeD:
  "get_for_owner i ow d = Some j \<Longrightarrow> j \<in> set (jobs d) \<and> j_id j = i \<and> j_owner_id j = ow"
  by (auto simp: get_for_owner_def find_Some_iff)

lemma get_by_idempotency_key_SomeD:
  "get_by_idempotency_key ow key d = Some j \<Longrightarrow>
   j \<in> set (jobs d) \<and> j_owner_id j = ow \<and> j_idempotency_key j = Some key"
  by (auto simp: get_by_idempotency_key_def find_Some_iff)

lemma get_by_idempotency_key_None_iff:
  "get_by_idempotency_key ow key d = None \<longleftrightarrow>
   (\<forall>j \<in> set (jobs d). j_owner_id j = ow \<longrightarrow> j_idempotency_key j \<noteq> Some key)"
  by (auto simp: get_by_idempotency_key_def find_None_iff)

lemma counts_by_status_total:
  "(\<Sum>s \<leftarrow> job_statuses. counts_by_status d s) = length (jobs d)"
proof -
  have "(\<Sum>s \<leftarrow> job_statuses. count_where (\<lambda>j. j_status j = s) js) = length js" for js
  proof (induction js)
    case (Cons j js)
    then show ?case by (cases "j_status j") (simp_all add: job_statuses_def)
  qed (simp add: job_statuses_def)
  then show ?thesis by (simp add: counts_by_status_def)
qed

lemma ready_plus_scheduled:
  "(case ready_and_scheduled_counts now d of (a, b) \<Rightarrow> a + b) = counts_by_status d PENDING"
proof -
  have "count_where (\<lambda>j. j_status j = PENDING \<and> j_run_at j \<le> now) js
      + count_where (\<lambda>j. j_status j = PENDING \<and> j_run_at j > now) js
      = count_where (\<lambda>j. j_status j = PENDING) js" for js
    by (induction js) auto
  then show ?thesis
    by (simp add: ready_and_scheduled_counts_def counts_by_status_def)
qed

end
