(* ===== verification/Job_Claim.thy ===== *)
theory Job_Claim
  imports Job_Repo
begin

section \<open>The atomic claim (app/repositories/jobs.py, claim_batch)\<close>

text \<open>
  The hot path: one pass over the uncapped queues, then one pass over the capped queues
  under their row locks.  \<open>claim_request\<close> holds what a claim reads besides the tables: the
  clock, the worker, its queue names, the lease, the aging settings, the shard, and the
  rows other transactions have locked at this moment, which \<open>FOR UPDATE SKIP LOCKED\<close> passes
  over.  Quantifying over the locked rows covers every interleaving with other claimers.

  The central lemma is \<open>claim_batch_claimed\<close>: both passes together are one table update that
  flips exactly the returned jobs.  Ordering, work conservation, the concurrency cap and the
  frame facts follow from it.
\<close>

record claim_request =
  c_now :: time
  c_worker :: uuid
  c_queues :: "string list"
  c_lease_seconds :: real
  c_aging_interval :: int
  c_aging_max_boost :: int
  c_shard_key :: "int option"
  c_locked_jobs :: "uuid \<Rightarrow> bool"
  c_locked_queues :: "uuid \<Rightarrow> bool"

subsection \<open>Claim order\<close>

definition age_boost :: "int \<Rightarrow> int \<Rightarrow> time \<Rightarrow> job \<Rightarrow> int" where
  "age_boost aging_interval aging_max_boost now j =
     min \<lfloor>epoch (now - j_run_at j) / real_of_int aging_interval\<rfloor> aging_max_boost"

definition priority_key :: "int \<Rightarrow> int \<Rightarrow> time \<Rightarrow> job \<Rightarrow> int" where
  "priority_key aging_interval aging_max_boost now j =
     (if aging_interval > 0 then j_priority j + age_boost aging_interval aging_max_boost now j
      else j_priority j)"

definition claim_order :: "claim_request \<Rightarrow> job \<Rightarrow> int \<times> time \<times> time" where
  "claim_order r j =
     (- priority_key (c_aging_interval r) (c_aging_max_boost r) (c_now r) j,
      j_run_at j, j_created_at j)"

subsection \<open>Claimability\<close>

definition unmet_dep :: "db \<Rightarrow> job \<Rightarrow> bool" where
  "unmet_dep d j \<longleftrightarrow>
     list_ex (\<lambda>e. d_job_id e = j_id j
        \<and> list_ex (\<lambda>k. j_id k = d_depends_on_job_id e \<and> j_status k \<noteq> SUCCEEDED) (jobs d))
       (dependencies d)"

definition ready :: "claim_request \<Rightarrow> job \<Rightarrow> bool" where
  "ready r j \<longleftrightarrow> j_status j = PENDING \<and> j_run_at j \<le> c_now r"

definition uncapped_candidate :: "claim_request \<Rightarrow> db \<Rightarrow> job \<Rightarrow> bool" where
  "uncapped_candidate r d j \<longleftrightarrow>
     ready r j \<and> j_queue j \<in> set (c_queues r) \<and> \<not> unmet_dep d j \<and>
     list_ex (\<lambda>q. q_id q = j_queue_id j \<and> \<not> q_paused q
         \<and> (case c_shard_key r of None \<Rightarrow> True | Some s \<Rightarrow> q_shard_key q = s)
         \<and> q_max_concurrency q = None) (queues d)"

definition capped_candidate :: "claim_request \<Rightarrow> uuid \<Rightarrow> job \<Rightarrow> bool" where
  "capped_candidate r queue_id j \<longleftrightarrow> ready r j \<and> j_queue_id j = queue_id"

subsection \<open>The shared claim tail\<close>

definition claim_values :: "claim_request \<Rightarrow> job \<Rightarrow> job" where
  "claim_values r j =
     j\<lparr>j_status := RUNNING, j_locked_by := Some (c_worker r),
       j_attempt_count := j_attempt_count j + 1, j_started_at := Some (c_now r),
       j_lease_expires_at := Some (c_now r + interval (c_lease_seconds r)), j_updated_at := c_now r\<rparr>"

definition claim_where :: "claim_request \<Rightarrow> uuid list \<Rightarrow> db \<Rightarrow> job list \<times> db" where
  "claim_where r candidates d =
     (returning (\<lambda>j. j_id j \<in> set candidates) (claim_values r) (jobs d),
      d\<lparr>jobs := update_where (\<lambda>j. j_id j \<in> set candidates) (claim_values r) (jobs d)\<rparr>)"

text \<open>\<open>SELECT id .. ORDER BY .. LIMIT n FOR UPDATE SKIP LOCKED\<close>.\<close>

definition candidates :: "claim_request \<Rightarrow> (job \<Rightarrow> bool) \<Rightarrow> nat \<Rightarrow> db \<Rightarrow> job list" where
  "candidates r P n d =
     take n (sort_key (claim_order r) (filter (\<lambda>j. P j \<and> \<not> c_locked_jobs r (j_id j)) (jobs d)))"

subsection \<open>The two passes\<close>

definition running_count :: "uuid \<Rightarrow> db \<Rightarrow> nat" where
  "running_count queue_id d =
     count_where (\<lambda>j. j_queue_id j = queue_id \<and> j_status j = RUNNING) (jobs d)"

fun claim_capped_loop ::
  "claim_request \<Rightarrow> (uuid \<times> int) list \<Rightarrow> int \<Rightarrow> db \<Rightarrow> job list \<times> db" where
  "claim_capped_loop r [] remaining d = ([], d)"
| "claim_capped_loop r ((queue_id, cap) # rest) remaining d =
     (if remaining \<le> 0 then ([], d)
      else let running = running_count queue_id d;
               capacity = min (cap - int running) remaining
           in if capacity \<le> 0 then claim_capped_loop r rest remaining d
              else let (batch, d1) =
                         claim_where r
                           (map j_id (candidates r (capped_candidate r queue_id) (nat capacity) d)) d;
                       (later, d2) = claim_capped_loop r rest (remaining - int (length batch)) d1
                   in (batch @ later, d2))"

definition capped_rows :: "claim_request \<Rightarrow> db \<Rightarrow> (uuid \<times> int) list" where
  "capped_rows r d =
     map (\<lambda>q. (q_id q, the (q_max_concurrency q)))
       (sort_key q_id
         (filter (\<lambda>q. q_name q \<in> set (c_queues r) \<and> \<not> q_paused q \<and> q_max_concurrency q \<noteq> None
                      \<and> \<not> c_locked_queues r (q_id q)) (queues d)))"

definition claim_capped :: "claim_request \<Rightarrow> int \<Rightarrow> db \<Rightarrow> job list \<times> db" where
  "claim_capped r limit d = claim_capped_loop r (capped_rows r d) limit d"

definition claim_batch :: "claim_request \<Rightarrow> nat \<Rightarrow> db \<Rightarrow> job list \<times> db" where
  "claim_batch r limit d =
     (let (claimed, d1) = claim_where r (map j_id (candidates r (uncapped_candidate r d) limit d)) d;
          remaining = int limit - int (length claimed)
      in if remaining > 0
         then let (later, d2) = claim_capped r remaining d1 in (claimed @ later, d2)
         else (claimed, d1))"

subsection \<open>The claimed row\<close>

interpretation claim: job_update "\<lambda>j. j_status j = PENDING" "claim_values r" "{(PENDING, RUNNING)}"
  by unfold_locales (auto simp: claim_values_def job_evolves_def contract_def lease_ok_def)

lemma claim_values_fields [simp]:
  "j_id (claim_values r j) = j_id j" "j_status (claim_values r j) = RUNNING"
  "j_queue_id (claim_values r j) = j_queue_id j" "j_queue (claim_values r j) = j_queue j"
  "j_locked_by (claim_values r j) = Some (c_worker r)"
  "j_attempt_count (claim_values r j) = j_attempt_count j + 1"
  "j_lease_expires_at (claim_values r j) = Some (c_now r + interval (c_lease_seconds r))"
  "j_started_at (claim_values r j) = Some (c_now r)" "j_run_at (claim_values r j) = j_run_at j"
  by (simp_all add: claim_values_def)

subsection \<open>What a pass may claim\<close>

text \<open>
  \<open>claimed_from r E d cl d'\<close>: the claim from \<open>d\<close> to \<open>d'\<close> flipped exactly the jobs \<open>cl\<close>,
  each once, and each satisfied \<open>E\<close> before.
\<close>

definition claimed_from ::
  "claim_request \<Rightarrow> (job \<Rightarrow> bool) \<Rightarrow> db \<Rightarrow> job list \<Rightarrow> db \<Rightarrow> bool" where
  "claimed_from r E d cl d' \<longleftrightarrow>
     d' = d\<lparr>jobs := update_where (\<lambda>j. j_id j \<in> j_id ` set cl) (claim_values r) (jobs d)\<rparr> \<and>
     distinct (map j_id cl) \<and>
     (\<forall>c \<in> set cl. \<exists>j \<in> set (jobs d). c = claim_values r j \<and> E j)"

lemma claimed_from_refl: "claimed_from r E d [] d"
  by (simp add: claimed_from_def update_where_none)

lemma claimed_from_source:
  "claimed_from r E d cl d' \<Longrightarrow> c \<in> set cl \<Longrightarrow> \<exists>j \<in> set (jobs d). c = claim_values r j \<and> E j"
  by (simp add: claimed_from_def)

lemma claimed_from_mono:
  "claimed_from r E d cl d' \<Longrightarrow> (\<And>j. j \<in> set (jobs d) \<Longrightarrow> E j \<Longrightarrow> F j) \<Longrightarrow> claimed_from r F d cl d'"
  by (fastforce simp: claimed_from_def)

lemma claimed_from_tables:
  assumes "claimed_from r E d cl d'"
  shows "queues d' = queues d" "dependencies d' = dependencies d" "attempts d' = attempts d"
    "workers d' = workers d" "schedules d' = schedules d"
  using assms by (simp_all add: claimed_from_def)

lemma claimed_from_unique:
  "claimed_from r E d cl d' \<Longrightarrow> unique_on j_id (jobs d') = unique_on j_id (jobs d)"
  by (simp add: claimed_from_def claim.unique_ids)

lemma claimed_from_trans:
  assumes 1: "claimed_from r E d cl d1" and 2: "claimed_from r E d1 cl' d2"
    and E: "\<And>j. E j \<Longrightarrow> j_status j = PENDING"
    and u: "unique_on j_id (jobs d)"
  shows "claimed_from r E d (cl @ cl') d2"
proof -
  let ?A = "j_id ` set cl" and ?B = "j_id ` set cl'"
  have jobs1: "jobs d1 = update_where (\<lambda>j. j_id j \<in> ?A) (claim_values r) (jobs d)"
    using 1 by (simp add: claimed_from_def)
  have fresh: "\<exists>j \<in> set (jobs d). c = claim_values r j \<and> E j \<and> j_id j \<notin> ?A" if "c \<in> set cl'" for c
  proof -
    from claimed_from_source [OF 2 that]
    obtain j where j: "j \<in> set (jobs d1)" "c = claim_values r j" "E j" by blast
    then have "j_status j = PENDING" by (simp add: E)
    with j(1) have "j \<in> set (jobs d)" "j_id j \<notin> ?A"
      unfolding jobs1 by (auto elim!: update_where_cases)
    with j show ?thesis by blast
  qed
  have "\<forall>c \<in> set cl'. j_id c \<notin> ?A"
  proof
    fix c assume "c \<in> set cl'"
    from fresh [OF this] show "j_id c \<notin> ?A" by auto
  qed
  then have "?B \<inter> ?A = {}"
    by (simp add: disjoint_eq_subset_Compl image_subset_iff)
  then have disj: "?A \<inter> ?B = {}"
    by (simp add: Int_commute)
  have "update_where (\<lambda>j. j_id j \<in> ?B) (claim_values r) (jobs d1)
      = update_where (\<lambda>j. j_id j \<in> ?A \<union> ?B) (claim_values r) (jobs d)"
    using disj unfolding jobs1 by (auto simp: update_where_def)
  moreover have "d2 = d\<lparr>jobs := update_where (\<lambda>j. j_id j \<in> ?B) (claim_values r) (jobs d1)\<rparr>"
    using 1 2 by (simp add: claimed_from_def)
  moreover have "distinct (map j_id (cl @ cl'))"
    using 1 2 disj by (auto simp: claimed_from_def)
  moreover have "\<forall>c \<in> set (cl @ cl'). \<exists>j \<in> set (jobs d). c = claim_values r j \<and> E j"
    using 1 fresh by (auto simp: claimed_from_def)
  ultimately show ?thesis
    by (simp add: claimed_from_def image_Un)
qed

subsection \<open>One locking select and its update\<close>

lemma candidates_subset:
  "set (candidates r P n d) \<subseteq> {j \<in> set (jobs d). P j \<and> \<not> c_locked_jobs r (j_id j)}"
  by (auto simp: candidates_def dest: in_set_takeD)

lemma length_candidates: "length (candidates r P n d) \<le> n"
  by (simp add: candidates_def)

lemma distinct_candidates: "unique_on j_id (jobs d) \<Longrightarrow> distinct (candidates r P n d)"
  by (simp add: candidates_def unique_on_def distinct_map)

lemma claim_where_candidates:
  assumes u: "unique_on j_id (jobs d)"
    and c: "claim_where r (map j_id (candidates r P n d)) d = (cl, d')"
  shows "claimed_from r (\<lambda>j. P j \<and> \<not> c_locked_jobs r (j_id j)) d cl d'"
    and "length cl = length (candidates r P n d)"
    and "set cl = claim_values r ` set (candidates r P n d)"
proof -
  let ?C = "candidates r P n d"
  let ?Q = "\<lambda>j. j_id j \<in> j_id ` set ?C"
  have sub: "set ?C \<subseteq> set (jobs d)" using candidates_subset by fast
  have cl: "cl = returning ?Q (claim_values r) (jobs d)"
    and d': "d' = d\<lparr>jobs := update_where ?Q (claim_values r) (jobs d)\<rparr>"
    using c by (simp_all add: claim_where_def)
  have hit: "j \<in> set (jobs d) \<Longrightarrow> ?Q j \<longleftrightarrow> j \<in> set ?C" for j
    by (rule filter_keys_eq [OF u sub])
  have "{j \<in> set (jobs d). ?Q j} = set ?C"
    using hit sub by blast
  then show set_cl: "set cl = claim_values r ` set ?C"
    by (auto simp: cl returning_def)
  then have ids: "j_id ` set cl = j_id ` set ?C" by (simp add: image_image)
  show "length cl = length ?C"
    using count_keys_eq [OF u sub distinct_candidates [OF u]] by (simp add: cl length_returning)
  have "distinct (map j_id cl)"
    unfolding cl by (rule distinct_map_returning [OF u]) simp
  moreover have "\<forall>x \<in> set cl. \<exists>j \<in> set (jobs d).
      x = claim_values r j \<and> P j \<and> \<not> c_locked_jobs r (j_id j)"
    using set_cl candidates_subset [of r P n d] by auto
  ultimately show "claimed_from r (\<lambda>j. P j \<and> \<not> c_locked_jobs r (j_id j)) d cl d'"
    by (simp add: claimed_from_def ids d')
qed

subsection \<open>The whole claim is one update of the returned jobs\<close>

definition claimable :: "claim_request \<Rightarrow> db \<Rightarrow> job \<Rightarrow> bool" where
  "claimable r d j \<longleftrightarrow>
     ready r j \<and> \<not> c_locked_jobs r (j_id j) \<and>
     (uncapped_candidate r d j \<or>
      list_ex (\<lambda>q. q_id q = j_queue_id j \<and> \<not> q_paused q \<and> q_max_concurrency q \<noteq> None
          \<and> q_name q \<in> set (c_queues r) \<and> \<not> c_locked_queues r (q_id q)) (queues d))"

definition loop_claimable :: "claim_request \<Rightarrow> (uuid \<times> int) list \<Rightarrow> job \<Rightarrow> bool" where
  "loop_claimable r rows j \<longleftrightarrow>
     ready r j \<and> \<not> c_locked_jobs r (j_id j) \<and> j_queue_id j \<in> fst ` set rows"

lemma ready_pending: "ready r j \<Longrightarrow> j_status j = PENDING"
  by (simp add: ready_def)

declare claim_capped_loop.simps(2) [simp del]

lemma capped_loop_stop: "n \<le> 0 \<Longrightarrow> claim_capped_loop r rows n d = ([], d)"
  by (cases rows) (auto simp: claim_capped_loop.simps(2))

lemma capped_loop_skip:
  "0 < n \<Longrightarrow> cap \<le> int (running_count q d) \<Longrightarrow>
   claim_capped_loop r ((q, cap) # rest) n d = claim_capped_loop r rest n d"
  by (simp add: claim_capped_loop.simps(2) Let_def)

lemma capped_loop_take:
  assumes "0 < n" and "int (running_count q d) < cap"
    and "claim_where r (map j_id (candidates r (capped_candidate r q)
           (nat (min (cap - int (running_count q d)) n)) d)) d = (batch, d1)"
    and "claim_capped_loop r rest (n - int (length batch)) d1 = (later, d2)"
  shows "claim_capped_loop r ((q, cap) # rest) n d = (batch @ later, d2)"
  using assms by (simp add: claim_capped_loop.simps(2) Let_def min_le_iff_disj)

text \<open>One round of the loop: it stops, skips a saturated queue, or admits a batch.\<close>

lemma capped_loop_round:
  assumes loop: "claim_capped_loop r ((q, cap) # rest) n d = (cl, d')"
    and u: "unique_on j_id (jobs d)"
  obtains (stop) "n \<le> 0" and "cl = []" and "d' = d"
    | (skip) "0 < n" and "cap \<le> int (running_count q d)"
        and "claim_capped_loop r rest n d = (cl, d')"
    | (admit) batch d1 later where "0 < n" and "int (running_count q d) < cap"
        and "claim_where r (map j_id (candidates r (capped_candidate r q)
               (nat (min (cap - int (running_count q d)) n)) d)) d = (batch, d1)"
        and "claim_capped_loop r rest (n - int (length batch)) d1 = (later, d')"
        and "cl = batch @ later"
        and "claimed_from r (loop_claimable r [(q, cap)]) d batch d1"
        and "int (length batch) \<le> min (cap - int (running_count q d)) n"
proof -
  let ?C = "candidates r (capped_candidate r q) (nat (min (cap - int (running_count q d)) n)) d"
  consider "n \<le> 0" | "0 < n" "cap \<le> int (running_count q d)"
    | "0 < n" "int (running_count q d) < cap" by linarith
  then show thesis
  proof cases
    case 1
    with loop show thesis by (intro stop) (auto simp: capped_loop_stop)
  next
    case 2
    with loop show thesis by (intro skip) (auto simp: capped_loop_skip)
  next
    case 3
    obtain batch d1 where b: "claim_where r (map j_id ?C) d = (batch, d1)" by fastforce
    obtain later d2 where m: "claim_capped_loop r rest (n - int (length batch)) d1 = (later, d2)"
      by fastforce
    have "cl = batch @ later" "d2 = d'"
      using loop capped_loop_take [OF 3 b m] by simp_all
    moreover have "claimed_from r (loop_claimable r [(q, cap)]) d batch d1"
      using claim_where_candidates(1) [OF u b]
      by (rule claimed_from_mono) (auto simp: loop_claimable_def capped_candidate_def)
    moreover have "int (length batch) \<le> min (cap - int (running_count q d)) n"
      using claim_where_candidates(2) [OF u b] 3
        length_candidates [of r "capped_candidate r q"
          "nat (min (cap - int (running_count q d)) n)" d] by linarith
    ultimately show thesis using admit [OF 3 b] m by blast
  qed
qed

lemma claim_capped_loop_claimed:
  assumes "unique_on j_id (jobs d)" and "claim_capped_loop r rows n d = (cl, d')"
  shows "claimed_from r (loop_claimable r rows) d cl d' \<and> int (length cl) \<le> max 0 n"
  using assms
proof (induction rows arbitrary: n d cl d')
  case Nil
  then show ?case by (simp add: claimed_from_refl)
next
  case (Cons row rest)
  obtain q cap where row: "row = (q, cap)" by fastforce
  let ?E = "loop_claimable r (row # rest)"
  have weaken: "claimed_from r (loop_claimable r rest) e x e' \<Longrightarrow> claimed_from r ?E e x e'" for e x e'
    by (erule claimed_from_mono) (auto simp: loop_claimable_def)
  from Cons.prems(2) [unfolded row] Cons.prems(1) show ?case
  proof (cases rule: capped_loop_round)
    case stop
    then show ?thesis by (auto simp: claimed_from_refl)
  next
    case skip
    then show ?thesis using Cons.IH [OF Cons.prems(1)] weaken by blast
  next
    case (admit batch d1 later)
    have first: "claimed_from r ?E d batch d1"
      using admit(6) by (rule claimed_from_mono) (auto simp: loop_claimable_def row)
    then have u1: "unique_on j_id (jobs d1)"
      using claimed_from_unique Cons.prems(1) by blast
    have rest: "claimed_from r ?E d1 later d'" "int (length later) \<le> max 0 (n - int (length batch))"
      using Cons.IH [OF u1 admit(4)] weaken by blast+
    have "claimed_from r ?E d (batch @ later) d'"
      by (rule claimed_from_trans [OF first rest(1)])
        (auto simp: loop_claimable_def ready_def Cons.prems(1))
    then show ?thesis using admit rest(2) by auto
  qed
qed

lemma fst_capped_rows:
  "fst ` set (capped_rows r d) =
     {q_id q | q. q \<in> set (queues d) \<and> q_name q \<in> set (c_queues r) \<and> \<not> q_paused q
        \<and> q_max_concurrency q \<noteq> None \<and> \<not> c_locked_queues r (q_id q)}"
  by (auto simp: capped_rows_def image_image)

lemma claim_batch_claimed:
  assumes u: "unique_on j_id (jobs d)" and c: "claim_batch r limit d = (cl, d')"
  shows "claimed_from r (claimable r d) d cl d'" and "length cl \<le> limit"
proof -
  let ?C = "candidates r (uncapped_candidate r d) limit d"
  obtain first d1 where f: "claim_where r (map j_id ?C) d = (first, d1)" by fastforce
  have 1: "claimed_from r (claimable r d) d first d1"
    using claim_where_candidates(1) [OF u f]
    by (rule claimed_from_mono) (auto simp: claimable_def uncapped_candidate_def)
  have len: "length first \<le> limit"
    using claim_where_candidates(2) [OF u f] length_candidates [of r _ limit d] by simp
  have u1: "unique_on j_id (jobs d1)"
    using claimed_from_unique [OF 1] u by simp
  have "claimed_from r (claimable r d) d cl d' \<and> length cl \<le> limit"
  proof (cases "length first < limit")
    case False
    with c f len 1 show ?thesis by (auto simp: claim_batch_def)
  next
    case True
    obtain later d2 where m: "claim_capped r (int limit - int (length first)) d1 = (later, d2)"
      by fastforce
    have out: "cl = first @ later" "d' = d2"
      using c f m True by (simp_all add: claim_batch_def)
    have loop: "claimed_from r (loop_claimable r (capped_rows r d1)) d1 later d2
        \<and> int (length later) \<le> max 0 (int limit - int (length first))"
      using claim_capped_loop_claimed [OF u1] m by (simp add: claim_capped_def)
    have "claimed_from r (claimable r d) d1 later d2"
      by (rule claimed_from_mono [OF conjunct1 [OF loop]])
        (auto simp: loop_claimable_def claimable_def fst_capped_rows claimed_from_tables [OF 1]
          list_ex_iff)
    then have "claimed_from r (claimable r d) d (first @ later) d2"
      by (rule claimed_from_trans [OF 1]) (auto simp: claimable_def ready_def u)
    with out loop True show ?thesis by auto
  qed
  then show "claimed_from r (claimable r d) d cl d'" and "length cl \<le> limit" by auto
qed

end
