(* ===== verification/Samples.thy ===== *)
theory Samples
  imports Models
begin

section \<open>Sample rows\<close>

text \<open>
  Small concrete tables for the witnesses of the development: one owner (7), one project
  (3), a queue \<open>default\<close>, and jobs that differ in their identity and status only.
\<close>

definition sample_queue :: "uuid \<Rightarrow> int option \<Rightarrow> job_queue" where
  "sample_queue i cap = (new_queue 0 i 3 ''default'')\<lparr>q_max_concurrency := cap\<rparr>"

definition sample_job :: "uuid \<Rightarrow> uuid \<Rightarrow> job" where
  "sample_job i qid =
     \<lparr>j_id = i, j_owner_id = 7, j_queue_id = qid, j_queue = ''default'', j_task_name = ''demo.echo'',
      j_batch_id = None, j_workflow_id = None, j_payload = JObj [], j_status = PENDING,
      j_priority = 0, j_run_at = 0, j_idempotency_key = None, j_max_attempts = 3,
      j_backoff_strategy = EXPONENTIAL, j_attempt_count = 0, j_timeout_seconds = 300,
      j_backoff_base_seconds = 5, j_backoff_factor = 2, j_backoff_max_seconds = 300,
      j_locked_by = None, j_lease_expires_at = None, j_last_error = None, j_ai_summary = None,
      j_result = None, j_created_at = 0, j_updated_at = 0, j_started_at = None,
      j_finished_at = None\<rparr>"

definition sample_running :: "uuid \<Rightarrow> uuid \<Rightarrow> uuid \<Rightarrow> int \<Rightarrow> time \<Rightarrow> job" where
  "sample_running i qid w n lease =
     (sample_job i qid)\<lparr>j_status := RUNNING, j_locked_by := Some w, j_attempt_count := n,
        j_lease_expires_at := Some lease, j_started_at := Some 0\<rparr>"

definition sample_db :: "job_queue list \<Rightarrow> job list \<Rightarrow> job_dependency list \<Rightarrow> db" where
  "sample_db qs js ds =
     empty_db\<lparr>projects := [\<lparr>p_id = 3, p_org_id = 2, p_name = ''default'', p_created_at = 0\<rparr>],
       queues := qs, jobs := js, dependencies := ds\<rparr>"

lemmas sample_defs = sample_queue_def sample_job_def sample_running_def sample_db_def new_queue_def
  empty_db_def

end
