(* ===== verification/Claim_Props.thy ===== *)
theory Claim_Props
  imports Job_Claim Samples
begin

section \<open>What a claim guarantees\<close>

text \<open>
  Consequences of \<open>claim_batch_claimed\<close>: the concurrency cap, the order of the claimed
  jobs, work conservation, and the gates (pause, shard, dependencies) each pass applies.
\<close>

subsection \<open>Running counts\<close>

lemma count_key_le_card:
  assumes "unique_on key rs" and "finite S"
  shows "count_where (\<lambda>r. key r \<in> S) rs \<le> card S"
proof -
  have "count_where (\<lambda>r. key r \<in> S) rs = length (map key (filter (\<lambda>r. key r \<in> S) rs))"
    by (simp add: count_where_def)
  also have "\<dots> = card (set (map key (filter (\<lambda>r. key r \<in> S) rs)))"
    using assms(1) by (intro distinct_card [symmetric]) (simp add: unique_on_def distinct_map_filter)
  also have "\<dots> \<le> card S"
    by (rule card_mono [OF assms(2)]) auto
  finally show ?thesis .
qed

lemma running_count_le:
  assumes "claimed_from r E d cl d'" and "unique_on j_id (jobs d)"
  shows "running_count q d' \<le> running_count q d + length cl"
proof -
  have "running_count q d' \<le> running_count q d + count_where (\<lambda>j. j_id j \<in> j_id ` set cl) (jobs d)"
    using assms(1) count_where_update by (simp add: running_count_def claimed_from_def)
  also have "count_where (\<lambda>j. j_id j \<in> j_id ` set cl) (jobs d) \<le> card (j_id ` set cl)"
    by (rule count_key_le_card [OF assms(2)]) simp
  also have "\<dots> \<le> card (set cl)"
    by (rule card_image_le) simp
  also have "\<dots> \<le> length cl"
    by (rule card_length)
  finally show ?thesis by simp
qed

lemma claimed_row_source:
  assumes c: "claimed_from r E d cl d'" and u: "unique_on j_id (jobs d)"
    and j: "j \<in> set (jobs d)" "j_id j \<in> j_id ` set cl"
  shows "E j" and "claim_values r j \<in> set cl"
proof -
  obtain x where x: "x \<in> set cl" "j_id x = j_id j" using j(2) by auto
  obtain k where k: "k \<in> set (jobs d)" "x = claim_values r k" "E k"
    using claimed_from_source [OF c x(1)] by blast
  then have "k = j" using u j(1) x(2) by (auto dest: unique_onD)
  with k x show "E j" and "claim_values r j \<in> set cl" by simp_all
qed

lemma running_count_other:
  assumes c: "claimed_from r E d cl d'" and u: "unique_on j_id (jobs d)"
    and E: "\<And>j. E j \<Longrightarrow> j_queue_id j \<noteq> q"
  shows "running_count q d' = running_count q d"
proof -
  have "count_where (\<lambda>j. j_queue_id j = q \<and> j_status j = RUNNING)
          (update_where (\<lambda>j. j_id j \<in> j_id ` set cl) (claim_values r) (jobs d))
      = count_where (\<lambda>j. j_queue_id j = q \<and> j_status j = RUNNING) (jobs d)"
    by (rule count_where_update_kept) (use claimed_row_source(1) [OF c u] E in auto)
  then show ?thesis
    using c by (simp add: running_count_def claimed_from_def)
qed

lemma count_where_gain:
  "(\<And>r. r \<in> set rs \<Longrightarrow> P r \<Longrightarrow> \<not> Q r \<and> Q (f r)) \<Longrightarrow>
   count_where Q (update_where P f rs) = count_where Q rs + count_where P rs"
  by (induction rs) auto

lemma running_count_exact:
  assumes c: "claimed_from r E d cl d'" and u: "unique_on j_id (jobs d)"
    and E: "\<And>j. E j \<Longrightarrow> j_queue_id j = q \<and> j_status j = PENDING"
  shows "running_count q d' = running_count q d + length cl"
proof -
  let ?P = "\<lambda>j. j_id j \<in> j_id ` set cl"
  have "running_count q d' = running_count q d + count_where ?P (jobs d)"
    using c claimed_row_source(1) [OF c u] E
    by (simp add: running_count_def claimed_from_def count_where_gain)
  moreover have "count_where ?P (jobs d) = length cl"
  proof -
    have "set cl = set (returning ?P (claim_values r) (jobs d))"
    proof (intro equalityI subsetI)
      fix x assume x: "x \<in> set cl"
      from claimed_from_source [OF c x] obtain k where
        k: "k \<in> set (jobs d)" "x = claim_values r k" by blast
      then have "?P k" using imageI [OF x, of j_id] by simp
      with k show "x \<in> set (returning ?P (claim_values r) (jobs d))"
        by (auto simp: in_returning)
    next
      fix x assume "x \<in> set (returning ?P (claim_values r) (jobs d))"
      then obtain k where "k \<in> set (jobs d)" "?P k" "x = claim_values r k"
        unfolding in_returning by blast
      with claimed_row_source(2) [OF c u] show "x \<in> set cl" by blast
    qed
    moreover have "distinct (map j_id (returning ?P (claim_values r) (jobs d)))"
      by (rule distinct_map_returning [OF u]) simp
    then have "distinct (returning ?P (claim_values r) (jobs d))" and "distinct cl"
      using c by (auto simp: claimed_from_def distinct_map)
    ultimately show ?thesis
      by (metis distinct_card length_returning)
  qed
  ultimately show ?thesis by simp
qed

subsection \<open>The concurrency cap\<close>

lemma capped_loop_cap:
  assumes "unique_on j_id (jobs d)" and "claim_capped_loop r rows n d = (cl, d')"
    and "distinct (map fst rows)" and "(q, cap) \<in> set rows"
  shows "int (running_count q d') \<le> max (int (running_count q d)) cap"
  using assms
proof (induction rows arbitrary: n d cl d')
  case Nil
  then show ?case by simp
next
  case (Cons row rest)
  obtain q1 cap1 where row: "row = (q1, cap1)" by fastforce
  have other: "running_count q1 e' = running_count q1 e"
    if "unique_on j_id (jobs e)" "claim_capped_loop r rest m e = (x, e')" for m e x e'
  proof (rule running_count_other)
    show "claimed_from r (loop_claimable r rest) e x e'"
      using claim_capped_loop_claimed [OF that] by blast
    show "unique_on j_id (jobs e)" by fact
    show "loop_claimable r rest j \<Longrightarrow> j_queue_id j \<noteq> q1" for j
      using Cons.prems(3) row by (auto simp: loop_claimable_def)
  qed
  from Cons.prems(2) [unfolded row] Cons.prems(1) show ?case
  proof (cases rule: capped_loop_round)
    case stop
    then show ?thesis by simp
  next
    case skip
    show ?thesis
    proof (cases "(q, cap) = row")
      case True
      with other [OF Cons.prems(1) skip(3)] row show ?thesis by simp
    next
      case False
      then have "(q, cap) \<in> set rest" using Cons.prems(4) by simp
      with Cons.IH [OF Cons.prems(1) skip(3)] Cons.prems(3) show ?thesis by simp
    qed
  next
    case (admit batch d1 later)
    have u1: "unique_on j_id (jobs d1)"
      using claimed_from_unique [OF admit(6)] Cons.prems(1) by simp
    show ?thesis
    proof (cases "(q, cap) = row")
      case True
      have "running_count q d' = running_count q d1"
        using other [OF u1 admit(4)] True row by simp
      also have "int \<dots> \<le> int (running_count q d) + int (length batch)"
        using running_count_le [OF admit(6) Cons.prems(1), of q] by simp
      also have "\<dots> \<le> cap"
        using admit(7) True row by simp
      finally show ?thesis by simp
    next
      case False
      then have rest: "(q, cap) \<in> set rest" using Cons.prems(4) by simp
      with Cons.prems(3) row have "q \<noteq> q1" by force
      then have "running_count q d1 = running_count q d"
        by (intro running_count_other [OF admit(6) Cons.prems(1)]) (simp add: loop_claimable_def)
      with Cons.IH [OF u1 admit(4)] Cons.prems(3) rest show ?thesis by simp
    qed
  qed
qed

lemma distinct_capped_rows: "unique_on q_id (queues d) \<Longrightarrow> distinct (map fst (capped_rows r d))"
  by (auto simp: capped_rows_def unique_on_def distinct_map inj_on_def distinct_sort)

lemma in_capped_rows:
  "q \<in> set (queues d) \<Longrightarrow> q_max_concurrency q = Some cap \<Longrightarrow> q_name q \<in> set (c_queues r) \<Longrightarrow>
   \<not> q_paused q \<Longrightarrow> \<not> c_locked_queues r (q_id q) \<Longrightarrow> (q_id q, cap) \<in> set (capped_rows r d)"
  by (auto simp: capped_rows_def intro!: image_eqI [where x = q])

lemma capped_rows_hit:
  assumes "unique_on q_id (queues d)" and "q \<in> set (queues d)" and "q_max_concurrency q = Some cap"
    and "q_id q \<in> fst ` set (capped_rows r d)"
  shows "(q_id q, cap) \<in> set (capped_rows r d)"
proof -
  obtain p where p: "p \<in> set (queues d)" "q_id p = q_id q" "q_name p \<in> set (c_queues r)"
      "\<not> q_paused p" "\<not> c_locked_queues r (q_id p)"
    using assms(4) by (auto simp: fst_capped_rows)
  then have "p = q" using assms(1,2) by (auto dest: unique_onD)
  with p assms(2,3) show ?thesis by (intro in_capped_rows) auto
qed

text \<open>The two passes, opened once for the properties below.\<close>

lemma claim_batch_passes:
  assumes u: "unique_on j_id (jobs d)" and c: "claim_batch r limit d = (cl, d')"
  obtains first d1 later where
    "claim_where r (map j_id (candidates r (uncapped_candidate r d) limit d)) d = (first, d1)"
    and "claimed_from r (\<lambda>j. uncapped_candidate r d j \<and> \<not> c_locked_jobs r (j_id j)) d first d1"
    and "length first = length (candidates r (uncapped_candidate r d) limit d)"
    and "unique_on j_id (jobs d1)" and "queues d1 = queues d"
    and "claim_capped_loop r (capped_rows r d) (int limit - int (length first)) d1 = (later, d')"
    and "cl = first @ later"
proof -
  let ?C = "candidates r (uncapped_candidate r d) limit d"
  obtain first d1 where f: "claim_where r (map j_id ?C) d = (first, d1)" by fastforce
  note 1 = claim_where_candidates(1) [OF u f]
  have q1: "queues d1 = queues d" and u1: "unique_on j_id (jobs d1)"
    using claimed_from_tables [OF 1] claimed_from_unique [OF 1] u by simp_all
  then have rows: "capped_rows r d1 = capped_rows r d" by (simp add: capped_rows_def)
  obtain later d2 where
    l: "claim_capped_loop r (capped_rows r d) (int limit - int (length first)) d1 = (later, d2)"
    by fastforce
  have "cl = first @ later \<and> d2 = d'"
  proof (cases "length first < limit")
    case True
    then show ?thesis using c f l by (simp add: claim_batch_def claim_capped_def rows)
  next
    case False
    then have "later = [] \<and> d2 = d1" using l by (simp add: capped_loop_stop)
    then show ?thesis using c f False by (simp add: claim_batch_def)
  qed
  with that [OF f 1 claim_where_candidates(2) [OF u f] u1 q1] l show thesis by blast
qed

lemma claim_batch_cap_bound:
  assumes u: "unique_on j_id (jobs d)" and uq: "unique_on q_id (queues d)"
    and c: "claim_batch r limit d = (cl, d')"
    and q: "q \<in> set (queues d)" "q_max_concurrency q = Some cap"
  shows "int (running_count (q_id q) d') \<le> max (int (running_count (q_id q) d)) cap"
  using u c
proof (cases rule: claim_batch_passes)
  case (1 first d1 later)
  have "running_count (q_id q) d1 = running_count (q_id q) d"
  proof (rule running_count_other [OF 1(2) u])
    fix j assume "uncapped_candidate r d j \<and> \<not> c_locked_jobs r (j_id j)"
    then obtain p where "p \<in> set (queues d)" "q_id p = j_queue_id j" "q_max_concurrency p = None"
      by (auto simp: uncapped_candidate_def list_ex_iff)
    then show "j_queue_id j \<noteq> q_id q" using uq q by (auto dest: unique_onD)
  qed
  moreover have "int (running_count (q_id q) d') \<le> max (int (running_count (q_id q) d1)) cap"
  proof (cases "q_id q \<in> fst ` set (capped_rows r d)")
    case True
    then have "(q_id q, cap) \<in> set (capped_rows r d)"
      by (rule capped_rows_hit [OF uq q])
    then show ?thesis by (rule capped_loop_cap [OF 1(4,6) distinct_capped_rows [OF uq]])
  next
    case False
    have "claimed_from r (loop_claimable r (capped_rows r d)) d1 later d'"
      using claim_capped_loop_claimed [OF 1(4,6)] by blast
    then have "running_count (q_id q) d' = running_count (q_id q) d1"
      by (rule running_count_other [OF _ 1(4)]) (use False in \<open>metis loop_claimable_def\<close>)
    then show ?thesis by simp
  qed
  ultimately show ?thesis by simp
qed

subsection \<open>Admission saturates a capped queue\<close>

lemma capped_loop_untouched:
  assumes "unique_on j_id (jobs d)" and "claim_capped_loop r rows n d = (cl, d')"
    and "q \<notin> fst ` set rows"
  shows "running_count q d' = running_count q d"
proof (rule running_count_other)
  show "claimed_from r (loop_claimable r rows) d cl d'"
    using claim_capped_loop_claimed [OF assms(1,2)] by blast
qed (use assms in \<open>metis loop_claimable_def\<close>)+

lemma candidate_left_out:
  assumes "j \<in> set (jobs d)" and "P j" and "\<not> c_locked_jobs r (j_id j)"
    and "j \<notin> set (candidates r P n d)"
  shows "length (candidates r P n d) = n"
    and "k \<in> set (candidates r P n d) \<Longrightarrow> claim_order r k \<le> claim_order r j"
proof -
  let ?xs = "sort_key (claim_order r) (filter (\<lambda>j. P j \<and> \<not> c_locked_jobs r (j_id j)) (jobs d))"
  have in_xs: "j \<in> set ?xs" using assms by simp
  show "length (candidates r P n d) = n"
  proof (rule ccontr)
    assume "length (candidates r P n d) \<noteq> n"
    then have "take n ?xs = ?xs" by (simp add: candidates_def)
    with assms(4) in_xs show False by (simp add: candidates_def)
  qed
  show "k \<in> set (candidates r P n d) \<Longrightarrow> claim_order r k \<le> claim_order r j"
    using sorted_take_le [of "claim_order r" ?xs k n j] in_xs assms(4) by (simp add: candidates_def)
qed

lemma capped_loop_saturates:
  assumes "unique_on j_id (jobs d)" and "claim_capped_loop r rows n d = (cl, d')"
    and "distinct (map fst rows)" and "(q, cap) \<in> set rows"
    and "j \<in> set (jobs d)" and "capped_candidate r q j" and "\<not> c_locked_jobs r (j_id j)"
    and "j_id j \<notin> j_id ` set cl"
  shows "n \<le> int (length cl) \<or> cap \<le> int (running_count q d')"
  using assms
proof (induction rows arbitrary: n d cl d')
  case Nil
  then show ?case by simp
next
  case (Cons row rest)
  obtain q1 cap1 where row: "row = (q1, cap1)" by fastforce
  have fresh: "q1 \<notin> fst ` set rest" using Cons.prems(3) row by simp
  from Cons.prems(2) [unfolded row] Cons.prems(1) show ?case
  proof (cases rule: capped_loop_round)
    case stop
    then show ?thesis by simp
  next
    case skip
    show ?thesis
    proof (cases "(q, cap) = row")
      case True
      with capped_loop_untouched [OF Cons.prems(1) skip(3) fresh] skip(2) row show ?thesis by simp
    next
      case False
      with Cons.prems Cons.IH [OF Cons.prems(1) skip(3)] show ?thesis by simp
    qed
  next
    case (admit batch d1 later)
    let ?n = "nat (min (cap1 - int (running_count q1 d)) n)"
    have u1: "unique_on j_id (jobs d1)"
      using claimed_from_unique [OF admit(6)] Cons.prems(1) by simp
    have j_left: "j_id j \<notin> j_id ` set batch" "j_id j \<notin> j_id ` set later"
      using Cons.prems(8) admit(5) by auto
    show ?thesis
    proof (cases "(q, cap) = row")
      case True
      note cw = claim_where_candidates [OF Cons.prems(1) admit(3)]
      have "j \<notin> set (candidates r (capped_candidate r q1) ?n d)"
        using j_left(1) unfolding cw(3) by (metis claim_values_fields(1) imageI)
      then have len: "length batch = ?n"
        using candidate_left_out(1) [OF Cons.prems(5), of "capped_candidate r q1"]
          Cons.prems(6,7) True row cw(2) by simp
      have "running_count q1 d1 = running_count q1 d + length batch"
        by (rule running_count_exact [OF cw(1) Cons.prems(1)])
          (auto simp: capped_candidate_def ready_def)
      moreover have "running_count q1 d' = running_count q1 d1"
        by (rule capped_loop_untouched [OF u1 admit(4) fresh])
      ultimately show ?thesis using len True row admit(1,2,5) by auto
    next
      case False
      have "j \<in> set (jobs d1)"
        using admit(6) Cons.prems(5) j_left(1) by (force simp: claimed_from_def in_update_where)
      then have "n - int (length batch) \<le> int (length later) \<or> cap \<le> int (running_count q d')"
        using Cons.IH [OF u1 admit(4)] Cons.prems False j_left by simp
      then show ?thesis using admit(5) by auto
    qed
  qed
qed

subsection \<open>Aging\<close>

lemma priority_key_bounds:
  assumes "j_run_at j \<le> now" and "0 \<le> boost"
  shows "j_priority j \<le> priority_key step boost now j"
    and "priority_key step boost now j \<le> j_priority j + boost"
  using assms by (auto simp: priority_key_def age_boost_def epoch_def)

lemma priority_key_mono:
  assumes "now \<le> now'"
  shows "priority_key step boost now j \<le> priority_key step boost now' j"
proof (cases "step > 0")
  case True
  then have "epoch (now - j_run_at j) / real_of_int step \<le> epoch (now' - j_run_at j) / real_of_int step"
    using assms by (simp add: divide_right_mono epoch_def)
  then show ?thesis using True
    by (simp add: priority_key_def age_boost_def floor_mono min.coboundedI1)
next
  case False
  then show ?thesis by (simp add: priority_key_def)
qed

text \<open>In microseconds the boost is an integer division.\<close>

lemma age_boost_eq:
  assumes "0 < step"
  shows "age_boost step boost now j = min ((now - j_run_at j) div (step * 1000000)) boost"
proof -
  have "epoch (now - j_run_at j) / real_of_int step
      = real_of_int (now - j_run_at j) / real_of_int (step * 1000000)"
    using assms by (simp add: epoch_def field_simps)
  then show ?thesis
    by (simp only: age_boost_def floor_divide_of_int_eq)
qed

lemma age_boost_full:
  assumes "0 < step" and "step * 1000000 * boost \<le> now - j_run_at j"
  shows "age_boost step boost now j = boost"
proof -
  have "boost \<le> (now - j_run_at j) div (step * 1000000)"
    using zdiv_mono1 [OF assms(2), of "step * 1000000"] assms(1) by simp
  then show ?thesis using assms(1) by (simp add: age_boost_eq)
qed

lemma age_boost_fresh:
  assumes "0 < step" and "0 \<le> boost" and "j_run_at j \<le> now" and "now - j_run_at j < step * 1000000"
  shows "age_boost step boost now j = 0"
  using assms by (simp add: age_boost_eq div_pos_pos_trivial)

lemma age_boost_waited:
  assumes "0 < step" and "1 \<le> boost" and "step * 1000000 \<le> now - j_run_at j"
  shows "1 \<le> age_boost step boost now j"
proof -
  have "1 \<le> (now - j_run_at j) div (step * 1000000)"
    using zdiv_mono1 [OF assms(3), of "step * 1000000"] assms(1) by simp
  then show ?thesis using assms by (simp add: age_boost_eq)
qed

section \<open>The properties of the claim\<close>

definition sample_request :: claim_request where
  "sample_request = \<lparr>c_now = 100000000, c_worker = 50, c_queues = [''default''], c_lease_seconds = 30,
     c_aging_interval = 60, c_aging_max_boost = 200, c_shard_key = None,
     c_locked_jobs = (\<lambda>_. False), c_locked_queues = (\<lambda>_. False)\<rparr>"

definition sample_claim_db :: db where
  "sample_claim_db = sample_db [sample_queue 1 None, sample_queue 2 (Some 1)]
     [sample_job 10 1, sample_job 11 2, sample_job 12 2] []"

text \<open>C10: A claim hands out at most \<open>limit\<close> jobs, each once, each ready and admissible (due,
  pending, not locked by another transaction, in an unpaused queue the worker consumes), and
  its whole effect on the database is that exactly these rows become RUNNING under the
  worker's lease with one more attempt.\<close>

theorem claim_batch_flips_exactly:
  assumes "unique_on j_id (jobs d)" and "claim_batch r limit d = (cl, d')"
  shows "length cl \<le> limit \<and> distinct (map j_id cl) \<and>
    (\<forall>c \<in> set cl. \<exists>j \<in> set (jobs d). claimable r d j \<and> c = claim_values r j) \<and>
    d' = d\<lparr>jobs := update_where (\<lambda>j. j_id j \<in> j_id ` set cl) (claim_values r) (jobs d)\<rparr>"
  using claim_batch_claimed [OF assms] by (auto simp: claimed_from_def)

theorem claim_batch_flips_exactly_witness:
  "unique_on j_id (jobs sample_claim_db) \<and>
   length (fst (claim_batch sample_request 2 sample_claim_db)) \<le> 2 \<and>
   map j_id (fst (claim_batch sample_request 2 sample_claim_db)) = [10, 11]"
proof -
  have u: "unique_on j_id (jobs sample_claim_db)" by code_simp
  have "map j_id (fst (claim_batch sample_request 2 sample_claim_db)) = [10, 11]" by code_simp
  with u claim_batch_flips_exactly [OF u prod.collapse [symmetric], of sample_request 2]
  show ?thesis by simp
qed

text \<open>C9: The concurrency cap: no claim raises the number of RUNNING jobs of a capped queue
  above its cap (a queue already above it, because the cap was lowered, gains nothing),
  whatever rows other transactions hold locked.\<close>

theorem claim_batch_respects_cap:
  assumes "unique_on j_id (jobs d)" and "unique_on q_id (queues d)"
    and "claim_batch r limit d = (cl, d')"
    and "q \<in> set (queues d)" and "q_max_concurrency q = Some cap"
  shows "int (running_count (q_id q) d') \<le> max (int (running_count (q_id q) d)) cap"
  using assms by (rule claim_batch_cap_bound)

theorem claim_batch_respects_cap_witness:
  "unique_on q_id (queues sample_claim_db) \<and>
   int (running_count 2 (snd (claim_batch sample_request 5 sample_claim_db)))
     \<le> max (int (running_count 2 sample_claim_db)) 1"
proof -
  have u: "unique_on j_id (jobs sample_claim_db)" and q: "unique_on q_id (queues sample_claim_db)"
    and m: "sample_queue 2 (Some 1) \<in> set (queues sample_claim_db)"
    by (simp_all add: unique_on_def sample_claim_db_def sample_defs)
  have c: "q_max_concurrency (sample_queue 2 (Some 1)) = Some 1" and i: "q_id (sample_queue 2 (Some 1)) = 2"
    by (simp_all add: sample_defs)
  from q claim_batch_respects_cap [OF u q prod.collapse [symmetric] m c, of sample_request 5]
  show ?thesis by (simp add: i)
qed

text \<open>C31: Claim order and work conservation on the uncapped queues: a claimable job left
  unclaimed proves that the limit was used up, and that every claimed job comes no later in
  the claim order (effective priority first, then \<open>run_at\<close>, then \<open>created_at\<close>).\<close>

theorem uncapped_claim_order:
  assumes "unique_on j_id (jobs d)" and "claim_batch r limit d = (cl, d')"
    and "j \<in> set (jobs d)" and "uncapped_candidate r d j" and "\<not> c_locked_jobs r (j_id j)"
    and "j_id j \<notin> j_id ` set cl"
  shows "length cl = limit \<and>
    (\<forall>k \<in> set (jobs d). j_id k \<in> j_id ` set cl \<longrightarrow> claim_order r k \<le> claim_order r j)"
  using assms(1,2)
proof (cases rule: claim_batch_passes)
  case (1 first d1 later)
  let ?C = "candidates r (uncapped_candidate r d) limit d"
  note first = claim_where_candidates [OF assms(1) 1(1)]
  have "j \<notin> set ?C"
    using assms(6) unfolding 1(7) set_append first(3) by (metis UnI1 claim_values_fields(1) imageI image_Un)
  note left = candidate_left_out [OF assms(3-5) this]
  have len: "length first = limit" using left(1) first(2) by simp
  with 1(6) have cl: "cl = first" using 1(7) by (simp add: capped_loop_stop)
  have "claim_order r k \<le> claim_order r j" if k: "k \<in> set (jobs d)" "j_id k \<in> j_id ` set cl" for k
  proof -
    obtain x where x: "x \<in> set ?C" "j_id x = j_id k"
      using k(2) unfolding cl first(3) by auto
    then have "x = k"
      using candidates_subset [of r "uncapped_candidate r d" limit d] k(1) assms(1)
      by (auto dest: unique_onD)
    with left(2) x show ?thesis by simp
  qed
  then show ?thesis using len cl by simp
qed

theorem uncapped_claim_order_witness:
  "uncapped_candidate sample_request sample_claim_db (sample_job 10 1) \<and>
   length (fst (claim_batch sample_request 0 sample_claim_db)) = 0"
proof -
  have u: "unique_on j_id (jobs sample_claim_db)"
    and m: "sample_job 10 1 \<in> set (jobs sample_claim_db)"
    by (simp_all add: unique_on_def sample_claim_db_def sample_defs)
  have c: "uncapped_candidate sample_request sample_claim_db (sample_job 10 1)"
    and l: "\<not> c_locked_jobs sample_request (j_id (sample_job 10 1))"
    and n: "j_id (sample_job 10 1) \<notin> j_id ` set (fst (claim_batch sample_request 0 sample_claim_db))"
    by code_simp+
  from c uncapped_claim_order [OF u prod.collapse [symmetric] m c l n] show ?thesis by simp
qed

text \<open>C30: Admission saturates a capped queue: when a subscribed, unpaused, unlocked queue keeps
  a due and unlocked pending job after the claim, either the claim used its whole limit or
  the queue runs at its cap.\<close>

theorem capped_claim_saturates:
  assumes "unique_on j_id (jobs d)" and "unique_on q_id (queues d)"
    and "claim_batch r limit d = (cl, d')"
    and "q \<in> set (queues d)" and "q_max_concurrency q = Some cap"
    and "q_name q \<in> set (c_queues r)" and "\<not> q_paused q" and "\<not> c_locked_queues r (q_id q)"
    and "j \<in> set (jobs d)" and "ready r j" and "j_queue_id j = q_id q"
    and "\<not> c_locked_jobs r (j_id j)" and "j_id j \<notin> j_id ` set cl"
  shows "limit = length cl \<or> cap \<le> int (running_count (q_id q) d')"
  using assms(1,3)
proof (cases rule: claim_batch_passes)
  case (1 first d1 later)
  have "j_id j \<notin> j_id ` set first" using assms(13) 1(7) by auto
  then have "j \<in> set (jobs d1)"
    using 1(2) assms(9) by (force simp: claimed_from_def in_update_where)
  moreover have "capped_candidate r (q_id q) j"
    using assms(10,11) by (simp add: capped_candidate_def)
  moreover note assms(12)
  moreover have "j_id j \<notin> j_id ` set later" using assms(13) 1(7) by auto
  ultimately have "int limit - int (length first) \<le> int (length later)
      \<or> cap \<le> int (running_count (q_id q) d')"
    by (rule capped_loop_saturates [OF 1(4,6) distinct_capped_rows [OF assms(2)]
          in_capped_rows [OF assms(4-8)]])
  moreover have "length cl \<le> limit" by (rule claim_batch_claimed(2) [OF assms(1,3)])
  ultimately show ?thesis using 1(7) by auto
qed

theorem capped_claim_saturates_witness:
  "ready sample_request (sample_job 12 2) \<and>
   (5 = length (fst (claim_batch sample_request 5 sample_claim_db))
    \<or> 1 \<le> int (running_count 2 (snd (claim_batch sample_request 5 sample_claim_db))))"
proof -
  have u: "unique_on j_id (jobs sample_claim_db)" and q: "unique_on q_id (queues sample_claim_db)"
    and m: "sample_queue 2 (Some 1) \<in> set (queues sample_claim_db)"
    and j: "sample_job 12 2 \<in> set (jobs sample_claim_db)"
    by (simp_all add: unique_on_def sample_claim_db_def sample_defs)
  have c: "q_max_concurrency (sample_queue 2 (Some 1)) = Some 1"
    and i: "q_id (sample_queue 2 (Some 1)) = 2"
    and n: "q_name (sample_queue 2 (Some 1)) \<in> set (c_queues sample_request)"
    and p: "\<not> q_paused (sample_queue 2 (Some 1))"
    and lq: "\<not> c_locked_queues sample_request (q_id (sample_queue 2 (Some 1)))"
    and rd: "ready sample_request (sample_job 12 2)"
    and jq: "j_queue_id (sample_job 12 2) = q_id (sample_queue 2 (Some 1))"
    and lj: "\<not> c_locked_jobs sample_request (j_id (sample_job 12 2))"
    by (simp_all add: sample_defs sample_request_def ready_def)
  have left: "j_id (sample_job 12 2)
      \<notin> j_id ` set (fst (claim_batch sample_request 5 sample_claim_db))" by code_simp
  from rd capped_claim_saturates [OF u q prod.collapse [symmetric] m c n p lq j rd jq lj left]
  show ?thesis by (simp add: i)
qed

text \<open>C8: Two concurrent claimers never receive the same job: the second one, running against
  the same snapshot with the rows of the first locked, skips them; the order in which the two
  updates then reach the table does not matter.\<close>

theorem concurrent_claims_disjoint:
  assumes "unique_on j_id (jobs d)"
    and "claim_batch r1 m d = (cl1, d1)" and "claim_batch r2 n d = (cl2, d2)"
    and "\<forall>c \<in> set cl1. c_locked_jobs r2 (j_id c)"
  shows "j_id ` set cl1 \<inter> j_id ` set cl2 = {} \<and>
    update_where (\<lambda>j. j_id j \<in> j_id ` set cl2) (claim_values r2) (jobs d1)
      = update_where (\<lambda>j. j_id j \<in> j_id ` set cl1) (claim_values r1) (jobs d2)"
proof -
  have 1: "claimed_from r1 (claimable r1 d) d cl1 d1"
    and 2: "claimed_from r2 (claimable r2 d) d cl2 d2"
    using claim_batch_claimed(1) assms(1-3) by blast+
  have "\<forall>c \<in> set cl2. j_id c \<notin> j_id ` set cl1"
  proof
    fix c assume c: "c \<in> set cl2"
    from claimed_from_source [OF 2 c] obtain j where "c = claim_values r2 j" "claimable r2 d j"
      by blast
    then have "\<not> c_locked_jobs r2 (j_id c)" by (simp add: claimable_def)
    with assms(4) show "j_id c \<notin> j_id ` set cl1" by (metis imageE)
  qed
  then have disj: "j_id ` set cl2 \<inter> j_id ` set cl1 = {}"
    by (simp add: disjoint_eq_subset_Compl image_subset_iff)
  moreover have "jobs d1 = update_where (\<lambda>j. j_id j \<in> j_id ` set cl1) (claim_values r1) (jobs d)"
    and "jobs d2 = update_where (\<lambda>j. j_id j \<in> j_id ` set cl2) (claim_values r2) (jobs d)"
    using 1 2 by (simp_all add: claimed_from_def)
  ultimately show ?thesis
    by (auto simp: update_where_def Int_commute)
qed

theorem concurrent_claims_disjoint_witness:
  "map j_id (fst (claim_batch sample_request 2 sample_claim_db)) = [10, 11] \<and>
   j_id ` set (fst (claim_batch sample_request 2 sample_claim_db)) \<inter>
   j_id ` set (fst (claim_batch
      (sample_request\<lparr>c_worker := 51, c_locked_jobs := (\<lambda>i. i = 10 \<or> i = 11)\<rparr>) 2 sample_claim_db)) = {}"
proof -
  have u: "unique_on j_id (jobs sample_claim_db)" by code_simp
  have a: "map j_id (fst (claim_batch sample_request 2 sample_claim_db)) = [10, 11]" by code_simp
  have b: "\<forall>c \<in> set (fst (claim_batch sample_request 2 sample_claim_db)).
      c_locked_jobs (sample_request\<lparr>c_worker := 51, c_locked_jobs := (\<lambda>i. i = 10 \<or> i = 11)\<rparr>) (j_id c)"
    by code_simp
  from a concurrent_claims_disjoint [OF u prod.collapse [symmetric] prod.collapse [symmetric] b, of 2]
  show ?thesis by simp
qed

text \<open>C29: The gates every claimed job has passed: its queue is not paused; on an uncapped queue
  the worker subscribes to the job's queue name, its shard matches and every dependency has
  SUCCEEDED; on a capped queue the worker subscribes to the queue and held its row lock.\<close>

theorem claimed_jobs_passed_the_gates:
  assumes "unique_on j_id (jobs d)" and "claim_batch r limit d = (cl, d')" and "c \<in> set cl"
  shows "\<exists>q \<in> set (queues d). q_id q = j_queue_id c \<and> \<not> q_paused q \<and>
    (case q_max_concurrency q of
       None \<Rightarrow> j_queue c \<in> set (c_queues r)
          \<and> (\<forall>s. c_shard_key r = Some s \<longrightarrow> q_shard_key q = s)
          \<and> (\<forall>e \<in> set (dependencies d). d_job_id e = j_id c \<longrightarrow>
               (\<forall>k \<in> set (jobs d). j_id k = d_depends_on_job_id e \<longrightarrow> j_status k = SUCCEEDED))
     | Some cap \<Rightarrow> q_name q \<in> set (c_queues r) \<and> \<not> c_locked_queues r (q_id q))"
proof -
  from claim_batch_claimed(1) [OF assms(1,2)] assms(3)
  obtain j where c: "c = claim_values r j" and j: "claimable r d j"
    using claimed_from_source by blast
  consider (uncapped) "uncapped_candidate r d j"
    | (capped) q cap where "q \<in> set (queues d)" "q_id q = j_queue_id j" "\<not> q_paused q"
        "q_max_concurrency q = Some cap" "q_name q \<in> set (c_queues r)" "\<not> c_locked_queues r (q_id q)"
    using j by (auto simp: claimable_def list_ex_iff)
  then show ?thesis
  proof cases
    case uncapped
    then obtain q where "q \<in> set (queues d)" "q_id q = j_queue_id j" "\<not> q_paused q"
        "case c_shard_key r of None \<Rightarrow> True | Some s \<Rightarrow> q_shard_key q = s"
        "q_max_concurrency q = None"
      by (auto simp: uncapped_candidate_def list_ex_iff)
    with uncapped show ?thesis
      by (intro bexI [of _ q])
        (auto simp: c uncapped_candidate_def unmet_dep_def list_ex_iff)
  next
    case capped
    then show ?thesis by (intro bexI [of _ q]) (auto simp: c)
  qed
qed

theorem claimed_jobs_passed_the_gates_witness:
  "\<exists>q \<in> set (queues sample_claim_db).
     q_id q = j_queue_id (claim_values sample_request (sample_job 10 1)) \<and> \<not> q_paused q"
proof -
  have u: "unique_on j_id (jobs sample_claim_db)" by code_simp
  have c: "claim_values sample_request (sample_job 10 1)
      \<in> set (fst (claim_batch sample_request 2 sample_claim_db))" by code_simp
  from claimed_jobs_passed_the_gates [OF u prod.collapse [symmetric] c] show ?thesis by blast
qed

text \<open>A workflow whose second step waits for the first, on one queue.\<close>

definition sample_workflow_db :: "int option \<Rightarrow> int \<Rightarrow> db" where
  "sample_workflow_db cap shard =
     sample_db [(sample_queue 1 cap)\<lparr>q_shard_key := shard\<rparr>]
       [(sample_job 10 1)\<lparr>j_run_at := 1000000000\<rparr>, sample_job 11 1]
       [\<lparr>d_id = 90, d_job_id = 11, d_depends_on_job_id = 10\<rparr>]"

text \<open>The dependency gate is missing from the capped pass: a job whose prerequisite has not
  even started is held back while its queue is uncapped, and handed out by the very same
  claim as soon as the queue has a concurrency cap.\<close>

theorem capped_claim_ignores_dependencies:
  "\<exists>r d_uncapped d_capped j.
     db_keys d_uncapped \<and> db_keys d_capped \<and> jobs d_uncapped = jobs d_capped \<and>
     dependencies d_uncapped = dependencies d_capped \<and>
     unmet_dep d_capped j \<and> fst (claim_batch r 5 d_uncapped) = [] \<and>
     claim_values r j \<in> set (fst (claim_batch r 5 d_capped))"
proof (intro exI conjI)
  show "db_keys (sample_workflow_db None 0)" and "db_keys (sample_workflow_db (Some 4) 0)"
    by code_simp+
  show "jobs (sample_workflow_db None 0) = jobs (sample_workflow_db (Some 4) 0)"
    and "dependencies (sample_workflow_db None 0) = dependencies (sample_workflow_db (Some 4) 0)"
    by (simp_all add: sample_workflow_db_def sample_db_def)
  show "unmet_dep (sample_workflow_db (Some 4) 0) (sample_job 11 1)" by code_simp
  show "fst (claim_batch sample_request 5 (sample_workflow_db None 0)) = []" by code_simp
  show "claim_values sample_request (sample_job 11 1)
      \<in> set (fst (claim_batch sample_request 5 (sample_workflow_db (Some 4) 0)))" by code_simp
qed

text \<open>The shard filter is missing from the capped pass: a worker pinned to shard 1 claims a
  job of a capped queue that lives on shard 2; without the cap the claim is empty.\<close>

theorem capped_claim_ignores_shards:
  "\<exists>r d_uncapped d_capped c q.
     c_shard_key r = Some 1 \<and> db_keys d_uncapped \<and> db_keys d_capped \<and>
     fst (claim_batch r 5 d_uncapped) = [] \<and> c \<in> set (fst (claim_batch r 5 d_capped)) \<and>
     q \<in> set (queues d_capped) \<and> q_id q = j_queue_id c \<and> q_shard_key q = 2"
proof (intro exI conjI)
  let ?r = "sample_request\<lparr>c_shard_key := Some 1\<rparr>"
  show "c_shard_key ?r = Some 1" by simp
  show "db_keys (sample_workflow_db None 2)" and "db_keys (sample_workflow_db (Some 4) 2)"
    by code_simp+
  show "fst (claim_batch ?r 5 (sample_workflow_db None 2)) = []" by code_simp
  show "claim_values ?r (sample_job 11 1)
      \<in> set (fst (claim_batch ?r 5 (sample_workflow_db (Some 4) 2)))" by code_simp
  show "(sample_queue 1 (Some 4))\<lparr>q_shard_key := 2\<rparr> \<in> set (queues (sample_workflow_db (Some 4) 2))"
    by (simp add: sample_workflow_db_def sample_db_def)
qed (simp_all add: sample_defs)

text \<open>Aging gives the documented bound against fresh work: at the default settings a job of
  the lowest priority that has waited 200 minutes precedes every job that became ready less
  than a minute ago, whatever that job's priority.\<close>

theorem aged_job_precedes_fresh_work:
  assumes "c_aging_interval r = 60" and "c_aging_max_boost r = 200"
    and "job_checks j" and "job_checks k"
    and "c_now r - j_run_at j \<ge> 200 * 60 * 1000000"
    and "j_run_at k \<le> c_now r" and "c_now r - j_run_at k < 60 * 1000000"
  shows "claim_order r j < claim_order r k"
proof -
  have "age_boost 60 200 (c_now r) j = 200" using assms(5) by (intro age_boost_full) auto
  moreover have "age_boost 60 200 (c_now r) k = 0" using assms(6,7) by (intro age_boost_fresh) auto
  moreover have "- 100 \<le> j_priority j" "j_priority k \<le> 100"
    using assms(3,4) by (auto simp: job_checks_def)
  moreover have "j_run_at j < j_run_at k" using assms(5,7) by simp
  ultimately show ?thesis using assms(1,2) by (auto simp: claim_order_def priority_key_def)
qed

theorem aged_job_precedes_fresh_work_witness:
  "claim_order (sample_request\<lparr>c_now := 12000000000\<rparr>) ((sample_job 10 1)\<lparr>j_priority := -100\<rparr>)
     < claim_order (sample_request\<lparr>c_now := 12000000000\<rparr>) ((sample_job 11 1)\<lparr>j_priority := 100, j_run_at := 11990000000\<rparr>)"
  by (rule aged_job_precedes_fresh_work) (simp_all add: sample_request_def sample_job_def job_checks_def)

text \<open>The bound does not extend to a backlog: at the default settings a job of priority 100
  that has waited one minute precedes a job of priority -100 however long that one has
  waited, so a backlog of old enough high-priority work starves it for as long as it lasts.\<close>

theorem aging_does_not_bound_starvation:
  assumes "c_aging_interval r = 60" and "c_aging_max_boost r = 200"
    and "j_priority j = -100" and "j_priority k = 100" and "c_now r - j_run_at k \<ge> 60 * 1000000"
  shows "claim_order r k < claim_order r j"
proof -
  have "age_boost 60 200 (c_now r) j \<le> 200" by (simp add: age_boost_def)
  moreover have "1 \<le> age_boost 60 200 (c_now r) k" using assms(5) by (intro age_boost_waited) auto
  ultimately show ?thesis using assms(1-4) by (auto simp: claim_order_def priority_key_def)
qed

theorem aging_does_not_bound_starvation_witness:
  "claim_order (sample_request\<lparr>c_now := 1000000000000\<rparr>) ((sample_job 11 1)\<lparr>j_priority := 100, j_run_at := 999940000000\<rparr>)
     < claim_order (sample_request\<lparr>c_now := 1000000000000\<rparr>) ((sample_job 10 1)\<lparr>j_priority := -100\<rparr>)"
  by (rule aging_does_not_bound_starvation) (simp_all add: sample_request_def sample_job_def)

end
