(* ===== verification/Attempt_Repo.thy ===== *)
theory Attempt_Repo
  imports Models
begin

section \<open>The attempt log (app/repositories/attempts.py)\<close>

text \<open>
  One row per claim, opened by \<open>start\<close> and closed once by \<open>finish_attempt\<close>, whose
  \<open>WHERE status = 'running'\<close> guard keeps closed rows as they are.  The identity of a new row
  (\<open>uuid.uuid4()\<close>) is an argument.
\<close>

definition start :: "time \<Rightarrow> uuid \<Rightarrow> uuid \<Rightarrow> uuid \<Rightarrow> int \<Rightarrow> db \<Rightarrow> db" where
  "start now attempt_id job_id worker_id attempt_number d =
     d\<lparr>attempts := attempts d @
        [\<lparr>a_id = attempt_id, a_job_id = job_id, a_worker_id = Some worker_id,
          a_attempt_number = attempt_number, a_status = A_RUNNING, a_error = None,
          a_started_at = now, a_finished_at = None\<rparr>]\<rparr>"

definition open_attempt :: "uuid \<Rightarrow> int \<Rightarrow> job_attempt \<Rightarrow> bool" where
  "open_attempt job_id attempt_number a \<longleftrightarrow>
     a_job_id a = job_id \<and> a_attempt_number a = attempt_number \<and> a_status a = A_RUNNING"

definition finish_attempt ::
  "time \<Rightarrow> uuid \<Rightarrow> int \<Rightarrow> AttemptStatus \<Rightarrow> string option \<Rightarrow> db \<Rightarrow> nat \<times> db" where
  "finish_attempt now job_id attempt_number status err d =
     (count_where (open_attempt job_id attempt_number) (attempts d),
      d\<lparr>attempts := update_where (open_attempt job_id attempt_number)
         (\<lambda>a. a\<lparr>a_status := status, a_error := err, a_finished_at := Some now\<rparr>) (attempts d)\<rparr>)"

definition list_for_job :: "uuid \<Rightarrow> db \<Rightarrow> job_attempt list" where
  "list_for_job job_id d =
     sort_key a_started_at (filter (\<lambda>a. a_job_id a = job_id) (attempts d))"

definition count_recent_by_status :: "time \<Rightarrow> AttemptStatus \<Rightarrow> int \<Rightarrow> db \<Rightarrow> nat" where
  "count_recent_by_status now status window_seconds d =
     count_where (\<lambda>a. a_status a = status
        \<and> (case a_finished_at a of None \<Rightarrow> False
             | Some f \<Rightarrow> now - interval (real_of_int window_seconds) \<le> f)) (attempts d)"

subsection \<open>The log is append-only\<close>

text \<open>\<open>log_extends as bs\<close>: every row of \<open>as\<close> is still there, and the closed ones are unchanged.\<close>

definition row_kept :: "job_attempt \<Rightarrow> job_attempt \<Rightarrow> bool" where
  "row_kept a b \<longleftrightarrow>
     a_id b = a_id a \<and> a_job_id b = a_job_id a \<and> a_worker_id b = a_worker_id a \<and>
     a_attempt_number b = a_attempt_number a \<and> a_started_at b = a_started_at a \<and>
     (a_status a \<noteq> A_RUNNING \<longrightarrow> b = a)"

definition log_extends :: "job_attempt list \<Rightarrow> job_attempt list \<Rightarrow> bool" where
  "log_extends as bs \<longleftrightarrow>
     length as \<le> length bs \<and> list_all2 row_kept as (take (length as) bs)"

lemma row_kept_refl [simp]: "row_kept a a"
  by (simp add: row_kept_def)

lemma row_kept_trans: "row_kept a b \<Longrightarrow> row_kept b c \<Longrightarrow> row_kept a c"
  by (auto simp: row_kept_def)

lemma log_extends_refl [simp]: "log_extends as as"
  by (simp add: log_extends_def list.rel_refl)

lemma log_extends_trans:
  assumes "log_extends as bs" and "log_extends bs cs"
  shows "log_extends as cs"
proof -
  have "list_all2 row_kept (take (length as) bs) (take (length as) (take (length bs) cs))"
    using assms(2) by (intro list_all2_takeI) (simp add: log_extends_def)
  moreover have "take (length as) (take (length bs) cs) = take (length as) cs"
    using assms(1) by (simp add: log_extends_def)
  ultimately show ?thesis
    using assms by (auto simp: log_extends_def intro: list_all2_trans [OF row_kept_trans])
qed

lemma log_extends_append [simp]: "log_extends as (as @ bs)"
  by (simp add: log_extends_def list.rel_refl)

lemma log_extends_finish:
  "log_extends (attempts d) (attempts (snd (finish_attempt now i n st err d)))"
  by (auto simp: log_extends_def finish_attempt_def update_where_def list.rel_map row_kept_def
      open_attempt_def intro!: list.rel_refl_strong)

lemma start_tables [simp]:
  "jobs (start now i j w n d) = jobs d" "queues (start now i j w n d) = queues d"
  "workers (start now i j w n d) = workers d" "schedules (start now i j w n d) = schedules d"
  "dependencies (start now i j w n d) = dependencies d"
  by (simp_all add: start_def)

lemma finish_attempt_tables [simp]:
  "jobs (snd (finish_attempt now i n st err d)) = jobs d"
  "queues (snd (finish_attempt now i n st err d)) = queues d"
  "workers (snd (finish_attempt now i n st err d)) = workers d"
  "schedules (snd (finish_attempt now i n st err d)) = schedules d"
  "dependencies (snd (finish_attempt now i n st err d)) = dependencies d"
  by (simp_all add: finish_attempt_def)

text \<open>Closing an attempt leaves every other open attempt open, and opens none.\<close>

lemma open_after_finish:
  assumes "st \<noteq> A_RUNNING"
  shows "a \<in> set (attempts (snd (finish_attempt now i n st err d))) \<and> open_attempt k m a \<longleftrightarrow>
    a \<in> set (attempts d) \<and> open_attempt k m a \<and> (k, m) \<noteq> (i, n)"
proof (cases "open_attempt k m a")
  case True
  then have "a \<noteq> b\<lparr>a_status := st, a_error := err, a_finished_at := Some now\<rparr>" for b
    using assms by (auto simp: open_attempt_def)
  with True show ?thesis
    by (auto simp: finish_attempt_def in_update_where open_attempt_def)
qed simp

lemma attempt_ids_finish [simp]:
  "map a_id (attempts (snd (finish_attempt now i n st err d))) = map a_id (attempts d)"
  by (simp add: finish_attempt_def map_update_where)

end
