(* ===== verification/Worker_Repo.thy ===== *)
theory Worker_Repo
  imports Models
begin

section \<open>The worker fleet registry (app/repositories/workers.py)\<close>

text \<open>
  One row per worker process: registration, heartbeat, status changes and the sweep that
  declares silent workers OFFLINE.  Each statement is a \<open>keyed_update\<close> of the table: it never
  changes which workers there are.
\<close>

definition add_worker :: "worker \<Rightarrow> db \<Rightarrow> db" where
  "add_worker w d = d\<lparr>workers := workers d @ [w]\<rparr>"

text \<open>\<open>ORDER BY status, last_heartbeat_at DESC\<close>.\<close>

definition list_all_workers :: "nat \<Rightarrow> db \<Rightarrow> worker list" where
  "list_all_workers limit d =
     take limit (sort_key (\<lambda>w. (w_status w, - w_last_heartbeat_at w)) (workers d))"

text \<open>
  Two statements: refresh the heartbeat, then bring a worker declared OFFLINE back to ONLINE.
  The result is the row count of the second.
\<close>

definition worker_heartbeat :: "time \<Rightarrow> uuid \<Rightarrow> db \<Rightarrow> nat \<times> db" where
  "worker_heartbeat now worker_id d =
     (let ws = update_where (\<lambda>w. w_id w = worker_id) (\<lambda>w. w\<lparr>w_last_heartbeat_at := now\<rparr>) (workers d);
          dead = (\<lambda>w. w_id w = worker_id \<and> w_status w = OFFLINE)
      in (count_where dead ws,
          d\<lparr>workers := update_where dead (\<lambda>w. w\<lparr>w_status := ONLINE, w_stopped_at := None\<rparr>) ws\<rparr>))"

definition set_status :: "time \<Rightarrow> uuid \<Rightarrow> WorkerStatus \<Rightarrow> bool \<Rightarrow> db \<Rightarrow> db" where
  "set_status now worker_id status stopped d =
     d\<lparr>workers := update_where (\<lambda>w. w_id w = worker_id)
        (\<lambda>w. let w' = w\<lparr>w_status := status\<rparr>
             in if stopped then w'\<lparr>w_stopped_at := Some now\<rparr> else w') (workers d)\<rparr>"

definition is_stale :: "time \<Rightarrow> int \<Rightarrow> worker \<Rightarrow> bool" where
  "is_stale now offline_after_seconds w \<longleftrightarrow>
     w_status w \<noteq> OFFLINE
     \<and> w_last_heartbeat_at w < now - interval (real_of_int offline_after_seconds)"

definition mark_stale_offline :: "time \<Rightarrow> int \<Rightarrow> db \<Rightarrow> nat \<times> db" where
  "mark_stale_offline now offline_after_seconds d =
     (count_where (is_stale now offline_after_seconds) (workers d),
      d\<lparr>workers := update_where (is_stale now offline_after_seconds)
         (\<lambda>w. w\<lparr>w_status := OFFLINE, w_stopped_at := Some now\<rparr>) (workers d)\<rparr>)"

definition count_online :: "db \<Rightarrow> nat" where
  "count_online d = count_where (\<lambda>w. w_status w = ONLINE) (workers d)"

definition max_heartbeat_lag_seconds :: "time \<Rightarrow> db \<Rightarrow> real" where
  "max_heartbeat_lag_seconds now d =
     (case map w_last_heartbeat_at (filter (\<lambda>w. w_status w = ONLINE) (workers d)) of
        [] \<Rightarrow> 0
      | t # ts \<Rightarrow> epoch (now - fold min ts t))"

text \<open>Only the workers table is written.\<close>

lemma worker_ops_tables [simp]:
  "jobs (snd (worker_heartbeat now w d)) = jobs d"
  "attempts (snd (worker_heartbeat now w d)) = attempts d"
  "queues (snd (worker_heartbeat now w d)) = queues d"
  "dependencies (snd (worker_heartbeat now w d)) = dependencies d"
  "schedules (snd (worker_heartbeat now w d)) = schedules d"
  "jobs (set_status now w s b d) = jobs d" "attempts (set_status now w s b d) = attempts d"
  "queues (set_status now w s b d) = queues d"
  "dependencies (set_status now w s b d) = dependencies d"
  "schedules (set_status now w s b d) = schedules d"
  "jobs (snd (mark_stale_offline now n d)) = jobs d"
  "attempts (snd (mark_stale_offline now n d)) = attempts d"
  "queues (snd (mark_stale_offline now n d)) = queues d"
  "dependencies (snd (mark_stale_offline now n d)) = dependencies d"
  "schedules (snd (mark_stale_offline now n d)) = schedules d"
  "jobs (add_worker x d) = jobs d" "attempts (add_worker x d) = attempts d"
  "queues (add_worker x d) = queues d" "dependencies (add_worker x d) = dependencies d"
  "schedules (add_worker x d) = schedules d"
  by (simp_all add: worker_heartbeat_def set_status_def mark_stale_offline_def add_worker_def Let_def)

text \<open>How the status of a registered worker moves.\<close>

interpretation alive: keyed_update w_id "\<lambda>w. w\<lparr>w_last_heartbeat_at := now\<rparr>"
  by unfold_locales simp

interpretation revived: keyed_update w_id "\<lambda>w. w\<lparr>w_status := ONLINE, w_stopped_at := None\<rparr>"
  by unfold_locales simp

interpretation told: keyed_update w_id
  "\<lambda>w. let w' = w\<lparr>w_status := s\<rparr> in if b then w'\<lparr>w_stopped_at := Some now\<rparr> else w'"
  by unfold_locales (simp add: Let_def)

interpretation stale: keyed_update w_id "\<lambda>w. w\<lparr>w_status := OFFLINE, w_stopped_at := Some now\<rparr>"
  by unfold_locales simp

lemma worker_row_set_status:
  "row w_id w (workers (set_status now w' s b d)) =
     map_option (\<lambda>x. if w = w' then (let x' = x\<lparr>w_status := s\<rparr> in
        if b then x'\<lparr>w_stopped_at := Some now\<rparr> else x') else x) (row w_id w (workers d))"
proof -
  have "row w_id w (workers (set_status now w' s b d)) =
      map_option (\<lambda>x. if w_id x = w' then (let x' = x\<lparr>w_status := s\<rparr> in
        if b then x'\<lparr>w_stopped_at := Some now\<rparr> else x') else x) (row w_id w (workers d))"
    unfolding set_status_def by (simp add: told.lookup)
  then show ?thesis
    by (cases "row w_id w (workers d)") (auto dest: row_SomeD)
qed

lemma worker_row_heartbeat:
  "row w_id w (workers (snd (worker_heartbeat now w' d))) =
     map_option (\<lambda>x. if w = w'
        then (if w_status x = OFFLINE
              then x\<lparr>w_last_heartbeat_at := now, w_status := ONLINE, w_stopped_at := None\<rparr>
              else x\<lparr>w_last_heartbeat_at := now\<rparr>) else x) (row w_id w (workers d))"
  by (cases "row w_id w (workers d)")
    (auto simp: worker_heartbeat_def Let_def alive.lookup revived.lookup dest: row_SomeD)

lemma worker_row_stale:
  "row w_id w (workers (snd (mark_stale_offline now n d))) =
     map_option (\<lambda>x. if is_stale now n x then x\<lparr>w_status := OFFLINE, w_stopped_at := Some now\<rparr> else x)
       (row w_id w (workers d))"
  by (simp add: mark_stale_offline_def stale.lookup)

end
