(* ===== verification/Py_Text.thy ===== *)
theory Py_Text
  imports Prelude
begin

section \<open>Text rendering\<close>

text \<open>
  The renderings of Python's standard library the code puts into error texts and keys:
  \<open>str\<close> of an integer and of a UUID (a 128-bit number, in its 8-4-4-4-12 form), and
  \<open>datetime.isoformat\<close> of an aware UTC instant.
\<close>

definition digit :: "nat \<Rightarrow> char" where
  "digit n = ''0123456789abcdef'' ! n"

fun str_nat :: "nat \<Rightarrow> string" where
  "str_nat n = (if n < 10 then [digit n] else str_nat (n div 10) @ [digit (n mod 10)])"

declare str_nat.simps [simp del]

definition str_int :: "int \<Rightarrow> string" where
  "str_int i = (if i < 0 then ''-'' @ str_nat (nat (- i)) else str_nat (nat i))"

text \<open>The \<open>k\<close> low digits of \<open>n\<close> in base \<open>b\<close>, most significant first.\<close>

fun padded :: "nat \<Rightarrow> nat \<Rightarrow> nat \<Rightarrow> string" where
  "padded b 0 n = []"
| "padded b (Suc k) n = padded b k (n div b) @ [digit (n mod b)]"

definition str_uuid :: "uuid \<Rightarrow> string" where
  "str_uuid u =
     (let h = padded 16 32 u
      in take 8 h @ ''-'' @ take 4 (drop 8 h) @ ''-'' @ take 4 (drop 12 h) @ ''-''
         @ take 4 (drop 16 h) @ ''-'' @ drop 20 h)"

definition str_uuid_option :: "uuid option \<Rightarrow> string" where
  "str_uuid_option u = (case u of None \<Rightarrow> ''None'' | Some i \<Rightarrow> str_uuid i)"

text \<open>
  \<open>repr\<close>, \<open>strip\<close> and \<open>lower\<close> of a string whose characters are code points below 256.
\<close>

definition escaped :: "char \<Rightarrow> char \<Rightarrow> string" where
  "escaped q c =
     (let n = of_char c :: nat in
      if c = q \<or> n = 92 then [CHR 0x5C, c]
      else if n = 10 then [CHR 0x5C, CHR ''n'']
      else if n = 13 then [CHR 0x5C, CHR ''r'']
      else if n = 9 then [CHR 0x5C, CHR ''t'']
      else if n < 32 \<or> 127 \<le> n \<and> n \<le> 160 \<or> n = 173 then [CHR 0x5C, CHR ''x''] @ padded 16 2 n
      else [c])"

definition py_repr :: "string \<Rightarrow> string" where
  "py_repr s =
     (let q = (if CHR 0x27 \<in> set s \<and> CHR 0x22 \<notin> set s then CHR 0x22 else CHR 0x27)
      in [q] @ concat (map (escaped q) s) @ [q])"

definition is_space :: "char \<Rightarrow> bool" where
  "is_space c \<longleftrightarrow>
     (let n = of_char c :: nat in 9 \<le> n \<and> n \<le> 13 \<or> 28 \<le> n \<and> n \<le> 32 \<or> n = 133 \<or> n = 160)"

definition py_strip :: "string \<Rightarrow> string" where
  "py_strip s = rev (dropWhile is_space (rev (dropWhile is_space s)))"

definition lower_char :: "char \<Rightarrow> char" where
  "lower_char c =
     (let n = of_char c :: nat
      in if 65 \<le> n \<and> n \<le> 90 \<or> 192 \<le> n \<and> n \<le> 222 \<and> n \<noteq> 215 then char_of (n + 32) else c)"

definition py_lower :: "string \<Rightarrow> string" where
  "py_lower s = map lower_char s"

text \<open>The proleptic Gregorian date of a number of days since 1970-01-01.\<close>

definition civil_from_days :: "int \<Rightarrow> int \<times> int \<times> int" where
  "civil_from_days days =
     (let z = days + 719468;
          era = z div 146097;
          doe = z mod 146097;
          yoe = (doe - doe div 1460 + doe div 36524 - doe div 146096) div 365;
          doy = doe - (365 * yoe + yoe div 4 - yoe div 100);
          mp = (5 * doy + 2) div 153;
          day = doy - (153 * mp + 2) div 5 + 1;
          month = (if mp < 10 then mp + 3 else mp - 9);
          year = yoe + era * 400 + (if month \<le> 2 then 1 else 0)
      in (year, month, day))"

definition isoformat :: "time \<Rightarrow> string" where
  "isoformat t =
     (let (y, m, d) = civil_from_days (t div 86400000000);
          us = t mod 86400000000;
          s = us div 1000000;
          micro = us mod 1000000
      in padded 10 4 (nat y) @ ''-'' @ padded 10 2 (nat m) @ ''-'' @ padded 10 2 (nat d) @ ''T''
         @ padded 10 2 (nat (s div 3600)) @ '':'' @ padded 10 2 (nat (s div 60 mod 60)) @ '':''
         @ padded 10 2 (nat (s mod 60))
         @ (if micro = 0 then [] else ''.'' @ padded 10 6 (nat micro)) @ ''+00:00'')"

lemma length_padded [simp]: "length (padded b k n) = k"
  by (induction b k n rule: padded.induct) auto

lemma digit_inj: "m < 16 \<Longrightarrow> n < 16 \<Longrightarrow> digit m = digit n \<Longrightarrow> m = n"
proof -
  assume "m < 16" "n < 16" "digit m = digit n"
  moreover have "distinct ''0123456789abcdef''" by simp
  ultimately show "m = n"
    unfolding digit_def by (subst (asm) nth_eq_iff_index_eq) simp_all
qed

lemma padded_inj:
  assumes "0 < b" and "b \<le> 16" and "m < b ^ k" and "n < b ^ k" and "padded b k m = padded b k n"
  shows "m = n"
  using assms(3-5)
proof (induction k arbitrary: m n)
  case 0
  then show ?case by simp
next
  case (Suc k)
  have "m mod b < b" "n mod b < b" using assms(1) by simp_all
  then have bounds: "m mod b < 16" "n mod b < 16" using assms(2) by linarith+
  from Suc.prems(3) have "padded b k (m div b) = padded b k (n div b)"
    and d: "digit (m mod b) = digit (n mod b)" by simp_all
  moreover have "m div b < b ^ k" "n div b < b ^ k"
    using Suc.prems(1,2) assms(1) by (simp_all add: less_mult_imp_div_less mult.commute)
  ultimately have "m div b = n div b" using Suc.IH by blast
  moreover have "m mod b = n mod b" using digit_inj [OF bounds d] .
  ultimately show ?case by (metis div_mult_mod_eq)
qed

lemma five_groups:
  "h = take 8 h @ take 4 (drop 8 h) @ take 4 (drop 12 h) @ take 4 (drop 16 h) @ drop 20 h"
proof -
  have "drop 16 h = take 4 (drop 16 h) @ drop 20 h"
    using append_take_drop_id [of 4 "drop 16 h"] by simp
  moreover have "drop 12 h = take 4 (drop 12 h) @ drop 16 h"
    using append_take_drop_id [of 4 "drop 12 h"] by simp
  moreover have "drop 8 h = take 4 (drop 8 h) @ drop 12 h"
    using append_take_drop_id [of 4 "drop 8 h"] by simp
  ultimately show ?thesis
    using append_take_drop_id [of 8 h] by simp
qed

lemma str_uuid_inj:
  assumes "u < 2 ^ 128" and "v < 2 ^ 128" and "str_uuid u = str_uuid v"
  shows "u = v"
proof (rule padded_inj [of 16 u 32 v])
  let ?h = "padded 16 32 u" and ?g = "padded 16 32 v"
  have len: "length ?h = 32" "length ?g = 32" by simp_all
  have "take 8 ?h = take 8 ?g \<and> take 4 (drop 8 ?h) = take 4 (drop 8 ?g)
      \<and> take 4 (drop 12 ?h) = take 4 (drop 12 ?g) \<and> take 4 (drop 16 ?h) = take 4 (drop 16 ?g)
      \<and> drop 20 ?h = drop 20 ?g"
    using assms(3) len unfolding str_uuid_def Let_def by simp
  then show "?h = ?g"
    using five_groups [of ?h] five_groups [of ?g] by simp
qed (use assms in \<open>simp_all\<close>)

end
