(* ===== verification/Exceptions.thy ===== *)
theory Exceptions
  imports Prelude
begin

section \<open>Errors of the service layer (app/services/exceptions.py)\<close>

text \<open>
  The exceptions the services raise, with the foreign ones they let through: the
  \<open>IntegrityError\<close> of SQLAlchemy when a constraint of the schema rejects a statement, and those
  of app/domain/cron.py and of croniter.  A fallible operation of the services
  returns a sum, the error to the left.
\<close>

datatype service_error =
    NotFoundError string
  | ConflictError string
  | AuthenticationError string
  | ForbiddenError string
  | EmailAlreadyRegisteredError string
  | IntegrityError
  | InvalidCronExpression string
  | CroniterError

text \<open>Sequencing of fallible operations.\<close>

fun bind :: "'e + 'a \<Rightarrow> ('a \<Rightarrow> 'e + 'b) \<Rightarrow> 'e + 'b" where
  "bind (Inl e) f = Inl e"
| "bind (Inr x) f = f x"

lemma bind_Inr_iff [simp]: "bind m f = Inr y \<longleftrightarrow> (\<exists>x. m = Inr x \<and> f x = Inr y)"
  by (cases m) auto

lemma bind_Inl_iff [simp]: "bind m f = Inl e \<longleftrightarrow> m = Inl e \<or> (\<exists>x. m = Inr x \<and> f x = Inl e)"
  by (cases m) auto

definition require :: "'e \<Rightarrow> 'a option \<Rightarrow> 'e + 'a" where
  "require e m = (case m of None \<Rightarrow> Inl e | Some x \<Rightarrow> Inr x)"

lemma require_simps [simp]: "require e None = Inl e" "require e (Some x) = Inr x"
  by (simp_all add: require_def)

lemma require_Inr_iff: "require e m = Inr x \<longleftrightarrow> m = Some x"
  by (cases m) auto

end
