(* ===== verification/Execution.thy ===== *)
theory Execution
  imports Job_Claim Attempt_Repo Worker_Repo Py_Text Exceptions
begin

section \<open>Worker-side operations (app/services/execution_service.py)\<close>

text \<open>
  Every function of this theory is one method of \<open>ExecutionService\<close>.  Each opens its own
  transaction; a transaction that rolls back leaves the database as it found it.  The
  argument \<open>now\<close> is the clock of the transaction (\<open>now()\<close> is constant in it).  A worker
  passes the job row it received from its claim; by the time it reports, the stored row
  may have moved on, which is what the guards of the repository are for.
\<close>

definition policy_of :: "job \<Rightarrow> RetryPolicy" where
  "policy_of j =
     \<lparr>max_attempts = j_max_attempts j, backoff_base_seconds = j_backoff_base_seconds j,
      backoff_factor = j_backoff_factor j, backoff_max_seconds = j_backoff_max_seconds j,
      strategy = j_backoff_strategy j\<rparr>"

lemma policy_of_in_range: "job_checks j \<Longrightarrow> policy_in_range (policy_of j)"
  by (simp add: job_checks_def policy_in_range_def policy_of_def)

lemma policy_of_contract: "contract j = contract k \<Longrightarrow> policy_of j = policy_of k"
  by (simp add: contract_def policy_of_def)

subsection \<open>Registration and heartbeat\<close>

definition register_worker ::
  "time \<Rightarrow> uuid \<Rightarrow> string \<Rightarrow> int \<Rightarrow> db \<Rightarrow> service_error + db" where
  "register_worker now worker_id nm n d =
     (if worker_id \<in> w_id ` set (workers d) then Inl IntegrityError
      else Inr (add_worker \<lparr>w_id = worker_id, w_name = nm, w_status = ONLINE, w_concurrency = n,
                            w_last_heartbeat_at = now, w_started_at = now, w_stopped_at = None\<rparr> d))"

definition heartbeat :: "time \<Rightarrow> uuid \<Rightarrow> int \<Rightarrow> db \<Rightarrow> nat \<times> db" where
  "heartbeat now worker_id lease_seconds d =
     (let (resurrected, d1) = worker_heartbeat now worker_id d
      in extend_leases now worker_id (real_of_int lease_seconds) d1)"

definition set_worker_status :: "time \<Rightarrow> uuid \<Rightarrow> WorkerStatus \<Rightarrow> bool \<Rightarrow> db \<Rightarrow> db" where
  "set_worker_status now worker_id status stopped d = set_status now worker_id status stopped d"

subsection \<open>Claiming\<close>

text \<open>\<open>attempt_id\<close> draws the identity of the attempt row opened for a claimed job.\<close>

definition open_attempts :: "(uuid \<Rightarrow> uuid) \<Rightarrow> claim_request \<Rightarrow> job list \<Rightarrow> db \<Rightarrow> db" where
  "open_attempts attempt_id r js d =
     fold (\<lambda>j. start (c_now r) (attempt_id (j_id j)) (j_id j) (c_worker r) (j_attempt_count j)) js d"

definition claim_jobs ::
  "(uuid \<Rightarrow> uuid) \<Rightarrow> claim_request \<Rightarrow> nat \<Rightarrow> db \<Rightarrow> job list \<times> db" where
  "claim_jobs attempt_id r limit d =
     (let (js, d1) = claim_batch r limit d
      in (js, open_attempts attempt_id r js d1))"

subsection \<open>Completion\<close>

definition complete_success :: "time \<Rightarrow> job \<Rightarrow> uuid \<Rightarrow> json option \<Rightarrow> db \<Rightarrow> bool \<times> db" where
  "complete_success now job worker_id result d =
     (case finish_success now (j_id job) worker_id result d of
        (None, _) \<Rightarrow> (False, d)
      | (Some updated, d1) \<Rightarrow>
          (True, snd (finish_attempt now (j_id job) (j_attempt_count job) A_SUCCEEDED None d1)))"

text \<open>
  \<open>complete_failure\<close> is two transactions.  The first decides and records the failure; the
  second, for a job that went to the dead-letter queue, stores the explanation of the
  failure.  \<open>bus\<close> is the summary service when an event bus is configured (\<open>None\<close> for no
  answer or any exception it raises), and \<open>env\<close> what other transactions commit between the two.
\<close>

definition record_failure ::
  "time \<Rightarrow> FailureDecision \<Rightarrow> job \<Rightarrow> uuid \<Rightarrow> string \<Rightarrow> db \<Rightarrow> bool \<times> db" where
  "record_failure now decision job worker_id err d =
     (case finish_failure now (j_id job) worker_id err (retry decision) (delay_seconds decision) d of
        (None, _) \<Rightarrow> (False, d)
      | (Some updated, d1) \<Rightarrow>
          (True, snd (finish_attempt now (j_id job) (j_attempt_count job) A_FAILED (Some err) d1)))"

definition store_summary ::
  "time \<Rightarrow> (string \<Rightarrow> string \<Rightarrow> int \<Rightarrow> string option) \<Rightarrow> job \<Rightarrow> string \<Rightarrow> db \<Rightarrow> db" where
  "store_summary now generate_summary job err d =
     (case generate_summary err (j_task_name job) (j_attempt_count job) of
        None \<Rightarrow> d
      | Some summary \<Rightarrow> if summary = '''' then d else set_ai_summary now (j_id job) summary d)"

definition complete_failure ::
  "time \<Rightarrow> real \<Rightarrow> time \<Rightarrow> (string \<Rightarrow> string \<Rightarrow> int \<Rightarrow> string option) option \<Rightarrow> (db \<Rightarrow> db)
     \<Rightarrow> job \<Rightarrow> uuid \<Rightarrow> string \<Rightarrow> db \<Rightarrow> value_error + bool \<times> db" where
  "complete_failure now u later bus env job worker_id err d =
     (case decide_failure (policy_of job) (j_attempt_count job) u of
        Inl e \<Rightarrow> Inl e
      | Inr decision \<Rightarrow>
          (case record_failure now decision job worker_id err d of
             (False, d1) \<Rightarrow> Inr (False, d1)
           | (True, d1) \<Rightarrow>
               Inr (True,
                 case bus of
                   None \<Rightarrow> d1
                 | Some generate_summary \<Rightarrow>
                     if retry decision then d1
                     else store_summary later generate_summary job err (env d1))))"

definition release_job :: "time \<Rightarrow> job \<Rightarrow> uuid \<Rightarrow> db \<Rightarrow> bool \<times> db" where
  "release_job now job worker_id d =
     (case release now (j_id job) worker_id d of
        (None, _) \<Rightarrow> (False, d)
      | (Some updated, d1) \<Rightarrow>
          (True, snd (finish_attempt now (j_id job) (j_attempt_count job) A_ABORTED
             (Some ''worker shut down before the job finished'') d1)))"

subsection \<open>The reaper\<close>

definition reap_error :: "job \<Rightarrow> string" where
  "reap_error j = ''lease expired (worker '' @ str_uuid_option (j_locked_by j)
     @ '' presumed dead after missing heartbeats)''"

text \<open>The assignments to the row the sweep holds locked; the flush refreshes \<open>updated_at\<close>.\<close>

definition reap_values :: "time \<Rightarrow> string \<Rightarrow> FailureDecision \<Rightarrow> job \<Rightarrow> job" where
  "reap_values now err decision j =
     (let j1 = j\<lparr>j_locked_by := None, j_lease_expires_at := None, j_last_error := Some err\<rparr>;
          j2 = (if retry decision
                then j1\<lparr>j_status := PENDING, j_run_at := now + interval (delay_seconds decision)\<rparr>
                else j1\<lparr>j_status := DEAD, j_finished_at := Some now\<rparr>)
      in j2\<lparr>j_updated_at := now\<rparr>)"

definition reap_job :: "time \<Rightarrow> real \<Rightarrow> job \<Rightarrow> db \<Rightarrow> value_error + db" where
  "reap_job now u j d =
     (let err = reap_error j;
          d1 = snd (finish_attempt now (j_id j) (j_attempt_count j) A_LOST (Some err) d)
      in case decide_failure (policy_of j) (j_attempt_count j) u of
           Inl e \<Rightarrow> Inl e
         | Inr decision \<Rightarrow>
             Inr (d1\<lparr>jobs := update_where (\<lambda>k. j_id k = j_id j) (reap_values now err decision) (jobs d1)\<rparr>))"

fun reap_jobs :: "time \<Rightarrow> (uuid \<Rightarrow> real) \<Rightarrow> job list \<Rightarrow> db \<Rightarrow> value_error + db" where
  "reap_jobs now rnd [] d = Inr d"
| "reap_jobs now rnd (j # js) d =
     (case reap_job now (rnd (j_id j)) j d of
        Inl e \<Rightarrow> Inl e
      | Inr d1 \<Rightarrow> reap_jobs now rnd js d1)"

text \<open>
  One sweep.  \<open>got_lock\<close> is the answer of the advisory lock, \<open>locked\<close> the rows other
  transactions hold; an exception rolls the whole sweep back.
\<close>

definition reap_once ::
  "bool \<Rightarrow> time \<Rightarrow> (uuid \<Rightarrow> real) \<Rightarrow> (uuid \<Rightarrow> bool) \<Rightarrow> int \<Rightarrow> db \<Rightarrow> value_error + nat \<times> db" where
  "reap_once got_lock now rnd locked offline_after_seconds d =
     (if \<not> got_lock then Inr (0, d)
      else let expired = select_expired_for_update now locked 100 d
           in case reap_jobs now rnd expired d of
                Inl e \<Rightarrow> Inl e
              | Inr d1 \<Rightarrow> Inr (length expired, snd (mark_stale_offline now offline_after_seconds d1)))"


subsection \<open>Tables the operations leave alone\<close>

lemma open_attempts_eq:
  "open_attempts aid r js d = d\<lparr>attempts := attempts d @
     map (\<lambda>j. \<lparr>a_id = aid (j_id j), a_job_id = j_id j, a_worker_id = Some (c_worker r),
       a_attempt_number = j_attempt_count j, a_status = A_RUNNING, a_error = None,
       a_started_at = c_now r, a_finished_at = None\<rparr>) js\<rparr>"
  unfolding open_attempts_def by (induction js arbitrary: d) (simp_all add: start_def)

lemma heartbeat_jobs:
  "jobs (snd (heartbeat now w n d)) = update_where (held_by w)
     (\<lambda>j. j\<lparr>j_lease_expires_at := Some (now + n * 1000000), j_updated_at := now\<rparr>) (jobs d)"
  "attempts (snd (heartbeat now w n d)) = attempts d"
  by (simp_all add: heartbeat_def extend_leases_def worker_heartbeat_def Let_def split_beta)

subsection \<open>Fenced completion: lost and held leases\<close>

text \<open>What every completion method does with the answer of its guarded update.\<close>

lemma guarded_update_case:
  "(case guarded_update P f d of (None, _) \<Rightarrow> x | (Some _, d1) \<Rightarrow> F d1) =
   (if list_ex P (jobs d) then F (d\<lparr>jobs := update_where P f (jobs d)\<rparr>) else x)"
proof (cases "fst (guarded_update P f d)")
  case None
  then have "\<not> list_ex P (jobs d)" by (simp add: guarded_update_None_iff list_ex_iff)
  with None show ?thesis by (cases "guarded_update P f d") simp
next
  case (Some k)
  then have "list_ex P (jobs d)" by (auto simp: list_ex_iff elim: guarded_update_Some)
  moreover have "guarded_update P f d = (Some k, d\<lparr>jobs := update_where P f (jobs d)\<rparr>)"
    using Some by (simp add: prod_eq_iff guarded_update_db)
  ultimately show ?thesis by simp
qed

definition holds :: "uuid \<Rightarrow> uuid \<Rightarrow> db \<Rightarrow> bool" where
  "holds w i d \<longleftrightarrow> list_ex (\<lambda>j. j_id j = i \<and> held_by w j) (jobs d)"

lemma complete_success_eq:
  "complete_success now j w res d =
     (if holds w (j_id j) d
      then (True, snd (finish_attempt now (j_id j) (j_attempt_count j) A_SUCCEEDED None
                         (snd (finish_success now (j_id j) w res d))))
      else (False, d))"
  unfolding complete_success_def finish_success_def guarded_update_case guarded_update_db holds_def ..

lemma record_failure_eq:
  "record_failure now dec j w err d =
     (if holds w (j_id j) d
      then (True, snd (finish_attempt now (j_id j) (j_attempt_count j) A_FAILED (Some err)
                         (snd (finish_failure now (j_id j) w err (retry dec) (delay_seconds dec) d))))
      else (False, d))"
  unfolding record_failure_def finish_failure_def guarded_update_case guarded_update_db holds_def ..

lemma release_job_eq:
  "release_job now j w d =
     (if holds w (j_id j) d
      then (True, snd (finish_attempt now (j_id j) (j_attempt_count j) A_ABORTED
                         (Some ''worker shut down before the job finished'')
                         (snd (release now (j_id j) w d))))
      else (False, d))"
  unfolding release_job_def release_def guarded_update_case guarded_update_db holds_def ..

lemmas completion_eqs = complete_success_eq record_failure_eq release_job_eq

lemma holds_row: "unique_on j_id (jobs d) \<Longrightarrow>
  holds w i d \<longleftrightarrow> (\<exists>j. row j_id i (jobs d) = Some j \<and> held_by w j)"
  by (auto simp: holds_def list_ex_iff row_Some_iff)

subsection \<open>The reaper as one update\<close>

text \<open>What the sweep makes of a row it holds.\<close>

definition reaped :: "time \<Rightarrow> (uuid \<Rightarrow> real) \<Rightarrow> job \<Rightarrow> job" where
  "reaped now rnd j =
     (case decide_failure (policy_of j) (j_attempt_count j) (rnd (j_id j)) of
        Inl _ \<Rightarrow> j
      | Inr decision \<Rightarrow> reap_values now (reap_error j) decision j)"

lemma reap_values_failure_values:
  "reap_values now err dec = failure_values now err (retry dec) (delay_seconds dec)"
  by (rule ext) (simp add: reap_values_def failure_values_def Let_def)

interpretation reap: job_update "\<lambda>j. j_status j = RUNNING" "reaped now rnd" "{(RUNNING, PENDING), (RUNNING, DEAD)}"
  by unfold_locales
    (auto simp: reaped_def reap_values_def transition_defs split: sum.splits)

lemma reap_jobs_result:
  assumes "unique_on j_id (jobs d)" and "set js \<subseteq> set (jobs d)" and "distinct (map j_id js)"
    and "reap_jobs now rnd js d = Inr d'"
  shows "jobs d' = update_where (\<lambda>k. j_id k \<in> j_id ` set js) (reaped now rnd) (jobs d)
    \<and> attempts d' = fold (\<lambda>j as. update_where (open_attempt (j_id j) (j_attempt_count j))
         (\<lambda>a. a\<lparr>a_status := A_LOST, a_error := Some (reap_error j), a_finished_at := Some now\<rparr>) as)
         js (attempts d)
    \<and> (\<forall>j \<in> set js. \<exists>dec. decide_failure (policy_of j) (j_attempt_count j) (rnd (j_id j)) = Inr dec)
    \<and> queues d' = queues d \<and> dependencies d' = dependencies d \<and> workers d' = workers d
    \<and> schedules d' = schedules d"
  using assms
proof (induction js arbitrary: d)
  case Nil
  then show ?case by (simp add: update_where_none)
next
  case (Cons j js)
  obtain dec where dec: "decide_failure (policy_of j) (j_attempt_count j) (rnd (j_id j)) = Inr dec"
    using Cons.prems(4) by (auto simp: reap_job_def Let_def split: sum.splits)
  define d1 where "d1 = (snd (finish_attempt now (j_id j) (j_attempt_count j) A_LOST
      (Some (reap_error j)) d))\<lparr>jobs := update_where (\<lambda>k. j_id k = j_id j)
        (reap_values now (reap_error j) dec) (jobs d)\<rparr>"
  have rest: "reap_jobs now rnd js d1 = Inr d'"
    using Cons.prems(4) dec by (simp add: reap_job_def Let_def d1_def)
  have first: "jobs d1 = update_where (\<lambda>k. j_id k = j_id j) (reaped now rnd) (jobs d)"
  proof -
    have "reap_values now (reap_error j) dec k = reaped now rnd k"
      if "k \<in> set (jobs d)" "j_id k = j_id j" for k
    proof -
      have "k = j" using that Cons.prems(1,2) by (auto dest: unique_onD)
      then show ?thesis by (simp add: reaped_def dec)
    qed
    then show ?thesis by (auto simp: d1_def update_where_def)
  qed
  have u1: "unique_on j_id (jobs d1)"
    using Cons.prems(1) by (simp add: first reap.unique_ids)
  have sub: "set js \<subseteq> set (jobs d1)"
  proof
    fix k assume k: "k \<in> set js"
    then have "k \<in> set (jobs d)" "j_id k \<noteq> j_id j"
      using Cons.prems(2,3) by (auto simp: image_iff)
    then show "k \<in> set (jobs d1)"
      unfolding first in_update_where by (intro bexI [of _ k]) auto
  qed
  have "update_where (\<lambda>k. j_id k \<in> j_id ` set js) (reaped now rnd) (jobs d1)
      = update_where (\<lambda>k. j_id k \<in> j_id ` set (j # js)) (reaped now rnd) (jobs d)"
    using Cons.prems(3) unfolding first
    by (auto simp: update_where_def reap.id_kept)
  moreover have "attempts d1 = update_where (open_attempt (j_id j) (j_attempt_count j))
      (\<lambda>a. a\<lparr>a_status := A_LOST, a_error := Some (reap_error j), a_finished_at := Some now\<rparr>) (attempts d)"
    by (simp add: d1_def finish_attempt_def)
  moreover have "queues d1 = queues d" "dependencies d1 = dependencies d" "workers d1 = workers d"
    "schedules d1 = schedules d"
    by (simp_all add: d1_def)
  ultimately show ?case
    using Cons.IH [OF u1 sub _ rest] Cons.prems(3) dec by simp
qed

lemma reap_jobs_total:
  assumes "\<forall>j \<in> set js. 1 \<le> j_attempt_count j"
  shows "\<exists>d'. reap_jobs now rnd js d = Inr d'"
  using assms
proof (induction js arbitrary: d)
  case (Cons j js)
  then obtain dec where "decide_failure (policy_of j) (j_attempt_count j) (rnd (j_id j)) = Inr dec"
    using decide_failure_total by (metis list.set_intros(1))
  then show ?case
    using Cons by (simp add: reap_job_def Let_def)
qed simp

lemma expired_subset:
  "set (select_expired_for_update now locked n d)
     \<subseteq> {j \<in> set (jobs d). lease_expired now j \<and> \<not> locked (j_id j)}"
  by (auto simp: select_expired_for_update_def dest: in_set_takeD)

lemma expired_distinct:
  "unique_on j_id (jobs d) \<Longrightarrow> distinct (map j_id (select_expired_for_update now locked n d))"
  by (auto simp: select_expired_for_update_def unique_on_def distinct_map take_map [symmetric]
      inj_on_def intro!: distinct_take dest!: in_set_takeD)

end
