(* ===== verification/Execution_Props.thy ===== *)
theory Execution_Props
  imports Execution Samples
begin

section \<open>Properties of the worker-side operations\<close>

text \<open>
  Fencing of late reports, the outcome of success, failure and shutdown, what one reaper
  sweep reclaims and what it leaves, and the runs in which the guards are not enough: the
  guards compare the status and the lease holder of the row, not the attempt.
\<close>

subsection \<open>Rows after an operation\<close>

lemma held_row:
  assumes "row j_id i (jobs d) = Some k" and "held_by w k"
  shows "holds w i d"
  using assms by (auto simp: holds_def list_ex_iff dest: row_SomeD)

lemma complete_success_row:
  assumes "row j_id (j_id j) (jobs d) = Some k" and "held_by w k"
  shows "row j_id (j_id j) (jobs (snd (complete_success now j w res d))) =
    Some (k\<lparr>j_status := SUCCEEDED, j_result := res, j_finished_at := Some now,
           j_locked_by := None, j_lease_expires_at := None, j_last_error := None,
           j_updated_at := now\<rparr>)"
  using assms held_row [OF assms]
  by (simp add: complete_success_eq finish_success_def success.by_id_self)

lemma record_failure_row:
  assumes "row j_id (j_id j) (jobs d) = Some k" and "held_by w k"
  shows "row j_id (j_id j) (jobs (snd (record_failure now dec j w err d))) =
    Some (failure_values now err (retry dec) (delay_seconds dec) k)"
  using assms held_row [OF assms]
  by (simp add: record_failure_eq finish_failure_def failure.by_id_self)

lemma release_job_row:
  assumes "row j_id (j_id j) (jobs d) = Some k" and "held_by w k"
  shows "row j_id (j_id j) (jobs (snd (release_job now j w d))) =
    Some (k\<lparr>j_status := PENDING, j_attempt_count := j_attempt_count k - 1, j_run_at := now,
           j_locked_by := None, j_lease_expires_at := None, j_updated_at := now\<rparr>)"
  using assms held_row [OF assms]
  by (simp add: release_job_eq release_def released.by_id_self)

lemma completion_other_rows:
  assumes "i \<noteq> j_id j"
  shows "row j_id i (jobs (snd (complete_success now j w res d))) = row j_id i (jobs d)"
    and "row j_id i (jobs (snd (record_failure now dec j w err d))) = row j_id i (jobs d)"
    and "row j_id i (jobs (snd (release_job now j w d))) = row j_id i (jobs d)"
  using assms
  by (simp_all add: completion_eqs finish_success_def finish_failure_def release_def
      success.by_id_other failure.by_id_other released.by_id_other)

lemma store_summary_row:
  assumes "row j_id i (jobs d) = Some k"
  obtains s t where "row j_id i (jobs (store_summary now gen j err d)) =
    Some (k\<lparr>j_ai_summary := s, j_updated_at := t\<rparr>)"
proof (cases "jobs (store_summary now gen j err d) = jobs d")
  case True
  then show ?thesis
    using assms that [where s = "j_ai_summary k" and t = "j_updated_at k"] by simp
next
  case False
  then obtain x where "jobs (store_summary now gen j err d) = update_where (\<lambda>l. j_id l = j_id j)
      (\<lambda>l. l\<lparr>j_ai_summary := Some x, j_updated_at := now\<rparr>) (jobs d)"
    by (auto simp: store_summary_def set_ai_summary_def split: option.splits if_splits)
  then have "row j_id i (jobs (store_summary now gen j err d)) = Some (if j_id k = j_id j
      then k\<lparr>j_ai_summary := Some x, j_updated_at := now\<rparr>
      else k\<lparr>j_ai_summary := j_ai_summary k, j_updated_at := j_updated_at k\<rparr>)"
    using assms by (simp add: summarised.lookup)
  then show ?thesis
    by (cases "j_id k = j_id j") (simp_all only: if_True if_False simp_thms that)
qed

text \<open>The sample: worker 50 runs job 10, attempt \<open>n\<close> of three, lease until second 40.\<close>

definition sample_exec_db :: "int \<Rightarrow> db" where
  "sample_exec_db n =
     (sample_db [sample_queue 1 None] [sample_running 10 1 50 n 40000000, sample_job 11 1] [])
       \<lparr>attempts := [\<lparr>a_id = 80, a_job_id = 10, a_worker_id = Some 50, a_attempt_number = n,
          a_status = A_RUNNING, a_error = None, a_started_at = 0, a_finished_at = None\<rparr>]\<rparr>"

definition sample_worker_request :: claim_request where
  "sample_worker_request =
     \<lparr>c_now = 1000000, c_worker = 51, c_queues = [''default''], c_lease_seconds = 30,
      c_aging_interval = 60, c_aging_max_boost = 200, c_shard_key = None,
      c_locked_jobs = (\<lambda>_. False), c_locked_queues = (\<lambda>_. False)\<rparr>"

lemma sample_exec_row:
  "row j_id 10 (jobs (sample_exec_db n)) = Some (sample_running 10 1 50 n 40000000)"
  by (simp add: sample_exec_db_def sample_defs)

lemma sample_exec_unique: "unique_on j_id (jobs (sample_exec_db n))"
  by (simp add: sample_exec_db_def sample_defs unique_on_def)

subsection \<open>Claims are audited\<close>

text \<open>A claim without an audit row cannot exist: every claimed job is held by the worker in
  the new state and has an open attempt row with its attempt number and the worker, one new
  row per claimed job, and the log before the claim is a prefix of the log after it.\<close>

theorem claim_opens_audit_rows:
  assumes "unique_on j_id (jobs d)" and "claim_jobs aid r limit d = (js, d')"
  shows "length (attempts d') = length (attempts d) + length js \<and>
    take (length (attempts d)) (attempts d') = attempts d \<and>
    (\<forall>j \<in> set js. j \<in> set (jobs d') \<and> held_by (c_worker r) j \<and>
       (\<exists>a \<in> set (attempts d'). a_id a = aid (j_id j) \<and> a_worker_id a = Some (c_worker r)
          \<and> open_attempt (j_id j) (j_attempt_count j) a))"
proof -
  obtain d1 where c: "claim_batch r limit d = (js, d1)"
    using assms(2) by (auto simp: claim_jobs_def split: prod.splits)
  have d': "d' = open_attempts aid r js d1"
    using assms(2) c by (simp add: claim_jobs_def)
  have cl: "claimed_from r (claimable r d) d js d1"
    by (rule claim_batch_claimed(1) [OF assms(1) c])
  then have old: "attempts d1 = attempts d" by (rule claimed_from_tables)
  have "j \<in> set (jobs d1) \<and> held_by (c_worker r) j" if "j \<in> set js" for j
  proof -
    from claimed_from_source [OF cl that] obtain k
      where k: "k \<in> set (jobs d)" "j = claim_values r k" by blast
    then have "j_id k \<in> j_id ` set js" using imageI [OF that, of j_id] by simp
    with k cl show ?thesis
      by (auto simp: claimed_from_def in_update_where held_by_def intro!: bexI [of _ k])
  qed
  then show ?thesis
    by (auto simp: d' open_attempts_eq old open_attempt_def Bex_def)
qed

theorem claim_opens_audit_rows_witness:
  "map j_id (fst (claim_jobs (\<lambda>i. i + 100) sample_worker_request 5 (sample_exec_db 1))) = [11] \<and>
   length (attempts (snd (claim_jobs (\<lambda>i. i + 100) sample_worker_request 5 (sample_exec_db 1)))) = 2"
proof -
  have a: "map j_id (fst (claim_jobs (\<lambda>i. i + 100) sample_worker_request 5 (sample_exec_db 1))) = [11]"
    by code_simp
  then have "length (fst (claim_jobs (\<lambda>i. i + 100) sample_worker_request 5 (sample_exec_db 1))) = 1"
    by (metis length_map list.size(3,4) One_nat_def add.left_neutral plus_1_eq_Suc)
  with a claim_opens_audit_rows [OF sample_exec_unique prod.collapse [symmetric],
      of "\<lambda>i. i + 100" sample_worker_request 5 1]
  show ?thesis by (simp add: sample_exec_db_def)
qed

subsection \<open>Fencing\<close>

text \<open>C11: A worker that lost its lease changes nothing: when no stored row of the job is RUNNING
  under this worker, reporting success, reporting failure and releasing the job all answer
  False and leave the whole database as it is, whatever the worker's own copy of the job says.\<close>

theorem lost_lease_changes_nothing:
  assumes "\<forall>k \<in> set (jobs d). j_id k = j_id j \<longrightarrow> j_status k \<noteq> RUNNING \<or> j_locked_by k \<noteq> Some w"
    and "1 \<le> j_attempt_count j"
  shows "complete_success now j w res d = (False, d) \<and> release_job now j w d = (False, d) \<and>
    complete_failure now u later bus env j w err d = Inr (False, d)"
proof -
  have "\<not> holds w (j_id j) d" using assms(1) by (auto simp: holds_def held_by_def list_ex_iff)
  moreover obtain dec where "decide_failure (policy_of j) (j_attempt_count j) u = Inr dec"
    using decide_failure_total [OF assms(2)] by blast
  ultimately show ?thesis by (simp add: completion_eqs complete_failure_def)
qed

theorem lost_lease_changes_nothing_witness:
  "complete_success 9 (sample_running 10 1 51 1 40000000) 51 None (sample_exec_db 1)
     = (False, sample_exec_db 1)"
proof -
  have "\<forall>k \<in> set (jobs (sample_exec_db 1)). j_id k = j_id (sample_running 10 1 51 1 40000000) \<longrightarrow>
      j_status k \<noteq> RUNNING \<or> j_locked_by k \<noteq> Some 51" by code_simp
  moreover have "1 \<le> j_attempt_count (sample_running 10 1 51 1 40000000)" by code_simp
  ultimately show ?thesis
    using lost_lease_changes_nothing [where w = 51 and j = "sample_running 10 1 51 1 40000000" and d = "sample_exec_db 1"]
    by blast
qed

subsection \<open>Outcomes\<close>

text \<open>C13: The outcome of a failure: the attempt below the budget sends the job back to PENDING,
  due after the capped backoff plus at most a fifth of jitter; the last attempt sends it to
  the dead-letter queue.  The lease is cleared and the error kept in both cases, and the
  explanation that may be stored afterwards changes none of this.\<close>

theorem failure_outcome:
  assumes "row j_id (j_id j) (jobs d) = Some k" and "held_by w k"
    and "contract j = contract k" and "job_checks k" and "1 \<le> j_attempt_count j"
    and "0 \<le> u" and "u < 1"
  shows "\<exists>d' k'. complete_failure now u later bus (\<lambda>x. x) j w err d = Inr (True, d') \<and>
    row j_id (j_id j) (jobs d') = Some k' \<and> j_locked_by k' = None \<and>
    j_lease_expires_at k' = None \<and> j_last_error k' = Some err \<and>
    (if j_attempt_count j < j_max_attempts k
     then j_status k' = PENDING \<and>
       now + interval (capped_backoff (policy_of k) (j_attempt_count j)) \<le> j_run_at k' \<and>
       j_run_at k' \<le> now + interval (6 / 5 * capped_backoff (policy_of k) (j_attempt_count j))
     else j_status k' = DEAD \<and> j_finished_at k' = Some now)"
proof -
  let ?n = "j_attempt_count j" and ?c = "capped_backoff (policy_of k) (j_attempt_count j)"
  obtain dec where dec: "decide_failure (policy_of j) ?n u = Inr dec"
    using decide_failure_total [OF assms(5)] by blast
  have pol: "policy_of j = policy_of k" by (rule policy_of_contract [OF assms(3)])
  have c: "0 \<le> ?c"
    using capped_backoff_bounds [OF policy_of_in_range [OF assms(4)] assms(5)] by simp
  define d1 where "d1 = snd (record_failure now dec j w err d)"
  have first: "record_failure now dec j w err d = (True, d1)"
    unfolding d1_def using held_row [OF assms(1,2)] by (simp add: record_failure_eq)
  define f where "f = failure_values now err (retry dec) (delay_seconds dec) k"
  have row1: "row j_id (j_id j) (jobs d1) = Some f"
    unfolding d1_def f_def by (rule record_failure_row [OF assms(1,2)])
  obtain d' s t where fin: "complete_failure now u later bus (\<lambda>x. x) j w err d = Inr (True, d')"
    and row': "row j_id (j_id j) (jobs d') = Some (f\<lparr>j_ai_summary := s, j_updated_at := t\<rparr>)"
  proof (cases "\<exists>gen. bus = Some gen \<and> \<not> retry dec")
    case True
    then obtain gen where gen: "bus = Some gen" "\<not> retry dec" by blast
    obtain s t where "row j_id (j_id j) (jobs (store_summary later gen j err d1)) =
        Some (f\<lparr>j_ai_summary := s, j_updated_at := t\<rparr>)"
      by (rule store_summary_row [OF row1])
    moreover have "complete_failure now u later bus (\<lambda>x. x) j w err d =
        Inr (True, store_summary later gen j err d1)"
      using dec first gen by (simp add: complete_failure_def)
    ultimately show thesis by (rule that [rotated])
  next
    case False
    then have "complete_failure now u later bus (\<lambda>x. x) j w err d = Inr (True, d1)"
      using dec first by (auto simp: complete_failure_def split: option.splits)
    then show thesis
      using that [where s = "j_ai_summary f" and t = "j_updated_at f"] row1 by simp
  qed
  have "?n < j_max_attempts k \<Longrightarrow> retry dec \<and> delay_seconds dec = ?c * (1 + u / 5)"
    using dec decide_failure_retry [OF assms(5), of "policy_of k" u] unfolding pol
    by (simp add: policy_of_def)
  moreover have "\<not> ?n < j_max_attempts k \<Longrightarrow> \<not> retry dec"
    using dec decide_failure_dead [of "policy_of k" ?n u] unfolding pol by (simp add: policy_of_def)
  moreover have "interval ?c \<le> interval (?c * (1 + u / 5))"
    and "interval (?c * (1 + u / 5)) \<le> interval (6 / 5 * ?c)"
    using c assms(6,7) by (auto intro!: interval_mono mult_left_le_one_le simp: algebra_simps)
  ultimately show ?thesis
    using fin row' by (auto simp: f_def failure_values_def Let_def)
qed

theorem failure_outcome_witness:
  "\<exists>d' k'. complete_failure 5000000 (1 / 2) 0 None (\<lambda>x. x) (sample_running 10 1 50 3 40000000) 50
       ''boom'' (sample_exec_db 3) = Inr (True, d') \<and>
     row j_id 10 (jobs d') = Some k' \<and> j_status k' = DEAD"
proof -
  let ?j = "sample_running 10 1 50 3 40000000"
  have id: "j_id ?j = 10" by (simp add: sample_defs)
  have "row j_id (j_id ?j) (jobs (sample_exec_db 3)) = Some ?j"
    unfolding id by (rule sample_exec_row)
  moreover have "held_by 50 ?j" and "job_checks ?j" and "1 \<le> j_attempt_count ?j"
    and "\<not> j_attempt_count ?j < j_max_attempts ?j"
    by (simp_all add: sample_defs held_by_def job_checks_def)
  ultimately show ?thesis
    using failure_outcome [of ?j "sample_exec_db 3" ?j 50 "1 / 2" 5000000 0 None "''boom''"]
    unfolding id by auto
qed

text \<open>C19: A clean shutdown costs the job nothing: releasing a job the worker has just claimed
  answers True and puts the row back as it was before the claim, attempt count and status
  included, except that it is due at once and remembers when it was started.\<close>

theorem release_undoes_claim:
  assumes "row j_id (j_id j) (jobs d) = Some (claim_values r j0)" and "lease_ok j0"
    and "j_status j0 = PENDING"
  shows "\<exists>d'. release_job now j (c_worker r) d = (True, d') \<and>
    row j_id (j_id j) (jobs d') =
      Some (j0\<lparr>j_run_at := now, j_started_at := Some (c_now r), j_updated_at := now\<rparr>)"
proof -
  have held: "held_by (c_worker r) (claim_values r j0)" by (simp add: held_by_def)
  have "fst (release_job now j (c_worker r) d) = True"
    using held_row [OF assms(1) held] by (simp add: release_job_eq)
  moreover have "row j_id (j_id j) (jobs (snd (release_job now j (c_worker r) d))) =
      Some (j0\<lparr>j_run_at := now, j_started_at := Some (c_now r), j_updated_at := now\<rparr>)"
    using release_job_row [OF assms(1) held, of now] assms(2,3)
    by (simp add: claim_values_def lease_ok_def)
  ultimately show ?thesis by (metis prod.collapse)
qed

theorem release_undoes_claim_witness:
  "\<exists>d'. release_job 5000000 (sample_job 10 1) 51
       ((sample_exec_db 1)\<lparr>jobs := [claim_values sample_worker_request (sample_job 10 1)]\<rparr>) = (True, d') \<and>
     row j_id 10 (jobs d') =
       Some ((sample_job 10 1)\<lparr>j_run_at := 5000000, j_started_at := Some 1000000, j_updated_at := 5000000\<rparr>)"
proof -
  have id: "j_id (sample_job 10 1) = 10" and w: "c_worker sample_worker_request = 51"
    and t: "c_now sample_worker_request = 1000000"
    by (simp_all add: sample_job_def sample_worker_request_def)
  show ?thesis
    using release_undoes_claim [of "sample_job 10 1"
        "(sample_exec_db 1)\<lparr>jobs := [claim_values sample_worker_request (sample_job 10 1)]\<rparr>"
        sample_worker_request "sample_job 10 1" 5000000]
    by (simp add: id w t lease_ok_def sample_job_def)
qed

subsection \<open>The reaper\<close>

lemma count_take_expired:
  "length (select_expired_for_update now locked n d) =
     min n (count_where (\<lambda>j. lease_expired now j \<and> \<not> locked (j_id j)) (jobs d))"
  by (simp add: select_expired_for_update_def count_where_def min.commute)

lemma row_kept_lost:
  "row_kept a (if P a \<and> a_status a = A_RUNNING
     then a\<lparr>a_status := s, a_error := e, a_finished_at := f\<rparr> else a)"
  by (simp add: row_kept_def)

lemma log_extends_lost:
  "log_extends as (fold (\<lambda>j as. update_where (open_attempt (j_id j) (j_attempt_count j))
     (\<lambda>a. a\<lparr>a_status := s, a_error := e j, a_finished_at := t\<rparr>) as) js as)"
proof (induction js arbitrary: as)
  case (Cons j js)
  have "log_extends as (update_where (open_attempt (j_id j) (j_attempt_count j))
      (\<lambda>a. a\<lparr>a_status := s, a_error := e j, a_finished_at := t\<rparr>) as)"
    by (auto simp: log_extends_def update_where_def list.rel_map row_kept_def
        open_attempt_def intro!: list.rel_refl_strong)
  then show ?case using Cons.IH by (auto intro: log_extends_trans)
qed simp

lemma reap_once_result:
  assumes "unique_on j_id (jobs d)" and "reap_once True now rnd locked off d = Inr (n, d')"
  defines "ex \<equiv> select_expired_for_update now locked 100 d"
  shows "n = length ex"
    and "jobs d' = update_where (\<lambda>k. j_id k \<in> j_id ` set ex) (reaped now rnd) (jobs d)"
    and "log_extends (attempts d) (attempts d')"
    and "queues d' = queues d" and "dependencies d' = dependencies d"
    and "schedules d' = schedules d"
    and "\<forall>j \<in> set ex. \<exists>dec. decide_failure (policy_of j) (j_attempt_count j) (rnd (j_id j)) = Inr dec"
proof -
  obtain d1 where r: "reap_jobs now rnd ex d = Inr d1"
    and d': "d' = snd (mark_stale_offline now off d1)" and n: "n = length ex"
    using assms(2) by (auto simp: reap_once_def ex_def Let_def split: sum.splits)
  have sub: "set ex \<subseteq> set (jobs d)" unfolding ex_def using expired_subset by fast
  note res = reap_jobs_result [OF assms(1) sub _ r]
  have dist: "distinct (map j_id ex)" unfolding ex_def by (rule expired_distinct [OF assms(1)])
  show "n = length ex" by (rule n)
  show "jobs d' = update_where (\<lambda>k. j_id k \<in> j_id ` set ex) (reaped now rnd) (jobs d)"
    and "queues d' = queues d" and "dependencies d' = dependencies d" and "schedules d' = schedules d"
    and "\<forall>j \<in> set ex. \<exists>dec. decide_failure (policy_of j) (j_attempt_count j) (rnd (j_id j)) = Inr dec"
    using res [OF dist] by (simp_all add: d')
  show "log_extends (attempts d) (attempts d')"
    using res [OF dist] by (simp add: d' log_extends_lost)
qed



lemma heartbeat_then_sweep:
  assumes "unique_on j_id (jobs d)" and "j \<in> set (jobs d)" and "held_by w j"
    and "snd (heartbeat now w lease d) = d1" and "later \<le> now + lease * 1000000"
    and "reap_once got_lock later rnd locked off d1 = Inr (n, d2)"
  shows "row j_id (j_id j) (jobs d2) =
    Some (j\<lparr>j_lease_expires_at := Some (now + lease * 1000000), j_updated_at := now\<rparr>)"
proof -
  let ?k = "j\<lparr>j_lease_expires_at := Some (now + lease * 1000000), j_updated_at := now\<rparr>"
  have jobs1: "jobs d1 = update_where (held_by w)
      (\<lambda>j. j\<lparr>j_lease_expires_at := Some (now + lease * 1000000), j_updated_at := now\<rparr>) (jobs d)"
    using assms(4) heartbeat_jobs(1) by blast
  have u1: "unique_on j_id (jobs d1)"
    unfolding jobs1 using assms(1) by (simp add: heartbeat.unique_ids)
  have k: "?k \<in> set (jobs d1)"
    unfolding jobs1 in_update_where using assms(2,3) by (intro bexI [of _ j]) simp_all
  have row1: "row j_id (j_id j) (jobs d1) = Some ?k"
    using row_of_member [OF u1 k] by simp
  show ?thesis
  proof (cases got_lock)
    case False
    then show ?thesis using assms(6) row1 by (simp add: reap_once_def)
  next
    case True
    then have run: "reap_once True later rnd locked off d1 = Inr (n, d2)" using assms(6) by simp
    let ?ex = "select_expired_for_update later locked 100 d1"
    have sub: "set ?ex \<subseteq> set (jobs d1)" using expired_subset by fast
    have "\<not> lease_expired later ?k" using assms(5) by (simp add: lease_expired_def)
    then have "?k \<notin> set ?ex" using expired_subset by blast
    then have "j_id ?k \<notin> j_id ` set ?ex" using filter_keys_eq [OF u1 sub k] by simp
    then show ?thesis
      using row1 by (simp add: reap_once_result(2) [OF u1 run] reap.lookup)
  qed
qed

text \<open>A heartbeat protects the worker's jobs: after it, a sweep at any clock up to the end of
  the extended lease leaves every job the worker holds exactly as the heartbeat left it.\<close>

theorem heartbeat_protects_leases:
  assumes "unique_on j_id (jobs d)" and "j \<in> set (jobs d)" and "held_by w j"
    and "snd (heartbeat now w lease d) = d1" and "later \<le> now + lease * 1000000"
    and "reap_once got_lock later rnd locked off d1 = Inr (n, d2)"
  shows "row j_id (j_id j) (jobs d2) =
    Some (j\<lparr>j_lease_expires_at := Some (now + lease * 1000000), j_updated_at := now\<rparr>)"
  using assms by (rule heartbeat_then_sweep)

theorem heartbeat_protects_leases_witness:
  "\<exists>n d2. reap_once True 60000000 (\<lambda>_. 0) (\<lambda>_. False) 60
        (snd (heartbeat 39000000 50 30 (sample_exec_db 1))) = Inr (n, d2) \<and>
     row j_id 10 (jobs d2) =
       Some ((sample_running 10 1 50 1 40000000)\<lparr>j_lease_expires_at := Some 69000000, j_updated_at := 39000000\<rparr>)"
proof -
  let ?j = "sample_running 10 1 50 1 40000000" and ?d = "snd (heartbeat 39000000 50 30 (sample_exec_db 1))"
  have j: "?j \<in> set (jobs (sample_exec_db 1))" "held_by 50 ?j" by code_simp+
  have id: "j_id ?j = 10" by (simp add: sample_defs)
  have "select_expired_for_update 60000000 (\<lambda>_. False) 100 ?d = []" by code_simp
  then obtain n d2 where r: "reap_once True 60000000 (\<lambda>_. 0) (\<lambda>_. False) 60 ?d = Inr (n, d2)"
    by (simp add: reap_once_def)
  from heartbeat_protects_leases [OF sample_exec_unique j refl _ r] r show ?thesis
    unfolding id by simp
qed

text \<open>C18: The reaper and the failure path agree: reclaiming a job does to the jobs table what the
  worker's own failure report with the same text and the same draw would have done; the log
  differs only in the verdict, LOST instead of FAILED.\<close>

theorem reaper_agrees_with_failure_report:
  assumes "unique_on j_id (jobs d)" and "k \<in> set (jobs d)" and "held_by w k"
    and "1 \<le> j_attempt_count k"
  shows "\<exists>d1 d2. reap_job now u k d = Inr d1 \<and>
    complete_failure now u later None env k w (reap_error k) d = Inr (True, d2) \<and>
    jobs d1 = jobs d2 \<and>
    list_all2 (\<lambda>a b. b = a \<or> a_status a = A_LOST \<and> b = a\<lparr>a_status := A_FAILED\<rparr>)
      (attempts d1) (attempts d2)"
proof -
  obtain dec where dec: "decide_failure (policy_of k) (j_attempt_count k) u = Inr dec"
    using decide_failure_total [OF assms(4)] by blast
  have held: "holds w (j_id k) d" using assms(2,3) by (auto simp: holds_def list_ex_iff)
  have "j_id x = j_id k \<longleftrightarrow> j_id x = j_id k \<and> held_by w x" if "x \<in> set (jobs d)" for x
    using unique_onD [OF assms(1) that assms(2)] assms(3) by blast
  then have "update_where (\<lambda>x. j_id x = j_id k) f (jobs d) =
      update_where (\<lambda>x. j_id x = j_id k \<and> held_by w x) f (jobs d)" for f
    by (rule update_where_cong)
  then show ?thesis
    using dec held
    by (auto simp: reap_job_def Let_def complete_failure_def record_failure_eq
        finish_failure_def guarded_update_db reap_values_failure_values finish_attempt_def
        update_where_def list.rel_map intro!: list.rel_refl_strong)
qed

theorem reaper_agrees_with_failure_report_witness:
  "\<exists>d1 d2. reap_job 50000000 0 (sample_running 10 1 50 2 40000000) (sample_exec_db 2) = Inr d1 \<and>
     complete_failure 50000000 0 0 None id (sample_running 10 1 50 2 40000000) 50
       (reap_error (sample_running 10 1 50 2 40000000)) (sample_exec_db 2) = Inr (True, d2) \<and>
     jobs d1 = jobs d2"
proof -
  let ?j = "sample_running 10 1 50 2 40000000"
  have "?j \<in> set (jobs (sample_exec_db 2))" "held_by 50 ?j" "1 \<le> j_attempt_count ?j" by code_simp+
  then show ?thesis
    using reaper_agrees_with_failure_report [OF sample_exec_unique, of ?j 2 50 50000000 0 0 id] by blast
qed

subsection \<open>Poison jobs\<close>

text \<open>One round of a job that kills its worker: a claim hands it out, nobody reports, and a sweep
  after the lease has expired reclaims it.\<close>

definition poison_round :: "uuid \<Rightarrow> db \<Rightarrow> db \<Rightarrow> bool" where
  "poison_round i d d' \<longleftrightarrow>
     (\<exists>aid r limit js d1 now rnd locked off n.
        claim_jobs aid r limit d = (js, d1) \<and> i \<in> j_id ` set js \<and>
        c_now r + interval (c_lease_seconds r) < now \<and> \<not> locked i \<and>
        reap_once True now rnd locked off d1 = Inr (n, d') \<and> n < 100)"

lemma poison_roundI:
  "i \<in> j_id ` set (fst (claim_jobs aid r limit d)) \<Longrightarrow>
   c_now r + interval (c_lease_seconds r) < now \<Longrightarrow> \<not> locked i \<Longrightarrow> n < 100 \<Longrightarrow>
   reap_once True now rnd locked off (snd (claim_jobs aid r limit d)) = Inr (n, d') \<Longrightarrow>
   poison_round i d d'"
  unfolding poison_round_def by (metis prod.collapse)

lemma claim_jobs_jobs:
  assumes "claim_jobs aid r limit d = (js, d')"
  shows "\<exists>d1. claim_batch r limit d = (js, d1) \<and> jobs d' = jobs d1"
  using assms by (auto simp: claim_jobs_def open_attempts_eq split: prod.splits)

lemma claim_jobs_row:
  assumes "unique_on j_id (jobs d)" and "claim_jobs aid r limit d = (js, d')"
    and "i \<in> j_id ` set js" and "row j_id i (jobs d) = Some j"
  shows "unique_on j_id (jobs d')" and "row j_id i (jobs d') = Some (claim_values r j)"
    and "j_status j = PENDING"
proof -
  obtain d1 where c: "claim_batch r limit d = (js, d1)" and jobs: "jobs d' = jobs d1"
    using claim_jobs_jobs [OF assms(2)] by blast
  note cl = claim_batch_claimed(1) [OF assms(1) c]
  have jobs1: "jobs d1 = update_where (\<lambda>k. j_id k \<in> j_id ` set js) (claim_values r) (jobs d)"
    using cl by (simp add: claimed_from_def)
  show "unique_on j_id (jobs d')"
    using assms(1) by (simp add: jobs jobs1 claim.unique_ids)
  have id: "j_id j = i" and mem: "j \<in> set (jobs d)" using row_SomeD [OF assms(4)] by auto
  show "row j_id i (jobs d') = Some (claim_values r j)"
    using assms(3,4) id by (simp add: jobs jobs1 claim.lookup)
  from assms(3) obtain c where "c \<in> set js" "j_id c = i" by blast
  with claimed_from_source [OF cl] obtain k
    where "k \<in> set (jobs d)" "j_id k = i" "claimable r d k" by fastforce
  then show "j_status j = PENDING"
    using unique_onD [OF assms(1) mem, of k] id by (simp add: claimable_def ready_def)
qed

lemma reap_once_row:
  assumes "unique_on j_id (jobs d)" and "reap_once True now rnd locked off d = Inr (n, d')"
    and "n < 100" and "row j_id i (jobs d) = Some k" and "lease_expired now k" and "\<not> locked i"
  shows "row j_id i (jobs d') = Some (reaped now rnd k)"
    and "\<exists>dec. decide_failure (policy_of k) (j_attempt_count k) (rnd i) = Inr dec"
proof -
  note res = reap_once_result [OF assms(1,2)]
  have k: "k \<in> set (jobs d)" "j_id k = i" using row_SomeD [OF assms(4)] by auto
  have "length (filter (\<lambda>j. lease_expired now j \<and> \<not> locked (j_id j)) (jobs d)) < 100"
    using res(1) assms(3) by (simp add: count_take_expired count_where_def)
  then have ex: "k \<in> set (select_expired_for_update now locked 100 d)"
    using k assms(5,6) by (simp add: select_expired_for_update_def)
  have "i \<in> j_id ` set (select_expired_for_update now locked 100 d)"
    using imageI [OF ex, of j_id] k by simp
  then show "row j_id i (jobs d') = Some (reaped now rnd k)"
    using assms(4) k by (simp add: res(2) reap.lookup)
  show "\<exists>dec. decide_failure (policy_of k) (j_attempt_count k) (rnd i) = Inr dec"
    using res(7) ex k by blast
qed

lemma poison_round_row:
  assumes "unique_on j_id (jobs d)" and "poison_round i d d'" and "row j_id i (jobs d) = Some j"
  shows "unique_on j_id (jobs d') \<and> j_status j = PENDING \<and>
    (\<exists>k. row j_id i (jobs d') = Some k \<and> contract k = contract j \<and>
       j_attempt_count k = j_attempt_count j + 1 \<and>
       j_status k = (if j_attempt_count k < j_max_attempts j then PENDING else DEAD))"
proof -
  from assms(2) obtain aid r limit js d1 now rnd locked off n
    where c: "claim_jobs aid r limit d = (js, d1)" "i \<in> j_id ` set js"
      and late: "c_now r + interval (c_lease_seconds r) < now" "\<not> locked i"
      and s: "reap_once True now rnd locked off d1 = Inr (n, d')" "n < 100"
    by (auto simp: poison_round_def)
  note cl = claim_jobs_row [OF assms(1) c assms(3)]
  have "lease_expired now (claim_values r j)" using late(1) by (simp add: lease_expired_def)
  note sweep = reap_once_row [OF cl(1) s cl(2) this late(2)]
  from sweep(2) obtain dec
    where dec: "decide_failure (policy_of (claim_values r j)) (j_attempt_count j + 1) (rnd i) = Inr dec"
    by auto
  have pol: "max_attempts (policy_of (claim_values r j)) = j_max_attempts j"
    by (simp add: policy_of_def claim_values_def)
  have "j_id j = i" using row_SomeD [OF assms(3)] by simp
  then have "reaped now rnd (claim_values r j) =
      reap_values now (reap_error (claim_values r j)) dec (claim_values r j)"
    using dec by (simp add: reaped_def)
  moreover have "retry dec \<longleftrightarrow> j_attempt_count j + 1 < j_max_attempts j"
    using decide_failure_retry_iff [OF dec] by (simp add: pol)
  moreover have "contract (reaped now rnd (claim_values r j)) = contract j"
    by (simp add: reap.contract_kept claim.contract_kept)
  ultimately show ?thesis
    using sweep(1) cl reap_once_result(2) [OF cl(1) s(1)]
    by (auto simp: reap_values_def Let_def reap.unique_ids)
qed

text \<open>C14: A poison job converges to the dead-letter queue: a job that takes its worker down every
  time it is claimed can be claimed only as often as its attempt budget allows, spends one
  attempt per round, stays PENDING while attempts are left and is DEAD after the last.\<close>

theorem poison_job_dies:
  assumes "unique_on j_id (jobs d)" and "row j_id i (jobs d) = Some j"
    and "j_attempt_count j < j_max_attempts j" and "(poison_round i ^^ m) d d'"
  shows "int m \<le> j_max_attempts j - j_attempt_count j \<and>
    (\<exists>k. row j_id i (jobs d') = Some k \<and> j_attempt_count k = j_attempt_count j + int m \<and>
       j_max_attempts k = j_max_attempts j \<and>
       (0 < m \<longrightarrow> j_status k = (if j_attempt_count k < j_max_attempts k then PENDING else DEAD)))"
proof -
  have "unique_on j_id (jobs d') \<and> int m \<le> j_max_attempts j - j_attempt_count j \<and>
    (\<exists>k. row j_id i (jobs d') = Some k \<and> j_attempt_count k = j_attempt_count j + int m \<and>
       j_max_attempts k = j_max_attempts j \<and>
       (0 < m \<longrightarrow> j_status k = (if j_attempt_count k < j_max_attempts k then PENDING else DEAD)))"
    using assms(4)
  proof (induction m arbitrary: d')
    case 0
    then show ?case using assms(1-3) by auto
  next
    case (Suc m)
    then obtain e where e: "(poison_round i ^^ m) d e" "poison_round i e d'" by auto
    from Suc.IH [OF e(1)] obtain k where u: "unique_on j_id (jobs e)"
      and k: "row j_id i (jobs e) = Some k" "j_attempt_count k = j_attempt_count j + int m"
        "j_max_attempts k = j_max_attempts j"
        "0 < m \<longrightarrow> j_status k = (if j_attempt_count k < j_max_attempts k then PENDING else DEAD)"
      by auto
    from poison_round_row [OF u e(2) k(1)] obtain l where l: "unique_on j_id (jobs d')"
        "j_status k = PENDING" "row j_id i (jobs d') = Some l" "contract l = contract k"
        "j_attempt_count l = j_attempt_count k + 1"
        "j_status l = (if j_attempt_count l < j_max_attempts k then PENDING else DEAD)"
      by auto
    have "j_attempt_count k < j_max_attempts j"
      using k l(2) assms(3) by (cases "0 < m") (auto split: if_splits)
    then show ?case
      using k l contract_fields(6) [OF l(4)] by auto
  qed
  then show ?thesis by blast
qed

theorem poison_job_dies_witness:
  "\<exists>d' k. (poison_round 11 ^^ 1) (sample_exec_db 1) d' \<and> row j_id 11 (jobs d') = Some k \<and>
     j_status k = PENDING \<and> j_attempt_count k = 1"
proof -
  let ?d = "sample_exec_db 1"
  let ?d1 = "snd (claim_jobs id sample_worker_request 5 ?d)"
  have c: "11 \<in> j_id ` set (fst (claim_jobs id sample_worker_request 5 ?d))"
    and late: "c_now sample_worker_request + interval (c_lease_seconds sample_worker_request) < 35000000"
    by code_simp+
  have "length (select_expired_for_update 35000000 (\<lambda>_. False) 100 ?d1) = 1"
    and pos: "\<forall>j \<in> set (select_expired_for_update 35000000 (\<lambda>_. False) 100 ?d1). 1 \<le> j_attempt_count j"
    by code_simp+
  moreover obtain d2 where "reap_jobs 35000000 (\<lambda>_. 0)
      (select_expired_for_update 35000000 (\<lambda>_. False) 100 ?d1) ?d1 = Inr d2"
    using reap_jobs_total [OF pos] by blast
  ultimately obtain d' where "reap_once True 35000000 (\<lambda>_. 0) (\<lambda>_. False) 60 ?d1 = Inr (1, d')"
    by (simp add: reap_once_def)
  then have "poison_round 11 ?d d'"
    using poison_roundI [OF c late, of "\<lambda>_. False" 1 "\<lambda>_. 0" 60 d'] by simp
  then have r: "(poison_round 11 ^^ 1) ?d d'" by (simp only: relpowp_1)
  have "row j_id 11 (jobs ?d) = Some (sample_job 11 1)"
    by (simp add: sample_exec_db_def sample_defs)
  moreover have "j_attempt_count (sample_job 11 1) = 0" "j_max_attempts (sample_job 11 1) = 3"
    by (simp_all add: sample_job_def)
  ultimately show ?thesis
    using poison_job_dies [OF sample_exec_unique _ _ r, of "sample_job 11 1"] r by auto
qed

lemma complete_failure_retried:
  "holds w (j_id j) d \<Longrightarrow> decide_failure (policy_of j) (j_attempt_count j) u = Inr dec \<Longrightarrow>
   retry dec \<Longrightarrow>
   complete_failure now u later bus env j w err d = Inr (True, snd (record_failure now dec j w err d))"
  by (simp add: complete_failure_def record_failure_eq split: option.splits)

subsection \<open>Where the guards stop: reports of an earlier attempt of the same worker\<close>

text \<open>
  Worker 50 stalls past its lease, the reaper returns job 10 to PENDING, and worker 50 claims
  it again while its first execution is still running.
\<close>

definition stalled_db :: "int \<Rightarrow> value_error + nat \<times> db" where
  "stalled_db n = reap_once True 50000000 (\<lambda>_. 0) (\<lambda>_. False) 60 (sample_exec_db n)"

definition sample_second_request :: claim_request where
  "sample_second_request = sample_worker_request\<lparr>c_now := 90000000, c_worker := 50\<rparr>"

definition reclaimed_db :: "int \<Rightarrow> job list \<times> db" where
  "reclaimed_db n =
     (case stalled_db n of Inl _ \<Rightarrow> ([], empty_db)
      | Inr (_, d) \<Rightarrow> claim_jobs (\<lambda>i. i + 100) sample_second_request 5 d)"

text \<open>The guards compare the lease holder, not the attempt: when the worker that lost a job
  claims it again, the report of its first execution is accepted for the second.  The job is
  SUCCEEDED while the audit row of the attempt that holds it stays open for good, and the
  second execution's own report is then rejected.\<close>

theorem stale_report_accepted:
  "\<exists>d first second d'. db_keys d \<and> holds 50 10 d \<and>
     j_id first = 10 \<and> j_attempt_count first = 1 \<and> j_id second = 10 \<and> j_attempt_count second = 2 \<and>
     row j_id 10 (jobs d) = Some second \<and>
     complete_success 91000000 first 50 None d = (True, d') \<and>
     (\<exists>k. row j_id 10 (jobs d') = Some k \<and> j_status k = SUCCEEDED) \<and>
     (\<exists>a \<in> set (attempts d'). open_attempt 10 2 a) \<and>
     complete_success 92000000 second 50 None d' = (False, d')"
proof -
  let ?d = "snd (reclaimed_db 1)" and ?first = "sample_running 10 1 50 1 40000000"
  let ?d' = "snd (complete_success 91000000 ?first 50 None ?d)"
  let ?second = "the (row j_id 10 (jobs ?d))"
  have "db_keys ?d" by code_simp
  moreover have "holds 50 10 ?d" by code_simp
  moreover have "j_id ?first = 10" "j_attempt_count ?first = 1" by code_simp+
  moreover have "j_id ?second = 10" "j_attempt_count ?second = 2" by code_simp+
  moreover have "row j_id 10 (jobs ?d) \<noteq> None" by code_simp
  then have "row j_id 10 (jobs ?d) = Some ?second" by simp
  moreover have "fst (complete_success 91000000 ?first 50 None ?d)" by code_simp
  then have "complete_success 91000000 ?first 50 None ?d = (True, ?d')"
    by (metis prod.collapse)
  moreover have "row j_id 10 (jobs ?d') \<noteq> None" and s: "j_status (the (row j_id 10 (jobs ?d'))) = SUCCEEDED"
    by code_simp+
  then have "\<exists>k. row j_id 10 (jobs ?d') = Some k \<and> j_status k = SUCCEEDED" by auto
  moreover have "list_ex (open_attempt 10 2) (attempts ?d')" by code_simp
  then have "\<exists>a \<in> set (attempts ?d'). open_attempt 10 2 a" by (simp add: list_ex_iff)
  moreover have "\<not> holds 50 10 ?d'" by code_simp
  then have "complete_success 92000000 ?second 50 None ?d' = (False, ?d')"
    using \<open>j_id ?second = 10\<close> by (simp add: complete_success_eq)
  ultimately show ?thesis by blast
qed

text \<open>The same gap overruns the attempt budget: a job on the last attempt of three is sent
  back to PENDING by the failure report of its second attempt, with its attempt count at the
  maximum, so the next claim is its fourth.\<close>

theorem stale_failure_overruns_budget:
  "\<exists>d first d'. db_keys d \<and> holds 50 10 d \<and> j_id first = 10 \<and> j_attempt_count first = 2 \<and>
     complete_failure 91000000 0 0 None (\<lambda>x. x) first 50 ''boom'' d = Inr (True, d') \<and>
     (\<exists>k. row j_id 10 (jobs d') = Some k \<and> j_status k = PENDING \<and>
        j_attempt_count k = j_max_attempts k \<and>
        j_attempt_count (claim_values sample_second_request k) > j_max_attempts k)"
proof -
  let ?d = "snd (reclaimed_db 2)" and ?first = "sample_running 10 1 50 2 40000000"
  let ?r = "complete_failure 91000000 0 0 None (\<lambda>x. x) ?first 50 ''boom'' ?d"
  have "db_keys ?d" by code_simp
  moreover have "holds 50 10 ?d" by code_simp
  moreover have "j_id ?first = 10" "j_attempt_count ?first = 2" by code_simp+
  moreover obtain k where k: "row j_id 10 (jobs ?d) = Some k" "held_by 50 k"
    "j_attempt_count k = 3" "j_max_attempts k = 3"
  proof -
    have "(case row j_id 10 (jobs ?d) of None \<Rightarrow> False | Some k \<Rightarrow>
        held_by 50 k \<and> j_attempt_count k = 3 \<and> j_max_attempts k = 3)" by code_simp
    then show thesis using that by (auto split: option.splits)
  qed
  have "2 < max_attempts (policy_of ?first)" by code_simp
  then have dec: "decide_failure (policy_of ?first) 2 0 =
      Inr \<lparr>retry = True, delay_seconds = capped_backoff (policy_of ?first) 2\<rparr>"
    by (simp add: decide_failure_retry)
  let ?dec = "\<lparr>retry = True, delay_seconds = capped_backoff (policy_of ?first) 2\<rparr>"
  let ?rec = "record_failure 91000000 ?dec ?first 50 ''boom'' ?d"
  have "holds 50 (j_id ?first) ?d"
    using held_row [OF k(1,2)] \<open>j_id ?first = 10\<close> by simp
  then have "?r = Inr (True, snd ?rec)"
    by (rule complete_failure_retried) (simp only: \<open>j_attempt_count ?first = 2\<close> dec, simp)
  moreover have "\<exists>k. row j_id 10 (jobs (snd ?rec)) = Some k \<and> j_status k = PENDING \<and>
      j_attempt_count k = j_max_attempts k \<and>
      j_attempt_count (claim_values sample_second_request k) > j_max_attempts k"
  proof (intro exI conjI)
    show "row j_id 10 (jobs (snd ?rec)) = Some (failure_values 91000000 ''boom'' True
        (capped_backoff (policy_of ?first) 2) k)"
      using record_failure_row [of ?first ?d k 50] k \<open>j_id ?first = 10\<close> by simp
  qed (use k in \<open>simp_all add: failure_values_def Let_def\<close>)
  ultimately show ?thesis by blast
qed

lemma reap_jobs_workers: "reap_jobs now rnd js d = Inr d' \<Longrightarrow> workers d' = workers d"
  by (induction js arbitrary: d) (auto simp: reap_job_def Let_def split: sum.splits)

text \<open>A heartbeat undoes a drain: the comment on the heartbeat promises that a DRAINING worker
  stays draining, but one that misses its heartbeats for the offline window is marked
  OFFLINE by the sweep and comes back ONLINE, its drain forgotten, with the next heartbeat.\<close>

theorem heartbeat_undoes_drain:
  assumes "row w_id w (workers d) = Some x" and "w_status x = DRAINING"
    and "w_last_heartbeat_at x < now - off * 1000000"
    and "reap_once True now rnd locked off d = Inr (n, d1)"
  shows "\<exists>y. row w_id w (workers (snd (heartbeat later w lease d1))) = Some y \<and>
    w_status y = ONLINE \<and> w_stopped_at y = None"
proof -
  obtain d0 where r: "reap_jobs now rnd (select_expired_for_update now locked 100 d) d = Inr d0"
    and d1: "d1 = snd (mark_stale_offline now off d0)"
    using assms(4) by (auto simp: reap_once_def Let_def split: sum.splits)
  have "workers d0 = workers d" by (rule reap_jobs_workers [OF r])
  then show ?thesis
    using assms(1-3) by (simp add: d1 heartbeat_def worker_row_stale worker_row_heartbeat
        extend_leases_def is_stale_def split_beta)
qed

definition sample_draining_db :: db where
  "sample_draining_db = (sample_exec_db 1)\<lparr>jobs := [],
     workers := [\<lparr>w_id = 50, w_name = ''a'', w_status = DRAINING, w_concurrency = 4,
       w_last_heartbeat_at = 0, w_started_at = 0, w_stopped_at = None\<rparr>]\<rparr>"

theorem heartbeat_undoes_drain_witness:
  "\<exists>d1 y. reap_once True 61000000 (\<lambda>_. 0) (\<lambda>_. False) 60 sample_draining_db = Inr (0, d1) \<and>
     row w_id 50 (workers (snd (heartbeat 62000000 50 30 d1))) = Some y \<and> w_status y = ONLINE"
proof -
  let ?x = "\<lparr>w_id = 50, w_name = ''a'', w_status = DRAINING, w_concurrency = 4,
       w_last_heartbeat_at = 0, w_started_at = 0, w_stopped_at = None\<rparr>"
  obtain d1 where r: "reap_once True 61000000 (\<lambda>_. 0) (\<lambda>_. False) 60 sample_draining_db = Inr (0, d1)"
    by (simp add: reap_once_def sample_draining_db_def select_expired_for_update_def)
  have "row w_id 50 (workers sample_draining_db) = Some ?x" by (simp add: sample_draining_db_def)
  with heartbeat_undoes_drain [of 50 sample_draining_db ?x 61000000 60, OF _ _ _ r] r
  show ?thesis by auto
qed

end
