(* ===== verification/Tenancy_Repo.thy ===== *)
theory Tenancy_Repo
  imports Job_Repo Exceptions
begin

section \<open>Tenancy, users, queues and dependencies (app/repositories)\<close>

text \<open>
  The lookups of the tenancy, user, queue and dependency repositories, and the \<open>INSERT\<close>s of
  queues, jobs and dependencies with the constraints PostgreSQL checks on them.  A rejected
  \<open>INSERT\<close> is an \<open>IntegrityError\<close>.  The identity a new row draws is an argument; that
  \<open>uuid4\<close> does not repeat is not assumed, a repeated one is rejected by the primary key.
\<close>

subsection \<open>app/repositories/tenancy.py\<close>

definition get_org :: "uuid \<Rightarrow> db \<Rightarrow> organization option" where
  "get_org org_id d = List.find (\<lambda>ow. o_id ow = org_id) (organizations d)"

definition get_project :: "uuid \<Rightarrow> uuid \<Rightarrow> db \<Rightarrow> project option" where
  "get_project project_id org_id d =
     List.find (\<lambda>p. p_id p = project_id \<and> p_org_id p = org_id) (projects d)"

definition list_projects :: "uuid \<Rightarrow> db \<Rightarrow> project list" where
  "list_projects org_id d = sort_key p_created_at (filter (\<lambda>p. p_org_id p = org_id) (projects d))"

definition default_project :: "uuid \<Rightarrow> db \<Rightarrow> project option" where
  "default_project org_id d =
     (case sort_key (\<lambda>p. (p_created_at p, p_id p)) (filter (\<lambda>p. p_org_id p = org_id) (projects d)) of
        [] \<Rightarrow> None
      | p # _ \<Rightarrow> Some p)"

subsection \<open>app/repositories/users.py\<close>

definition get_user_row :: "uuid \<Rightarrow> db \<Rightarrow> user option" where
  "get_user_row user_id d = List.find (\<lambda>u. u_id u = user_id) (users d)"

definition get_by_email :: "string \<Rightarrow> db \<Rightarrow> user option" where
  "get_by_email email d = List.find (\<lambda>u. u_email u = email) (users d)"

definition list_users_for_org :: "uuid \<Rightarrow> db \<Rightarrow> user list" where
  "list_users_for_org org_id d = sort_key u_created_at (filter (\<lambda>u. u_org_id u = org_id) (users d))"

definition update_role :: "uuid \<Rightarrow> uuid \<Rightarrow> UserRole \<Rightarrow> db \<Rightarrow> user option \<times> db" where
  "update_role user_id org_id role d =
     (let hit = (\<lambda>u. u_id u = user_id \<and> u_org_id u = org_id); act = (\<lambda>u. u\<lparr>u_role := role\<rparr>)
      in (case returning hit act (users d) of [] \<Rightarrow> None | u # _ \<Rightarrow> Some u,
          d\<lparr>users := update_where hit act (users d)\<rparr>))"

subsection \<open>app/repositories/queues.py\<close>

definition in_org :: "uuid \<Rightarrow> db \<Rightarrow> job_queue \<Rightarrow> bool" where
  "in_org org_id d q \<longleftrightarrow> list_ex (\<lambda>p. p_id p = q_project_id q \<and> p_org_id p = org_id) (projects d)"

definition get_for_org :: "uuid \<Rightarrow> uuid \<Rightarrow> db \<Rightarrow> job_queue option" where
  "get_for_org queue_id org_id d = List.find (\<lambda>q. q_id q = queue_id \<and> in_org org_id d q) (queues d)"

definition get_by_name :: "uuid \<Rightarrow> string \<Rightarrow> db \<Rightarrow> job_queue option" where
  "get_by_name project_id nm d =
     List.find (\<lambda>q. q_project_id q = project_id \<and> q_name q = nm) (queues d)"

definition list_for_org :: "uuid \<Rightarrow> uuid option \<Rightarrow> db \<Rightarrow> job_queue list" where
  "list_for_org org_id project_id d =
     sort_key q_created_at
       (filter (\<lambda>q. in_org org_id d q
                  \<and> (case project_id of None \<Rightarrow> True | Some p \<Rightarrow> q_project_id q = p)) (queues d))"

text \<open>\<open>counts.setdefault(queue_id, zeros)[status] = count\<close> over the grouped rows.\<close>

definition counts_by_queue_and_status :: "uuid \<Rightarrow> db \<Rightarrow> uuid \<Rightarrow> (string \<times> nat) list option" where
  "counts_by_queue_and_status org_id d queue_id =
     (let js = filter (\<lambda>j. j_queue_id j = queue_id
                 \<and> list_ex (\<lambda>q. q_id q = queue_id \<and> in_org org_id d q) (queues d)) (jobs d)
      in if js = [] then None
         else Some (map (\<lambda>s. (job_status_value s, count_where (\<lambda>j. j_status j = s) js)) job_statuses))"

definition insert_queue :: "job_queue \<Rightarrow> db \<Rightarrow> service_error + db" where
  "insert_queue q d =
     (if q_id q \<notin> q_id ` set (queues d)
         \<and> (q_project_id q, q_name q) \<notin> (\<lambda>x. (q_project_id x, q_name x)) ` set (queues d)
         \<and> q_project_id q \<in> p_id ` set (projects d) \<and> queue_checks q
      then Inr (d\<lparr>queues := queues d @ [q]\<rparr>) else Inl IntegrityError)"

subsection \<open>app/repositories/dependencies.py\<close>

definition insert_dependency :: "job_dependency \<Rightarrow> db \<Rightarrow> service_error + db" where
  "insert_dependency e d =
     (if (d_job_id e, d_depends_on_job_id e)
           \<notin> (\<lambda>x. (d_job_id x, d_depends_on_job_id x)) ` set (dependencies d)
         \<and> d_job_id e \<in> j_id ` set (jobs d) \<and> d_depends_on_job_id e \<in> j_id ` set (jobs d)
      then Inr (d\<lparr>dependencies := dependencies d @ [e]\<rparr>) else Inl IntegrityError)"

fun add_many :: "(uuid \<Rightarrow> uuid) \<Rightarrow> uuid \<Rightarrow> uuid list \<Rightarrow> db \<Rightarrow> service_error + db" where
  "add_many dep_id job_id [] d = Inr d"
| "add_many dep_id job_id (t # ts) d =
     bind (insert_dependency \<lparr>d_id = dep_id t, d_job_id = job_id, d_depends_on_job_id = t\<rparr> d)
       (add_many dep_id job_id ts)"

definition get_for_job :: "uuid \<Rightarrow> db \<Rightarrow> job_dependency list" where
  "get_for_job job_id d = filter (\<lambda>e. d_job_id e = job_id) (dependencies d)"

definition are_all_met :: "uuid \<Rightarrow> db \<Rightarrow> bool" where
  "are_all_met job_id d \<longleftrightarrow>
     \<not> list_ex (\<lambda>e. d_job_id e = job_id
          \<and> list_ex (\<lambda>k. j_id k = d_depends_on_job_id e \<and> j_status k \<noteq> SUCCEEDED) (jobs d))
        (dependencies d)"

definition get_dependents :: "uuid \<Rightarrow> db \<Rightarrow> uuid list" where
  "get_dependents completed_job_id d =
     map d_job_id (filter (\<lambda>e. d_depends_on_job_id e = completed_job_id) (dependencies d))"

subsection \<open>Storing a job\<close>

definition insert_job :: "job \<Rightarrow> db \<Rightarrow> service_error + db" where
  "insert_job j d =
     (if j_id j \<notin> j_id ` set (jobs d)
         \<and> (j_idempotency_key j \<noteq> None \<longrightarrow>
              (j_owner_id j, j_idempotency_key j) \<notin> (\<lambda>k. (j_owner_id k, j_idempotency_key k)) ` set (jobs d))
         \<and> j_queue_id j \<in> q_id ` set (queues d) \<and> j_owner_id j \<in> u_id ` set (users d) \<and> job_checks j
      then Inr (d\<lparr>jobs := jobs d @ [j]\<rparr>) else Inl IntegrityError)"

fun insert_jobs :: "job list \<Rightarrow> db \<Rightarrow> service_error + db" where
  "insert_jobs [] d = Inr d"
| "insert_jobs (j # js) d = bind (insert_job j d) (insert_jobs js)"

subsection \<open>What the inserts keep\<close>

lemma insert_queue_db: "insert_queue q d = Inr d' \<Longrightarrow> d' = d\<lparr>queues := queues d @ [q]\<rparr>"
  by (simp add: insert_queue_def split: if_splits)

lemma insert_job_db: "insert_job j d = Inr d' \<Longrightarrow> d' = d\<lparr>jobs := jobs d @ [j]\<rparr>"
  by (simp add: insert_job_def split: if_splits)

lemma insert_dependency_db:
  "insert_dependency e d = Inr d' \<Longrightarrow> d' = d\<lparr>dependencies := dependencies d @ [e]\<rparr>"
  by (simp add: insert_dependency_def split: if_splits)

lemma insert_jobs_db: "insert_jobs js d = Inr d' \<Longrightarrow> d' = d\<lparr>jobs := jobs d @ js\<rparr>"
proof (induction js arbitrary: d)
  case (Cons j js)
  then obtain d1 where 1: "insert_job j d = Inr d1" and 2: "insert_jobs js d1 = Inr d'" by auto
  show ?case using Cons.IH [OF 2] insert_job_db [OF 1] by simp
qed simp

lemma insert_jobs_append:
  "insert_jobs (js @ ks) d = bind (insert_jobs js d) (insert_jobs ks)"
proof (induction js arbitrary: d)
  case (Cons j js)
  then show ?case by (cases "insert_job j d") simp_all
qed simp

lemma insert_queue_keys: "db_keys d \<Longrightarrow> insert_queue q d = Inr d' \<Longrightarrow> db_keys d'"
  by (auto simp: insert_queue_def db_keys_def unique_on_append1 uq_queues_project_name_def
      split: if_splits)

lemma insert_job_keys: "db_keys d \<Longrightarrow> insert_job j d = Inr d' \<Longrightarrow> db_keys d'"
  by (auto simp: insert_job_def db_keys_def unique_on_append1 uq_jobs_owner_idempotency_def
      unique_on_def split: if_splits)

lemma insert_jobs_keys: "db_keys d \<Longrightarrow> insert_jobs js d = Inr d' \<Longrightarrow> db_keys d'"
  by (induction js arbitrary: d) (auto dest: insert_job_keys)

lemma insert_dependency_keys: "db_keys d \<Longrightarrow> insert_dependency e d = Inr d' \<Longrightarrow> db_keys d'"
  by (auto simp: insert_dependency_def db_keys_def uq_job_dep_pair_def unique_on_append1
      split: if_splits)

lemma add_many_Cons:
  assumes "add_many f i (t # ts) d = Inr d'"
  obtains d1 where
    "insert_dependency \<lparr>d_id = f t, d_job_id = i, d_depends_on_job_id = t\<rparr> d = Inr d1"
    and "d1 = d\<lparr>dependencies := dependencies d @ [\<lparr>d_id = f t, d_job_id = i, d_depends_on_job_id = t\<rparr>]\<rparr>"
    and "add_many f i ts d1 = Inr d'"
proof -
  from assms obtain d1
    where 1: "insert_dependency \<lparr>d_id = f t, d_job_id = i, d_depends_on_job_id = t\<rparr> d = Inr d1"
      and 2: "add_many f i ts d1 = Inr d'"
    by auto
  show thesis by (rule that [OF 1 insert_dependency_db [OF 1] 2])
qed

lemma add_many_db:
  "add_many f i ts d = Inr d' \<Longrightarrow> d' = d\<lparr>dependencies := dependencies d @
     map (\<lambda>t. \<lparr>d_id = f t, d_job_id = i, d_depends_on_job_id = t\<rparr>) ts\<rparr>"
proof (induction ts arbitrary: d)
  case (Cons t ts)
  from Cons.prems obtain d1 where
    1: "d1 = d\<lparr>dependencies := dependencies d @ [\<lparr>d_id = f t, d_job_id = i, d_depends_on_job_id = t\<rparr>]\<rparr>"
    and 2: "add_many f i ts d1 = Inr d'"
    by (rule add_many_Cons)
  show ?case using Cons.IH [OF 2] 1 by simp
qed simp

lemma add_many_keys: "db_keys d \<Longrightarrow> add_many f i ts d = Inr d' \<Longrightarrow> db_keys d'"
  by (induction ts arbitrary: d) (auto dest: insert_dependency_keys)

lemma add_many_new:
  "add_many f i ts d = Inr d' \<Longrightarrow> t \<in> set ts \<Longrightarrow>
   t \<in> j_id ` set (jobs d) \<and> (i, t) \<notin> (\<lambda>x. (d_job_id x, d_depends_on_job_id x)) ` set (dependencies d)"
proof (induction ts arbitrary: d)
  case (Cons s ts)
  from Cons.prems(1) obtain d1 where
    0: "insert_dependency \<lparr>d_id = f s, d_job_id = i, d_depends_on_job_id = s\<rparr> d = Inr d1"
    and 1: "d1 = d\<lparr>dependencies := dependencies d @ [\<lparr>d_id = f s, d_job_id = i, d_depends_on_job_id = s\<rparr>]\<rparr>"
    and 2: "add_many f i ts d1 = Inr d'"
    by (rule add_many_Cons)
  show ?case
  proof (cases "t = s")
    case True
    then show ?thesis using 0 by (simp add: insert_dependency_def split: if_splits)
  next
    case False
    then show ?thesis using Cons.IH [OF 2] Cons.prems(2) by (simp add: 1)
  qed
qed simp

lemma add_many_distinct: "add_many f i ts d = Inr d' \<Longrightarrow> distinct ts"
proof (induction ts arbitrary: d)
  case (Cons t ts)
  from Cons.prems obtain d1 where
    1: "d1 = d\<lparr>dependencies := dependencies d @ [\<lparr>d_id = f t, d_job_id = i, d_depends_on_job_id = t\<rparr>]\<rparr>"
    and 2: "add_many f i ts d1 = Inr d'"
    by (rule add_many_Cons)
  have "t \<notin> set ts" using add_many_new [OF 2, of t] by (auto simp: 1)
  then show ?case using Cons.IH [OF 2] by simp
qed simp

lemma find_SomeD: "List.find P xs = Some x \<Longrightarrow> x \<in> set xs \<and> P x"
  by (auto simp: find_Some_iff)

lemma get_by_name_SomeD:
  "get_by_name p nm d = Some q \<Longrightarrow> q \<in> set (queues d) \<and> q_project_id q = p \<and> q_name q = nm"
  unfolding get_by_name_def by (auto dest: find_SomeD)

lemma get_project_SomeD:
  "get_project i ow d = Some p \<Longrightarrow> p \<in> set (projects d) \<and> p_id p = i \<and> p_org_id p = ow"
  unfolding get_project_def by (auto dest: find_SomeD)

lemma default_project_SomeD:
  "default_project ow d = Some p \<Longrightarrow> p \<in> set (projects d) \<and> p_org_id p = ow \<and>
   (\<forall>p' \<in> set (projects d). p_org_id p' = ow \<longrightarrow> (p_created_at p, p_id p) \<le> (p_created_at p', p_id p'))"
proof -
  assume a: "default_project ow d = Some p"
  let ?k = "\<lambda>p. (p_created_at p, p_id p)" and ?ps = "filter (\<lambda>p. p_org_id p = ow) (projects d)"
  obtain rest where s: "sort_key ?k ?ps = p # rest"
    using a by (auto simp: default_project_def split: list.splits)
  have "set (p # rest) = set ?ps" using s by (metis set_sort)
  moreover have "sorted (map ?k (p # rest))" using s by (metis sorted_sort_key)
  ultimately show ?thesis by (auto simp: less_eq_prod_def)
qed

end
