(* ===== verification/Schemas.thy ===== *)
theory Schemas
  imports Models
begin

section \<open>Request bodies (app/schemas)\<close>

text \<open>
  The request models of the API with the ranges their fields declare.  \<open>fields_set\<close> is
  pydantic's \<open>model_fields_set\<close>: the names of the fields the client sent, which is how the
  services tell an omitted field from one sent with the default value.  The size of a
  serialized payload, \<open>len(json.dumps(..).encode())\<close>, is the argument \<open>json_bytes\<close>.
  A request that violates a range is answered with 422 before a service is called.
\<close>

definition max_payload_bytes :: nat where "max_payload_bytes = 64 * 1024"

definition max_batch_size :: nat where "max_batch_size = 100"

definition length_between :: "nat \<Rightarrow> nat \<Rightarrow> string \<Rightarrow> bool" where
  "length_between lo hi s \<longleftrightarrow> lo \<le> length s \<and> length s \<le> hi"

subsection \<open>app/schemas/job.py\<close>

record JobCreate =
  jc_task_name :: string
  jc_payload :: json
  jc_queue :: string
  jc_project_id :: "uuid option"
  jc_priority :: int
  jc_backoff_strategy :: RetryStrategy
  jc_run_at :: "time option"
  jc_max_attempts :: int
  jc_timeout_seconds :: int
  jc_backoff_base_seconds :: int
  jc_backoff_factor :: real
  jc_backoff_max_seconds :: int
  jc_idempotency_key :: "string option"
  jc_depends_on :: "uuid list"
  jc_fields_set :: "string list"

definition job_create_valid :: "(json \<Rightarrow> nat) \<Rightarrow> JobCreate \<Rightarrow> bool" where
  "job_create_valid json_bytes c \<longleftrightarrow>
     length_between 1 255 (jc_task_name c) \<and> json_bytes (jc_payload c) \<le> max_payload_bytes \<and>
     length_between 1 100 (jc_queue c) \<and>
     -100 \<le> jc_priority c \<and> jc_priority c \<le> 100 \<and>
     1 \<le> jc_max_attempts c \<and> jc_max_attempts c \<le> 20 \<and>
     1 \<le> jc_timeout_seconds c \<and> jc_timeout_seconds c \<le> 86400 \<and>
     0 \<le> jc_backoff_base_seconds c \<and> jc_backoff_base_seconds c \<le> 3600 \<and>
     1 \<le> jc_backoff_factor c \<and> jc_backoff_factor c \<le> 10 \<and>
     1 \<le> jc_backoff_max_seconds c \<and> jc_backoff_max_seconds c \<le> 86400 \<and>
     (case jc_idempotency_key c of None \<Rightarrow> True | Some k \<Rightarrow> length k \<le> 255) \<and>
     length (jc_depends_on c) \<le> 50"

definition batch_valid :: "(json \<Rightarrow> nat) \<Rightarrow> JobCreate list \<Rightarrow> bool" where
  "batch_valid json_bytes items \<longleftrightarrow>
     1 \<le> length items \<and> length items \<le> max_batch_size \<and> list_all (job_create_valid json_bytes) items"

subsection \<open>app/schemas/queue.py\<close>

record QueueCreate =
  qc_name :: string
  qc_project_id :: "uuid option"
  qc_shard_key :: int
  qc_max_concurrency :: "int option"
  qc_default_priority :: int
  qc_default_max_attempts :: int
  qc_default_backoff_strategy :: RetryStrategy
  qc_default_backoff_base_seconds :: int
  qc_default_backoff_factor :: real
  qc_default_backoff_max_seconds :: int
  qc_default_timeout_seconds :: int

definition queue_create_valid :: "QueueCreate \<Rightarrow> bool" where
  "queue_create_valid c \<longleftrightarrow>
     length_between 1 100 (qc_name c) \<and> 0 \<le> qc_shard_key c \<and> qc_shard_key c \<le> 255 \<and>
     (case qc_max_concurrency c of None \<Rightarrow> True | Some n \<Rightarrow> 1 \<le> n \<and> n \<le> 10000) \<and>
     -100 \<le> qc_default_priority c \<and> qc_default_priority c \<le> 100 \<and>
     1 \<le> qc_default_max_attempts c \<and> qc_default_max_attempts c \<le> 20 \<and>
     0 \<le> qc_default_backoff_base_seconds c \<and> qc_default_backoff_base_seconds c \<le> 3600 \<and>
     1 \<le> qc_default_backoff_factor c \<and> qc_default_backoff_factor c \<le> 10 \<and>
     1 \<le> qc_default_backoff_max_seconds c \<and> qc_default_backoff_max_seconds c \<le> 86400 \<and>
     1 \<le> qc_default_timeout_seconds c \<and> qc_default_timeout_seconds c \<le> 86400"

text \<open>
  A PATCH body: a field that is not in \<open>model_fields_set\<close> is \<open>None\<close>; a field that was sent
  is \<open>Some\<close> its value, which for every field of the schema may be an explicit null.
\<close>

record QueueUpdate =
  qu_paused :: "bool option option"
  qu_max_concurrency :: "int option option"
  qu_default_priority :: "int option option"
  qu_default_max_attempts :: "int option option"
  qu_default_backoff_strategy :: "RetryStrategy option option"
  qu_default_backoff_base_seconds :: "int option option"
  qu_default_backoff_factor :: "real option option"
  qu_default_backoff_max_seconds :: "int option option"
  qu_default_timeout_seconds :: "int option option"
  qu_shard_key :: "int option option"

text \<open>A field that is absent or an explicit null passes; a value has to be in the range of its column.\<close>

definition passes :: "('a \<Rightarrow> bool) \<Rightarrow> 'a option option \<Rightarrow> bool" where
  "passes ok f = (case f of Some (Some v) \<Rightarrow> ok v | _ \<Rightarrow> True)"

definition queue_update_valid :: "QueueUpdate \<Rightarrow> bool" where
  "queue_update_valid c \<longleftrightarrow>
     passes (\<lambda>n. 1 \<le> n \<and> n \<le> 10000) (qu_max_concurrency c) \<and>
     passes (\<lambda>n. -100 \<le> n \<and> n \<le> 100) (qu_default_priority c) \<and>
     passes (\<lambda>n. 1 \<le> n \<and> n \<le> 20) (qu_default_max_attempts c) \<and>
     passes (\<lambda>n. 0 \<le> n \<and> n \<le> 3600) (qu_default_backoff_base_seconds c) \<and>
     passes (\<lambda>x. 1 \<le> x \<and> x \<le> 10) (qu_default_backoff_factor c) \<and>
     passes (\<lambda>n. 1 \<le> n \<and> n \<le> 86400) (qu_default_backoff_max_seconds c) \<and>
     passes (\<lambda>n. 1 \<le> n \<and> n \<le> 86400) (qu_default_timeout_seconds c) \<and>
     passes (\<lambda>n. 0 \<le> n \<and> n \<le> 255) (qu_shard_key c)"

subsection \<open>app/schemas/schedule.py\<close>

record ScheduleCreate =
  sc_task_name :: string
  sc_payload :: json
  sc_cron_expr :: string
  sc_queue :: string
  sc_project_id :: "uuid option"
  sc_priority :: int
  sc_max_attempts :: int
  sc_timeout_seconds :: int
  sc_backoff_strategy :: RetryStrategy
  sc_backoff_base_seconds :: int
  sc_backoff_factor :: real
  sc_backoff_max_seconds :: int

definition schedule_create_valid :: "(json \<Rightarrow> nat) \<Rightarrow> (string \<Rightarrow> bool) \<Rightarrow> ScheduleCreate \<Rightarrow> bool" where
  "schedule_create_valid json_bytes cron_ok c \<longleftrightarrow>
     length_between 1 255 (sc_task_name c) \<and> json_bytes (sc_payload c) \<le> max_payload_bytes \<and>
     length_between 1 100 (sc_cron_expr c) \<and> cron_ok (sc_cron_expr c) \<and>
     length_between 1 100 (sc_queue c) \<and>
     -100 \<le> sc_priority c \<and> sc_priority c \<le> 100 \<and>
     1 \<le> sc_max_attempts c \<and> sc_max_attempts c \<le> 20 \<and>
     1 \<le> sc_timeout_seconds c \<and> sc_timeout_seconds c \<le> 86400 \<and>
     0 \<le> sc_backoff_base_seconds c \<and> sc_backoff_base_seconds c \<le> 3600 \<and>
     1 \<le> sc_backoff_factor c \<and> sc_backoff_factor c \<le> 10 \<and>
     1 \<le> sc_backoff_max_seconds c \<and> sc_backoff_max_seconds c \<le> 86400"

record ScheduleUpdate =
  su_cron_expr :: "string option option"
  su_paused :: "bool option option"
  su_payload :: "json option option"
  su_priority :: "int option option"
  su_max_attempts :: "int option option"
  su_timeout_seconds :: "int option option"

text \<open>The size of the payload is not checked here, only its type.\<close>

definition schedule_update_valid :: "(string \<Rightarrow> bool) \<Rightarrow> ScheduleUpdate \<Rightarrow> bool" where
  "schedule_update_valid cron_ok c \<longleftrightarrow>
     passes (\<lambda>e. length_between 1 100 e \<and> cron_ok e) (su_cron_expr c) \<and>
     passes (\<lambda>v. case v of JObj _ \<Rightarrow> True | _ \<Rightarrow> False) (su_payload c) \<and>
     passes (\<lambda>n. -100 \<le> n \<and> n \<le> 100) (su_priority c) \<and>
     passes (\<lambda>n. 1 \<le> n \<and> n \<le> 20) (su_max_attempts c) \<and>
     passes (\<lambda>n. 1 \<le> n \<and> n \<le> 86400) (su_timeout_seconds c)"

end
