(* ===== verification/Job_Service.thy ===== *)
theory Job_Service
  imports Tenancy_Repo Attempt_Repo Py_Text Schemas
begin

section \<open>The job service (app/services/job_service.py)\<close>

text \<open>
  Enqueue, batch enqueue, reads and the user-facing transitions.  An operation returns its
  result or error together with the committed database.  Where the code is written for a
  race (the create race of a queue, the duplicate submission of an idempotency key) the
  commits of other transactions in that window are an argument of type \<open>db \<Rightarrow> db\<close>; without a
  race it is the identity.  A rollback leaves what the others committed.
\<close>

subsection \<open>Queue resolution\<close>

definition resolve_project ::
  "user \<Rightarrow> uuid option \<Rightarrow> db \<Rightarrow> service_error + project" where
  "resolve_project usr project_id d =
     (case project_id of
        Some i \<Rightarrow> require (NotFoundError ''project not found'') (get_project i (u_org_id usr) d)
      | None \<Rightarrow> require (NotFoundError ''organization has no projects'') (default_project (u_org_id usr) d))"

definition resolve_queue ::
  "time \<Rightarrow> uuid \<Rightarrow> (db \<Rightarrow> db) \<Rightarrow> user \<Rightarrow> uuid option \<Rightarrow> string \<Rightarrow> db
     \<Rightarrow> service_error + job_queue \<times> db" where
  "resolve_queue now qid race usr project_id nm d =
     bind (resolve_project usr project_id d) (\<lambda>p.
       case get_by_name (p_id p) nm d of
         Some q \<Rightarrow> Inr (q, race d)
       | None \<Rightarrow>
           (case insert_queue (new_queue now qid (p_id p) nm) (race d) of
              Inr d1 \<Rightarrow> Inr (new_queue now qid (p_id p) nm, d1)
            | Inl e \<Rightarrow>
                (case get_by_name (p_id p) nm (race d) of
                   Some q \<Rightarrow> Inr (q, race d)
                 | None \<Rightarrow> Inl e)))"

subsection \<open>Building the row\<close>

definition effective :: "JobCreate \<Rightarrow> string \<Rightarrow> (JobCreate \<Rightarrow> 'a) \<Rightarrow> 'a \<Rightarrow> 'a" where
  "effective data field get default_value =
     (if field \<in> set (jc_fields_set data) then get data else default_value)"

definition build_job ::
  "time \<Rightarrow> uuid \<Rightarrow> uuid \<Rightarrow> job_queue \<Rightarrow> JobCreate \<Rightarrow> uuid option \<Rightarrow> uuid option \<Rightarrow> job" where
  "build_job now jid owner_id q data batch_id workflow_id =
     \<lparr>j_id = jid, j_owner_id = owner_id, j_queue_id = q_id q, j_queue = q_name q,
      j_task_name = jc_task_name data, j_batch_id = batch_id, j_workflow_id = workflow_id,
      j_payload = jc_payload data, j_status = PENDING,
      j_priority = effective data ''priority'' jc_priority (q_default_priority q),
      j_run_at = (case jc_run_at data of None \<Rightarrow> now | Some t \<Rightarrow> t),
      j_idempotency_key = jc_idempotency_key data,
      j_max_attempts = effective data ''max_attempts'' jc_max_attempts (q_default_max_attempts q),
      j_backoff_strategy =
        effective data ''backoff_strategy'' jc_backoff_strategy (q_default_backoff_strategy q),
      j_attempt_count = 0,
      j_timeout_seconds =
        effective data ''timeout_seconds'' jc_timeout_seconds (q_default_timeout_seconds q),
      j_backoff_base_seconds =
        effective data ''backoff_base_seconds'' jc_backoff_base_seconds (q_default_backoff_base_seconds q),
      j_backoff_factor =
        effective data ''backoff_factor'' jc_backoff_factor (q_default_backoff_factor q),
      j_backoff_max_seconds =
        effective data ''backoff_max_seconds'' jc_backoff_max_seconds (q_default_backoff_max_seconds q),
      j_locked_by = None, j_lease_expires_at = None, j_last_error = None, j_ai_summary = None,
      j_result = None, j_created_at = now, j_updated_at = now, j_started_at = None,
      j_finished_at = None\<rparr>"

subsection \<open>Enqueue\<close>

text \<open>\<open>if data.idempotency_key:\<close> is false for a missing key and for the empty string.\<close>

definition find_duplicate :: "user \<Rightarrow> JobCreate \<Rightarrow> db \<Rightarrow> job option" where
  "find_duplicate usr data d =
     (case jc_idempotency_key data of
        None \<Rightarrow> None
      | Some key \<Rightarrow> if key = '''' then None else get_by_idempotency_key (u_id usr) key d)"

fun inherit_workflow ::
  "user \<Rightarrow> uuid list \<Rightarrow> uuid option \<Rightarrow> db \<Rightarrow> service_error + uuid option" where
  "inherit_workflow usr [] w d = Inr w"
| "inherit_workflow usr (t # ts) w d =
     bind (require (NotFoundError (''dependency target '' @ str_uuid t @ '' not found or not owned by you''))
            (get_for_owner t (u_id usr) d))
       (\<lambda>dep_job. inherit_workflow usr ts
          (case j_workflow_id dep_job of None \<Rightarrow> w | Some v \<Rightarrow> Some v) d)"

definition workflow_of :: "uuid \<Rightarrow> user \<Rightarrow> JobCreate \<Rightarrow> db \<Rightarrow> service_error + uuid option" where
  "workflow_of wid usr data d =
     (if jc_depends_on data = [] then Inr None
      else inherit_workflow usr (jc_depends_on data) (Some wid) d)"

record fresh_ids =
  i_queue :: uuid
  i_job :: uuid
  i_workflow :: uuid
  i_dependency :: "uuid \<Rightarrow> uuid"

definition enqueue ::
  "time \<Rightarrow> fresh_ids \<Rightarrow> (db \<Rightarrow> db) \<Rightarrow> (db \<Rightarrow> db) \<Rightarrow> user \<Rightarrow> JobCreate \<Rightarrow> db
     \<Rightarrow> (service_error + job \<times> bool) \<times> db" where
  "enqueue now ids race_queue race_job usr data d =
     (case find_duplicate usr data d of
        Some existing \<Rightarrow> (Inr (existing, False), d)
      | None \<Rightarrow>
          (case resolve_queue now (i_queue ids) race_queue usr (jc_project_id data) (jc_queue data) d of
             Inl e \<Rightarrow> (Inl e, race_queue d)
           | Inr (q, d1) \<Rightarrow>
               (case workflow_of (i_workflow ids) usr data d1 of
                  Inl e \<Rightarrow> (Inl e, race_queue d)
                | Inr w \<Rightarrow>
                    (let j = build_job now (i_job ids) (u_id usr) q data None w
                     in case bind (insert_job j (race_job d1))
                               (add_many (i_dependency ids) (j_id j) (jc_depends_on data)) of
                          Inr d2 \<Rightarrow> (Inr (j, True), d2)
                        | Inl e \<Rightarrow>
                            (let d3 = race_job (race_queue d)
                             in case find_duplicate usr data d3 of
                                  Some existing \<Rightarrow> (Inr (existing, False), d3)
                                | None \<Rightarrow> (Inl e, d3))))))"

subsection \<open>Batch enqueue\<close>

text \<open>
  The rows a batch adds stay pending in the session until its next query flushes them, which
  is the first query of the next queue resolution that misses the cache, or the commit.
  Only the commit stands inside the \<open>try\<close>.  \<open>i\<close> numbers the items; \<open>qid\<close> and \<open>jid\<close> draw the
  identities of the queue and the job of an item.
\<close>

fun stage_items ::
  "time \<Rightarrow> (nat \<Rightarrow> uuid) \<Rightarrow> (nat \<Rightarrow> uuid) \<Rightarrow> uuid \<Rightarrow> user \<Rightarrow> nat
     \<Rightarrow> ((uuid option \<times> string) \<times> job_queue) list \<Rightarrow> job list \<Rightarrow> job list \<Rightarrow> JobCreate list \<Rightarrow> db
     \<Rightarrow> service_error + job list \<times> job list \<times> db" where
  "stage_items now qid jid batch_id usr i cache pending js [] d = Inr (pending, js, d)"
| "stage_items now qid jid batch_id usr i cache pending js (data # rest) d =
     (case map_of cache (jc_project_id data, jc_queue data) of
        Some q \<Rightarrow>
          (let j = build_job now (jid i) (u_id usr) q data (Some batch_id) None
           in stage_items now qid jid batch_id usr (Suc i) cache (pending @ [j]) (js @ [j]) rest d)
      | None \<Rightarrow>
          bind (insert_jobs pending d) (\<lambda>d1.
            bind (resolve_queue now (qid i) id usr (jc_project_id data) (jc_queue data) d1) (\<lambda>(q, d2).
              let j = build_job now (jid i) (u_id usr) q data (Some batch_id) None
              in stage_items now qid jid batch_id usr (Suc i)
                   (((jc_project_id data, jc_queue data), q) # cache) [j] (js @ [j]) rest d2)))"

definition batch_conflict :: service_error where
  "batch_conflict = ConflictError (''an idempotency key in the batch collides with an existing ''
     @ ''job (or repeats within the batch); the batch was rejected'')"

definition enqueue_batch ::
  "time \<Rightarrow> (nat \<Rightarrow> uuid) \<Rightarrow> (nat \<Rightarrow> uuid) \<Rightarrow> uuid \<Rightarrow> (db \<Rightarrow> db) \<Rightarrow> user \<Rightarrow> JobCreate list \<Rightarrow> db
     \<Rightarrow> (service_error + uuid \<times> job list) \<times> db" where
  "enqueue_batch now qid jid batch_id race usr items d =
     (case stage_items now qid jid batch_id usr 0 [] [] [] items d of
        Inl e \<Rightarrow> (Inl e, d)
      | Inr (pending, js, d1) \<Rightarrow>
          (case insert_jobs pending (race d1) of
             Inr d2 \<Rightarrow> (Inr (batch_id, js), d2)
           | Inl _ \<Rightarrow> (Inl batch_conflict, race d)))"

subsection \<open>Reads and transitions\<close>

definition get_job :: "uuid \<Rightarrow> uuid \<Rightarrow> db \<Rightarrow> service_error + job" where
  "get_job owner_id job_id d = require (NotFoundError ''job not found'') (get_for_owner job_id owner_id d)"

definition list_jobs ::
  "uuid \<Rightarrow> JobStatus option \<Rightarrow> string option \<Rightarrow> uuid option \<Rightarrow> nat \<Rightarrow> nat \<Rightarrow> db \<Rightarrow> job list \<times> nat" where
  "list_jobs owner_id status queue batch_id limit offset d =
     list_for_owner owner_id status queue batch_id limit offset d"

definition list_attempts :: "uuid \<Rightarrow> uuid \<Rightarrow> db \<Rightarrow> service_error + job_attempt list" where
  "list_attempts owner_id job_id d =
     bind (get_job owner_id job_id d) (\<lambda>_. Inr (list_for_job job_id d))"

definition cancel_job :: "time \<Rightarrow> uuid \<Rightarrow> uuid \<Rightarrow> db \<Rightarrow> (service_error + job) \<times> db" where
  "cancel_job now owner_id job_id d =
     (case cancel now job_id owner_id d of
        (Some j, d1) \<Rightarrow> (Inr j, d1)
      | (None, _) \<Rightarrow>
          (bind (get_job owner_id job_id d)
             (\<lambda>_. Inl (ConflictError ''only pending jobs can be cancelled'')), d))"

definition requeue_job :: "time \<Rightarrow> uuid \<Rightarrow> uuid \<Rightarrow> db \<Rightarrow> (service_error + job) \<times> db" where
  "requeue_job now owner_id job_id d =
     (case requeue now job_id owner_id d of
        (Some j, d1) \<Rightarrow> (Inr j, d1)
      | (None, _) \<Rightarrow>
          (bind (get_job owner_id job_id d)
             (\<lambda>_. Inl (ConflictError ''only dead or cancelled jobs can be requeued'')), d))"

end
