(* ===== verification/Job_Service_Props.thy ===== *)
theory Job_Service_Props
  imports Job_Service Job_Claim Samples
begin

section \<open>Properties of the job service\<close>

text \<open>
  Idempotent enqueue with and without a race, inheritance of queue defaults, all-or-nothing
  batches, the user-facing transitions on every branch, and the acyclicity of the dependency
  graph the enqueue path builds.  \<open>well_behaved\<close> is what every other transaction guarantees
  while one of these operations runs: it keeps the keys of the schema, the rows and their
  order.
\<close>

definition depends_earlier :: "db \<Rightarrow> bool" where
  "depends_earlier d \<longleftrightarrow>
     (\<forall>e \<in> set (dependencies d). \<exists>xs ys. map j_id (jobs d) = xs @ d_job_id e # ys
        \<and> d_depends_on_job_id e \<in> set xs)"

definition well_behaved :: "(db \<Rightarrow> db) \<Rightarrow> bool" where
  "well_behaved race \<longleftrightarrow>
     (\<forall>d. (db_keys d \<longrightarrow> db_keys (race d)) \<and> (depends_earlier d \<longrightarrow> depends_earlier (race d)) \<and>
          (\<exists>is. map j_id (jobs (race d)) = map j_id (jobs d) @ is))"

lemma well_behaved_id [simp]: "well_behaved (\<lambda>d. d)" "well_behaved id"
  by (simp_all add: well_behaved_def)

lemma well_behaved_keys: "well_behaved race \<Longrightarrow> db_keys d \<Longrightarrow> db_keys (race d)"
  by (simp add: well_behaved_def)

lemma well_behaved_ids: "well_behaved race \<Longrightarrow> j_id ` set (jobs d) \<subseteq> j_id ` set (jobs (race d))"
proof -
  assume "well_behaved race"
  then obtain ids where "map j_id (jobs (race d)) = map j_id (jobs d) @ ids"
    by (auto simp: well_behaved_def)
  then have "set (map j_id (jobs (race d))) = set (map j_id (jobs d)) \<union> set ids" by simp
  then show ?thesis by auto
qed

subsection \<open>Steps of an enqueue\<close>

lemma resolve_queue_cases:
  assumes "resolve_queue now qid race usr pid nm d = Inr (q, d')"
  obtains (found) "d' = race d" and "q \<in> set (queues d) \<or> q \<in> set (queues (race d))"
    | (inserted) "insert_queue q (race d) = Inr d'"
proof -
  from assms obtain p :: project where p: "(case get_by_name (p_id p) nm d of
         Some q \<Rightarrow> Inr (q, race d)
       | None \<Rightarrow>
           (case insert_queue (new_queue now qid (p_id p) nm) (race d) of
              Inr d1 \<Rightarrow> Inr (new_queue now qid (p_id p) nm, d1)
            | Inl e \<Rightarrow>
                (case get_by_name (p_id p) nm (race d) of
                   Some q \<Rightarrow> Inr (q, race d)
                 | None \<Rightarrow> Inl e))) = Inr (q, d')"
    by (auto simp: resolve_queue_def)
  show thesis
  proof (cases "get_by_name (p_id p) nm d")
    case (Some q')
    then show thesis using p found get_by_name_SomeD [OF Some] by simp
  next
    case None
    then show thesis
    proof (cases "insert_queue (new_queue now qid (p_id p) nm) (race d)")
      case (Inr d1)
      then show thesis using p None inserted by simp
    next
      case (Inl e)
      then show thesis
        using p None found get_by_name_SomeD [of "p_id p" nm "race d"] by (auto split: option.splits)
    qed
  qed
qed

lemma resolve_queue_keys:
  "resolve_queue now qid race usr pid nm d = Inr (q, d') \<Longrightarrow> db_keys (race d) \<Longrightarrow> db_keys d'"
  by (erule resolve_queue_cases) (auto dest: insert_queue_keys)

lemma resolve_queue_tables:
  assumes "resolve_queue now qid race usr pid nm d = Inr (q, d')"
  shows "jobs d' = jobs (race d)" "dependencies d' = dependencies (race d)"
    "attempts d' = attempts (race d)" "users d' = users (race d)"
  using assms by (auto elim!: resolve_queue_cases dest!: insert_queue_db)

lemma find_duplicate_SomeD:
  "find_duplicate usr data d = Some j \<Longrightarrow> j \<in> set (jobs d) \<and> j_owner_id j = u_id usr \<and>
     j_idempotency_key j = jc_idempotency_key data"
  by (auto simp: find_duplicate_def dest!: get_by_idempotency_key_SomeD split: option.splits if_splits)

lemma duplicate_unique:
  assumes "uq_jobs_owner_idempotency js" and "j \<in> set js" and "k \<in> set js"
    and "j_idempotency_key j = Some key" and "j_idempotency_key k = Some key"
    and "j_owner_id j = j_owner_id k"
  shows "j = k"
  using assms
  by (intro unique_onD [OF assms(1) [unfolded uq_jobs_owner_idempotency_def]]) auto

lemma find_duplicate_hit:
  assumes "uq_jobs_owner_idempotency (jobs d)" and "j \<in> set (jobs d)"
    and "j_owner_id j = u_id usr" and "j_idempotency_key j = jc_idempotency_key data"
    and "jc_idempotency_key data = Some key" and "key \<noteq> ''''"
  shows "find_duplicate usr data d = Some j"
proof -
  have "get_by_idempotency_key (u_id usr) key d \<noteq> None"
    using assms(2-5) by (auto simp: get_by_idempotency_key_None_iff)
  then obtain k where k: "get_by_idempotency_key (u_id usr) key d = Some k" by blast
  then have "k \<in> set (jobs d)" "j_owner_id k = u_id usr" "j_idempotency_key k = Some key"
    using get_by_idempotency_key_SomeD by auto
  then have "k = j"
    using duplicate_unique [OF assms(1) _ assms(2), of k key] assms(3-5) by simp
  then show ?thesis using k assms(5,6) by (simp add: find_duplicate_def)
qed

lemma build_job_fields [simp]:
  "j_id (build_job now i ow q data b w) = i" "j_owner_id (build_job now i ow q data b w) = ow"
  "j_queue_id (build_job now i ow q data b w) = q_id q"
  "j_status (build_job now i ow q data b w) = PENDING"
  "j_attempt_count (build_job now i ow q data b w) = 0"
  "j_idempotency_key (build_job now i ow q data b w) = jc_idempotency_key data"
  "j_batch_id (build_job now i ow q data b w) = b"
  "j_locked_by (build_job now i ow q data b w) = None"
  "j_lease_expires_at (build_job now i ow q data b w) = None"
  by (simp_all add: build_job_def)

text \<open>A successful enqueue, taken apart.\<close>

lemma enqueue_created:
  assumes "enqueue now ids r1 r2 usr data d = (Inr (j, True), d')"
  obtains q d1 w d2 where "find_duplicate usr data d = None"
    and "resolve_queue now (i_queue ids) r1 usr (jc_project_id data) (jc_queue data) d = Inr (q, d1)"
    and "workflow_of (i_workflow ids) usr data d1 = Inr w"
    and "j = build_job now (i_job ids) (u_id usr) q data None w"
    and "insert_job j (r2 d1) = Inr d2"
    and "add_many (i_dependency ids) (i_job ids) (jc_depends_on data) d2 = Inr d'"
  using assms
  by (auto simp: enqueue_def Let_def split: option.splits sum.splits prod.splits)

text \<open>Every outcome of an enqueue: the new row, or nothing of its own.\<close>

lemma enqueue_cases:
  assumes "enqueue now ids r1 r2 usr data d = (res, d')"
  obtains (created) j where "res = Inr (j, True)"
    | (kept) "d' = d \<or> d' = r1 d \<or> d' = r2 (r1 d)"
  using assms
  by (auto simp: enqueue_def Let_def split: option.splits sum.splits prod.splits)

subsection \<open>The sample tenant\<close>

definition sample_user :: user where
  "sample_user = \<lparr>u_id = 7, u_org_id = 2, u_email = ''a@b'', u_password_hash = ''h'',
     u_role = MEMBER, u_created_at = 0\<rparr>"

definition sample_create :: "string \<Rightarrow> string option \<Rightarrow> uuid list \<Rightarrow> JobCreate" where
  "sample_create nm key deps =
     \<lparr>jc_task_name = ''demo.echo'', jc_payload = JObj [], jc_queue = nm, jc_project_id = None,
      jc_priority = 0, jc_backoff_strategy = EXPONENTIAL, jc_run_at = None, jc_max_attempts = 3,
      jc_timeout_seconds = 300, jc_backoff_base_seconds = 5, jc_backoff_factor = 2,
      jc_backoff_max_seconds = 300, jc_idempotency_key = key, jc_depends_on = deps,
      jc_fields_set = [''task_name'']\<rparr>"

definition sample_tenant_db :: db where
  "sample_tenant_db = (sample_db [sample_queue 1 None] [sample_job 10 1] [])\<lparr>users := [sample_user]\<rparr>"

definition sample_ids :: fresh_ids where
  "sample_ids = \<lparr>i_queue = 30, i_job = 20, i_workflow = 40, i_dependency = (\<lambda>t. t + 100)\<rparr>"

lemma sample_tenant_keys: "db_keys sample_tenant_db"
  by code_simp

subsection \<open>Idempotency\<close>

lemma enqueue_created_keys:
  assumes "db_keys d" and "well_behaved r1" and "well_behaved r2"
    and "enqueue now ids r1 r2 usr data d = (Inr (j, True), d1)"
  shows "db_keys d1 \<and> j \<in> set (jobs d1) \<and> j_owner_id j = u_id usr \<and>
    j_idempotency_key j = jc_idempotency_key data"
proof -
  from assms(4) obtain q v w d' where
      r: "resolve_queue now (i_queue ids) r1 usr (jc_project_id data) (jc_queue data) d = Inr (q, v)"
    and j: "j = build_job now (i_job ids) (u_id usr) q data None w"
    and ins: "insert_job j (r2 v) = Inr d'"
    and deps: "add_many (i_dependency ids) (i_job ids) (jc_depends_on data) d' = Inr d1"
    by (rule enqueue_created)
  have "db_keys v" using resolve_queue_keys [OF r] assms(1,2) by (simp add: well_behaved_keys)
  then have "db_keys d'"
    using insert_job_keys [OF _ ins] assms(3) by (simp add: well_behaved_keys)
  then have "db_keys d1" using add_many_keys [OF _ deps] by blast
  then show ?thesis
    using insert_job_db [OF ins] add_many_db [OF deps] by (simp add: j)
qed

text \<open>C21: Enqueue is idempotent: once a submission with a non-empty key has created a job, the same
  user submitting the key again (with whatever body, now or in any later state that still
  holds the row in some status) is given that row, nothing is created and nothing changes.\<close>

theorem resubmission_returns_first_job:
  assumes "db_keys d" and "well_behaved r1" and "well_behaved r2"
    and "enqueue now ids r1 r2 usr data d = (Inr (j, True), d1)"
    and "jc_idempotency_key data = Some key" and "key \<noteq> ''''"
    and "db_keys d2" and "k \<in> set (jobs d2)" and "contract k = contract j"
    and "jc_idempotency_key data' = Some key"
  shows "j \<in> set (jobs d1) \<and> enqueue now' ids' r1' r2' usr data' d2 = (Inr (k, False), d2)"
proof -
  note new = enqueue_created_keys [OF assms(1-4)]
  have "find_duplicate usr data' d2 = Some k"
    using contract_fields [OF assms(9)] new assms(5,10)
    by (intro find_duplicate_hit [OF db_keysD(3) [OF assms(7)] assms(8) _ _ assms(10) assms(6)]) simp_all
  then show ?thesis using new by (simp add: enqueue_def)
qed

theorem resubmission_returns_first_job_witness:
  "\<exists>j d1. enqueue 5 sample_ids id id sample_user (sample_create ''default'' (Some ''k'') []) sample_tenant_db
       = (Inr (j, True), d1) \<and>
     enqueue 9 sample_ids id id sample_user (sample_create ''other'' (Some ''k'') []) d1 = (Inr (j, False), d1)"
proof -
  let ?r = "enqueue 5 sample_ids id id sample_user (sample_create ''default'' (Some ''k'') []) sample_tenant_db"
  have "(case fst ?r of Inr (j, b) \<Rightarrow> b | Inl _ \<Rightarrow> False)" by code_simp
  then obtain j where "fst ?r = Inr (j, True)" by (auto split: sum.splits)
  then have r: "?r = (Inr (j, True), snd ?r)" by (metis prod.collapse)
  have key: "jc_idempotency_key (sample_create nm (Some ''k'') []) = Some ''k''" for nm
    by (simp add: sample_create_def)
  have "db_keys (snd ?r) \<and> j \<in> set (jobs (snd ?r))"
    using enqueue_created_keys [OF sample_tenant_keys well_behaved_id(2) well_behaved_id(2) r] by blast
  then have "enqueue 9 sample_ids id id sample_user (sample_create ''other'' (Some ''k'') []) (snd ?r)
      = (Inr (j, False), snd ?r)"
    using resubmission_returns_first_job [OF sample_tenant_keys well_behaved_id(2) well_behaved_id(2) r
        key, of "snd ?r" j "sample_create ''other'' (Some ''k'') []"] key by simp
  with r show ?thesis by blast
qed


definition sample_racer :: "db \<Rightarrow> db" where
  "sample_racer d = d\<lparr>jobs := jobs d @ [(sample_job 21 1)\<lparr>j_idempotency_key := Some ''k''\<rparr>]\<rparr>"


text \<open>The empty key defeats the recovery: pre-check and recovery skip an empty key but the unique
  index does not, so a second submission with the key \<open>''''\<close> fails with an IntegrityError
  instead of returning the existing job.\<close>

theorem empty_key_is_not_idempotent:
  "\<exists>d1. enqueue 5 sample_ids id id sample_user (sample_create ''default'' (Some '''') []) sample_tenant_db
       = (Inr (build_job 5 20 7 (sample_queue 1 None) (sample_create ''default'' (Some '''') []) None None, True), d1) \<and>
     db_keys d1 \<and>
     enqueue 9 (sample_ids\<lparr>i_job := 22\<rparr>) id id sample_user (sample_create ''default'' (Some '''') []) d1
       = (Inl IntegrityError, d1)"
proof -
  let ?data = "sample_create ''default'' (Some '''') []"
  let ?j = "build_job 5 20 7 (sample_queue 1 None) ?data None None"
  let ?d1 = "sample_tenant_db\<lparr>jobs := [sample_job 10 1, ?j]\<rparr>"
  have res: "resolve_queue t qid id sample_user (jc_project_id ?data) (jc_queue ?data) d
      = Inr (sample_queue 1 None, d)" if "d = sample_tenant_db \<or> d = ?d1" for t qid d
    using that
    by (auto simp: resolve_queue_def resolve_project_def default_project_def sample_create_def
        sample_user_def sample_tenant_db_def sample_db_def get_by_name_def sample_queue_def new_queue_def)
  have "enqueue 5 sample_ids id id sample_user ?data sample_tenant_db = (Inr (?j, True), ?d1)"
    using res [of sample_tenant_db 5 30]
    by (simp add: enqueue_def find_duplicate_def workflow_of_def insert_job_def Let_def sample_ids_def
        sample_create_def sample_tenant_db_def sample_defs sample_user_def build_job_def effective_def
        job_checks_def)
  moreover have "enqueue 9 (sample_ids\<lparr>i_job := 22\<rparr>) id id sample_user ?data ?d1 = (Inl IntegrityError, ?d1)"
    using res [of ?d1 9 30]
    by (simp add: enqueue_def find_duplicate_def workflow_of_def insert_job_def Let_def sample_ids_def
        sample_create_def sample_user_def build_job_def)
  moreover have "db_keys ?d1" by code_simp
  ultimately show ?thesis by blast
qed

subsection \<open>Queue defaults\<close>

lemma effective_bounds:
  fixes a :: "'a :: order"
  shows "a \<le> get data \<Longrightarrow> a \<le> dv \<Longrightarrow> a \<le> effective data f get dv"
    and "get data \<le> a \<Longrightarrow> dv \<le> a \<Longrightarrow> effective data f get dv \<le> a"
  by (simp_all add: effective_def)

lemma build_job_policy:
  fixes now i ow q data b w
  defines "j \<equiv> build_job now i ow q data b w"
  shows "j_priority j = effective data ''priority'' jc_priority (q_default_priority q)"
    "j_max_attempts j = effective data ''max_attempts'' jc_max_attempts (q_default_max_attempts q)"
    "j_timeout_seconds j = effective data ''timeout_seconds'' jc_timeout_seconds (q_default_timeout_seconds q)"
    "j_backoff_strategy j = effective data ''backoff_strategy'' jc_backoff_strategy (q_default_backoff_strategy q)"
    "j_backoff_base_seconds j =
       effective data ''backoff_base_seconds'' jc_backoff_base_seconds (q_default_backoff_base_seconds q)"
    "j_backoff_factor j = effective data ''backoff_factor'' jc_backoff_factor (q_default_backoff_factor q)"
    "j_backoff_max_seconds j =
       effective data ''backoff_max_seconds'' jc_backoff_max_seconds (q_default_backoff_max_seconds q)"
  by (simp_all add: j_def build_job_def)

text \<open>The stored policy is the effective one: a validated request on a queue that satisfies its
  constraints yields a row that satisfies every CHECK of the jobs table, in which a policy
  field the client sent has the sent value (even when it equals the schema default) and one
  it omitted has the queue's default.\<close>

theorem queue_defaults_inherited:
  assumes "job_create_valid json_bytes data" and "queue_checks q"
    and "j = build_job now i ow q data b w"
  shows "job_checks j \<and>
    j_priority j = (if ''priority'' \<in> set (jc_fields_set data) then jc_priority data else q_default_priority q) \<and>
    j_max_attempts j =
      (if ''max_attempts'' \<in> set (jc_fields_set data) then jc_max_attempts data else q_default_max_attempts q) \<and>
    j_timeout_seconds j =
      (if ''timeout_seconds'' \<in> set (jc_fields_set data) then jc_timeout_seconds data
       else q_default_timeout_seconds q) \<and>
    j_backoff_strategy j =
      (if ''backoff_strategy'' \<in> set (jc_fields_set data) then jc_backoff_strategy data
       else q_default_backoff_strategy q)"
proof -
  have "job_checks j"
    using assms(1,2) unfolding job_checks_def assms(3) build_job_policy
    by (simp only: job_create_valid_def queue_checks_def effective_bounds simp_thms)
  then show ?thesis
    unfolding assms(3) build_job_policy by (simp only: effective_def simp_thms)
qed

theorem queue_defaults_inherited_witness:
  "j_max_attempts (build_job 0 1 7 ((sample_queue 1 None)\<lparr>q_default_max_attempts := 7\<rparr>)
      (sample_create ''default'' None []) None None) = 7"
proof -
  have "job_create_valid (\<lambda>_. 2) (sample_create ''default'' None [])"
    and "queue_checks ((sample_queue 1 None)\<lparr>q_default_max_attempts := 7\<rparr>)"
    by (simp_all add: job_create_valid_def sample_create_def length_between_def max_payload_bytes_def
        queue_checks_def sample_queue_def new_queue_def)
  note * = queue_defaults_inherited [OF this refl, of 0 1 7 None None]
  have "''max_attempts'' \<notin> set (jc_fields_set (sample_create ''default'' None []))"
    by (simp add: sample_create_def)
  with * show ?thesis by simp
qed

subsection \<open>Batches\<close>

lemma stage_items_result:
  assumes "stage_items now qid jid b usr i cache pending js items d = Inr (pending', js', d')"
  shows "\<exists>ks. js' = js @ ks \<and> jobs d' @ pending' = jobs d @ pending @ ks \<and>
    length ks = length items \<and> dependencies d' = dependencies d \<and> attempts d' = attempts d \<and>
    (\<forall>k \<in> set ks. j_batch_id k = Some b \<and> j_owner_id k = u_id usr \<and> j_status k = PENDING)"
  using assms
proof (induction items arbitrary: i cache pending js d)
  case Nil
  then show ?case by simp
next
  case (Cons data rest)
  show ?case
  proof (cases "map_of cache (jc_project_id data, jc_queue data)")
    case (Some q)
    let ?j = "build_job now (jid i) (u_id usr) q data (Some b) None"
    have "stage_items now qid jid b usr (Suc i) cache (pending @ [?j]) (js @ [?j]) rest d
        = Inr (pending', js', d')"
      using Cons.prems Some by (simp add: Let_def)
    from Cons.IH [OF this] obtain ks where "js' = (js @ [?j]) @ ks"
        "jobs d' @ pending' = jobs d @ (pending @ [?j]) @ ks" "length ks = length rest"
        "dependencies d' = dependencies d" "attempts d' = attempts d"
        "\<forall>k \<in> set ks. j_batch_id k = Some b \<and> j_owner_id k = u_id usr \<and> j_status k = PENDING"
      by blast
    then show ?thesis by (intro exI [of _ "?j # ks"]) simp
  next
    case None
    then obtain d1 q d2 where 1: "insert_jobs pending d = Inr d1"
      and 2: "resolve_queue now (qid i) id usr (jc_project_id data) (jc_queue data) d1 = Inr (q, d2)"
      and 3: "stage_items now qid jid b usr (Suc i) (((jc_project_id data, jc_queue data), q) # cache)
          [build_job now (jid i) (u_id usr) q data (Some b) None]
          (js @ [build_job now (jid i) (u_id usr) q data (Some b) None]) rest d2 = Inr (pending', js', d')"
      using Cons.prems by (auto simp: Let_def)
    let ?j = "build_job now (jid i) (u_id usr) q data (Some b) None"
    from Cons.IH [OF 3] obtain ks where "js' = (js @ [?j]) @ ks"
        "jobs d' @ pending' = jobs d2 @ [?j] @ ks" "length ks = length rest"
        "dependencies d' = dependencies d2" "attempts d' = attempts d2"
        "\<forall>k \<in> set ks. j_batch_id k = Some b \<and> j_owner_id k = u_id usr \<and> j_status k = PENDING"
      by blast
    then show ?thesis
      using insert_jobs_db [OF 1] resolve_queue_tables [OF 2]
      by (intro exI [of _ "?j # ks"]) simp
  qed
qed

lemma batch_result:
  assumes "enqueue_batch now qid jid b (\<lambda>x. x) usr items d = (res, d')"
  shows "case res of
      Inl e \<Rightarrow> d' = d
    | Inr (b', js) \<Rightarrow> b' = b \<and> jobs d' = jobs d @ js \<and> length js = length items \<and>
        attempts d' = attempts d \<and> dependencies d' = dependencies d \<and>
        (\<forall>j \<in> set js. j_batch_id j = Some b \<and> j_owner_id j = u_id usr \<and> j_status j = PENDING)"
proof (cases "stage_items now qid jid b usr 0 [] [] [] items d")
  case (Inl e)
  then show ?thesis using assms by (auto simp: enqueue_batch_def)
next
  case (Inr staged)
  obtain pending js d1 where s: "staged = (pending, js, d1)" by (cases staged)
  note res = stage_items_result [OF Inr [unfolded s]]
  show ?thesis
  proof (cases "insert_jobs pending d1")
    case (Inl e)
    then show ?thesis using assms Inr s by (auto simp: enqueue_batch_def)
  next
    case ins: (Inr d2)
    then have "res = Inr (b, js)" "d' = d2" using assms Inr s by (auto simp: enqueue_batch_def)
    then show ?thesis using res insert_jobs_db [OF ins] by simp
  qed
qed


definition sample_batch :: "string \<Rightarrow> string \<Rightarrow> string \<Rightarrow> JobCreate list" where
  "sample_batch n1 n2 n3 =
     [sample_create n1 (Some ''k'') [], sample_create n2 (Some ''k'') [], sample_create n3 None []]"


text \<open>A repeated key is reported as a conflict only when the commit finds it: with both items on
  one queue the batch is rejected with the documented ConflictError, but when a later item
  names another queue the pending rows are flushed by that queue's lookup, outside the
  handler, and the batch ends with a bare IntegrityError.\<close>

theorem batch_duplicate_error_depends_on_queues:
  "enqueue_batch 5 (\<lambda>i. 30 + i) (\<lambda>i. 20 + i) 60 id sample_user
      (sample_batch ''default'' ''default'' ''default'') sample_tenant_db = (Inl batch_conflict, sample_tenant_db) \<and>
   enqueue_batch 5 (\<lambda>i. 30 + i) (\<lambda>i. 20 + i) 60 id sample_user
      (sample_batch ''default'' ''default'' ''other'') sample_tenant_db = (Inl IntegrityError, sample_tenant_db)"
proof -
  let ?r = "\<lambda>n. enqueue_batch 5 (\<lambda>i. 30 + i) (\<lambda>i. 20 + i) 60 id sample_user
      (sample_batch ''default'' ''default'' n) sample_tenant_db"
  have same: "(case fst (?r ''default'') of Inl e \<Rightarrow> e = batch_conflict | Inr _ \<Rightarrow> False)" by code_simp
  have other: "(case fst (?r ''other'') of Inl e \<Rightarrow> e = IntegrityError | Inr _ \<Rightarrow> False)" by code_simp
  have "?r n = (Inl e, sample_tenant_db)" if "fst (?r n) = Inl e" for n e
    using batch_result [OF prod.collapse [symmetric], of 5 "\<lambda>i. 30 + i" "\<lambda>i. 20 + i" 60 sample_user
        "sample_batch ''default'' ''default'' n" sample_tenant_db] that
    by (simp add: id_def prod_eq_iff)
  moreover have "fst (?r ''default'') = Inl batch_conflict"
    using same by (cases "fst (?r ''default'')") simp_all
  moreover have "fst (?r ''other'') = Inl IntegrityError"
    using other by (cases "fst (?r ''other'')") simp_all
  ultimately show ?thesis by blast
qed

text \<open>A batch drops the dependencies of its items: an item that names an unfinished job in
  \<open>depends_on\<close> is stored without any dependency and is claimed at once, while the single
  enqueue of the same request holds it back.\<close>

theorem batch_ignores_dependencies:
  "\<exists>js d1 d2. enqueue_batch 5 (\<lambda>i. 30 + i) (\<lambda>i. 20 + i) 60 (\<lambda>x. x) sample_user
        [sample_create ''default'' None [10]] sample_tenant_db = (Inr (60, js), d1) \<and>
     map j_id js = [20] \<and> dependencies d1 = [] \<and>
     list_all (\<lambda>j. \<not> unmet_dep d1 j) js \<and>
     (\<exists>j. enqueue 5 sample_ids id id sample_user (sample_create ''default'' None [10]) sample_tenant_db
        = (Inr (j, True), d2) \<and> unmet_dep d2 j)"
proof -
  let ?b = "enqueue_batch 5 (\<lambda>i. 30 + i) (\<lambda>i. 20 + i) 60 (\<lambda>x. x) sample_user
        [sample_create ''default'' None [10]] sample_tenant_db"
  let ?e = "enqueue 5 sample_ids id id sample_user (sample_create ''default'' None [10]) sample_tenant_db"
  have "(case fst ?b of Inl _ \<Rightarrow> False | Inr (b, js) \<Rightarrow> b = 60 \<and> map j_id js = [20]
      \<and> dependencies (snd ?b) = [] \<and> list_all (\<lambda>j. \<not> unmet_dep (snd ?b) j) js)" by code_simp
  then obtain js where b: "fst ?b = Inr (60, js)" "map j_id js = [20]" "dependencies (snd ?b) = []"
      "list_all (\<lambda>j. \<not> unmet_dep (snd ?b) j) js"
    by (auto split: sum.splits)
  have "(case fst ?e of Inl _ \<Rightarrow> False | Inr (j, new) \<Rightarrow> new \<and> unmet_dep (snd ?e) j)" by code_simp
  then obtain j where e: "fst ?e = Inr (j, True)" "unmet_dep (snd ?e) j"
    by (auto split: sum.splits)
  show ?thesis
    by (rule exI [of _ js], rule exI [of _ "snd ?b"], rule exI [of _ "snd ?e"])
      (use b e in \<open>auto simp: prod_eq_iff\<close>)
qed

subsection \<open>The dependency graph\<close>

lemma depends_earlier_append:
  "depends_earlier d \<Longrightarrow> map j_id (jobs d') = map j_id (jobs d) @ is \<Longrightarrow>
   dependencies d' = dependencies d \<Longrightarrow> depends_earlier d'"
  by (fastforce simp: depends_earlier_def)

lemma inherit_workflow_targets:
  "inherit_workflow usr ts w d = Inr w' \<Longrightarrow> set ts \<subseteq> j_id ` set (jobs d)"
  by (induction ts arbitrary: w) (auto simp: require_Inr_iff dest!: get_for_owner_SomeD)

lemma length_takeWhile_until:
  "i \<notin> set us \<Longrightarrow> length (takeWhile (\<lambda>x. x \<noteq> i) (us @ i # vs)) = length us"
  by (induction us) auto

lemma acyclic_by_position:
  assumes "unique_on j_id (jobs d)" and "depends_earlier d"
  shows "acyclic ((\<lambda>e. (d_job_id e, d_depends_on_job_id e)) ` set (dependencies d))"
proof -
  define pos where "pos i = length (takeWhile (\<lambda>x. x \<noteq> i) (map j_id (jobs d)))" for i
  have "pos (d_depends_on_job_id e) < pos (d_job_id e)" if e: "e \<in> set (dependencies d)" for e
  proof -
    from assms(2) e obtain xs ys where split: "map j_id (jobs d) = xs @ d_job_id e # ys"
      and t: "d_depends_on_job_id e \<in> set xs"
      unfolding depends_earlier_def by blast
    have "d_job_id e \<notin> set xs" using assms(1) split by (simp add: unique_on_def)
    then have "pos (d_job_id e) = length xs"
      unfolding pos_def split by (rule length_takeWhile_until)
    moreover have "pos (d_depends_on_job_id e) < length xs"
    proof -
      obtain us vs where "xs = us @ d_depends_on_job_id e # vs" "d_depends_on_job_id e \<notin> set us"
        using t by (metis split_list_first)
      then show ?thesis
        using length_takeWhile_until [of "d_depends_on_job_id e" us "vs @ d_job_id e # ys"]
        by (simp add: pos_def split)
    qed
    ultimately show ?thesis by simp
  qed
  then have "((\<lambda>e. (d_job_id e, d_depends_on_job_id e)) ` set (dependencies d))\<inverse> \<subseteq> measure pos"
    by auto
  then have "acyclic (((\<lambda>e. (d_job_id e, d_depends_on_job_id e)) ` set (dependencies d))\<inverse>)"
    by (rule acyclic_subset [OF wf_acyclic [OF wf_measure]])
  then show ?thesis by (simp only: acyclic_converse)
qed

lemma enqueue_graph:
  assumes "db_keys d" and "depends_earlier d" and "well_behaved r1" and "well_behaved r2"
    and "enqueue now ids r1 r2 usr data d = (res, d')"
  shows "depends_earlier d' \<and> db_keys d'"
proof (cases rule: enqueue_cases [OF assms(5)])
  case (2)
  have "db_keys (r1 d)" "depends_earlier (r1 d)"
    using assms(1-3) by (simp_all add: well_behaved_def)
  then have "db_keys (r2 (r1 d))" "depends_earlier (r2 (r1 d))"
    using assms(4) by (simp_all add: well_behaved_def)
  with 2 assms(1,2) \<open>db_keys (r1 d)\<close> \<open>depends_earlier (r1 d)\<close> show ?thesis by auto
next
  case (1 j)
  then have run: "enqueue now ids r1 r2 usr data d = (Inr (j, True), d')"
    using assms(5) by simp
  from run obtain q v w e where
      r: "resolve_queue now (i_queue ids) r1 usr (jc_project_id data) (jc_queue data) d = Inr (q, v)"
    and wf: "workflow_of (i_workflow ids) usr data v = Inr w"
    and j: "j = build_job now (i_job ids) (u_id usr) q data None w"
    and ins: "insert_job j (r2 v) = Inr e"
    and deps: "add_many (i_dependency ids) (i_job ids) (jc_depends_on data) e = Inr d'"
    by (rule enqueue_created)
  have "map j_id (jobs v) = map j_id (jobs (r1 d)) @ []" "dependencies v = dependencies (r1 d)"
    using resolve_queue_tables [OF r] by simp_all
  then have "depends_earlier v"
    using assms(2,3) by (intro depends_earlier_append [of "r1 d" v]) (simp_all add: well_behaved_def)
  then have "depends_earlier (r2 v)" using assms(4) by (simp add: well_behaved_def)
  then have old: "depends_earlier e"
    using insert_job_db [OF ins] by (intro depends_earlier_append [of "r2 v" e "[j_id j]"]) simp_all
  have "set (jc_depends_on data) \<subseteq> j_id ` set (jobs v)"
    using wf inherit_workflow_targets by (auto simp: workflow_of_def split: if_splits)
  then have targets: "set (jc_depends_on data) \<subseteq> set (map j_id (jobs (r2 v)))"
    using well_behaved_ids [OF assms(4), of v] by auto
  have ids: "map j_id (jobs d') = map j_id (jobs (r2 v)) @ i_job ids # []"
    and edges: "dependencies d' = dependencies e @ map (\<lambda>t. \<lparr>d_id = i_dependency ids t,
        d_job_id = i_job ids, d_depends_on_job_id = t\<rparr>) (jc_depends_on data)"
    and same: "map j_id (jobs d') = map j_id (jobs e)"
    using add_many_db [OF deps] insert_job_db [OF ins] by (simp_all add: j)
  have "\<exists>xs ys. map j_id (jobs d') = xs @ d_job_id x # ys \<and> d_depends_on_job_id x \<in> set xs"
    if x: "x \<in> set (dependencies d')" for x
  proof (cases "x \<in> set (dependencies e)")
    case True
    then show ?thesis using old unfolding depends_earlier_def same by blast
  next
    case False
    then obtain t where t: "t \<in> set (jc_depends_on data)" "d_job_id x = i_job ids"
        "d_depends_on_job_id x = t"
      using x by (auto simp: edges)
    show ?thesis
      by (rule exI [of _ "map j_id (jobs (r2 v))"], rule exI [of _ "[]"])
        (use t targets ids in auto)
  qed
  then show ?thesis
    using enqueue_created_keys [OF assms(1,3,4) run] by (simp add: depends_earlier_def)
qed



subsection \<open>Cancel and requeue\<close>

lemma get_for_owner_row:
  assumes "unique_on j_id (jobs d)"
  shows "get_for_owner i ow d =
    (case row j_id i (jobs d) of None \<Rightarrow> None | Some j \<Rightarrow> if j_owner_id j = ow then Some j else None)"
proof (cases "get_for_owner i ow d")
  case (Some j)
  then have "row j_id i (jobs d) = Some j"
    using row_Some_iff [OF assms] get_for_owner_SomeD by blast
  then show ?thesis using Some get_for_owner_SomeD by fastforce
next
  case None
  then have "row j_id i (jobs d) = Some j \<Longrightarrow> j_owner_id j \<noteq> ow" for j
    using row_SomeD [of j_id i "jobs d" j] by (auto simp: get_for_owner_def find_None_iff)
  then show ?thesis using None by (auto split: option.splits)
qed

text \<open>Cancelling on every branch: an unknown job and another owner's job are both reported as not
  found, a job that is not PENDING as a conflict, and both leave the database unchanged; a
  PENDING job of the caller becomes CANCELLED, its row is returned, and every other row of
  the table is untouched.\<close>

theorem cancel_outcome:
  assumes "unique_on j_id (jobs d)"
  shows "cancel_job now ow i d =
    (case row j_id i (jobs d) of
       None \<Rightarrow> (Inl (NotFoundError ''job not found''), d)
     | Some j \<Rightarrow>
         if j_owner_id j \<noteq> ow then (Inl (NotFoundError ''job not found''), d)
         else if j_status j \<noteq> PENDING then (Inl (ConflictError ''only pending jobs can be cancelled''), d)
         else (Inr (j\<lparr>j_status := CANCELLED, j_finished_at := Some now, j_updated_at := now\<rparr>),
           d\<lparr>jobs := update_where (\<lambda>k. k = j)
              (\<lambda>k. k\<lparr>j_status := CANCELLED, j_finished_at := Some now, j_updated_at := now\<rparr>) (jobs d)\<rparr>))"
proof -
  let ?P = "\<lambda>j. j_id j = i \<and> (j_owner_id j = ow \<and> j_status j = PENDING)"
  note res = cancelled.by_id_result [OF assms, of i ow now]
  show ?thesis
  proof (cases "fst (cancel now i ow d)")
    case None
    then have c: "cancel now i ow d = (None, d)"
      using guarded_update_None [of ?P _ d] by (simp add: cancel_def prod_eq_iff)
    have step: "cancel_job now ow i d = (bind (get_job ow i d)
        (\<lambda>_. Inl (ConflictError ''only pending jobs can be cancelled'')), d)"
      by (simp add: cancel_job_def c)
    have "\<not> (j_owner_id j = ow \<and> j_status j = PENDING)" if "row j_id i (jobs d) = Some j" for j
      using None res that by (auto simp: cancel_def)
    then show ?thesis
      by (cases "row j_id i (jobs d)") (simp_all add: step get_job_def get_for_owner_row [OF assms])
  next
    case (Some k)
    then obtain j where j: "row j_id i (jobs d) = Some j" "j_owner_id j = ow" "j_status j = PENDING"
        "k = j\<lparr>j_status := CANCELLED, j_finished_at := Some now, j_updated_at := now\<rparr>"
      using res by (auto simp: cancel_def split: option.splits if_splits)
    have "?P k \<longleftrightarrow> k = j" if "k \<in> set (jobs d)" for k
      using unique_onD [OF assms that, of j] row_SomeD [OF j(1)] j(2,3) by auto
    then have "update_where ?P f (jobs d) = update_where (\<lambda>k. k = j) f (jobs d)" for f
      by (rule update_where_cong)
    then have "cancel now i ow d = (Some k, d\<lparr>jobs := update_where (\<lambda>k. k = j)
        (\<lambda>k. k\<lparr>j_status := CANCELLED, j_finished_at := Some now, j_updated_at := now\<rparr>) (jobs d)\<rparr>)"
      using Some by (simp add: cancel_def prod_eq_iff guarded_update_db)
    then show ?thesis using j by (simp add: cancel_job_def)
  qed
qed

theorem cancel_outcome_witness:
  "fst (cancel_job 9 8 10 sample_tenant_db) = Inl (NotFoundError ''job not found'') \<and>
   snd (cancel_job 9 8 10 sample_tenant_db) = sample_tenant_db"
proof -
  have "row j_id 10 (jobs sample_tenant_db) = Some (sample_job 10 1)"
    by (simp add: sample_tenant_db_def sample_defs)
  then show ?thesis
    using cancel_outcome [OF db_keysD(1) [OF sample_tenant_keys], of 9 8 10] by (simp add: sample_job_def)
qed

text \<open>Requeueing gives a fresh budget: only a DEAD or CANCELLED job of the caller is requeued; it
  is PENDING, due at once, with no attempt counted, no lease and no result, and with the
  identity, payload and retry policy it was enqueued with.\<close>

theorem requeue_outcome:
  assumes "unique_on j_id (jobs d)" and "requeue_job now ow i d = (res, d')"
  shows "case res of
      Inl e \<Rightarrow> d' = d \<and> (\<forall>j. row j_id i (jobs d) = Some j \<longrightarrow>
        j_owner_id j \<noteq> ow \<and> e = NotFoundError ''job not found'' \<or>
        j_owner_id j = ow \<and> j_status j \<notin> {DEAD, CANCELLED} \<and>
          e = ConflictError ''only dead or cancelled jobs can be requeued'')
    | Inr k \<Rightarrow> (\<exists>j. row j_id i (jobs d) = Some j \<and> j_owner_id j = ow \<and> j_status j \<in> {DEAD, CANCELLED} \<and>
        row j_id i (jobs d') = Some k \<and> contract k = contract j \<and> j_status k = PENDING \<and>
        j_attempt_count k = 0 \<and> j_run_at k = now \<and> j_locked_by k = None \<and> j_result k = None)"
proof -
  let ?P = "\<lambda>j. j_id j = i \<and> (j_owner_id j = ow \<and> j_status j \<in> {DEAD, CANCELLED})"
  note res = requeued.by_id_result [OF assms(1), of i ow now]
  note self = requeued.by_id_self [where i = i and d = d and ow = ow and now = now]
  show ?thesis
  proof (cases "fst (requeue now i ow d)")
    case None
    then have c: "requeue now i ow d = (None, d)"
      using guarded_update_None [of ?P _ d] by (simp add: requeue_def prod_eq_iff)
    have step: "requeue_job now ow i d = (bind (get_job ow i d)
        (\<lambda>_. Inl (ConflictError ''only dead or cancelled jobs can be requeued'')), d)"
      by (simp add: requeue_job_def c)
    have "\<not> (j_owner_id j = ow \<and> j_status j \<in> {DEAD, CANCELLED})" if "row j_id i (jobs d) = Some j" for j
      using None res that by (auto simp: requeue_def)
    then show ?thesis
      using assms(2)
      by (cases "row j_id i (jobs d)")
        (auto simp: step get_job_def get_for_owner_row [OF assms(1)])
  next
    case (Some k)
    then have "requeue now i ow d = (Some k, snd (requeue now i ow d))" by (simp add: prod_eq_iff)
    then have out: "res = Inr k" "d' = snd (requeue now i ow d)"
      using assms(2) by (auto simp: requeue_job_def split: prod.splits)
    show ?thesis
      using Some res self requeued.contract_kept
      by (auto simp: out requeue_def contract_def split: option.splits if_splits)
  qed
qed

theorem requeue_outcome_witness:
  "\<exists>k. fst (requeue_job 9 7 10 (sample_tenant_db\<lparr>jobs := [(sample_job 10 1)\<lparr>j_status := DEAD, j_attempt_count := 3\<rparr>]\<rparr>))
     = Inr k \<and> j_status k = PENDING \<and> j_attempt_count k = 0"
proof -
  let ?d = "sample_tenant_db\<lparr>jobs := [(sample_job 10 1)\<lparr>j_status := DEAD, j_attempt_count := 3\<rparr>]\<rparr>"
  have u: "unique_on j_id (jobs ?d)" by (simp add: unique_on_def)
  have "\<not> isl (fst (requeue_job 9 7 10 ?d))" by code_simp
  then obtain k where k: "fst (requeue_job 9 7 10 ?d) = Inr k" by (cases "fst (requeue_job 9 7 10 ?d)") auto
  from requeue_outcome [OF u prod.collapse [symmetric], of 9 7 10] k show ?thesis by auto
qed

end
