(* ===== verification/Schedule_Service.thy ===== *)
theory Schedule_Service
  imports Job_Service
begin

section \<open>Recurring schedules (app/domain/cron.py, repositories and services of schedules)\<close>

text \<open>
  croniter is a parameter: \<open>cron_ok\<close> says whether it accepts an expression, \<open>cron_next expr t\<close>
  is its next fire time after \<open>t\<close>, or \<open>None\<close> where it raises because it finds no further
  date.  \<open>cron_strict\<close> is what its documentation promises and the code relies on.
\<close>

definition cron_strict :: "(string \<Rightarrow> time \<Rightarrow> time option) \<Rightarrow> bool" where
  "cron_strict cron_next \<longleftrightarrow> (\<forall>expr t u. cron_next expr t = Some u \<longrightarrow> t < u)"

definition validate_cron :: "(string \<Rightarrow> bool) \<Rightarrow> string \<Rightarrow> service_error + string" where
  "validate_cron cron_ok expr =
     (if cron_ok expr then Inr expr else Inl (InvalidCronExpression expr))"

definition next_run_after :: "(string \<Rightarrow> time \<Rightarrow> time option) \<Rightarrow> string \<Rightarrow> time \<Rightarrow> service_error + time" where
  "next_run_after cron_next expr after = require CroniterError (cron_next expr after)"

subsection \<open>app/repositories/schedules.py\<close>

definition insert_schedule :: "schedule \<Rightarrow> db \<Rightarrow> service_error + db" where
  "insert_schedule s d =
     (if s_id s \<notin> s_id ` set (schedules d) \<and> s_queue_id s \<in> q_id ` set (queues d)
         \<and> s_owner_id s \<in> u_id ` set (users d) \<and> schedule_checks s
      then Inr (d\<lparr>schedules := schedules d @ [s]\<rparr>) else Inl IntegrityError)"

definition get_schedule_for_owner :: "uuid \<Rightarrow> uuid \<Rightarrow> db \<Rightarrow> schedule option" where
  "get_schedule_for_owner schedule_id owner_id d =
     List.find (\<lambda>s. s_id s = schedule_id \<and> s_owner_id s = owner_id) (schedules d)"

definition list_schedules_for_owner :: "uuid \<Rightarrow> nat \<Rightarrow> nat \<Rightarrow> db \<Rightarrow> schedule list \<times> nat" where
  "list_schedules_for_owner owner_id limit offset d =
     (let conditions = (\<lambda>s. s_owner_id s = owner_id)
      in (take limit (drop offset (sort_key (\<lambda>s. - s_created_at s) (filter conditions (schedules d)))),
          count_where conditions (schedules d)))"

definition delete_schedule_row :: "schedule \<Rightarrow> db \<Rightarrow> db" where
  "delete_schedule_row s d = d\<lparr>schedules := filter (\<lambda>x. s_id x \<noteq> s_id s) (schedules d)\<rparr>"

definition due :: "time \<Rightarrow> schedule \<Rightarrow> bool" where
  "due now s \<longleftrightarrow> \<not> s_paused s \<and> s_next_run_at s \<le> now"

definition select_due_for_update :: "time \<Rightarrow> (uuid \<Rightarrow> bool) \<Rightarrow> nat \<Rightarrow> db \<Rightarrow> schedule list" where
  "select_due_for_update now locked limit d =
     take limit (sort_key s_next_run_at (filter (\<lambda>s. due now s \<and> \<not> locked (s_id s)) (schedules d)))"

subsection \<open>app/services/schedule_service.py\<close>

text \<open>Unlike the job service, a lost create race of the queue is not recovered here.\<close>

definition resolve_schedule_queue ::
  "time \<Rightarrow> uuid \<Rightarrow> (db \<Rightarrow> db) \<Rightarrow> user \<Rightarrow> uuid option \<Rightarrow> string \<Rightarrow> db
     \<Rightarrow> service_error + job_queue \<times> db" where
  "resolve_schedule_queue now qid race usr project_id nm d =
     bind (resolve_project usr project_id d) (\<lambda>p.
       case get_by_name (p_id p) nm d of
         Some q \<Rightarrow> Inr (q, race d)
       | None \<Rightarrow>
           bind (insert_queue (new_queue now qid (p_id p) nm) (race d))
             (\<lambda>d1. Inr (new_queue now qid (p_id p) nm, d1)))"

definition create_schedule ::
  "(string \<Rightarrow> time \<Rightarrow> time option) \<Rightarrow> time \<Rightarrow> uuid \<Rightarrow> uuid \<Rightarrow> (db \<Rightarrow> db) \<Rightarrow> user \<Rightarrow> ScheduleCreate \<Rightarrow> db
     \<Rightarrow> (service_error + schedule) \<times> db" where
  "create_schedule cron_next now qid sid race usr data d =
     (case bind (resolve_schedule_queue now qid race usr (sc_project_id data) (sc_queue data) d)
             (\<lambda>(q, d1). bind (next_run_after cron_next (sc_cron_expr data) now)
               (\<lambda>t. let s = \<lparr>s_id = sid, s_owner_id = u_id usr, s_queue_id = q_id q, s_queue = q_name q,
                       s_task_name = sc_task_name data, s_payload = sc_payload data,
                       s_cron_expr = sc_cron_expr data, s_paused = False, s_priority = sc_priority data,
                       s_max_attempts = sc_max_attempts data, s_timeout_seconds = sc_timeout_seconds data,
                       s_backoff_strategy = sc_backoff_strategy data,
                       s_backoff_base_seconds = sc_backoff_base_seconds data,
                       s_backoff_factor = sc_backoff_factor data,
                       s_backoff_max_seconds = sc_backoff_max_seconds data,
                       s_next_run_at = t, s_last_run_at = None, s_created_at = now, s_updated_at = now\<rparr>
                     in bind (insert_schedule s d1) (\<lambda>d2. Inr (s, d2)))) of
        Inl e \<Rightarrow> (Inl e, race d)
      | Inr (s, d2) \<Rightarrow> (Inr s, d2))"

definition get_schedule :: "user \<Rightarrow> uuid \<Rightarrow> db \<Rightarrow> service_error + schedule" where
  "get_schedule usr schedule_id d =
     require (NotFoundError ''schedule not found'') (get_schedule_for_owner schedule_id (u_id usr) d)"

definition list_schedules :: "user \<Rightarrow> nat \<Rightarrow> nat \<Rightarrow> db \<Rightarrow> schedule list \<times> nat" where
  "list_schedules usr limit offset d = list_schedules_for_owner (u_id usr) limit offset d"

text \<open>
  \<open>setattr\<close> of a sent field; \<open>sent old f\<close> is the value the attribute ends with, \<open>None\<close> for a
  null.  A null in a \<open>NOT NULL\<close> column is rejected by the flush (a null expression already by
  croniter, with another exception and the same effect); a null payload is the JSON value null.
\<close>

definition sent :: "'a \<Rightarrow> 'a option option \<Rightarrow> 'a option" where
  "sent old f = (case f of None \<Rightarrow> Some old | Some v \<Rightarrow> v)"

definition apply_schedule_update :: "ScheduleUpdate \<Rightarrow> schedule \<Rightarrow> schedule option" where
  "apply_schedule_update data s =
     (case (sent (s_cron_expr s) (su_cron_expr data), sent (s_paused s) (su_paused data),
            sent (s_priority s) (su_priority data), sent (s_max_attempts s) (su_max_attempts data),
            sent (s_timeout_seconds s) (su_timeout_seconds data)) of
        (Some expr, Some paused, Some prio, Some n, Some timeout) \<Rightarrow>
          Some (s\<lparr>s_cron_expr := expr, s_paused := paused, s_priority := prio, s_max_attempts := n,
                  s_timeout_seconds := timeout,
                  s_payload := (case sent (s_payload s) (su_payload data) of None \<Rightarrow> JNull | Some p \<Rightarrow> p)\<rparr>)
      | _ \<Rightarrow> None)"

text \<open>\<open>"cron_expr" in fields_set or ("paused" in fields_set and not data.paused)\<close>.\<close>

definition restarts_cursor :: "ScheduleUpdate \<Rightarrow> bool" where
  "restarts_cursor data \<longleftrightarrow>
     su_cron_expr data \<noteq> None \<or> su_paused data = Some None \<or> su_paused data = Some (Some False)"

text \<open>The flush issues an \<open>UPDATE\<close>, which refreshes \<open>updated_at\<close>, only if an attribute changed.\<close>

definition update_schedule ::
  "(string \<Rightarrow> time \<Rightarrow> time option) \<Rightarrow> time \<Rightarrow> user \<Rightarrow> uuid \<Rightarrow> ScheduleUpdate \<Rightarrow> db
     \<Rightarrow> (service_error + schedule) \<times> db" where
  "update_schedule cron_next now usr schedule_id data d =
     (case bind (get_schedule usr schedule_id d)
             (\<lambda>s. bind (require IntegrityError (apply_schedule_update data s))
               (\<lambda>s1. bind (if restarts_cursor data
                            then bind (next_run_after cron_next (s_cron_expr s1) now)
                                   (\<lambda>t. Inr (s1\<lparr>s_next_run_at := t\<rparr>))
                            else Inr s1)
                 (\<lambda>s2. if schedule_checks s2 then Inr (if s2 = s then s else s2\<lparr>s_updated_at := now\<rparr>)
                        else Inl IntegrityError))) of
        Inl e \<Rightarrow> (Inl e, d)
      | Inr s2 \<Rightarrow> (Inr s2, d\<lparr>schedules := update_where (\<lambda>x. s_id x = s_id s2) (\<lambda>_. s2) (schedules d)\<rparr>))"

definition delete_schedule :: "user \<Rightarrow> uuid \<Rightarrow> db \<Rightarrow> (service_error + unit) \<times> db" where
  "delete_schedule usr schedule_id d =
     (case get_schedule usr schedule_id d of
        Inl e \<Rightarrow> (Inl e, d)
      | Inr s \<Rightarrow> (Inr (), delete_schedule_row s d))"

subsection \<open>The materializer (app/services/execution_service.py)\<close>

definition fire_key :: "schedule \<Rightarrow> string" where
  "fire_key s = ''schedule:'' @ str_uuid (s_id s) @ '':'' @ isoformat (s_next_run_at s)"

definition fired_job :: "time \<Rightarrow> uuid \<Rightarrow> schedule \<Rightarrow> job" where
  "fired_job now jid s =
     \<lparr>j_id = jid, j_owner_id = s_owner_id s, j_queue_id = s_queue_id s, j_queue = s_queue s,
      j_task_name = s_task_name s, j_batch_id = None, j_workflow_id = None,
      j_payload = s_payload s, j_status = PENDING, j_priority = s_priority s,
      j_run_at = s_next_run_at s, j_idempotency_key = Some (fire_key s),
      j_max_attempts = s_max_attempts s, j_backoff_strategy = s_backoff_strategy s,
      j_attempt_count = 0, j_timeout_seconds = s_timeout_seconds s,
      j_backoff_base_seconds = s_backoff_base_seconds s, j_backoff_factor = s_backoff_factor s,
      j_backoff_max_seconds = s_backoff_max_seconds s, j_locked_by = None, j_lease_expires_at = None,
      j_last_error = None, j_ai_summary = None, j_result = None, j_created_at = now,
      j_updated_at = now, j_started_at = None, j_finished_at = None\<rparr>"

definition advance_cursor :: "time \<Rightarrow> time \<Rightarrow> schedule \<Rightarrow> schedule" where
  "advance_cursor now t s =
     s\<lparr>s_last_run_at := Some (s_next_run_at s), s_next_run_at := t, s_updated_at := now\<rparr>"

definition fire ::
  "(string \<Rightarrow> time \<Rightarrow> time option) \<Rightarrow> time \<Rightarrow> uuid \<Rightarrow> schedule \<Rightarrow> db \<Rightarrow> service_error + nat \<times> db" where
  "fire cron_next now jid s d =
     bind (case get_by_idempotency_key (s_owner_id s) (fire_key s) d of
             None \<Rightarrow> bind (insert_job (fired_job now jid s) d) (\<lambda>d1. Inr (1, d1))
           | Some _ \<Rightarrow> Inr (0, d))
       (\<lambda>(n, d1). bind (next_run_after cron_next (s_cron_expr s) (max (s_next_run_at s) now))
         (\<lambda>t. Inr (n, d1\<lparr>schedules :=
            update_where (\<lambda>x. s_id x = s_id s) (\<lambda>x. advance_cursor now t s) (schedules d1)\<rparr>)))"

fun fire_all ::
  "(string \<Rightarrow> time \<Rightarrow> time option) \<Rightarrow> time \<Rightarrow> (uuid \<Rightarrow> uuid) \<Rightarrow> schedule list \<Rightarrow> db
     \<Rightarrow> service_error + nat \<times> db" where
  "fire_all cron_next now jid [] d = Inr (0, d)"
| "fire_all cron_next now jid (s # ss) d =
     bind (fire cron_next now (jid (s_id s)) s d)
       (\<lambda>(n, d1). bind (fire_all cron_next now jid ss d1) (\<lambda>(m, d2). Inr (n + m, d2)))"

definition materialize_schedules_once ::
  "bool \<Rightarrow> (string \<Rightarrow> time \<Rightarrow> time option) \<Rightarrow> time \<Rightarrow> (uuid \<Rightarrow> uuid) \<Rightarrow> (uuid \<Rightarrow> bool) \<Rightarrow> db
     \<Rightarrow> (service_error + nat) \<times> db" where
  "materialize_schedules_once got_lock cron_next now jid locked d =
     (if \<not> got_lock then (Inr 0, d)
      else case fire_all cron_next now jid (select_due_for_update now locked 100 d) d of
             Inl e \<Rightarrow> (Inl e, d)
           | Inr (n, d1) \<Rightarrow> (Inr n, d1))"

end
