(* ===== verification/Schedule_Props.thy ===== *)
theory Schedule_Props
  imports Schedule_Service Job_Service_Props
begin

section \<open>Properties of the materializer and the schedule service\<close>

text \<open>
  What one sweep creates and where it leaves the cursors, why a second sweep at the same
  instant creates nothing, what an update does to the pending tick, and how a schedule
  without a further tick stops every other one.
\<close>

subsection \<open>One firing\<close>

text \<open>The assumptions under which the insert of a firing is accepted.\<close>

definition fireable :: "(string \<Rightarrow> time \<Rightarrow> time option) \<Rightarrow> time \<Rightarrow> db \<Rightarrow> schedule \<Rightarrow> bool" where
  "fireable cron_next now d s \<longleftrightarrow>
     s_queue_id s \<in> q_id ` set (queues d) \<and> s_owner_id s \<in> u_id ` set (users d) \<and>
     schedule_checks s \<and> cron_next (s_cron_expr s) (max (s_next_run_at s) now) \<noteq> None"

definition next_tick :: "(string \<Rightarrow> time \<Rightarrow> time option) \<Rightarrow> time \<Rightarrow> schedule \<Rightarrow> time" where
  "next_tick cron_next now s = the (cron_next (s_cron_expr s) (max (s_next_run_at s) now))"

lemma next_tick_future:
  "cron_strict cron_next \<Longrightarrow> fireable cron_next now d s \<Longrightarrow>
   now < next_tick cron_next now s \<and> s_next_run_at s < next_tick cron_next now s"
  by (auto simp: cron_strict_def fireable_def next_tick_def) (metis max_less_iff_conj)+

lemma fired_job_checks: "schedule_checks s \<Longrightarrow> job_checks (fired_job now i s)"
  by (simp add: schedule_checks_def job_checks_def fired_job_def)

lemma fired_job_fields [simp]:
  "j_id (fired_job now i s) = i" "j_owner_id (fired_job now i s) = s_owner_id s"
  "j_queue_id (fired_job now i s) = s_queue_id s"
  "j_idempotency_key (fired_job now i s) = Some (fire_key s)"
  "j_status (fired_job now i s) = PENDING" "j_run_at (fired_job now i s) = s_next_run_at s"
  "j_attempt_count (fired_job now i s) = 0" "j_locked_by (fired_job now i s) = None"
  "j_lease_expires_at (fired_job now i s) = None"
  by (simp_all add: fired_job_def)

lemma advance_cursor_fields [simp]:
  "s_id (advance_cursor now t s) = s_id s" "s_next_run_at (advance_cursor now t s) = t"
  "s_last_run_at (advance_cursor now t s) = Some (s_next_run_at s)"
  "s_paused (advance_cursor now t s) = s_paused s"
  by (simp_all add: advance_cursor_def)

definition advance_row :: "(string \<Rightarrow> time \<Rightarrow> time option) \<Rightarrow> time \<Rightarrow> schedule \<Rightarrow> db \<Rightarrow> db" where
  "advance_row cron_next now s d = d\<lparr>schedules := update_where (\<lambda>x. s_id x = s_id s)
     (\<lambda>x. advance_cursor now (next_tick cron_next now s) s) (schedules d)\<rparr>"

lemma advance_row_tables [simp]:
  "jobs (advance_row cn now s d) = jobs d" "queues (advance_row cn now s d) = queues d"
  "users (advance_row cn now s d) = users d" "attempts (advance_row cn now s d) = attempts d"
  "dependencies (advance_row cn now s d) = dependencies d"
  by (simp_all add: advance_row_def)

lemma advance_row_keys [simp]: "db_keys (advance_row cn now s d) = db_keys d"
  by (simp add: db_keys_def)

lemma fire_step:
  assumes "fireable cn now d s" and "i \<notin> j_id ` set (jobs d)"
  shows "fire cn now i s d =
    (if get_by_idempotency_key (s_owner_id s) (fire_key s) d = None
     then Inr (1, advance_row cn now s (d\<lparr>jobs := jobs d @ [fired_job now i s]\<rparr>))
     else Inr (0, advance_row cn now s d))"
proof (cases "get_by_idempotency_key (s_owner_id s) (fire_key s) d")
  case None
  have "(s_owner_id s, Some (fire_key s)) \<notin> (\<lambda>k. (j_owner_id k, j_idempotency_key k)) ` set (jobs d)"
    using None by (auto simp: get_by_idempotency_key_None_iff)
  then have "insert_job (fired_job now i s) d = Inr (d\<lparr>jobs := jobs d @ [fired_job now i s]\<rparr>)"
    using assms by (simp add: insert_job_def fireable_def fired_job_checks)
  then show ?thesis
    using None assms(1)
    by (auto simp: fire_def next_run_after_def advance_row_def next_tick_def fireable_def)
next
  case (Some k)
  then show ?thesis
    using assms(1)
    by (auto simp: fire_def next_run_after_def advance_row_def next_tick_def fireable_def)
qed

lemma fireable_mono:
  "fireable cn now d s \<Longrightarrow> queues d' = queues d \<Longrightarrow> users d' = users d \<Longrightarrow> fireable cn now d' s"
  by (simp add: fireable_def)

subsection \<open>A sweep\<close>

lemma fire_all_result:
  assumes "db_keys d" and "\<forall>s \<in> set ss. fireable cn now d s" and "distinct (map s_id ss)"
    and "\<forall>s \<in> set ss. jid (s_id s) \<notin> j_id ` set (jobs d)" and "inj_on jid (s_id ` set ss)"
  shows "\<exists>n d' js. fire_all cn now jid ss d = Inr (n, d') \<and> db_keys d' \<and>
    jobs d' = jobs d @ js \<and> length js = n \<and> n \<le> length ss \<and>
    (\<forall>j \<in> set js. \<exists>s \<in> set ss. j = fired_job now (jid (s_id s)) s) \<and>
    (\<forall>s \<in> set ss. \<exists>j \<in> set (jobs d'). j_owner_id j = s_owner_id s \<and> j_idempotency_key j = Some (fire_key s)) \<and>
    (\<forall>x. x \<notin> s_id ` set ss \<longrightarrow> row s_id x (schedules d') = row s_id x (schedules d)) \<and>
    (\<forall>s \<in> set ss. row s_id (s_id s) (schedules d) \<noteq> None \<longrightarrow>
       row s_id (s_id s) (schedules d') = Some (advance_cursor now (next_tick cn now s) s)) \<and>
    queues d' = queues d \<and> users d' = users d \<and> attempts d' = attempts d \<and>
    dependencies d' = dependencies d \<and> map s_id (schedules d') = map s_id (schedules d)"
  using assms
proof (induction ss arbitrary: d)
  case Nil
  then show ?case by simp
next
  case (Cons s ss)
  let ?i = "jid (s_id s)"
  define js1 where "js1 = (if get_by_idempotency_key (s_owner_id s) (fire_key s) d = None
      then [fired_job now ?i s] else [])"
  define d1 where "d1 = advance_row cn now s (d\<lparr>jobs := jobs d @ js1\<rparr>)"
  have step: "fire cn now ?i s d = Inr (length js1, d1)"
    using fire_step [of cn now d s ?i] Cons.prems(2,4) by (simp add: d1_def js1_def)
  have keys: "db_keys (d\<lparr>jobs := jobs d @ js1\<rparr>)"
  proof (cases "js1 = []")
    case False
    then have "insert_job (fired_job now ?i s) d = Inr (d\<lparr>jobs := jobs d @ js1\<rparr>)"
      using Cons.prems(2,4)
      by (auto simp: js1_def insert_job_def fireable_def fired_job_checks
          get_by_idempotency_key_None_iff split: if_splits)
    then show ?thesis using insert_job_keys Cons.prems(1) by blast
  qed (simp add: Cons.prems(1))
  have ids: "j_id ` set (jobs d1) \<subseteq> insert ?i (j_id ` set (jobs d))"
    by (auto simp: d1_def js1_def)
  have here: "\<exists>j \<in> set (jobs d1). j_owner_id j = s_owner_id s \<and> j_idempotency_key j = Some (fire_key s)"
    by (cases "get_by_idempotency_key (s_owner_id s) (fire_key s) d")
      (auto simp: d1_def js1_def dest!: get_by_idempotency_key_SomeD)
  have sched: "row s_id x (schedules d1) = map_option (\<lambda>r. if s_id r = s_id s
      then advance_cursor now (next_tick cn now s) s else r) (row s_id x (schedules d))" for x
    unfolding d1_def advance_row_def by (simp add: row_replace)
  have names: "map s_id (schedules d1) = map s_id (schedules d)"
    unfolding d1_def advance_row_def by (simp add: map_replace)
  have dist: "distinct (map s_id ss)" "s_id s \<notin> s_id ` set ss" using Cons.prems(3) by auto
  have fresh: "\<forall>t \<in> set ss. jid (s_id t) \<notin> j_id ` set (jobs d1)"
  proof
    fix t assume t: "t \<in> set ss"
    then have "s_id t \<noteq> s_id s" using dist(2) by (metis imageI)
    then have "jid (s_id t) \<noteq> ?i" using Cons.prems(5) t by (auto simp: inj_on_def)
    then show "jid (s_id t) \<notin> j_id ` set (jobs d1)" using Cons.prems(4) t ids by auto
  qed
  have "\<forall>t \<in> set ss. fireable cn now d1 t"
    using Cons.prems(2) by (auto simp: d1_def intro: fireable_mono)
  moreover have "db_keys d1" using keys by (simp add: d1_def)
  moreover have "inj_on jid (s_id ` set ss)" using Cons.prems(5) by (simp add: inj_on_def)
  ultimately obtain m d' js where rest: "fire_all cn now jid ss d1 = Inr (m, d')" "db_keys d'"
      "jobs d' = jobs d1 @ js" "length js = m" "m \<le> length ss"
      "\<forall>j \<in> set js. \<exists>t \<in> set ss. j = fired_job now (jid (s_id t)) t"
      "\<forall>t \<in> set ss. \<exists>j \<in> set (jobs d'). j_owner_id j = s_owner_id t \<and> j_idempotency_key j = Some (fire_key t)"
      "\<forall>x. x \<notin> s_id ` set ss \<longrightarrow> row s_id x (schedules d') = row s_id x (schedules d1)"
      "\<forall>t \<in> set ss. row s_id (s_id t) (schedules d1) \<noteq> None \<longrightarrow>
         row s_id (s_id t) (schedules d') = Some (advance_cursor now (next_tick cn now t) t)"
      "queues d' = queues d1" "users d' = users d1" "attempts d' = attempts d1"
      "dependencies d' = dependencies d1" "map s_id (schedules d') = map s_id (schedules d1)"
    using Cons.IH [of d1] dist(1) fresh by blast
  show ?case
  proof (intro exI conjI)
    show "fire_all cn now jid (s # ss) d = Inr (length js1 + m, d')"
      using step rest(1) by simp
    show "jobs d' = jobs d @ (js1 @ js)" using rest(3) by (simp add: d1_def)
    show "length (js1 @ js) = length js1 + m" using rest(4) by simp
    show "length js1 + m \<le> length (s # ss)" using rest(5) by (simp add: js1_def)
    show "\<forall>j \<in> set (js1 @ js). \<exists>t \<in> set (s # ss). j = fired_job now (jid (s_id t)) t"
      using rest(6) by (auto simp: js1_def)
    show "\<forall>t \<in> set (s # ss). \<exists>j \<in> set (jobs d'). j_owner_id j = s_owner_id t \<and> j_idempotency_key j = Some (fire_key t)"
      using rest(3,7) here by auto
    show "\<forall>x. x \<notin> s_id ` set (s # ss) \<longrightarrow> row s_id x (schedules d') = row s_id x (schedules d)"
      using rest(8) sched by (auto simp: option.map_ident_strong dest!: row_SomeD intro!: option.map_ident_strong)
    show "\<forall>t \<in> set (s # ss). row s_id (s_id t) (schedules d) \<noteq> None \<longrightarrow>
        row s_id (s_id t) (schedules d') = Some (advance_cursor now (next_tick cn now t) t)"
      using rest(8,9) sched dist(2) by (auto dest: row_SomeD)
    show "map s_id (schedules d') = map s_id (schedules d)" using rest(14) names by simp
  qed (use rest in \<open>simp_all add: d1_def\<close>)
qed

lemma selected_due:
  "set (select_due_for_update now locked n d) \<subseteq> {s \<in> set (schedules d). due now s \<and> \<not> locked (s_id s)}"
  by (auto simp: select_due_for_update_def dest: in_set_takeD)

lemma selected_distinct:
  assumes "unique_on s_id (schedules d)"
  shows "distinct (map s_id (select_due_for_update now locked n d))"
proof -
  let ?xs = "sort_key s_next_run_at (filter (\<lambda>s. due now s \<and> \<not> locked (s_id s)) (schedules d))"
  have "distinct (map s_id (filter (\<lambda>s. due now s \<and> \<not> locked (s_id s)) (schedules d)))"
    using assms by (simp add: unique_on_def distinct_map_filter)
  then have "distinct (map s_id ?xs)" by (simp add: distinct_map distinct_sort)
  then show ?thesis by (simp add: select_due_for_update_def take_map [symmetric])
qed

definition sweep_ready ::
  "(string \<Rightarrow> time \<Rightarrow> time option) \<Rightarrow> time \<Rightarrow> (uuid \<Rightarrow> uuid) \<Rightarrow> (uuid \<Rightarrow> bool) \<Rightarrow> db \<Rightarrow> bool" where
  "sweep_ready cron_next now jid locked d \<longleftrightarrow>
     db_keys d \<and> distinct (map s_id (schedules d)) \<and>
     list_all (fireable cron_next now d) (select_due_for_update now locked 100 d) \<and>
     list_all (\<lambda>s. jid (s_id s) \<notin> j_id ` set (jobs d)) (select_due_for_update now locked 100 d) \<and>
     distinct (map (\<lambda>s. jid (s_id s)) (select_due_for_update now locked 100 d))"

lemma sweep_result:
  assumes "sweep_ready cn now jid locked d"
  defines "ss \<equiv> select_due_for_update now locked 100 d"
  shows "\<exists>n d' js. materialize_schedules_once True cn now jid locked d = (Inr n, d') \<and> db_keys d' \<and>
    jobs d' = jobs d @ js \<and> length js = n \<and> n \<le> length ss \<and>
    (\<forall>j \<in> set js. \<exists>s \<in> set ss. j = fired_job now (jid (s_id s)) s) \<and>
    (\<forall>s \<in> set ss. \<exists>j \<in> set (jobs d'). j_owner_id j = s_owner_id s \<and> j_idempotency_key j = Some (fire_key s)) \<and>
    (\<forall>x. x \<notin> s_id ` set ss \<longrightarrow> row s_id x (schedules d') = row s_id x (schedules d)) \<and>
    (\<forall>s \<in> set ss. row s_id (s_id s) (schedules d') = Some (advance_cursor now (next_tick cn now s) s)) \<and>
    queues d' = queues d \<and> users d' = users d \<and> attempts d' = attempts d \<and>
    dependencies d' = dependencies d \<and> map s_id (schedules d') = map s_id (schedules d)"
proof -
  have u: "unique_on s_id (schedules d)" using assms(1) by (simp add: sweep_ready_def unique_on_def)
  have "inj_on jid (s_id ` set ss)"
    using assms(1) by (auto simp: sweep_ready_def ss_def [symmetric] distinct_map inj_on_def)
  moreover have "\<forall>s \<in> set ss. fireable cn now d s" "\<forall>s \<in> set ss. jid (s_id s) \<notin> j_id ` set (jobs d)"
    using assms(1) by (simp_all add: sweep_ready_def ss_def list_all_iff)
  moreover have "distinct (map s_id ss)" unfolding ss_def by (rule selected_distinct [OF u])
  moreover have "db_keys d" using assms(1) by (simp add: sweep_ready_def)
  moreover have "\<forall>s \<in> set ss. row s_id (s_id s) (schedules d) \<noteq> None"
    using selected_due [of now locked 100 d] by (auto simp: ss_def row_None_iff)
  ultimately show ?thesis
    using fire_all_result [of d ss cn now jid]
    by (fastforce simp: materialize_schedules_once_def ss_def)
qed


text \<open>A replayed sweep fires nothing: when the due schedules fit one batch and none is locked, a
  second sweep at the same instant finds no due schedule and changes nothing.\<close>

theorem replayed_sweep_fires_nothing:
  assumes "sweep_ready cn now jid (\<lambda>_. False) d" and "cron_strict cn"
    and "length (filter (due now) (schedules d)) \<le> 100"
    and "materialize_schedules_once True cn now jid (\<lambda>_. False) d = (Inr n, d')"
  shows "materialize_schedules_once True cn now jid' (\<lambda>_. False) d' = (Inr 0, d')"
proof -
  let ?ss = "select_due_for_update now (\<lambda>_. False) 100 d"
  have all: "set ?ss = {s \<in> set (schedules d). due now s}"
    using assms(3) by (simp add: select_due_for_update_def)
  from sweep_result [OF assms(1)] assms(4)
  have frame: "\<forall>x. x \<notin> s_id ` set ?ss \<longrightarrow> row s_id x (schedules d') = row s_id x (schedules d)"
    and moved: "\<forall>s \<in> set ?ss. row s_id (s_id s) (schedules d') = Some (advance_cursor now (next_tick cn now s) s)"
    and names: "map s_id (schedules d') = map s_id (schedules d)"
    by auto
  have u: "unique_on s_id (schedules d')"
    using assms(1) names by (simp add: unique_on_def sweep_ready_def)
  have "\<not> due now s'" if s': "s' \<in> set (schedules d')" for s'
  proof (cases "s_id s' \<in> s_id ` set ?ss")
    case True
    then obtain s where s: "s \<in> set ?ss" "s_id s = s_id s'" by auto
    then have "row s_id (s_id s') (schedules d') = Some (advance_cursor now (next_tick cn now s) s)"
      using moved by metis
    then have "s' = advance_cursor now (next_tick cn now s) s"
      using row_of_member [OF u s'] by simp
    moreover have "fireable cn now d s" using assms(1) s by (simp add: sweep_ready_def list_all_iff)
    ultimately show ?thesis using next_tick_future [OF assms(2)] by (fastforce simp: due_def)
  next
    case False
    then have "row s_id (s_id s') (schedules d) = Some s'"
      using frame row_of_member [OF u s'] by simp
    then have "s' \<in> set (schedules d)" by (auto dest: row_SomeD)
    then show ?thesis using False all by (metis (mono_tags, lifting) imageI mem_Collect_eq)
  qed
  then have "select_due_for_update now (\<lambda>_. False) 100 d' = []"
    by (simp add: select_due_for_update_def filter_empty_conv)
  then show ?thesis by (simp add: materialize_schedules_once_def)
qed

text \<open>The sample: a schedule two ticks behind, and a cron that ticks every minute.\<close>

definition sample_schedule :: schedule where
  "sample_schedule = \<lparr>s_id = 70, s_owner_id = 7, s_queue_id = 1, s_queue = ''default'',
     s_task_name = ''demo.echo'', s_payload = JObj [], s_cron_expr = ''* * * * *'', s_paused = False,
     s_priority = 0, s_max_attempts = 3, s_timeout_seconds = 300, s_backoff_strategy = EXPONENTIAL,
     s_backoff_base_seconds = 5, s_backoff_factor = 2, s_backoff_max_seconds = 300,
     s_next_run_at = 60000000, s_last_run_at = None, s_created_at = 0, s_updated_at = 0\<rparr>"

definition sample_cron :: "string \<Rightarrow> time \<Rightarrow> time option" where
  "sample_cron expr t = Some ((t div 60000000 + 1) * 60000000)"

definition sample_schedule_db :: db where
  "sample_schedule_db = sample_tenant_db\<lparr>schedules := [sample_schedule]\<rparr>"

lemma sample_cron_strict: "cron_strict sample_cron"
proof -
  have "t < (t div 60000000 + 1) * 60000000" for t :: int by presburger
  then show ?thesis by (simp add: cron_strict_def sample_cron_def)
qed

lemma sample_selected:
  "select_due_for_update 200000000 (\<lambda>_. False) 100 sample_schedule_db = [sample_schedule]"
  by (simp add: select_due_for_update_def sample_schedule_db_def due_def sample_schedule_def)

lemma sample_sweep_ready: "sweep_ready sample_cron 200000000 (\<lambda>i. i + 1000) (\<lambda>_. False) sample_schedule_db"
proof -
  have "db_keys sample_schedule_db"
    using sample_tenant_keys by (simp add: sample_schedule_db_def db_keys_def)
  moreover have "fireable sample_cron 200000000 sample_schedule_db sample_schedule"
    by (simp add: fireable_def sample_cron_def sample_schedule_def sample_schedule_db_def
        sample_tenant_db_def sample_defs sample_user_def schedule_checks_def)
  ultimately show ?thesis
    unfolding sweep_ready_def sample_selected
    by (simp add: sample_schedule_db_def sample_schedule_def sample_tenant_db_def sample_defs)
qed


theorem replayed_sweep_fires_nothing_witness:
  "\<exists>n d'. materialize_schedules_once True sample_cron 200000000 (\<lambda>i. i + 1000) (\<lambda>_. False)
       sample_schedule_db = (Inr n, d') \<and>
     materialize_schedules_once True sample_cron 200000000 (\<lambda>i. i + 2000) (\<lambda>_. False) d' = (Inr 0, d')"
proof -
  obtain n d' where r: "materialize_schedules_once True sample_cron 200000000 (\<lambda>i. i + 1000) (\<lambda>_. False)
       sample_schedule_db = (Inr n, d')"
    using sweep_result [OF sample_sweep_ready] by auto
  have "length (filter (due 200000000) (schedules sample_schedule_db)) \<le> 100" by code_simp
  from replayed_sweep_fires_nothing [OF sample_sweep_ready sample_cron_strict this r] r
  show ?thesis by blast
qed

subsection \<open>A schedule without a further tick\<close>

lemma fire_all_fails:
  "s \<in> set ss \<Longrightarrow> cn (s_cron_expr s) (max (s_next_run_at s) now) = None \<Longrightarrow>
   \<exists>e. fire_all cn now jid ss d = Inl e"
proof (induction ss arbitrary: d)
  case (Cons t ss)
  show ?case
  proof (cases "fire cn now (jid (s_id t)) t d")
    case (Inr x)
    then have "t \<noteq> s"
      using Cons.prems(2) by (auto simp: fire_def next_run_after_def)
    then have "s \<in> set ss" using Cons.prems(1) by simp
    then obtain e where "fire_all cn now jid ss (snd x) = Inl e"
      using Cons.IH [OF _ Cons.prems(2)] by blast
    with Inr show ?thesis by (cases x) auto
  qed simp
qed simp

text \<open>C33: One schedule can stop all: when croniter finds no further tick for a picked schedule, the
  whole sweep raises and rolls back, no schedule fires, and the schedule stays due, so the
  next sweep that picks it ends the same way.\<close>

theorem exhausted_schedule_stops_sweep:
  assumes "s \<in> set (select_due_for_update now locked 100 d)"
    and "cn (s_cron_expr s) (max (s_next_run_at s) now) = None"
  shows "\<exists>e. materialize_schedules_once True cn now jid locked d = (Inl e, d) \<and>
    (\<forall>later \<ge> now. due later s \<and> s \<in> set (schedules d))"
proof -
  obtain e where "fire_all cn now jid (select_due_for_update now locked 100 d) d = Inl e"
    using fire_all_fails [where cn = cn, OF assms] by blast
  moreover have "s \<in> set (schedules d)" "due now s"
    using assms(1) selected_due by blast+
  ultimately show ?thesis
    by (auto simp: materialize_schedules_once_def due_def)
qed

theorem exhausted_schedule_stops_sweep_witness:
  "\<exists>e. materialize_schedules_once True (\<lambda>_ _. None) 200000000 (\<lambda>i. i + 1000) (\<lambda>_. False)
     sample_schedule_db = (Inl e, sample_schedule_db)"
proof -
  have "sample_schedule \<in> set (select_due_for_update 200000000 (\<lambda>_. False) 100 sample_schedule_db)"
    by (simp add: sample_selected)
  from exhausted_schedule_stops_sweep [OF this, of "\<lambda>_ _. None"] show ?thesis by blast
qed

subsection \<open>Resuming\<close>

lemma get_schedule_row:
  assumes "unique_on s_id (schedules d)" and "get_schedule usr i d = Inr s"
  shows "row s_id i (schedules d) = Some s" and "s_id s = i"
proof -
  have "s \<in> set (schedules d) \<and> s_id s = i"
    using assms(2) by (auto simp: get_schedule_def require_Inr_iff get_schedule_for_owner_def
        dest!: find_SomeD)
  then show "row s_id i (schedules d) = Some s" and "s_id s = i"
    using assms(1) by (simp_all add: row_Some_iff)
qed

lemma apply_schedule_update_kept:
  assumes "apply_schedule_update data s = Some s'"
  shows "s_id s' = s_id s" "s_owner_id s' = s_owner_id s" "s_next_run_at s' = s_next_run_at s"
    "s_last_run_at s' = s_last_run_at s" "sent (s_paused s) (su_paused data) = Some (s_paused s')"
proof -
  have "s_id s' = s_id s \<and> s_owner_id s' = s_owner_id s \<and> s_next_run_at s' = s_next_run_at s \<and>
    s_last_run_at s' = s_last_run_at s \<and> sent (s_paused s) (su_paused data) = Some (s_paused s')"
    using assms
    by (cases "sent (s_cron_expr s) (su_cron_expr data)"; cases "sent (s_paused s) (su_paused data)";
        cases "sent (s_priority s) (su_priority data)"; cases "sent (s_max_attempts s) (su_max_attempts data)";
        cases "sent (s_timeout_seconds s) (su_timeout_seconds data)")
      (simp_all add: apply_schedule_update_def, auto)
  then show "s_id s' = s_id s" "s_owner_id s' = s_owner_id s" "s_next_run_at s' = s_next_run_at s"
    "s_last_run_at s' = s_last_run_at s" "sent (s_paused s) (su_paused data) = Some (s_paused s')"
    by blast+
qed

text \<open>Resuming drops the missed ticks: after a PATCH with \<open>paused = false\<close> the schedule is not due,
  its cursor is after the clock and its last run is what it was, so a tick that fell into the
  pause never fires, where the documentation promises a single collapsed firing.\<close>

theorem resume_drops_missed_ticks:
  assumes "unique_on s_id (schedules d)" and "cron_strict cn"
    and "update_schedule cn now usr i data d = (Inr s', d')" and "su_paused data = Some (Some False)"
    and "row s_id i (schedules d) = Some s"
  shows "row s_id i (schedules d') = Some s' \<and> \<not> s_paused s' \<and> now < s_next_run_at s' \<and>
    s_last_run_at s' = s_last_run_at s \<and> jobs d' = jobs d \<and>
    s' \<notin> set (select_due_for_update now locked 100 d')"
proof -
  obtain s0 s1 t where g: "get_schedule usr i d = Inr s0"
    and a: "apply_schedule_update data s0 = Some s1"
    and t: "next_run_after cn (s_cron_expr s1) now = Inr t"
    and s': "s' = (if s1\<lparr>s_next_run_at := t\<rparr> = s0 then s0
        else s1\<lparr>s_next_run_at := t, s_updated_at := now\<rparr>)"
    and d': "d' = d\<lparr>schedules := update_where (\<lambda>x. s_id x = s_id s') (\<lambda>_. s') (schedules d)\<rparr>"
    using assms(3,4)
    by (auto simp: update_schedule_def restarts_cursor_def require_Inr_iff split: sum.splits if_splits)
  have fields: "s_id s' = s_id s1" "s_next_run_at s' = t" "s_paused s' = s_paused s1"
    "s_last_run_at s' = s_last_run_at s1"
    using s' by (auto split: if_splits)
  have "s0 = s" "s_id s = i" using get_schedule_row [OF assms(1) g] assms(5) by auto
  then have id: "s_id s' = i" using apply_schedule_update_kept [OF a] fields by simp
  have "now < t" using t assms(2) by (auto simp: next_run_after_def require_Inr_iff cron_strict_def)
  moreover have "row s_id i (schedules d') = Some s'"
    using assms(5) id \<open>s_id s = i\<close> by (simp add: d' row_replace)
  moreover have "\<not> s_paused s'" "s_last_run_at s' = s_last_run_at s"
    using apply_schedule_update_kept [OF a] assms(4) \<open>s0 = s\<close> by (simp_all add: fields sent_def)
  moreover have "\<not> due now s'" using \<open>now < t\<close> by (simp add: due_def fields)
  then have "s' \<notin> set (select_due_for_update now locked 100 d')" using selected_due by blast
  ultimately show ?thesis by (simp add: fields d')
qed

definition sample_resume :: ScheduleUpdate where
  "sample_resume = \<lparr>su_cron_expr = None, su_paused = Some (Some False), su_payload = None,
     su_priority = None, su_max_attempts = None, su_timeout_seconds = None\<rparr>"

theorem resume_drops_missed_ticks_witness:
  "\<exists>s' d'. update_schedule sample_cron 200000000 sample_user 70 sample_resume
       (sample_schedule_db\<lparr>schedules := [sample_schedule\<lparr>s_paused := True\<rparr>]\<rparr>) = (Inr s', d') \<and>
     200000000 < s_next_run_at s' \<and> s_last_run_at s' = None"
proof -
  let ?d = "sample_schedule_db\<lparr>schedules := [sample_schedule\<lparr>s_paused := True\<rparr>]\<rparr>"
  have u: "unique_on s_id (schedules ?d)" by (simp add: unique_on_def)
  have "\<not> isl (fst (update_schedule sample_cron 200000000 sample_user 70 sample_resume ?d))" by code_simp
  then obtain s' where "fst (update_schedule sample_cron 200000000 sample_user 70 sample_resume ?d) = Inr s'"
    by (cases "fst (update_schedule sample_cron 200000000 sample_user 70 sample_resume ?d)") auto
  then obtain d' where r: "update_schedule sample_cron 200000000 sample_user 70 sample_resume ?d = (Inr s', d')"
    by (metis prod.collapse)
  have p: "su_paused sample_resume = Some (Some False)" by (simp add: sample_resume_def)
  have row: "row s_id 70 (schedules ?d) = Some (sample_schedule\<lparr>s_paused := True\<rparr>)"
    by (simp add: sample_schedule_def)
  from resume_drops_missed_ticks [OF u sample_cron_strict r p row] r
  show ?thesis by (auto simp: sample_schedule_def)
qed

end
