(* ===== verification/Queue_Service.thy ===== *)
theory Queue_Service
  imports Job_Service
begin

section \<open>The queue service (app/services/queue_service.py)\<close>

text \<open>
  Configuration, pause and resume, per-queue statistics.  A change is one update of the
  queue row; the claim reads the row inside its own transaction, so a change governs every
  claim that starts after it.
\<close>

definition get_queue :: "user \<Rightarrow> uuid \<Rightarrow> db \<Rightarrow> service_error + job_queue" where
  "get_queue usr queue_id d =
     require (NotFoundError ''queue not found'') (get_for_org queue_id (u_org_id usr) d)"

definition empty_counts :: "(string \<times> nat) list" where
  "empty_counts = map (\<lambda>s. (job_status_value s, 0)) job_statuses"

definition counts_of :: "user \<Rightarrow> db \<Rightarrow> job_queue \<Rightarrow> (string \<times> nat) list" where
  "counts_of usr d q =
     (case counts_by_queue_and_status (u_org_id usr) d (q_id q) of None \<Rightarrow> empty_counts | Some c \<Rightarrow> c)"

definition list_with_stats ::
  "user \<Rightarrow> uuid option \<Rightarrow> db \<Rightarrow> (job_queue \<times> (string \<times> nat) list) list" where
  "list_with_stats usr project_id d =
     map (\<lambda>q. (q, counts_of usr d q)) (list_for_org (u_org_id usr) project_id d)"

definition queue_stats ::
  "user \<Rightarrow> uuid \<Rightarrow> db \<Rightarrow> service_error + job_queue \<times> (string \<times> nat) list" where
  "queue_stats usr queue_id d =
     bind (get_queue usr queue_id d) (\<lambda>q. Inr (q, counts_of usr d q))"

definition create_queue ::
  "time \<Rightarrow> uuid \<Rightarrow> user \<Rightarrow> QueueCreate \<Rightarrow> db \<Rightarrow> (service_error + job_queue) \<times> db" where
  "create_queue now qid usr data d =
     (case resolve_project usr (qc_project_id data) d of
        Inl e \<Rightarrow> (Inl e, d)
      | Inr p \<Rightarrow>
          (let q = \<lparr>q_id = qid, q_project_id = p_id p, q_name = qc_name data, q_paused = False,
                    q_shard_key = qc_shard_key data, q_max_concurrency = qc_max_concurrency data,
                    q_default_priority = qc_default_priority data,
                    q_default_max_attempts = qc_default_max_attempts data,
                    q_default_backoff_strategy = qc_default_backoff_strategy data,
                    q_default_backoff_base_seconds = qc_default_backoff_base_seconds data,
                    q_default_backoff_factor = qc_default_backoff_factor data,
                    q_default_backoff_max_seconds = qc_default_backoff_max_seconds data,
                    q_default_timeout_seconds = qc_default_timeout_seconds data,
                    q_created_at = now, q_updated_at = now\<rparr>
           in case insert_queue q d of
                Inr d1 \<Rightarrow> (Inr q, d1)
              | Inl _ \<Rightarrow> (Inl (ConflictError (''a queue named '' @ py_repr (qc_name data)
                           @ '' already exists in that project'')), d)))"

text \<open>
  \<open>setattr\<close> of every sent field; \<open>keep old f\<close> is the value a column ends with, \<open>None\<close> when the
  client sent a null.  Only \<open>max_concurrency\<close> is nullable.
\<close>

definition keep :: "'a \<Rightarrow> 'a option option \<Rightarrow> 'a option" where
  "keep old f = (case f of None \<Rightarrow> Some old | Some v \<Rightarrow> v)"

definition apply_queue_update :: "QueueUpdate \<Rightarrow> job_queue \<Rightarrow> job_queue option" where
  "apply_queue_update data q =
     (case (keep (q_paused q) (qu_paused data), keep (q_default_priority q) (qu_default_priority data),
            keep (q_default_max_attempts q) (qu_default_max_attempts data),
            keep (q_default_backoff_strategy q) (qu_default_backoff_strategy data),
            keep (q_default_backoff_base_seconds q) (qu_default_backoff_base_seconds data)) of
        (Some paused, Some prio, Some n, Some strat, Some base) \<Rightarrow>
          (case (keep (q_default_backoff_factor q) (qu_default_backoff_factor data),
                 keep (q_default_backoff_max_seconds q) (qu_default_backoff_max_seconds data),
                 keep (q_default_timeout_seconds q) (qu_default_timeout_seconds data),
                 keep (q_shard_key q) (qu_shard_key data)) of
             (Some factor, Some longest, Some timeout, Some shard) \<Rightarrow>
               Some (q\<lparr>q_paused := paused, q_default_priority := prio, q_default_max_attempts := n,
                       q_default_backoff_strategy := strat, q_default_backoff_base_seconds := base,
                       q_default_backoff_factor := factor, q_default_backoff_max_seconds := longest,
                       q_default_timeout_seconds := timeout, q_shard_key := shard,
                       q_max_concurrency :=
                         (case qu_max_concurrency data of None \<Rightarrow> q_max_concurrency q | Some c \<Rightarrow> c)\<rparr>)
           | _ \<Rightarrow> None)
      | _ \<Rightarrow> None)"

definition store_queue :: "time \<Rightarrow> job_queue \<Rightarrow> job_queue \<Rightarrow> db \<Rightarrow> (service_error + job_queue) \<times> db" where
  "store_queue now old q d =
     (if \<not> queue_checks q then (Inl IntegrityError, d)
      else let q' = (if q = old then old else q\<lparr>q_updated_at := now\<rparr>)
           in (Inr q', d\<lparr>queues := update_where (\<lambda>x. q_id x = q_id q') (\<lambda>_. q') (queues d)\<rparr>))"

definition update_queue ::
  "time \<Rightarrow> user \<Rightarrow> uuid \<Rightarrow> QueueUpdate \<Rightarrow> db \<Rightarrow> (service_error + job_queue) \<times> db" where
  "update_queue now usr queue_id data d =
     (case get_queue usr queue_id d of
        Inl e \<Rightarrow> (Inl e, d)
      | Inr q \<Rightarrow>
          (case apply_queue_update data q of
             None \<Rightarrow> (Inl IntegrityError, d)
           | Some q1 \<Rightarrow> store_queue now q q1 d))"

definition set_paused ::
  "time \<Rightarrow> user \<Rightarrow> uuid \<Rightarrow> bool \<Rightarrow> db \<Rightarrow> (service_error + job_queue) \<times> db" where
  "set_paused now usr queue_id paused d =
     (case get_queue usr queue_id d of
        Inl e \<Rightarrow> (Inl e, d)
      | Inr q \<Rightarrow> store_queue now q (q\<lparr>q_paused := paused\<rparr>) d)"

end
