(* ===== verification/Access.thy ===== *)
theory Access
  imports Tenancy_Repo Py_Text
begin

section \<open>Accounts, tenancy and roles (app/services)\<close>

text \<open>
  Registration and login, organizations and projects, the role hierarchy and the role
  update.  The password hash and the token signer are third-party code: \<open>hash_password\<close>,
  \<open>verify_password\<close> and \<open>create_token\<close> are arguments.
\<close>

subsection \<open>app/services/rbac.py\<close>

definition hierarchy :: "UserRole list" where
  "hierarchy = [OWNER, ADMIN, MEMBER, VIEWER]"

fun position :: "UserRole \<Rightarrow> UserRole list \<Rightarrow> nat option" where
  "position r [] = None"
| "position r (x # xs) = (if x = r then Some 0 else map_option Suc (position r xs))"

definition rank_or :: "nat \<Rightarrow> UserRole \<Rightarrow> nat" where
  "rank_or default_rank r = (case position r hierarchy of None \<Rightarrow> default_rank | Some i \<Rightarrow> i)"

definition require_role :: "user \<Rightarrow> UserRole \<Rightarrow> service_error + unit" where
  "require_role usr minimum =
     (let user_rank = rank_or (length hierarchy) (u_role usr);
          min_rank = rank_or 0 minimum
      in if user_rank > min_rank
         then Inl (ForbiddenError (''this action requires at least the '' @ [CHR 0x27] @ user_role_value minimum
                @ [CHR 0x27] @ '' role; your role is '' @ [CHR 0x27] @ user_role_value (u_role usr)
                @ [CHR 0x27]))
         else Inr ())"

subsection \<open>app/services/tenancy_service.py\<close>

definition get_organization :: "user \<Rightarrow> db \<Rightarrow> service_error + organization" where
  "get_organization usr d = require (NotFoundError ''organization not found'') (get_org (u_org_id usr) d)"

definition get_project_of :: "user \<Rightarrow> uuid \<Rightarrow> db \<Rightarrow> service_error + project" where
  "get_project_of usr project_id d =
     require (NotFoundError ''project not found'') (get_project project_id (u_org_id usr) d)"

definition insert_project :: "project \<Rightarrow> db \<Rightarrow> service_error + db" where
  "insert_project p d =
     (if p_id p \<notin> p_id ` set (projects d)
         \<and> (p_org_id p, p_name p) \<notin> (\<lambda>x. (p_org_id x, p_name x)) ` set (projects d)
         \<and> p_org_id p \<in> o_id ` set (organizations d)
      then Inr (d\<lparr>projects := projects d @ [p]\<rparr>) else Inl IntegrityError)"

definition create_project ::
  "time \<Rightarrow> uuid \<Rightarrow> user \<Rightarrow> string \<Rightarrow> db \<Rightarrow> (service_error + project) \<times> db" where
  "create_project now pid usr nm d =
     (let p = \<lparr>p_id = pid, p_org_id = u_org_id usr, p_name = nm, p_created_at = now\<rparr>
      in case insert_project p d of
           Inr d1 \<Rightarrow> (Inr p, d1)
         | Inl _ \<Rightarrow> (Inl (ConflictError (''a project named '' @ py_repr nm
                      @ '' already exists in your organization'')), d))"

subsection \<open>app/services/auth_service.py\<close>

definition normalize_email :: "string \<Rightarrow> string" where
  "normalize_email email = py_lower (py_strip email)"

definition insert_organization :: "organization \<Rightarrow> db \<Rightarrow> service_error + db" where
  "insert_organization ow d =
     (if o_id ow \<notin> o_id ` set (organizations d)
      then Inr (d\<lparr>organizations := organizations d @ [ow]\<rparr>) else Inl IntegrityError)"

definition insert_user :: "user \<Rightarrow> db \<Rightarrow> service_error + db" where
  "insert_user u d =
     (if u_id u \<notin> u_id ` set (users d) \<and> u_email u \<notin> u_email ` set (users d)
         \<and> u_org_id u \<in> o_id ` set (organizations d)
      then Inr (d\<lparr>users := users d @ [u]\<rparr>) else Inl IntegrityError)"

text \<open>\<open>race\<close> is what others commit between the flush of the organization and the commit.\<close>

definition register ::
  "(string \<Rightarrow> string) \<Rightarrow> time \<Rightarrow> uuid \<Rightarrow> uuid \<Rightarrow> uuid \<Rightarrow> (db \<Rightarrow> db) \<Rightarrow> string \<Rightarrow> string \<Rightarrow> db
     \<Rightarrow> (service_error + user) \<times> db" where
  "register hash_password now org_id pid uid race email password d =
     (let normalized = normalize_email email;
          usr = \<lparr>u_id = uid, u_org_id = org_id, u_email = normalized,
                 u_password_hash = hash_password password, u_role = OWNER, u_created_at = now\<rparr>
      in case insert_organization \<lparr>o_id = org_id, o_name = normalized, o_created_at = now\<rparr> d of
           Inl e \<Rightarrow> (Inl e, d)
         | Inr d1 \<Rightarrow>
             (case bind (insert_project \<lparr>p_id = pid, p_org_id = org_id, p_name = ''default'',
                            p_created_at = now\<rparr> (race d1)) (insert_user usr) of
                Inr d2 \<Rightarrow> (Inr usr, d2)
              | Inl _ \<Rightarrow> (Inl (EmailAlreadyRegisteredError ''email already registered''), race d)))"

definition login ::
  "(string \<Rightarrow> string \<Rightarrow> bool) \<Rightarrow> (uuid \<Rightarrow> string) \<Rightarrow> string \<Rightarrow> string \<Rightarrow> db \<Rightarrow> service_error + string" where
  "login verify_password create_token email password d =
     (case get_by_email (normalize_email email) d of
        None \<Rightarrow> Inl (AuthenticationError ''invalid email or password'')
      | Some u \<Rightarrow>
          if verify_password password (u_password_hash u) then Inr (create_token (u_id u))
          else Inl (AuthenticationError ''invalid email or password''))"

definition get_user :: "uuid \<Rightarrow> db \<Rightarrow> service_error + user" where
  "get_user user_id d = require (NotFoundError ''user not found'') (get_user_row user_id d)"

subsection \<open>app/api/routers/users.py\<close>

definition list_users :: "user \<Rightarrow> db \<Rightarrow> service_error + user list" where
  "list_users usr d =
     bind (require_role usr ADMIN) (\<lambda>_. Inr (list_users_for_org (u_org_id usr) d))"

definition change_role ::
  "user \<Rightarrow> uuid \<Rightarrow> UserRole \<Rightarrow> db \<Rightarrow> (service_error + user) \<times> db" where
  "change_role usr user_id role d =
     (case require_role usr OWNER of
        Inl e \<Rightarrow> (Inl e, d)
      | Inr _ \<Rightarrow>
          if user_id = u_id usr then (Inl (ForbiddenError ''cannot change your own role''), d)
          else (case update_role user_id (u_org_id usr) role d of
                  (None, _) \<Rightarrow> (Inl (NotFoundError ''user not found in your organization''), d)
                | (Some u, d1) \<Rightarrow> (Inr u, d1)))"

subsection \<open>The hierarchy\<close>

text \<open>The privilege order of \<open>UserRole\<close>: more privileged roles are larger.\<close>

definition privilege :: "UserRole \<Rightarrow> nat" where
  "privilege r = (case r of OWNER \<Rightarrow> 3 | ADMIN \<Rightarrow> 2 | MEMBER \<Rightarrow> 1 | VIEWER \<Rightarrow> 0)"

lemma require_role_iff: "require_role usr m = Inr () \<longleftrightarrow> privilege m \<le> privilege (u_role usr)"
  by (cases "u_role usr"; cases m)
    (simp_all add: require_role_def rank_or_def hierarchy_def privilege_def)

lemma require_role_cases:
  obtains (allowed) "require_role usr m = Inr ()" and "privilege m \<le> privilege (u_role usr)"
    | (forbidden) t where "require_role usr m = Inl (ForbiddenError t)"
        and "privilege (u_role usr) < privilege m"
proof (cases "privilege m \<le> privilege (u_role usr)")
  case True
  then show ?thesis using allowed require_role_iff by blast
next
  case False
  then have "\<exists>t. require_role usr m = Inl (ForbiddenError t)"
    by (cases "u_role usr"; cases m)
      (simp_all add: require_role_def rank_or_def hierarchy_def privilege_def)
  then show ?thesis using forbidden False by fastforce
qed

end
