(* ===== verification/System.thy ===== *)
theory System
  imports Execution_Props Schedule_Props Queue_Service Access
begin

section \<open>The whole scheduler: operations that share one contract\<close>

text \<open>
  \<open>consistent\<close> is the invariant of the stored state: the keys of the schema, a lease exactly
  while a job runs, attempt counts that fit the status, an open audit row for every running
  job, and dependencies that point backwards.  The locale \<open>db_operation\<close> is the contract of
  every operation of the system: it keeps the invariant, moves each job row along the state
  machine by at most one transition and extends the attempt log.  Each transaction of the
  services is an interpretation of it.
\<close>

subsection \<open>The invariant\<close>

definition counted :: "job \<Rightarrow> bool" where
  "counted j \<longleftrightarrow> 0 \<le> j_attempt_count j \<and> (j_status j = RUNNING \<longrightarrow> 1 \<le> j_attempt_count j)"

definition has_open_attempt :: "job_attempt list \<Rightarrow> job \<Rightarrow> bool" where
  "has_open_attempt as j \<longleftrightarrow>
     (\<exists>a \<in> set as. open_attempt (j_id j) (j_attempt_count j) a \<and> a_worker_id a = j_locked_by j)"

definition audited :: "db \<Rightarrow> bool" where
  "audited d \<longleftrightarrow> (\<forall>j \<in> set (jobs d). j_status j = RUNNING \<longrightarrow> has_open_attempt (attempts d) j)"

definition consistent :: "db \<Rightarrow> bool" where
  "consistent d \<longleftrightarrow>
     db_keys d \<and> (\<forall>j \<in> set (jobs d). lease_ok j) \<and> (\<forall>j \<in> set (jobs d). counted j) \<and>
     audited d \<and> depends_earlier d"

text \<open>What an operation may do to the jobs table.\<close>

definition fresh_job :: "job \<Rightarrow> bool" where
  "fresh_job j \<longleftrightarrow>
     j_status j = PENDING \<and> j_attempt_count j = 0 \<and> j_locked_by j = None \<and> j_lease_expires_at j = None"

definition jobs_evolve :: "moves \<Rightarrow> job list \<Rightarrow> job list \<Rightarrow> bool" where
  "jobs_evolve T js ks \<longleftrightarrow>
     (\<exists>olds news. ks = olds @ news \<and> list_all2 (job_evolves T) js olds \<and> (\<forall>j \<in> set news. fresh_job j))"

lemma consistentD:
  assumes "consistent d"
  shows "db_keys d" "unique_on j_id (jobs d)" "audited d" "depends_earlier d"
    "j \<in> set (jobs d) \<Longrightarrow> lease_ok j" "j \<in> set (jobs d) \<Longrightarrow> counted j"
  using assms by (simp_all add: consistent_def db_keys_def)

lemma consistent_empty: "consistent empty_db"
  using db_keys_empty by (simp add: consistent_def audited_def depends_earlier_def empty_db_def)

lemma jobs_evolve_refl [simp]: "jobs_evolve T js js"
  unfolding jobs_evolve_def by (rule exI [of _ js], rule exI [of _ "[]"]) (simp add: list.rel_refl)

lemma jobs_evolve_append: "\<forall>j \<in> set ks. fresh_job j \<Longrightarrow> jobs_evolve T js (js @ ks)"
  unfolding jobs_evolve_def by (rule exI [of _ js], rule exI [of _ ks]) (simp add: list.rel_refl)

lemma jobs_evolve_update: "list_all2 (job_evolves T) js ks \<Longrightarrow> jobs_evolve T js ks"
  unfolding jobs_evolve_def by (rule exI [of _ ks], rule exI [of _ "[]"]) simp

lemma jobs_evolve_row:
  assumes "jobs_evolve T js ks" and "row j_id i js = Some j"
  shows "\<exists>k. row j_id i ks = Some k \<and> job_evolves T j k"
proof -
  obtain olds news where ks: "ks = olds @ news" and all: "list_all2 (job_evolves T) js olds"
    using assms(1) by (auto simp: jobs_evolve_def)
  have "\<exists>k. row j_id i olds = Some k \<and> job_evolves T j k"
    using all assms(2)
    by (induction rule: list_all2_induct) (auto simp: job_evolves_def contract_def split: if_splits)
  then show ?thesis by (auto simp: ks row_append)
qed

text \<open>What an operation makes of one row, in both directions.\<close>

lemma jobs_evolve_from:
  assumes "jobs_evolve T js ks" and "k \<in> set ks"
  shows "fresh_job k \<or> (\<exists>j \<in> set js. job_evolves T j k)"
proof -
  obtain olds news where ks: "ks = olds @ news" "list_all2 (job_evolves T) js olds"
      "\<forall>j \<in> set news. fresh_job j"
    using assms(1) by (auto simp: jobs_evolve_def)
  show ?thesis
  proof (cases "k \<in> set news")
    case False
    then have "k \<in> set olds" using assms(2) ks(1) by simp
    then show ?thesis
      using ks(2) by (auto simp: list_all2_conv_all_nth in_set_conv_nth) (metis nth_mem)
  qed (use ks(3) in blast)
qed

lemma jobs_evolve_to:
  assumes "jobs_evolve T js ks" and "j \<in> set js"
  shows "\<exists>k \<in> set ks. job_evolves T j k"
proof -
  obtain olds news where ks: "ks = olds @ news" "list_all2 (job_evolves T) js olds"
    using assms(1) by (auto simp: jobs_evolve_def)
  then show ?thesis
    using assms(2) by (auto simp: list_all2_conv_all_nth in_set_conv_nth) (metis nth_mem UnI1)
qed

subsection \<open>The contract of an operation\<close>

text \<open>Only an operation that may start or end the run of a job touches the attempt log.\<close>

definition leaves_running :: "moves \<Rightarrow> bool" where
  "leaves_running T \<longleftrightarrow> (\<forall>(s, t) \<in> T. s \<noteq> RUNNING \<and> t \<noteq> RUNNING)"

locale db_operation =
  fixes op :: "db \<Rightarrow> db"
    and T :: moves
  assumes keeps_consistent: "consistent d \<Longrightarrow> consistent (op d)"
    and evolves_jobs: "consistent d \<Longrightarrow> jobs_evolve T (jobs d) (jobs (op d))"
    and extends_log: "consistent d \<Longrightarrow> log_extends (attempts d) (attempts (op d))"
    and keeps_log: "consistent d \<Longrightarrow> leaves_running T \<Longrightarrow> attempts (op d) = attempts d"
begin

lemma safe:
  "consistent d \<Longrightarrow> consistent (op d) \<and> jobs_evolve T (jobs d) (jobs (op d)) \<and>
     log_extends (attempts d) (attempts (op d))"
  using keeps_consistent evolves_jobs extends_log by blast

lemma row_kept:
  "consistent d \<Longrightarrow> row j_id i (jobs d) = Some j \<Longrightarrow>
   \<exists>k. row j_id i (jobs (op d)) = Some k \<and> job_evolves T j k"
  using evolves_jobs jobs_evolve_row by blast

lemma succeeded_final:
  assumes "consistent d" and "row j_id i (jobs d) = Some j" and "j_status j = SUCCEEDED"
  shows "\<exists>k. row j_id i (jobs (op d)) = Some k \<and> j_status k = SUCCEEDED \<and> contract k = contract j"
  using row_kept [OF assms(1,2)] assms(3) by (auto simp: job_evolves_def split: if_splits)

end

subsection \<open>Updates of job rows\<close>

lemma depends_earlier_same:
  "map j_id (jobs d') = map j_id (jobs d) \<Longrightarrow> dependencies d' = dependencies d \<Longrightarrow>
   depends_earlier d' = depends_earlier d"
  by (simp add: depends_earlier_def)

lemma db_keys_tables:
  "jobs d' = jobs d \<Longrightarrow> queues d' = queues d \<Longrightarrow> dependencies d' = dependencies d \<Longrightarrow>
   db_keys d' = db_keys d"
  by (simp add: db_keys_def)

lemma consistent_frame:
  "jobs d' = jobs d \<Longrightarrow> attempts d' = attempts d \<Longrightarrow> queues d' = queues d \<Longrightarrow>
   dependencies d' = dependencies d \<Longrightarrow> consistent d' = consistent d"
  using db_keys_tables [of d' d] depends_earlier_same [of d' d]
  by (simp add: consistent_def audited_def)

context job_update
begin

lemmas map_ids = keyed.keys

lemma consistent_after:
  assumes "consistent d" and "\<And>j. P j \<Longrightarrow> guard j"
    and "jobs d' = update_where P act (jobs d)" and "queues d' = queues d"
    and "dependencies d' = dependencies d"
    and "\<And>j. guard j \<Longrightarrow> counted j \<Longrightarrow> counted (act j)" and "audited d'"
  shows "consistent d'"
proof -
  have "db_keys d' = db_keys (d\<lparr>jobs := update_where P act (jobs d)\<rparr>)"
    by (rule db_keys_tables) (simp_all add: assms)
  then have "db_keys d'" using keys consistentD(1) [OF assms(1)] by simp
  moreover have "\<forall>j \<in> set (jobs d'). lease_ok j"
    unfolding assms(3) using leases [where P = P and js = "jobs d", OF assms(2)] assms(1)
    by (simp add: consistent_def)
  moreover have "\<forall>j \<in> set (jobs d'). counted j"
    unfolding assms(3) using assms(1,2,6) by (auto simp: consistent_def in_update_where)
  moreover have "depends_earlier d'"
    using depends_earlier_same [of d' d] assms(1,3,5) map_ids by (simp add: consistent_def)
  ultimately show ?thesis using assms(7) by (simp add: consistent_def)
qed

lemma evolves_after:
  "(\<And>j. P j \<Longrightarrow> guard j) \<Longrightarrow> jobs_evolve moves js (update_where P act js)"
  by (rule jobs_evolve_update) (rule evolves)

end

text \<open>Rows that leave RUNNING need no open attempt any more; the others keep theirs.\<close>

lemma audited_shrink:
  assumes "audited d"
    and "\<And>k. k \<in> set (jobs d') \<Longrightarrow> j_status k = RUNNING \<Longrightarrow>
      \<exists>j \<in> set (jobs d). j_status j = RUNNING \<and> j_id j = j_id k \<and> j_attempt_count j = j_attempt_count k
        \<and> j_locked_by j = j_locked_by k"
    and "\<And>k a. k \<in> set (jobs d') \<Longrightarrow> j_status k = RUNNING \<Longrightarrow> a \<in> set (attempts d) \<Longrightarrow>
      open_attempt (j_id k) (j_attempt_count k) a \<Longrightarrow> a \<in> set (attempts d')"
  shows "audited d'"
  unfolding audited_def
proof (intro ballI impI)
  fix k assume k: "k \<in> set (jobs d')" "j_status k = RUNNING"
  from assms(2) [OF this] obtain j where j: "j \<in> set (jobs d)" "j_status j = RUNNING" "j_id j = j_id k"
      "j_attempt_count j = j_attempt_count k" "j_locked_by j = j_locked_by k" by blast
  then obtain a where "a \<in> set (attempts d)" "open_attempt (j_id k) (j_attempt_count k) a"
      "a_worker_id a = j_locked_by k"
    using assms(1) by (auto simp: audited_def has_open_attempt_def)
  then show "has_open_attempt (attempts d') k"
    using assms(3) [OF k] by (auto simp: has_open_attempt_def)
qed

lemma audited_same_attempts:
  assumes "audited d" and "attempts d' = attempts d"
    and "\<And>k. k \<in> set (jobs d') \<Longrightarrow> j_status k = RUNNING \<Longrightarrow>
      \<exists>j \<in> set (jobs d). j_status j = RUNNING \<and> j_id j = j_id k \<and> j_attempt_count j = j_attempt_count k
        \<and> j_locked_by j = j_locked_by k"
  shows "audited d'"
  by (rule audited_shrink [OF assms(1,3)]) (simp_all add: assms(2))

subsection \<open>Completion of a held job\<close>

text \<open>
  The common shape of success, failure and release: the row leaves RUNNING and one attempt
  of the job is closed.
\<close>

context job_update
begin

lemma completion_safe:
  assumes "consistent d" and "jobs d' = update_where (\<lambda>k. j_id k = i \<and> guard k) act (jobs d)"
    and "\<And>k. guard k \<Longrightarrow> j_status (act k) \<noteq> RUNNING"
    and "\<And>k. guard k \<Longrightarrow> counted k \<Longrightarrow> counted (act k)"
    and "\<And>k. held_by w k \<Longrightarrow> guard k" and "holds w i d"
    and "attempts d' = attempts (snd (finish_attempt now i n st e d))" and "st \<noteq> A_RUNNING"
    and "queues d' = queues d" and "dependencies d' = dependencies d"
  shows "consistent d' \<and> jobs_evolve moves (jobs d) (jobs d') \<and> log_extends (attempts d) (attempts d')"
proof -
  obtain h where h: "h \<in> set (jobs d)" "j_id h = i" "guard h"
    using assms(5,6) by (auto simp: holds_def list_ex_iff)
  have gone: "j_id k \<noteq> i \<and> k \<in> set (jobs d)" if k: "k \<in> set (jobs d')" "j_status k = RUNNING" for k
  proof -
    from k(1) show ?thesis
      unfolding assms(2)
    proof (cases rule: update_where_cases)
      case (changed r)
      then show ?thesis using assms(3) k(2) by auto
    next
      case kept
      then show ?thesis
        using unique_onD [OF consistentD(2) [OF assms(1)] _ h(1)] h(2,3) by auto
    qed
  qed
  have "audited d'"
  proof (rule audited_shrink [OF consistentD(3) [OF assms(1)]])
    fix k a assume k: "k \<in> set (jobs d')" "j_status k = RUNNING" and a: "a \<in> set (attempts d)"
      "open_attempt (j_id k) (j_attempt_count k) a"
    then show "a \<in> set (attempts d')"
      using open_after_finish [OF assms(8), of a now i n e d "j_id k" "j_attempt_count k"] gone [OF k]
      by (simp add: assms(7))
  qed (use gone in blast)
  then have "consistent d'"
    by (intro consistent_after [where P = "\<lambda>k. j_id k = i \<and> guard k", OF assms(1) _ assms(2) assms(9,10)])
      (simp_all add: assms(4))
  moreover have "jobs_evolve moves (jobs d) (jobs d')"
    unfolding assms(2) by (rule evolves_after) simp
  moreover have "log_extends (attempts d) (attempts d')"
    unfolding assms(7) by (rule log_extends_finish)
  ultimately show ?thesis by blast
qed

end

definition keeps_contract :: "moves \<Rightarrow> (db \<Rightarrow> db) \<Rightarrow> db \<Rightarrow> bool" where
  "keeps_contract T op d \<longleftrightarrow>
     consistent (op d) \<and> jobs_evolve T (jobs d) (jobs (op d)) \<and> log_extends (attempts d) (attempts (op d)) \<and>
     (leaves_running T \<longrightarrow> attempts (op d) = attempts d)"

lemma db_operationI: "(\<And>d. consistent d \<Longrightarrow> keeps_contract T op d) \<Longrightarrow> db_operation op T"
  by unfold_locales (simp_all add: keeps_contract_def)

lemma keeps_contract_moving:
  "consistent (op d) \<and> jobs_evolve T (jobs d) (jobs (op d)) \<and> log_extends (attempts d) (attempts (op d)) \<Longrightarrow>
   \<not> leaves_running T \<Longrightarrow> keeps_contract T op d"
  by (simp add: keeps_contract_def)

lemma keeps_contract_keeping:
  "consistent (op d) \<and> jobs_evolve T (jobs d) (jobs (op d)) \<and> log_extends (attempts d) (attempts (op d)) \<Longrightarrow>
   attempts (op d) = attempts d \<Longrightarrow> keeps_contract T op d"
  by (simp add: keeps_contract_def)

lemma keeps_contract_same: "op d = d \<Longrightarrow> consistent d \<Longrightarrow> keeps_contract T op d"
  by (simp add: keeps_contract_def)

lemma success_contract: "consistent d \<Longrightarrow> keeps_contract {(RUNNING, SUCCEEDED)} (\<lambda>d. snd (complete_success now j w res d)) d"
proof (cases "holds w (j_id j) d")
  case True
  assume "consistent d"
  from True this show ?thesis
    by (intro keeps_contract_moving success.completion_safe [where i = "j_id j" and w = w and res = res and now = now
          and n = "j_attempt_count j" and st = A_SUCCEEDED and e = None])
      (simp_all add: complete_success_eq finish_success_def guarded_update_db finish_attempt_def
        counted_def held_by_def leaves_running_def)
qed (simp add: complete_success_eq keeps_contract_same)

lemma failure_contract: "consistent d \<Longrightarrow> keeps_contract {(RUNNING, PENDING), (RUNNING, DEAD)} (\<lambda>d. snd (record_failure now dec j w err d)) d"
proof (cases "holds w (j_id j) d")
  case True
  assume "consistent d"
  from True this show ?thesis
    by (intro keeps_contract_moving failure.completion_safe [where i = "j_id j" and w = w and now = now and err = err
          and again = "retry dec" and delay = "delay_seconds dec"
          and n = "j_attempt_count j" and st = A_FAILED and e = "Some err"])
      (simp_all add: record_failure_eq finish_failure_def guarded_update_db finish_attempt_def
        counted_def held_by_def failure_values_def Let_def leaves_running_def)
qed (simp add: record_failure_eq keeps_contract_same)

lemma release_contract: "consistent d \<Longrightarrow> keeps_contract {(RUNNING, PENDING)} (\<lambda>d. snd (release_job now j w d)) d"
proof (cases "holds w (j_id j) d")
  case True
  assume "consistent d"
  from True this show ?thesis
    by (intro keeps_contract_moving released.completion_safe [where i = "j_id j" and w = w and now = now
          and n = "j_attempt_count j" and st = A_ABORTED
          and e = "Some ''worker shut down before the job finished''"])
      (simp_all add: release_job_eq release_def guarded_update_db finish_attempt_def
        counted_def held_by_def leaves_running_def)
qed (simp add: release_job_eq keeps_contract_same)

subsection \<open>Updates that leave RUNNING rows alone or keep them running\<close>

context job_update
begin

text \<open>The attempts stay; a row that is RUNNING afterwards was so before, with its count and holder.\<close>

lemma keeping_safe:
  assumes "consistent d" and "jobs d' = update_where P act (jobs d)"
    and "\<And>k. P k \<Longrightarrow> guard k"
    and "\<And>k. P k \<Longrightarrow> j_status (act k) = RUNNING \<Longrightarrow> j_status k = RUNNING
          \<and> j_attempt_count (act k) = j_attempt_count k \<and> j_locked_by (act k) = j_locked_by k"
    and "\<And>k. guard k \<Longrightarrow> counted k \<Longrightarrow> counted (act k)"
    and "attempts d' = attempts d" and "queues d' = queues d" and "dependencies d' = dependencies d"
  shows "consistent d' \<and> jobs_evolve moves (jobs d) (jobs d') \<and> log_extends (attempts d) (attempts d')"
proof -
  have "audited d'"
  proof (rule audited_same_attempts [OF consistentD(3) [OF assms(1)] assms(6)])
    fix k assume "k \<in> set (jobs d')" "j_status k = RUNNING"
    then show "\<exists>j \<in> set (jobs d). j_status j = RUNNING \<and> j_id j = j_id k \<and>
        j_attempt_count j = j_attempt_count k \<and> j_locked_by j = j_locked_by k"
      unfolding assms(2)
    proof (cases rule: update_where_cases)
      case (changed r)
      then show ?thesis
        using assms(4) [OF changed(2)] \<open>j_status k = RUNNING\<close> id_kept [of r]
        by (intro bexI [of _ r]) simp_all
    next
      case kept
      then show ?thesis using \<open>j_status k = RUNNING\<close> by blast
    qed
  qed
  then have "consistent d'"
    by (intro consistent_after [where P = P, OF assms(1) _ assms(2,7,8)]) (simp_all add: assms(3,5))
  moreover have "jobs_evolve moves (jobs d) (jobs d')"
    unfolding assms(2) by (rule evolves_after) (rule assms(3))
  ultimately show ?thesis by (simp add: assms(6))
qed

end

lemma keeps_contract_frame:
  "jobs (op d) = jobs d \<Longrightarrow> attempts (op d) = attempts d \<Longrightarrow> queues (op d) = queues d \<Longrightarrow>
   dependencies (op d) = dependencies d \<Longrightarrow> consistent d \<Longrightarrow> keeps_contract T op d"
  using consistent_frame [of "op d" d] by (simp add: keeps_contract_def)

lemma summary_contract: "consistent d \<Longrightarrow> keeps_contract {} (store_summary now gen j err) d"
proof (cases "store_summary now gen j err d = d")
  case False
  assume c: "consistent d"
  obtain s where "store_summary now gen j err d = set_ai_summary now (j_id j) s d"
    using False by (auto simp: store_summary_def split: option.splits if_splits)
  then show ?thesis
    by (intro keeps_contract_keeping summarised.keeping_safe [where P = "\<lambda>k. j_id k = j_id j" and s = s and now = now, OF c])
      (simp_all add: set_ai_summary_def counted_def)
qed (simp add: keeps_contract_same)

lemma heartbeat_contract: "consistent d \<Longrightarrow> keeps_contract {} (\<lambda>d. snd (heartbeat now w n d)) d"
  by (intro keeps_contract_keeping heartbeat.keeping_safe [where P = "held_by w" and w = w and now = now
        and lease = "n * 1000000"])
    (simp_all add: heartbeat_jobs counted_def heartbeat_def worker_heartbeat_def extend_leases_def Let_def)

text \<open>A user-facing transition commits its guarded update, which is none when no row matched.\<close>

lemma guarded_commit:
  "snd (case guarded_update P f d of (Some j, d1) \<Rightarrow> (Inr j, d1) | (None, _) \<Rightarrow> (x, d))
     = d\<lparr>jobs := update_where P f (jobs d)\<rparr>"
proof (cases "fst (guarded_update P f d)")
  case None
  then have "guarded_update P f d = (None, d)"
    by (simp add: prod_eq_iff guarded_update_None)
  with guarded_update_db [of P f d] show ?thesis by simp
next
  case (Some k)
  then have "guarded_update P f d = (Some k, d\<lparr>jobs := update_where P f (jobs d)\<rparr>)"
    by (simp add: prod_eq_iff guarded_update_db)
  then show ?thesis by simp
qed

lemma cancel_contract: "consistent d \<Longrightarrow> keeps_contract {(PENDING, CANCELLED)} (\<lambda>d. snd (cancel_job now ow i d)) d"
  unfolding cancel_job_def cancel_def guarded_commit
  by (intro keeps_contract_keeping cancelled.keeping_safe [where ow = ow and now = now
        and P = "\<lambda>j. j_id j = i \<and> (j_owner_id j = ow \<and> j_status j = PENDING)"])
    (simp_all add: counted_def)

lemma requeue_contract: "consistent d \<Longrightarrow> keeps_contract {(DEAD, PENDING), (CANCELLED, PENDING)} (\<lambda>d. snd (requeue_job now ow i d)) d"
  unfolding requeue_job_def requeue_def guarded_commit
  by (intro keeps_contract_keeping requeued.keeping_safe [where ow = ow and now = now
        and P = "\<lambda>j. j_id j = i \<and> (j_owner_id j = ow \<and> j_status j \<in> {DEAD, CANCELLED})"])
    (simp_all add: counted_def)

subsection \<open>The claim and the sweep\<close>

text \<open>What a claim does to the tables: one update of the rows it returns, and one audit row each.\<close>

definition claim_hits :: "job list \<Rightarrow> job \<Rightarrow> bool" where
  "claim_hits js j \<longleftrightarrow> j_id j \<in> j_id ` set js \<and> j_status j = PENDING"

lemma claim_jobs_tables:
  assumes u: "unique_on j_id (jobs d)" and run: "claim_jobs aid r limit d = (js, d')"
  shows "jobs d' = update_where (claim_hits js) (claim_values r) (jobs d)"
    and "queues d' = queues d" "dependencies d' = dependencies d"
    and "attempts d' = attempts d @ map (\<lambda>j. \<lparr>a_id = aid (j_id j), a_job_id = j_id j,
      a_worker_id = Some (c_worker r), a_attempt_number = j_attempt_count j, a_status = A_RUNNING,
      a_error = None, a_started_at = c_now r, a_finished_at = None\<rparr>) js"
    and "\<And>j. j \<in> set (jobs d) \<Longrightarrow> claim_hits js j \<Longrightarrow> claim_values r j \<in> set js"
    and "\<And>c. c \<in> set js \<Longrightarrow> \<exists>j \<in> set (jobs d). claim_hits js j \<and> c = claim_values r j"
    and "length js \<le> limit" and "distinct (map j_id js)"
proof -
  obtain d1 where b: "claim_batch r limit d = (js, d1)" and d': "d' = open_attempts aid r js d1"
    using run by (auto simp: claim_jobs_def split: prod.splits)
  note cl = claim_batch_claimed(1) [OF u b]
  show "length js \<le> limit" by (rule claim_batch_claimed(2) [OF u b])
  show "distinct (map j_id js)" using cl by (simp add: claimed_from_def)
  have src: "j \<in> set (jobs d) \<Longrightarrow> j_id j \<in> j_id ` set js \<Longrightarrow> j_status j = PENDING \<and> claim_values r j \<in> set js"
    for j
  proof -
    assume j: "j \<in> set (jobs d)" "j_id j \<in> j_id ` set js"
    then obtain x where x: "x \<in> set js" "j_id x = j_id j" by fastforce
    then obtain i where i: "i \<in> set (jobs d)" "x = claim_values r i" "claimable r d i"
      using claimed_from_source [OF cl] by blast
    then have "i = j" using unique_onD [OF u _ j(1)] x(2) by simp
    then show ?thesis using i x(1) by (auto simp: claimable_def ready_def)
  qed
  then show "\<And>j. j \<in> set (jobs d) \<Longrightarrow> claim_hits js j \<Longrightarrow> claim_values r j \<in> set js"
    by (simp add: claim_hits_def)
  show "\<exists>j \<in> set (jobs d). claim_hits js j \<and> c = claim_values r j" if c: "c \<in> set js" for c
  proof -
    obtain j where j: "j \<in> set (jobs d)" "c = claim_values r j" "claimable r d j"
      using claimed_from_source [OF cl c] by blast
    then have "j_id j \<in> j_id ` set js" using c by (metis claim_values_fields(1) imageI)
    with j show ?thesis by (auto simp: claim_hits_def claimable_def ready_def)
  qed
  have "jobs d1 = update_where (\<lambda>j. j_id j \<in> j_id ` set js) (claim_values r) (jobs d)"
    using cl by (simp add: claimed_from_def)
  also have "\<dots> = update_where (claim_hits js) (claim_values r) (jobs d)"
    unfolding claim_hits_def using src by (intro update_where_cong) blast
  finally show "jobs d' = update_where (claim_hits js) (claim_values r) (jobs d)"
    by (simp add: d' open_attempts_eq)
  show "queues d' = queues d" "dependencies d' = dependencies d"
    "attempts d' = attempts d @ map (\<lambda>j. \<lparr>a_id = aid (j_id j), a_job_id = j_id j,
      a_worker_id = Some (c_worker r), a_attempt_number = j_attempt_count j, a_status = A_RUNNING,
      a_error = None, a_started_at = c_now r, a_finished_at = None\<rparr>) js"
    using claimed_from_tables [OF cl] by (simp_all add: d' open_attempts_eq)
qed

lemma claim_contract: "consistent d \<Longrightarrow> keeps_contract {(PENDING, RUNNING)} (\<lambda>d. snd (claim_jobs aid r limit d)) d"
proof -
  assume c: "consistent d"
  obtain js d' where run: "claim_jobs aid r limit d = (js, d')" by fastforce
  note t = claim_jobs_tables [OF consistentD(2) [OF c] run]
  have "audited d'"
    unfolding audited_def
  proof (intro ballI impI)
    fix k assume k: "k \<in> set (jobs d')" "j_status k = RUNNING"
    from k(1) show "has_open_attempt (attempts d') k"
      unfolding t(1)
    proof (cases rule: update_where_cases)
      case (changed j)
      then have "k \<in> set js" "j_locked_by k = Some (c_worker r)" using t(5) by auto
      then show ?thesis
        unfolding has_open_attempt_def t(4)
        by (intro bexI [of _ "\<lparr>a_id = aid (j_id k), a_job_id = j_id k, a_worker_id = Some (c_worker r),
            a_attempt_number = j_attempt_count k, a_status = A_RUNNING, a_error = None,
            a_started_at = c_now r, a_finished_at = None\<rparr>"]) (simp_all add: open_attempt_def)
    next
      case kept
      then show ?thesis
        using consistentD(3) [OF c] k(2) by (fastforce simp: audited_def has_open_attempt_def t(4))
    qed
  qed
  then have "consistent d'"
    by (intro claim.consistent_after [where P = "claim_hits js", OF c _ t(1,2,3)])
      (simp_all add: counted_def claim_hits_def)
  moreover have "jobs_evolve {(PENDING, RUNNING)} (jobs d) (jobs d')"
    unfolding t(1) by (rule claim.evolves_after) (simp add: claim_hits_def)
  moreover have "log_extends (attempts d) (attempts d')" by (simp add: t(4))
  ultimately show ?thesis by (simp add: keeps_contract_def leaves_running_def run)
qed

text \<open>A sweep that raises rolls back.\<close>

definition reap_commit ::
  "bool \<Rightarrow> time \<Rightarrow> (uuid \<Rightarrow> real) \<Rightarrow> (uuid \<Rightarrow> bool) \<Rightarrow> int \<Rightarrow> db \<Rightarrow> db" where
  "reap_commit got_lock now rnd locked off d =
     (case reap_once got_lock now rnd locked off d of Inl _ \<Rightarrow> d | Inr (_, d') \<Rightarrow> d')"

lemma open_survives_fold:
  "a \<in> set as \<Longrightarrow> \<forall>j \<in> set js. \<not> open_attempt (j_id j) (j_attempt_count j) a \<Longrightarrow>
   a \<in> set (fold (\<lambda>j as. update_where (open_attempt (j_id j) (j_attempt_count j)) (g j) as) js as)"
proof (induction js arbitrary: as)
  case (Cons j js)
  have "a \<in> set (update_where (open_attempt (j_id j) (j_attempt_count j)) (g j) as)"
    unfolding in_update_where by (rule bexI [of _ a]) (use Cons.prems in simp_all)
  then show ?case using Cons.IH Cons.prems(2) by simp
qed simp

text \<open>A sweep is one update of the RUNNING rows it picked, or nothing.\<close>

definition reap_hits :: "time \<Rightarrow> (uuid \<Rightarrow> bool) \<Rightarrow> db \<Rightarrow> job \<Rightarrow> bool" where
  "reap_hits now locked d k \<longleftrightarrow>
     j_id k \<in> j_id ` set (select_expired_for_update now locked 100 d) \<and> j_status k = RUNNING"

lemma reap_commit_tables:
  assumes u: "unique_on j_id (jobs d)" and run: "reap_once True now rnd locked off d = Inr (n, d')"
  shows "jobs d' = update_where (reap_hits now locked d) (reaped now rnd) (jobs d)"
    and "attempts d' = fold (\<lambda>j as. update_where (open_attempt (j_id j) (j_attempt_count j))
      (\<lambda>a. a\<lparr>a_status := A_LOST, a_error := Some (reap_error j), a_finished_at := Some now\<rparr>) as)
      (select_expired_for_update now locked 100 d) (attempts d)"
    and "\<And>j. j \<in> set (jobs d) \<Longrightarrow> reap_hits now locked d j \<Longrightarrow> lease_expired now j \<and>
      j_status (reaped now rnd j) \<noteq> RUNNING \<and>
      (\<exists>dec. decide_failure (policy_of j) (j_attempt_count j) (rnd (j_id j)) = Inr dec)"
    and "\<And>k. k \<in> set (jobs d') \<Longrightarrow> j_status k = RUNNING \<Longrightarrow>
      k \<in> set (jobs d) \<and> j_id k \<notin> j_id ` set (select_expired_for_update now locked 100 d)"
proof -
  let ?ex = "select_expired_for_update now locked 100 d"
  have sub: "set ?ex \<subseteq> set (jobs d)" using expired_subset by fast
  have member: "j \<in> set (jobs d) \<Longrightarrow> j_id j \<in> j_id ` set ?ex \<Longrightarrow> j \<in> set ?ex \<and> lease_expired now j" for j
    using filter_keys_eq [OF u sub] expired_subset [of now locked 100 d] by auto
  note res = reap_once_result [OF u run]
  obtain d1 where r: "reap_jobs now rnd ?ex d = Inr d1" and d': "d' = snd (mark_stale_offline now off d1)"
    using run by (auto simp: reap_once_def Let_def split: sum.splits)
  show rows: "jobs d' = update_where (reap_hits now locked d) (reaped now rnd) (jobs d)"
    unfolding res(2) reap_hits_def using member
    by (intro update_where_cong) (auto simp: lease_expired_def)
  show "attempts d' = fold (\<lambda>j as. update_where (open_attempt (j_id j) (j_attempt_count j))
      (\<lambda>a. a\<lparr>a_status := A_LOST, a_error := Some (reap_error j), a_finished_at := Some now\<rparr>) as)
      ?ex (attempts d)"
    using reap_jobs_result [OF u sub expired_distinct [OF u] r] by (simp add: d')
  show hit: "lease_expired now j \<and> j_status (reaped now rnd j) \<noteq> RUNNING \<and>
      (\<exists>dec. decide_failure (policy_of j) (j_attempt_count j) (rnd (j_id j)) = Inr dec)"
    if j: "j \<in> set (jobs d)" "reap_hits now locked d j" for j
  proof -
    have m: "j \<in> set ?ex" "lease_expired now j" using member [OF j(1)] j(2) by (auto simp: reap_hits_def)
    then obtain dec where "decide_failure (policy_of j) (j_attempt_count j) (rnd (j_id j)) = Inr dec"
      using res(7) by blast
    with m(2) show ?thesis by (simp add: reaped_def reap_values_def Let_def)
  qed
  show "k \<in> set (jobs d) \<and> j_id k \<notin> j_id ` set ?ex"
    if k: "k \<in> set (jobs d')" "j_status k = RUNNING" for k
    using k(1) unfolding rows
  proof (cases rule: update_where_cases)
    case (changed j)
    then show ?thesis using hit k(2) by auto
  next
    case kept
    then show ?thesis using k(2) by (auto simp: reap_hits_def)
  qed
qed

lemma reap_contract: "consistent d \<Longrightarrow> keeps_contract {(RUNNING, PENDING), (RUNNING, DEAD)} (reap_commit got_lock now rnd locked off) d"
proof (cases "got_lock \<and> (\<exists>n d'. reap_once True now rnd locked off d = Inr (n, d'))")
  case True
  assume c: "consistent d"
  note u = consistentD(2) [OF c]
  from True obtain n d' where run: "reap_once True now rnd locked off d = Inr (n, d')" by blast
  note t = reap_commit_tables [OF u run] and res = reap_once_result [OF u run]
  have "audited d'"
  proof (rule audited_shrink [OF consistentD(3) [OF c]])
    fix k a assume k: "k \<in> set (jobs d')" "j_status k = RUNNING" and a: "a \<in> set (attempts d)"
      "open_attempt (j_id k) (j_attempt_count k) a"
    then show "a \<in> set (attempts d')"
      unfolding t(2) using t(4) [OF k]
      by (intro open_survives_fold) (auto simp: open_attempt_def)
  qed (use t(4) in blast)
  then have "consistent d'"
    by (intro reap.consistent_after [where P = "reap_hits now locked d", OF c _ t(1) res(4,5)])
      (simp_all add: counted_def reaped_def reap_values_def reap_hits_def Let_def split: sum.splits)
  moreover have "jobs_evolve {(RUNNING, PENDING), (RUNNING, DEAD)} (jobs d) (jobs d')"
    unfolding t(1) by (rule reap.evolves_after) (simp add: reap_hits_def)
  ultimately show ?thesis
    using run True res(3) by (simp add: keeps_contract_def leaves_running_def reap_commit_def)
next
  case False
  assume "consistent d"
  moreover have "reap_commit got_lock now rnd locked off d = d"
    using False by (cases got_lock) (auto simp: reap_commit_def reap_once_def split: sum.splits)
  ultimately show ?thesis by (rule keeps_contract_same [rotated])
qed

subsection \<open>Operations that add rows\<close>

lemma grow_contract:
  assumes "consistent d" and "jobs (op d) = jobs d @ ks" and "\<forall>k \<in> set ks. fresh_job k"
    and "db_keys (op d)" and "depends_earlier (op d)" and "attempts (op d) = attempts d"
  shows "keeps_contract T op d"
proof -
  have "audited (op d)"
    by (rule audited_same_attempts [OF consistentD(3) [OF assms(1)] assms(6)])
      (use assms(2,3) in \<open>auto simp: fresh_job_def\<close>)
  moreover have "\<forall>j \<in> set (jobs (op d)). lease_ok j \<and> counted j"
    using assms(1-3) by (auto simp: consistent_def fresh_job_def lease_ok_def counted_def)
  ultimately show ?thesis
    using assms by (simp add: keeps_contract_def consistent_def jobs_evolve_append)
qed

lemma build_job_fresh: "fresh_job (build_job now i ow q data b w)"
  by (simp add: fresh_job_def)

lemma enqueue_contract: "consistent d \<Longrightarrow> keeps_contract {} (\<lambda>d. snd (enqueue now ids id id usr data d)) d"
proof -
  assume c: "consistent d"
  obtain res d' where run: "enqueue now ids id id usr data d = (res, d')" by fastforce
  note graph = enqueue_graph [OF consistentD(1,4) [OF c] well_behaved_id(2,2) run]
  show ?thesis
  proof (cases rule: enqueue_cases [OF run])
    case (1 j)
    from run [unfolded 1] obtain q v w e where
        r: "resolve_queue now (i_queue ids) id usr (jc_project_id data) (jc_queue data) d = Inr (q, v)"
      and j: "j = build_job now (i_job ids) (u_id usr) q data None w"
      and ins: "insert_job j (id v) = Inr e"
      and deps: "add_many (i_dependency ids) (i_job ids) (jc_depends_on data) e = Inr d'"
      by (rule enqueue_created)
    have "jobs d' = jobs d @ [j]" "attempts d' = attempts d"
      using resolve_queue_tables [OF r] insert_job_db [OF ins] add_many_db [OF deps] by simp_all
    then show ?thesis
      using graph c by (intro grow_contract [where ks = "[j]"]) (simp_all add: run j build_job_fresh)
  next
    case 2
    then show ?thesis using c by (intro keeps_contract_same) (auto simp: run)
  qed
qed

lemma stage_items_keys:
  assumes "stage_items now qid jid b usr i cache pending js items d = Inr (pending', js', d')" and "db_keys d"
  shows "db_keys d'"
  using assms
proof (induction items arbitrary: i cache pending js d)
  case (Cons data rest)
  show ?case
  proof (cases "map_of cache (jc_project_id data, jc_queue data)")
    case (Some q)
    then show ?thesis using Cons by (auto simp: Let_def)
  next
    case None
    then obtain d1 q d2 cache' pend js'' i' where 1: "insert_jobs pending d = Inr d1"
      and 2: "resolve_queue now (qid i) id usr (jc_project_id data) (jc_queue data) d1 = Inr (q, d2)"
      and 3: "stage_items now qid jid b usr i' cache' pend js'' rest d2 = Inr (pending', js', d')"
      using Cons.prems by (auto simp: Let_def)
    show ?thesis
      using Cons.IH [OF 3] resolve_queue_keys [OF 2] insert_jobs_keys [OF Cons.prems(2) 1] by simp
  qed
qed simp

lemma stage_items_fresh:
  assumes "stage_items now qid jid b usr i cache pending js items d = Inr (pending', js', d')"
    and "\<forall>k \<in> set js. fresh_job k"
  shows "\<forall>k \<in> set js'. fresh_job k"
  using assms
proof (induction items arbitrary: i cache pending js d)
  case (Cons data rest)
  show ?case
  proof (cases "map_of cache (jc_project_id data, jc_queue data)")
    case (Some q)
    then have "stage_items now qid jid b usr (Suc i) cache
        (pending @ [build_job now (jid i) (u_id usr) q data (Some b) None])
        (js @ [build_job now (jid i) (u_id usr) q data (Some b) None]) rest d = Inr (pending', js', d')"
      using Cons.prems by (simp add: Let_def)
    from Cons.IH [OF this] show ?thesis using Cons.prems(2) build_job_fresh by auto
  next
    case None
    then obtain q d2 cache' pend i' where
      "stage_items now qid jid b usr i' cache' pend
        (js @ [build_job now (jid i) (u_id usr) q data (Some b) None]) rest d2 = Inr (pending', js', d')"
      using Cons.prems by (auto simp: Let_def)
    from Cons.IH [OF this] show ?thesis using Cons.prems(2) build_job_fresh by auto
  qed
qed simp

lemma batch_contract:
  "consistent d \<Longrightarrow> keeps_contract {} (\<lambda>d. snd (enqueue_batch now qid jid b (\<lambda>x. x) usr items d)) d"
proof -
  assume c: "consistent d"
  obtain res d' where run: "enqueue_batch now qid jid b (\<lambda>x. x) usr items d = (res, d')" by fastforce
  note res = batch_result [OF run]
  show ?thesis
  proof (cases res)
    case (Inl e)
    then show ?thesis using res c by (intro keeps_contract_same) (simp_all add: run)
  next
    case (Inr bj)
    obtain js where bj: "bj = (b, js)" using res Inr by (cases bj) simp
    then have out: "jobs d' = jobs d @ js" "attempts d' = attempts d" "dependencies d' = dependencies d"
      using res Inr by simp_all
    obtain pending d1 d2 where s: "stage_items now qid jid b usr 0 [] [] [] items d = Inr (pending, js, d1)"
      and i: "insert_jobs pending d1 = Inr d2" and "d' = d2"
      using run Inr bj by (auto simp: enqueue_batch_def split: sum.splits)
    have "db_keys d'"
      using insert_jobs_keys [OF stage_items_keys [OF s consistentD(1) [OF c]] i] \<open>d' = d2\<close> by simp
    moreover have "\<forall>k \<in> set js. fresh_job k" using stage_items_fresh [OF s] by simp
    moreover have "depends_earlier d'"
      using depends_earlier_append [OF consistentD(4) [OF c], of d' "map j_id js"] out by simp
    ultimately show ?thesis
      using out c by (intro grow_contract [where ks = js]) (simp_all add: run)
  qed
qed

text \<open>The materializer: a sweep that raises rolls back.\<close>

lemma fired_job_fresh: "fresh_job (fired_job now i s)"
  by (simp add: fresh_job_def)

lemma fire_grows:
  assumes "fire cn now i s d = Inr (n, d')"
  shows "\<exists>ks. jobs d' = jobs d @ ks \<and> (\<forall>k \<in> set ks. fresh_job k) \<and> (db_keys d \<longrightarrow> db_keys d') \<and>
    attempts d' = attempts d \<and> dependencies d' = dependencies d"
proof -
  have frame: "db_keys (d1\<lparr>schedules := ss\<rparr>) = db_keys d1" for d1 ss by (simp add: db_keys_def)
  show ?thesis
  proof (cases "get_by_idempotency_key (s_owner_id s) (fire_key s) d")
    case None
    then obtain d1 t where i: "insert_job (fired_job now i s) d = Inr d1"
      and d': "d' = d1\<lparr>schedules := update_where (\<lambda>x. s_id x = s_id s) (\<lambda>x. advance_cursor now t s) (schedules d1)\<rparr>"
      using assms by (auto simp: fire_def)
    show ?thesis
      using insert_job_db [OF i] insert_job_keys [OF _ i] fired_job_fresh
      by (intro exI [of _ "[fired_job now i s]"]) (simp add: d' frame)
  next
    case (Some k)
    then obtain t where d': "d' = d\<lparr>schedules := update_where (\<lambda>x. s_id x = s_id s)
        (\<lambda>x. advance_cursor now t s) (schedules d)\<rparr>"
      using assms by (auto simp: fire_def)
    show ?thesis by (intro exI [of _ "[]"]) (simp add: d' frame)
  qed
qed

lemma fire_all_grows:
  "fire_all cn now jid ss d = Inr (n, d') \<Longrightarrow>
   \<exists>ks. jobs d' = jobs d @ ks \<and> (\<forall>k \<in> set ks. fresh_job k) \<and> (db_keys d \<longrightarrow> db_keys d') \<and>
     attempts d' = attempts d \<and> dependencies d' = dependencies d"
proof (induction ss arbitrary: d n)
  case Nil
  then show ?case by simp
next
  case (Cons s ss)
  then obtain m d1 l where 1: "fire cn now (jid (s_id s)) s d = Inr (m, d1)"
    and 2: "fire_all cn now jid ss d1 = Inr (l, d')" by auto
  from fire_grows [OF 1] obtain ks where "jobs d1 = jobs d @ ks" "\<forall>k \<in> set ks. fresh_job k"
      "db_keys d \<longrightarrow> db_keys d1" "attempts d1 = attempts d" "dependencies d1 = dependencies d" by blast
  moreover from Cons.IH [OF 2] obtain ls where "jobs d' = jobs d1 @ ls" "\<forall>k \<in> set ls. fresh_job k"
      "db_keys d1 \<longrightarrow> db_keys d'" "attempts d' = attempts d1" "dependencies d' = dependencies d1" by blast
  ultimately show ?case by (intro exI [of _ "ks @ ls"]) auto
qed

lemma materialize_contract:
  "consistent d \<Longrightarrow> keeps_contract {} (\<lambda>d. snd (materialize_schedules_once got_lock cn now jid locked d)) d"
proof (cases "got_lock \<and> (\<exists>n d'. fire_all cn now jid (select_due_for_update now locked 100 d) d = Inr (n, d'))")
  case True
  assume c: "consistent d"
  from True obtain n d' where run: "fire_all cn now jid (select_due_for_update now locked 100 d) d = Inr (n, d')"
    by blast
  from fire_all_grows [OF run] obtain ks where ks: "jobs d' = jobs d @ ks" "\<forall>k \<in> set ks. fresh_job k"
      "db_keys d \<longrightarrow> db_keys d'" "attempts d' = attempts d" "dependencies d' = dependencies d" by blast
  then have "depends_earlier d'"
    using depends_earlier_append [OF consistentD(4) [OF c], of d' "map j_id ks"] by simp
  then show ?thesis
    using ks True run consistentD(1) [OF c] c
    by (intro grow_contract [where ks = ks]) (simp_all add: materialize_schedules_once_def)
next
  case False
  assume "consistent d"
  then show ?thesis
    using False
    by (intro keeps_contract_same) (auto simp: materialize_schedules_once_def split: sum.splits)
qed

text \<open>Queues: a new one, and the replacement of a row under its identity and name.\<close>

lemma queue_tables_contract:
  assumes "consistent d" and "op d = d\<lparr>queues := qs\<rparr>" and "db_keys (d\<lparr>queues := qs\<rparr>)"
  shows "keeps_contract T op d"
  using assms depends_earlier_same [of "d\<lparr>queues := qs\<rparr>" d]
  by (intro grow_contract [where ks = "[]"]) (simp_all add: consistent_def)

lemma create_queue_contract: "consistent d \<Longrightarrow> keeps_contract {} (\<lambda>d. snd (create_queue now qid usr data d)) d"
proof (cases "snd (create_queue now qid usr data d) = d")
  case False
  assume c: "consistent d"
  obtain q d1 where i: "insert_queue q d = Inr d1" and out: "snd (create_queue now qid usr data d) = d1"
    using False by (auto simp: create_queue_def Let_def split: sum.splits)
  show ?thesis
    using insert_queue_db [OF i] insert_queue_keys [OF consistentD(1) [OF c] i] c
    by (intro queue_tables_contract [where qs = "queues d @ [q]"]) (simp_all add: out)
qed (simp add: keeps_contract_same)

lemma store_queue_keys:
  assumes "db_keys d" and "q \<in> set (queues d)" and "q_id q1 = q_id q"
    and "q_project_id q1 = q_project_id q" and "q_name q1 = q_name q" and "queue_checks q1"
  shows "db_keys (d\<lparr>queues := update_where (\<lambda>x. q_id x = q_id q1) (\<lambda>_. q1) (queues d)\<rparr>)"
proof -
  let ?qs = "update_where (\<lambda>x. q_id x = q_id q1) (\<lambda>_. q1) (queues d)"
  have ids: "map q_id ?qs = map q_id (queues d)" by (rule map_replace) simp
  then have "q_id ` set ?qs = q_id ` set (queues d)" by (metis list.set_map)
  moreover have "(if q_id x = q_id q1 then q1 else x) = q1 \<longrightarrow>
      (q_project_id q1, q_name q1) = (q_project_id x, q_name x)" if "x \<in> set (queues d)" for x
    using unique_onD [OF db_keysD(2) [OF assms(1)] that assms(2)] assms(3-5) by auto
  then have "map (\<lambda>q. (q_project_id q, q_name q)) ?qs = map (\<lambda>q. (q_project_id q, q_name q)) (queues d)"
    by (auto simp: update_where_def)
  moreover have "\<forall>x \<in> set ?qs. queue_checks x"
    using assms(1,6) by (auto simp: db_keys_def in_update_where)
  ultimately show ?thesis
    using assms(1) ids by (simp add: db_keys_def uq_queues_project_name_def unique_on_def)
qed

lemma get_queue_member: "get_queue usr i d = Inr q \<Longrightarrow> q \<in> set (queues d)"
  by (auto simp: get_queue_def get_for_org_def require_Inr_iff dest: find_SomeD)

lemma store_queue_contract:
  assumes "consistent d" and "q \<in> set (queues d)" and "q_id q1 = q_id q"
    and "q_project_id q1 = q_project_id q" and "q_name q1 = q_name q"
    and "op d = snd (store_queue now q q1 d)"
  shows "keeps_contract T op d"
proof (cases "queue_checks q1")
  case True
  define q' where "q' = (if q1 = q then q else q1\<lparr>q_updated_at := now\<rparr>)"
  have "q_id q' = q_id q" "q_project_id q' = q_project_id q" "q_name q' = q_name q" "queue_checks q'"
    using assms(1-5) True db_keysD(8) [OF consistentD(1)]
    by (simp_all add: q'_def queue_checks_def)
  from store_queue_keys [OF consistentD(1) [OF assms(1)] assms(2) this]
  show ?thesis
    by (intro queue_tables_contract [OF assms(1)])
      (use assms(6) True in \<open>simp_all add: store_queue_def Let_def q'_def\<close>)
qed (use assms in \<open>simp add: store_queue_def keeps_contract_same\<close>)

lemma apply_queue_update_names:
  "apply_queue_update data q = Some q1 \<Longrightarrow>
   q_id q1 = q_id q \<and> q_project_id q1 = q_project_id q \<and> q_name q1 = q_name q"
  by (auto simp: apply_queue_update_def split: option.splits)

lemma update_queue_contract: "consistent d \<Longrightarrow> keeps_contract {} (\<lambda>d. snd (update_queue now usr i data d)) d"
proof (cases "\<exists>q q1. get_queue usr i d = Inr q \<and> apply_queue_update data q = Some q1")
  case True
  assume c: "consistent d"
  from True obtain q q1 where q: "get_queue usr i d = Inr q" and q1: "apply_queue_update data q = Some q1"
    by blast
  then show ?thesis
    using apply_queue_update_names [OF q1]
    by (intro store_queue_contract [OF c get_queue_member [OF q], of q1 _ now]) (simp_all add: update_queue_def)
next
  case False
  assume "consistent d"
  then show ?thesis
    using False by (intro keeps_contract_same) (auto simp: update_queue_def split: sum.splits option.splits)
qed

lemma set_paused_contract: "consistent d \<Longrightarrow> keeps_contract {} (\<lambda>d. snd (set_paused now usr i b d)) d"
proof (cases "get_queue usr i d")
  case (Inr q)
  assume c: "consistent d"
  show ?thesis
    by (intro store_queue_contract [OF c get_queue_member [OF Inr], of "q\<lparr>q_paused := b\<rparr>" _ now])
      (simp_all add: set_paused_def Inr)
qed (simp add: keeps_contract_same set_paused_def)

subsection \<open>Operations on the other tables\<close>

lemma create_schedule_contract:
  "consistent d \<Longrightarrow> keeps_contract {} (\<lambda>d. snd (create_schedule cn now qid sid id usr data d)) d"
proof (cases "\<exists>s d'. create_schedule cn now qid sid id usr data d = (Inr s, d')")
  case True
  assume c: "consistent d"
  from True obtain s d' where run: "create_schedule cn now qid sid id usr data d = (Inr s, d')" by blast
  then obtain q d1 where r: "resolve_schedule_queue now qid id usr (sc_project_id data) (sc_queue data) d = Inr (q, d1)"
    and i: "insert_schedule s d1 = Inr d'"
    by (auto simp: create_schedule_def Let_def split: sum.splits)
  have "d1 = d \<or> insert_queue q d = Inr d1"
    using r by (auto simp: resolve_schedule_queue_def split: option.splits)
  then have "jobs d1 = jobs d" "attempts d1 = attempts d" "dependencies d1 = dependencies d" "db_keys d1"
    using consistentD(1) [OF c] by (auto dest: insert_queue_db intro: insert_queue_keys)
  moreover have d': "d' = d1\<lparr>schedules := schedules d1 @ [s]\<rparr>"
    using i by (simp add: insert_schedule_def split: if_splits)
  moreover have "db_keys d' = db_keys d1" by (rule db_keys_tables) (simp_all add: d')
  ultimately show ?thesis
    using c depends_earlier_same [of d' d] by (intro grow_contract [where ks = "[]"]) (simp_all add: run consistent_def)
next
  case False
  assume "consistent d"
  then show ?thesis
    using False by (intro keeps_contract_same) (auto simp: create_schedule_def split: sum.splits prod.splits)
qed

lemma update_schedule_contract:
  "consistent d \<Longrightarrow> keeps_contract {} (\<lambda>d. snd (update_schedule cn now usr i data d)) d"
  by (rule keeps_contract_frame) (simp_all add: update_schedule_def split: sum.splits)

lemma delete_schedule_contract: "consistent d \<Longrightarrow> keeps_contract {} (\<lambda>d. snd (delete_schedule usr i d)) d"
  by (rule keeps_contract_frame) (simp_all add: delete_schedule_def delete_schedule_row_def split: sum.splits)

lemma create_project_contract: "consistent d \<Longrightarrow> keeps_contract {} (\<lambda>d. snd (create_project now i usr nm d)) d"
  by (rule keeps_contract_frame) (simp_all add: create_project_def insert_project_def Let_def)

lemma register_contract:
  "consistent d \<Longrightarrow> keeps_contract {} (\<lambda>d. snd (register h now oi pid uid id email pw d)) d"
  by (rule keeps_contract_frame)
    (auto simp: register_def insert_organization_def insert_project_def insert_user_def Let_def)

lemma update_role_tables:
  "\<exists>us. snd (update_role i ow r d) = d\<lparr>users := us\<rparr>"
  by (auto simp: update_role_def Let_def)

lemma change_role_contract: "consistent d \<Longrightarrow> keeps_contract {} (\<lambda>d. snd (change_role usr i role d)) d"
proof -
  have "snd (change_role usr i role d) = d \<or> (\<exists>us. snd (change_role usr i role d) = d\<lparr>users := us\<rparr>)"
    using update_role_tables [of i "u_org_id usr" role d]
    by (auto simp: change_role_def split: sum.splits prod.splits option.splits)
  then show "consistent d \<Longrightarrow> ?thesis" by (intro keeps_contract_frame) auto
qed

text \<open>A worker process registers under a fresh identity; a repeated one is rejected.\<close>

definition register_commit :: "time \<Rightarrow> uuid \<Rightarrow> string \<Rightarrow> int \<Rightarrow> db \<Rightarrow> db" where
  "register_commit now w nm n d = (case register_worker now w nm n d of Inl _ \<Rightarrow> d | Inr d' \<Rightarrow> d')"

lemma register_worker_contract: "consistent d \<Longrightarrow> keeps_contract {} (register_commit now w nm n) d"
  by (rule keeps_contract_frame) (simp_all add: register_commit_def register_worker_def)

lemma worker_status_contract: "consistent d \<Longrightarrow> keeps_contract {} (set_worker_status now w st stopped) d"
  by (rule keeps_contract_frame) (simp_all add: set_worker_status_def)

subsection \<open>Every transaction keeps the contract\<close>

interpretation registers: db_operation "register_commit now w nm n" "{}"
  by (rule db_operationI) (rule register_worker_contract)

interpretation beats: db_operation "\<lambda>d. snd (heartbeat now w n d)" "{}"
  by (rule db_operationI) (rule heartbeat_contract)

interpretation drains: db_operation "set_worker_status now w st stopped" "{}"
  by (rule db_operationI) (rule worker_status_contract)

interpretation claims: db_operation "\<lambda>d. snd (claim_jobs aid r limit d)" "{(PENDING, RUNNING)}"
  by (rule db_operationI) (rule claim_contract)

interpretation succeeds: db_operation "\<lambda>d. snd (complete_success now j w res d)" "{(RUNNING, SUCCEEDED)}"
  by (rule db_operationI) (rule success_contract)

interpretation fails: db_operation "\<lambda>d. snd (record_failure now dec j w err d)" "{(RUNNING, PENDING), (RUNNING, DEAD)}"
  by (rule db_operationI) (rule failure_contract)

interpretation summarises: db_operation "store_summary now gen j err" "{}"
  by (rule db_operationI) (rule summary_contract)

interpretation releases: db_operation "\<lambda>d. snd (release_job now j w d)" "{(RUNNING, PENDING)}"
  by (rule db_operationI) (rule release_contract)

interpretation sweeps: db_operation "reap_commit got_lock now rnd locked off" "{(RUNNING, PENDING), (RUNNING, DEAD)}"
  by (rule db_operationI) (rule reap_contract)

interpretation materializes:
  db_operation "\<lambda>d. snd (materialize_schedules_once got_lock cn now jid locked d)" "{}"
  by (rule db_operationI) (rule materialize_contract)

interpretation enqueues: db_operation "\<lambda>d. snd (enqueue now ids id id usr data d)" "{}"
  by (rule db_operationI) (rule enqueue_contract)

interpretation batches: db_operation "\<lambda>d. snd (enqueue_batch now qid jid b (\<lambda>x. x) usr items d)" "{}"
  by (rule db_operationI) (rule batch_contract)

interpretation cancels: db_operation "\<lambda>d. snd (cancel_job now ow i d)" "{(PENDING, CANCELLED)}"
  by (rule db_operationI) (rule cancel_contract)

interpretation requeues: db_operation "\<lambda>d. snd (requeue_job now ow i d)" "{(DEAD, PENDING), (CANCELLED, PENDING)}"
  by (rule db_operationI) (rule requeue_contract)

interpretation creates_queue: db_operation "\<lambda>d. snd (create_queue now qid usr data d)" "{}"
  by (rule db_operationI) (rule create_queue_contract)

interpretation updates_queue: db_operation "\<lambda>d. snd (update_queue now usr i data d)" "{}"
  by (rule db_operationI) (rule update_queue_contract)

interpretation pauses_queue: db_operation "\<lambda>d. snd (set_paused now usr i b d)" "{}"
  by (rule db_operationI) (rule set_paused_contract)

interpretation creates_schedule: db_operation "\<lambda>d. snd (create_schedule cn now qid sid id usr data d)" "{}"
  by (rule db_operationI) (rule create_schedule_contract)

interpretation updates_schedule: db_operation "\<lambda>d. snd (update_schedule cn now usr i data d)" "{}"
  by (rule db_operationI) (rule update_schedule_contract)

interpretation deletes_schedule: db_operation "\<lambda>d. snd (delete_schedule usr i d)" "{}"
  by (rule db_operationI) (rule delete_schedule_contract)

interpretation creates_project: db_operation "\<lambda>d. snd (create_project now i usr nm d)" "{}"
  by (rule db_operationI) (rule create_project_contract)

interpretation registers_user: db_operation "\<lambda>d. snd (register h now oi pid uid id email pw d)" "{}"
  by (rule db_operationI) (rule register_contract)

interpretation changes_role: db_operation "\<lambda>d. snd (change_role usr i role d)" "{}"
  by (rule db_operationI) (rule change_role_contract)

end
