(* ===== verification/Audit_Log.thy ===== *)
theory Audit_Log
  imports System
begin

section \<open>When the audit log is exact\<close>

text \<open>
  \<open>consistent\<close> gives every running job an open audit row.  \<open>log_exact\<close> is the converse: an
  open row is the one of the current attempt of a running job, and no job has two.  It holds
  as long as a report ends the attempt its row counts; this theory shows what each kind of
  operation owes it, the theory \<open>Cluster\<close> puts them together.
\<close>

definition opened :: "db \<Rightarrow> job_attempt list" where
  "opened d = filter (\<lambda>a. a_status a = A_RUNNING) (attempts d)"

definition log_exact :: "db \<Rightarrow> bool" where
  "log_exact d \<longleftrightarrow>
     (\<forall>a \<in> set (opened d). \<exists>j \<in> set (jobs d). j_status j = RUNNING \<and>
        open_attempt (j_id j) (j_attempt_count j) a \<and> a_worker_id a = j_locked_by j) \<and>
     distinct (map a_job_id (opened d))"

lemma log_exactE:
  assumes "log_exact d" and "a \<in> set (opened d)"
  obtains j where "j \<in> set (jobs d)" and "j_status j = RUNNING"
    and "open_attempt (j_id j) (j_attempt_count j) a" and "a_worker_id a = j_locked_by j"
  using assms unfolding log_exact_def by blast

lemma log_exact_empty: "log_exact empty_db"
  by (simp add: log_exact_def opened_def empty_db_def)

text \<open>With distinct keys at most one row has a given key.\<close>

lemma count_key_distinct:
  assumes "distinct (map key rs)"
  shows "length (filter (\<lambda>r. key r = i) rs) = (if \<exists>r \<in> set rs. key r = i then 1 else 0)"
  using assms by (induction rs) (auto simp: filter_empty_conv image_iff)

subsection \<open>Operations that neither start nor end a run\<close>

lemma log_exact_same:
  assumes "log_exact d" and "jobs_evolve T (jobs d) (jobs d')" and "leaves_running T"
    and "attempts d' = attempts d"
  shows "log_exact d'"
proof -
  have "\<exists>k \<in> set (jobs d'). j_status k = RUNNING \<and> open_attempt (j_id k) (j_attempt_count k) a \<and>
      a_worker_id a = j_locked_by k" if a: "a \<in> set (opened d)" for a
  proof -
    obtain j where j: "j \<in> set (jobs d)" "j_status j = RUNNING"
        "open_attempt (j_id j) (j_attempt_count j) a" "a_worker_id a = j_locked_by j"
      by (rule log_exactE [OF assms(1) a])
    obtain k where k: "k \<in> set (jobs d')" "job_evolves T j k"
      using jobs_evolve_to [OF assms(2) j(1)] by blast
    then have "j_status k = RUNNING \<and> j_id k = j_id j \<and> j_attempt_count k = j_attempt_count j \<and>
        j_locked_by k = j_locked_by j"
      using j(2) assms(3)
      by (auto simp: job_evolves_def leaves_running_def contract_def split: if_splits)
    then show ?thesis using k(1) j(3,4) by (intro bexI [of _ k]) simp_all
  qed
  then show ?thesis
    using assms(1) by (simp add: log_exact_def opened_def assms(4))
qed

subsection \<open>Operations that end runs\<close>

text \<open>Closing rows takes them out of the open ones and leaves the others.\<close>

lemma opened_closed:
  assumes "st \<noteq> A_RUNNING"
  shows "opened (snd (finish_attempt now i n st e d)) = filter (\<lambda>a. \<not> open_attempt i n a) (opened d)"
proof -
  have "filter (\<lambda>a. a_status a = A_RUNNING)
      (update_where (open_attempt i n) (\<lambda>a. a\<lparr>a_status := st, a_error := e, a_finished_at := Some now\<rparr>) as) =
    filter (\<lambda>a. \<not> open_attempt i n a) (filter (\<lambda>a. a_status a = A_RUNNING) as)" for as
    by (induction as) (use assms in auto)
  then show ?thesis by (simp add: opened_def finish_attempt_def)
qed

lemma opened_fold:
  assumes "\<And>j a. a_status (g j a) \<noteq> A_RUNNING"
  shows "filter (\<lambda>a. a_status a = A_RUNNING) (fold (\<lambda>j as. update_where (P j) (g j) as) js as) =
    filter (\<lambda>a. \<forall>j \<in> set js. \<not> P j a) (filter (\<lambda>a. a_status a = A_RUNNING) as)"
proof (induction js arbitrary: as)
  case (Cons j js)
  have "filter (\<lambda>a. a_status a = A_RUNNING) (update_where (P j) (g j) as) =
      filter (\<lambda>a. \<not> P j a) (filter (\<lambda>a. a_status a = A_RUNNING) as)"
    by (induction as) (use assms in auto)
  then show ?case by (simp add: Cons.IH conj_ac)
qed simp

text \<open>If every job that changes has its open row closed, what stays open is still exact.\<close>

lemma log_exact_close:
  assumes "log_exact d" and "opened d' = filter K (opened d)" and "jobs d' = update_where P act (jobs d)"
    and "\<And>j a. j \<in> set (jobs d) \<Longrightarrow> P j \<Longrightarrow> open_attempt (j_id j) (j_attempt_count j) a \<Longrightarrow> \<not> K a"
  shows "log_exact d'"
  unfolding log_exact_def
proof (intro conjI ballI)
  fix a assume "a \<in> set (opened d')"
  then have a: "a \<in> set (opened d)" "K a" by (simp_all add: assms(2))
  obtain j where j: "j \<in> set (jobs d)" "j_status j = RUNNING"
      "open_attempt (j_id j) (j_attempt_count j) a" "a_worker_id a = j_locked_by j"
    by (rule log_exactE [OF assms(1) a(1)])
  then have "j \<in> set (jobs d')"
    unfolding assms(3) in_update_where using assms(4) a(2) by (intro bexI [of _ j]) auto
  with j show "\<exists>j \<in> set (jobs d'). j_status j = RUNNING \<and> open_attempt (j_id j) (j_attempt_count j) a \<and>
      a_worker_id a = j_locked_by j" by blast
next
  show "distinct (map a_job_id (opened d'))"
    using assms(1) by (simp add: assms(2) log_exact_def distinct_map_filter)
qed

text \<open>A report about the attempt the row counts.\<close>

lemma log_exact_completion:
  assumes "log_exact d" and "jobs d' = update_where (\<lambda>j. j_id j = i \<and> held_by w j) act (jobs d)"
    and "attempts d' = attempts (snd (finish_attempt now i n st e d))" and "st \<noteq> A_RUNNING"
    and "\<And>j. j \<in> set (jobs d) \<Longrightarrow> j_id j = i \<Longrightarrow> held_by w j \<Longrightarrow> j_attempt_count j = n"
  shows "log_exact d'"
proof (rule log_exact_close [OF assms(1) _ assms(2)])
  show "opened d' = filter (\<lambda>a. \<not> open_attempt i n a) (opened d)"
    using opened_closed [OF assms(4), of now i n e d] by (simp add: opened_def assms(3))
  fix j a assume "j \<in> set (jobs d)" "j_id j = i \<and> held_by w j" "open_attempt (j_id j) (j_attempt_count j) a"
  then show "\<not> \<not> open_attempt i n a" using assms(5) by auto
qed

lemma log_exact_reports:
  assumes "log_exact d"
    and "\<And>k. k \<in> set (jobs d) \<Longrightarrow> j_id k = j_id j \<Longrightarrow> held_by w k \<Longrightarrow> j_attempt_count k = j_attempt_count j"
  shows "log_exact (snd (complete_success now j w res d))"
    and "log_exact (snd (record_failure now dec j w err d))"
    and "log_exact (snd (release_job now j w d))"
proof -
  show "log_exact (snd (complete_success now j w res d))"
  proof (cases "holds w (j_id j) d")
    case True
    then show ?thesis
      by (intro log_exact_completion [OF assms(1) _ _ _ assms(2), where st = A_SUCCEEDED])
        (simp_all add: complete_success_eq finish_success_def guarded_update_db finish_attempt_def)
  qed (use assms(1) in \<open>simp add: complete_success_eq\<close>)
  show "log_exact (snd (record_failure now dec j w err d))"
  proof (cases "holds w (j_id j) d")
    case True
    then show ?thesis
      by (intro log_exact_completion [OF assms(1) _ _ _ assms(2), where st = A_FAILED])
        (simp_all add: record_failure_eq finish_failure_def guarded_update_db finish_attempt_def)
  qed (use assms(1) in \<open>simp add: record_failure_eq\<close>)
  show "log_exact (snd (release_job now j w d))"
  proof (cases "holds w (j_id j) d")
    case True
    then show ?thesis
      by (intro log_exact_completion [OF assms(1) _ _ _ assms(2), where st = A_ABORTED])
        (simp_all add: release_job_eq release_def guarded_update_db finish_attempt_def)
  qed (use assms(1) in \<open>simp add: release_job_eq\<close>)
qed

lemma log_exact_reap:
  assumes "log_exact d" and "consistent d"
  shows "log_exact (reap_commit got_lock now rnd locked off d)"
proof (cases "got_lock \<and> (\<exists>n d'. reap_once True now rnd locked off d = Inr (n, d'))")
  case True
  then obtain n d' where run: "reap_once True now rnd locked off d = Inr (n, d')" by blast
  let ?ex = "select_expired_for_update now locked 100 d"
  note u = consistentD(2) [OF assms(2)]
  note t = reap_commit_tables [OF u run]
  have "log_exact d'"
  proof (rule log_exact_close [OF assms(1) _ t(1)])
    show "opened d' = filter (\<lambda>a. \<forall>j \<in> set ?ex. \<not> open_attempt (j_id j) (j_attempt_count j) a) (opened d)"
      unfolding opened_def t(2) by (rule opened_fold) simp
    fix j a assume j: "j \<in> set (jobs d)" "reap_hits now locked d j" "open_attempt (j_id j) (j_attempt_count j) a"
    then have "j \<in> set ?ex"
      using filter_keys_eq [OF u, of ?ex] expired_subset [of now locked 100 d] by (auto simp: reap_hits_def)
    with j(3) show "\<not> (\<forall>j \<in> set ?ex. \<not> open_attempt (j_id j) (j_attempt_count j) a)" by blast
  qed
  then show ?thesis using True run by (simp add: reap_commit_def)
next
  case False
  then have "reap_commit got_lock now rnd locked off d = d"
    by (cases got_lock) (auto simp: reap_commit_def reap_once_def split: sum.splits)
  then show ?thesis using assms(1) by simp
qed

subsection \<open>The claim\<close>

lemma log_exact_claim:
  assumes "log_exact d" and "consistent d" and "claim_jobs aid r limit d = (js, d')"
  shows "log_exact d'"
proof -
  note t = claim_jobs_tables [OF consistentD(2) [OF assms(2)] assms(3)]
  define news where "news = map (\<lambda>j. \<lparr>a_id = aid (j_id j), a_job_id = j_id j,
      a_worker_id = Some (c_worker r), a_attempt_number = j_attempt_count j, a_status = A_RUNNING,
      a_error = None, a_started_at = c_now r, a_finished_at = None\<rparr>) js"
  have rows: "opened d' = opened d @ news"
    by (simp add: opened_def t(4) news_def filter_map o_def)
  have old: "\<exists>k \<in> set (jobs d'). j_status k = RUNNING \<and> open_attempt (j_id k) (j_attempt_count k) a \<and>
      a_worker_id a = j_locked_by k \<and> a_job_id a \<notin> j_id ` set js" if a: "a \<in> set (opened d)" for a
  proof -
    obtain j where j: "j \<in> set (jobs d)" "j_status j = RUNNING"
        "open_attempt (j_id j) (j_attempt_count j) a" "a_worker_id a = j_locked_by j"
      by (rule log_exactE [OF assms(1) a])
    have "j_id j \<notin> j_id ` set js"
    proof
      assume "j_id j \<in> j_id ` set js"
      then obtain c where "c \<in> set js" "j_id c = j_id j" by (metis imageE)
      then obtain i where i: "i \<in> set (jobs d)" "claim_hits js i" "j_id i = j_id j"
        using t(6) by (metis claim_values_fields(1))
      then have "i = j" using unique_onD [OF consistentD(2) [OF assms(2)] _ j(1)] by blast
      then show False using i(2) j(2) by (simp add: claim_hits_def)
    qed
    moreover have "j \<in> set (jobs d')"
      unfolding t(1) in_update_where using j by (intro bexI [of _ j]) (simp_all add: claim_hits_def)
    ultimately show ?thesis using j by (intro bexI [of _ j]) (simp_all add: open_attempt_def)
  qed
  have new: "\<exists>k \<in> set (jobs d'). j_status k = RUNNING \<and> open_attempt (j_id k) (j_attempt_count k) a \<and>
      a_worker_id a = j_locked_by k" if a: "a \<in> set news" for a
  proof -
    from a obtain c where c: "c \<in> set js" "a_job_id a = j_id c" "a_attempt_number a = j_attempt_count c"
        "a_status a = A_RUNNING" "a_worker_id a = Some (c_worker r)"
      by (auto simp: news_def)
    obtain j where j: "j \<in> set (jobs d)" "claim_hits js j" "c = claim_values r j" using t(6) [OF c(1)] by blast
    then have "c \<in> set (jobs d')" unfolding t(1) in_update_where by (intro bexI [of _ j]) simp_all
    then show ?thesis using c j(3) by (intro bexI [of _ c]) (simp_all add: open_attempt_def)
  qed
  have "distinct (map a_job_id (opened d'))"
    using assms(1) t(8) old by (auto simp: rows log_exact_def news_def o_def)
  moreover have "\<forall>a \<in> set (opened d). \<exists>j \<in> set (jobs d'). j_status j = RUNNING \<and>
      open_attempt (j_id j) (j_attempt_count j) a \<and> a_worker_id a = j_locked_by j"
    using old by blast
  ultimately show ?thesis unfolding log_exact_def using new by (simp add: rows ball_Un)
qed

end
