(* ===== verification/Runner.thy ===== *)
theory Runner
  imports Execution Config
begin

section \<open>The worker process (app/worker)\<close>

text \<open>
  The registry of task handlers, one execution of a claimed job, one pass of each loop and
  the graceful shutdown.  A worker keeps the jobs it executes in \<open>_inflight\<close>, as the rows its
  claims returned; everything else is in the database.  A handler is a function of its
  context and payload that takes some time and ends in some way; cancellation of the
  surrounding task is the time, from the start of the execution, at which the shutdown
  cancels it.  \<open>format_exception\<close> is the text of the standard library for an exception of a
  type and with a message.
\<close>

subsection \<open>app/worker/registry.py\<close>

record TaskContext =
  x_job_id :: uuid
  x_attempt :: int
  x_max_attempts :: int

datatype raised =
    Timeout_Error
  | Cancelled_Error
  | Other_Error string string

datatype handler_end = Returns "json option" | Raises raised

record handler_run =
  took_seconds :: real
  ends_with :: handler_end

type_synonym handler = "TaskContext \<Rightarrow> json \<Rightarrow> handler_run"

type_synonym registry = "(string \<times> handler) list"

text \<open>Decorating a function under a name that is taken is a ValueError at import time.\<close>

definition task :: "string \<Rightarrow> handler \<Rightarrow> registry \<Rightarrow> string + registry" where
  "task nm fn reg =
     (if nm \<in> fst ` set reg then Inl (''duplicate task handler: '' @ nm) else Inr (reg @ [(nm, fn)]))"

definition get_handler :: "string \<Rightarrow> registry \<Rightarrow> string + handler" where
  "get_handler nm reg =
     (case map_of reg nm of
        None \<Rightarrow> Inl (''no handler registered for task '' @ [CHR 0x27] @ nm @ [CHR 0x27])
      | Some fn \<Rightarrow> Inr fn)"

subsection \<open>One execution (WorkerRunner._execute)\<close>

datatype outcome =
    Succeeded "json option"
  | Timed_Out
  | Cancelled
  | Failed string

definition context_of :: "job \<Rightarrow> TaskContext" where
  "context_of j =
     \<lparr>x_job_id = j_id j, x_attempt = j_attempt_count j, x_max_attempts = j_max_attempts j\<rparr>"

text \<open>\<open>text[-4000:]\<close>.\<close>

definition last_chars :: "nat \<Rightarrow> string \<Rightarrow> string" where
  "last_chars n s = drop (length s - n) s"

text \<open>
  \<open>wait_for\<close> cancels the handler at the deadline; a cancellation that comes first is passed on.
  The handlers of \<open>except\<close> do not see where an exception came from.
\<close>

definition run_task ::
  "(string \<Rightarrow> string \<Rightarrow> string) \<Rightarrow> registry \<Rightarrow> real option \<Rightarrow> job \<Rightarrow> outcome" where
  "run_task format_exception reg cancelled_after j =
     (case get_handler (j_task_name j) reg of
        Inl msg \<Rightarrow> Failed (last_chars 4000 (format_exception ''UnknownTaskError'' msg))
      | Inr fn \<Rightarrow>
          (let run = fn (context_of j) (j_payload j);
               stop = min (took_seconds run) (real_of_int (j_timeout_seconds j))
           in if (case cancelled_after of None \<Rightarrow> False | Some t \<Rightarrow> t < stop) then Cancelled
              else if real_of_int (j_timeout_seconds j) < took_seconds run then Timed_Out
              else case ends_with run of
                     Returns v \<Rightarrow> Succeeded v
                   | Raises Timeout_Error \<Rightarrow> Timed_Out
                   | Raises Cancelled_Error \<Rightarrow> Cancelled
                   | Raises (Other_Error ty msg) \<Rightarrow> Failed (last_chars 4000 (format_exception ty msg))))"

definition timeout_error :: "job \<Rightarrow> string" where
  "timeout_error j =
     ''execution timed out after '' @ str_int (j_timeout_seconds j) @ ''s (attempt ''
       @ str_int (j_attempt_count j) @ '' of '' @ str_int (j_max_attempts j) @ '')''"

text \<open>What an execution reports at \<open>now\<close>; the draw \<open>u\<close>, \<open>later\<close>, \<open>bus\<close> and \<open>env\<close> are those of
  \<open>complete_failure\<close>.\<close>

definition report ::
  "time \<Rightarrow> real \<Rightarrow> time \<Rightarrow> (string \<Rightarrow> string \<Rightarrow> int \<Rightarrow> string option) option \<Rightarrow> (db \<Rightarrow> db)
     \<Rightarrow> uuid \<Rightarrow> job \<Rightarrow> outcome \<Rightarrow> db \<Rightarrow> value_error + bool \<times> db" where
  "report now u later bus env w j oc d =
     (case oc of
        Succeeded v \<Rightarrow> Inr (complete_success now j w v d)
      | Timed_Out \<Rightarrow> complete_failure now u later bus env j w (timeout_error j) d
      | Failed err \<Rightarrow> complete_failure now u later bus env j w err d
      | Cancelled \<Rightarrow> Inr (release_job now j w d))"

subsection \<open>The state of a worker and its loops\<close>

record runner =
  r_id :: uuid
  r_name :: string
  r_draining :: bool
  r_inflight :: "job list"

definition new_runner :: "uuid \<Rightarrow> string \<Rightarrow> runner" where
  "new_runner w nm = \<lparr>r_id = w, r_name = nm, r_draining = False, r_inflight = []\<rparr>"

definition request_shutdown :: "runner \<Rightarrow> runner" where
  "request_shutdown r = r\<lparr>r_draining := True\<rparr>"

definition on_task_done :: "job \<Rightarrow> runner \<Rightarrow> runner" where
  "on_task_done j r = r\<lparr>r_inflight := remove1 j (r_inflight r)\<rparr>"

definition request_of ::
  "Settings \<Rightarrow> runner \<Rightarrow> time \<Rightarrow> (uuid \<Rightarrow> bool) \<Rightarrow> (uuid \<Rightarrow> bool) \<Rightarrow> claim_request" where
  "request_of s r now locked_jobs locked_queues =
     \<lparr>c_now = now, c_worker = r_id r, c_queues = worker_queue_list s,
      c_lease_seconds = real_of_int (lease_seconds s),
      c_aging_interval = priority_aging_interval_seconds s,
      c_aging_max_boost = priority_aging_max_boost s, c_shard_key = worker_shard s,
      c_locked_jobs = locked_jobs, c_locked_queues = locked_queues\<rparr>"

definition free_slots :: "Settings \<Rightarrow> runner \<Rightarrow> int" where
  "free_slots s r = worker_concurrency s - int (length (r_inflight r))"

text \<open>One turn of \<open>_consume_loop\<close>: the claim and the tasks it starts.\<close>

definition consume ::
  "Settings \<Rightarrow> (uuid \<Rightarrow> uuid) \<Rightarrow> time \<Rightarrow> (uuid \<Rightarrow> bool) \<Rightarrow> (uuid \<Rightarrow> bool) \<Rightarrow> runner \<Rightarrow> db \<Rightarrow> runner \<times> db" where
  "consume s attempt_id now locked_jobs locked_queues r d =
     (if r_draining r then (r, d)
      else if free_slots s r > 0
      then let (claimed, d1) = claim_jobs attempt_id (request_of s r now locked_jobs locked_queues)
                                 (nat (free_slots s r)) d
           in (r\<lparr>r_inflight := r_inflight r @ claimed\<rparr>, d1)
      else (r, d))"

text \<open>One turn of \<open>_heartbeat_loop\<close>; a beat that raises is logged and the loop goes on.\<close>

definition beat :: "Settings \<Rightarrow> time \<Rightarrow> runner \<Rightarrow> db \<Rightarrow> db" where
  "beat s now r d = snd (heartbeat now (r_id r) (lease_seconds s) d)"

definition reaper_tick ::
  "Settings \<Rightarrow> bool \<Rightarrow> time \<Rightarrow> (uuid \<Rightarrow> real) \<Rightarrow> (uuid \<Rightarrow> bool) \<Rightarrow> db \<Rightarrow> db" where
  "reaper_tick s got_lock now rnd locked d =
     (case reap_once got_lock now rnd locked (worker_offline_after_seconds s) d of
        Inl _ \<Rightarrow> d
      | Inr (_, d1) \<Rightarrow> d1)"

subsection \<open>Graceful shutdown (WorkerRunner._shutdown)\<close>

text \<open>
  The jobs still in flight after the grace window are cancelled and released, in the order
  of their tasks, each at a time of its own; then the worker is OFFLINE.
\<close>

fun release_all :: "(uuid \<Rightarrow> time) \<Rightarrow> uuid \<Rightarrow> job list \<Rightarrow> db \<Rightarrow> db" where
  "release_all clock w [] d = d"
| "release_all clock w (j # js) d = release_all clock w js (snd (release_job (clock (j_id j)) j w d))"

definition announce_drain :: "time \<Rightarrow> runner \<Rightarrow> db \<Rightarrow> db" where
  "announce_drain now r d = set_worker_status now (r_id r) DRAINING False d"

definition finish_shutdown :: "(uuid \<Rightarrow> time) \<Rightarrow> time \<Rightarrow> runner \<Rightarrow> db \<Rightarrow> runner \<times> db" where
  "finish_shutdown clock now r d =
     (r\<lparr>r_inflight := []\<rparr>,
      set_worker_status now (r_id r) OFFLINE True (release_all clock (r_id r) (r_inflight r) d))"

subsection \<open>app/worker/tasks.py\<close>

text \<open>\<open>payload.get(key, default)\<close>; a payload that is not an object has no \<open>get\<close>.\<close>

definition payload_get :: "string \<Rightarrow> json \<Rightarrow> json \<Rightarrow> raised + json" where
  "payload_get key default_value payload =
     (case payload of
        JObj members \<Rightarrow> Inr (case map_of members key of None \<Rightarrow> default_value | Some v \<Rightarrow> v)
      | _ \<Rightarrow> Inl (Other_Error ''AttributeError'' ''object has no attribute get''))"

definition echo_task :: handler where
  "echo_task ctx payload =
     \<lparr>took_seconds = 0,
      ends_with = (case payload_get ''message'' (JStr ''hello, chronos'') payload of
         Inl e \<Rightarrow> Raises e
       | Inr v \<Rightarrow> Returns (Some (JObj [(''echo'', v)])))\<rparr>"

text \<open>\<open>to_float\<close> is \<open>float(v)\<close> and \<open>to_int\<close> is \<open>int(v)\<close> of the standard library.\<close>

definition sleep_task :: "(json \<Rightarrow> raised + real) \<Rightarrow> handler" where
  "sleep_task to_float ctx payload =
     (case payload_get ''seconds'' (JNum 5) payload of
        Inl e \<Rightarrow> \<lparr>took_seconds = 0, ends_with = Raises e\<rparr>
      | Inr v \<Rightarrow>
          (case to_float v of
             Inl e \<Rightarrow> \<lparr>took_seconds = 0, ends_with = Raises e\<rparr>
           | Inr x \<Rightarrow>
               \<lparr>took_seconds = max 0 (min x 120),
                ends_with = Returns (Some (JObj [(''slept_seconds'', JNum (min x 120))]))\<rparr>))"

definition fail_until_task :: "(json \<Rightarrow> raised + int) \<Rightarrow> handler" where
  "fail_until_task to_int ctx payload =
     \<lparr>took_seconds = 0,
      ends_with = (case payload_get ''succeed_on_attempt'' (JNum 3) payload of
         Inl e \<Rightarrow> Raises e
       | Inr v \<Rightarrow>
           (case to_int v of
              Inl e \<Rightarrow> Raises e
            | Inr succeed_on \<Rightarrow>
                if x_attempt ctx < succeed_on
                then Raises (Other_Error ''RuntimeError'' (''deliberate failure on attempt ''
                       @ str_int (x_attempt ctx) @ '' (will succeed on attempt ''
                       @ str_int succeed_on @ '')''))
                else Returns (Some (JObj [(''succeeded_on_attempt'', JNum (real_of_int (x_attempt ctx)))]))))\<rparr>"

definition flaky_task :: "(json \<Rightarrow> raised + real) \<Rightarrow> (real \<Rightarrow> string) \<Rightarrow> real \<Rightarrow> handler" where
  "flaky_task to_float str_float draw ctx payload =
     \<lparr>took_seconds = 0,
      ends_with = (case payload_get ''failure_rate'' (JNum (1 / 2)) payload of
         Inl e \<Rightarrow> Raises e
       | Inr v \<Rightarrow>
           (case to_float v of
              Inl e \<Rightarrow> Raises e
            | Inr rate \<Rightarrow>
                if draw < rate
                then Raises (Other_Error ''RuntimeError'' (''flaky failure (failure_rate=''
                       @ str_float rate @ '')''))
                else Returns (Some (JObj [(''attempt'', JNum (real_of_int (x_attempt ctx)))]))))\<rparr>"

definition always_fail_task :: "(json \<Rightarrow> string) \<Rightarrow> handler" where
  "always_fail_task to_str ctx payload =
     \<lparr>took_seconds = 0,
      ends_with = (case payload_get ''error'' (JStr ''this task always fails'') payload of
         Inl e \<Rightarrow> Raises e
       | Inr v \<Rightarrow> Raises (Other_Error ''RuntimeError'' (to_str v)))\<rparr>"

end
