(* ===== verification/Cluster.thy ===== *)
theory Cluster
  imports Audit_Log Runner
begin

section \<open>The cluster: one database, a changing fleet of workers\<close>

text \<open>
  The state is the database and the worker processes that are alive, each with the jobs it
  has in flight.  A step is one committed transaction, or one event of a process: an API
  request, one turn of a loop of some worker, the report of one execution, the boot, drain,
  exit or crash of a worker.  Transactions of different processes interleave in any order and
  the clock of each is arbitrary, so nothing below depends on timing.

  Two hazards can be allowed or excluded.  \<open>Lost_Reply\<close>: a claim commits but its answer does
  not reach the worker, or an execution ends and its report fails to commit (a database error, a
  result that is not JSON); either way the worker forgets the job.  \<open>Self_Reclaim\<close>: a worker
  claims a job of which it still has an execution in flight.  The invariants hold with every
  hazard allowed unless they say otherwise.

  Where the code is written for a race inside one request (two submissions of one idempotency
  key, two requests that create one queue), the request here is the one without a race; the
  races are in the theories of the services.
\<close>

subsection \<open>Requests\<close>

inductive request :: "db \<Rightarrow> db \<Rightarrow> bool" where
  post_job: "request d (snd (enqueue now ids id id usr data d))"
| post_batch: "request d (snd (enqueue_batch now qid jid b (\<lambda>x. x) usr items d))"
| cancel: "request d (snd (cancel_job now ow i d))"
| requeue: "request d (snd (requeue_job now ow i d))"
| post_queue: "request d (snd (create_queue now qid usr qdata d))"
| patch_queue: "request d (snd (update_queue now usr i qupdate d))"
| pause_queue: "request d (snd (set_paused now usr i paused d))"
| post_schedule: "request d (snd (create_schedule cn now qid sid id usr sdata d))"
| patch_schedule: "request d (snd (update_schedule cn now usr i supdate d))"
| delete_schedule: "request d (snd (delete_schedule usr i d))"
| post_project: "request d (snd (create_project now i usr nm d))"
| post_user: "request d (snd (register h now oi pid uid id email pw d))"
| patch_role: "request d (snd (change_role usr i role d))"

text \<open>The edges of the state machine that belong to the users.\<close>

definition user_moves :: moves where
  "user_moves = {(PENDING, CANCELLED), (DEAD, PENDING), (CANCELLED, PENDING)}"

subsection \<open>Steps\<close>

datatype hazard = Lost_Reply | Self_Reclaim

record system =
  store :: db
  fleet :: "runner list"

definition replace_runner :: "runner \<Rightarrow> runner list \<Rightarrow> runner list" where
  "replace_runner r fs = update_where (\<lambda>x. r_id x = r_id r) (\<lambda>_. r) fs"

definition remove_runner :: "uuid \<Rightarrow> runner list \<Rightarrow> runner list" where
  "remove_runner w fs = filter (\<lambda>x. r_id x \<noteq> w) fs"

inductive step :: "hazard set \<Rightarrow> Settings \<Rightarrow> system \<Rightarrow> system \<Rightarrow> bool"
  for H :: "hazard set" and s :: Settings where
  request: "request (store \<sigma>) d \<Longrightarrow> step H s \<sigma> (\<sigma>\<lparr>store := d\<rparr>)"
| boot: "register_worker now w nm n (store \<sigma>) = Inr d \<Longrightarrow> w \<notin> r_id ` set (fleet \<sigma>) \<Longrightarrow>
    \<forall>j \<in> set (jobs (store \<sigma>)). j_locked_by j \<noteq> Some w \<Longrightarrow>
    step H s \<sigma> \<lparr>store = d, fleet = fleet \<sigma> @ [new_runner w nm]\<rparr>"
| consume: "r \<in> set (fleet \<sigma>) \<Longrightarrow> consume s aid now lj lq r (store \<sigma>) = (r', d) \<Longrightarrow>
    Self_Reclaim \<in> H \<or> distinct (map j_id (r_inflight r')) \<Longrightarrow>
    step H s \<sigma> \<lparr>store = d, fleet = replace_runner r' (fleet \<sigma>)\<rparr>"
| claim_lost: "Lost_Reply \<in> H \<Longrightarrow> r \<in> set (fleet \<sigma>) \<Longrightarrow> consume s aid now lj lq r (store \<sigma>) = (r', d) \<Longrightarrow>
    Self_Reclaim \<in> H \<or> distinct (map j_id (r_inflight r')) \<Longrightarrow>
    step H s \<sigma> (\<sigma>\<lparr>store := d\<rparr>)"
| report: "r \<in> set (fleet \<sigma>) \<Longrightarrow> c \<in> set (r_inflight r) \<Longrightarrow>
    report now u now None id (r_id r) c oc (store \<sigma>) = Inr (ok, d) \<Longrightarrow>
    step H s \<sigma> \<lparr>store = d, fleet = replace_runner (on_task_done c r) (fleet \<sigma>)\<rparr>"
| report_lost: "Lost_Reply \<in> H \<Longrightarrow> r \<in> set (fleet \<sigma>) \<Longrightarrow> c \<in> set (r_inflight r) \<Longrightarrow>
    step H s \<sigma> (\<sigma>\<lparr>fleet := replace_runner (on_task_done c r) (fleet \<sigma>)\<rparr>)"
| summary: "step H s \<sigma> (\<sigma>\<lparr>store := store_summary now gen c err (store \<sigma>)\<rparr>)"
| heartbeat: "r \<in> set (fleet \<sigma>) \<Longrightarrow> step H s \<sigma> (\<sigma>\<lparr>store := beat s now r (store \<sigma>)\<rparr>)"
| reap: "step H s \<sigma> (\<sigma>\<lparr>store := reaper_tick s got_lock now rnd locked (store \<sigma>)\<rparr>)"
| materialize:
    "step H s \<sigma> (\<sigma>\<lparr>store := snd (materialize_schedules_once got_lock cn now jid locked (store \<sigma>))\<rparr>)"
| drain: "r \<in> set (fleet \<sigma>) \<Longrightarrow>
    step H s \<sigma> \<lparr>store = announce_drain now r (store \<sigma>),
                fleet = replace_runner (request_shutdown r) (fleet \<sigma>)\<rparr>"
| leave: "r \<in> set (fleet \<sigma>) \<Longrightarrow> r_draining r \<Longrightarrow> r_inflight r = [] \<Longrightarrow>
    step H s \<sigma> \<lparr>store = set_worker_status now (r_id r) OFFLINE True (store \<sigma>),
                fleet = remove_runner (r_id r) (fleet \<sigma>)\<rparr>"
| crash: "step H s \<sigma> (\<sigma>\<lparr>fleet := remove_runner w (fleet \<sigma>)\<rparr>)"

inductive reachable :: "hazard set \<Rightarrow> Settings \<Rightarrow> system \<Rightarrow> bool"
  for H :: "hazard set" and s :: Settings where
  start: "reachable H s \<lparr>store = empty_db, fleet = []\<rparr>"
| step: "reachable H s \<sigma> \<Longrightarrow> step H s \<sigma> \<tau> \<Longrightarrow> reachable H s \<tau>"

subsection \<open>Every step keeps the contract of the database\<close>

lemma jobs_evolve_mono:
  assumes "jobs_evolve T js ks" and "T \<subseteq> U"
  shows "jobs_evolve U js ks"
proof -
  obtain olds news where ks: "ks = olds @ news" "list_all2 (job_evolves T) js olds"
      "\<forall>j \<in> set news. fresh_job j"
    using assms(1) by (auto simp: jobs_evolve_def)
  have "job_evolves T j k \<Longrightarrow> job_evolves U j k" for j k
    using assms(2) by (auto simp: job_evolves_def split: if_splits)
  then have "list_all2 (job_evolves U) js olds"
    by (rule list_all2_mono [OF ks(2)])
  with ks show ?thesis unfolding jobs_evolve_def by blast
qed

definition db_step :: "moves \<Rightarrow> db \<Rightarrow> db \<Rightarrow> bool" where
  "db_step T d d' \<longleftrightarrow>
     consistent d' \<and> jobs_evolve T (jobs d) (jobs d') \<and> log_extends (attempts d) (attempts d') \<and>
     (leaves_running T \<longrightarrow> attempts d' = attempts d)"

lemma db_step_mono: "db_step T d d' \<Longrightarrow> T \<subseteq> U \<Longrightarrow> db_step U d d'"
  using jobs_evolve_mono by (auto simp: db_step_def leaves_running_def)

lemma db_step_refl: "consistent d \<Longrightarrow> db_step T d d"
  by (simp add: db_step_def)

context db_operation
begin

lemma db_step: "consistent d \<Longrightarrow> db_step T d (op d)"
  using safe keeps_log by (simp add: db_step_def)

end

lemmas user_steps = enqueues.db_step batches.db_step cancels.db_step requeues.db_step
  creates_queue.db_step updates_queue.db_step pauses_queue.db_step creates_schedule.db_step
  updates_schedule.db_step deletes_schedule.db_step creates_project.db_step
  registers_user.db_step changes_role.db_step

lemma request_db_step:
  assumes "request d d'" and "consistent d"
  shows "db_step user_moves d d'"
  using assms
  by (induction rule: request.induct)
    (rule db_step_mono, erule user_steps, simp add: user_moves_def)+

text \<open>Without a summary service the report of a failure is its first transaction.\<close>

lemma complete_failure_first:
  "complete_failure now u later None env c w err d =
     (case decide_failure (policy_of c) (j_attempt_count c) u of
        Inl e \<Rightarrow> Inl e
      | Inr dec \<Rightarrow> Inr (record_failure now dec c w err d))"
  by (auto simp: complete_failure_def split: sum.splits prod.splits bool.splits)

lemma failure_decided:
  assumes "complete_failure now u later None env c w err d = Inr (ok, d')"
  obtains dec where "decide_failure (policy_of c) (j_attempt_count c) u = Inr dec"
    and "d' = snd (record_failure now dec c w err d)"
proof (cases "decide_failure (policy_of c) (j_attempt_count c) u")
  case (Inr dec)
  with assms have "record_failure now dec c w err d = (ok, d')" by (simp add: complete_failure_first)
  with Inr that show ?thesis by simp
qed (use assms in \<open>simp add: complete_failure_first\<close>)

lemma report_cases:
  assumes "report now u later None env w c oc d = Inr (ok, d')"
  obtains (success) v where "d' = snd (complete_success now c w v d)"
    | (failure) dec err where "decide_failure (policy_of c) (j_attempt_count c) u = Inr dec"
        and "d' = snd (record_failure now dec c w err d)"
    | (release) "d' = snd (release_job now c w d)"
proof (cases oc)
  case (Succeeded v)
  with assms show ?thesis using success [of v] by (simp add: report_def)
next
  case Timed_Out
  with assms have "complete_failure now u later None env c w (timeout_error c) d = Inr (ok, d')"
    by (simp add: report_def)
  then show ?thesis by (rule failure_decided) (rule failure)
next
  case Cancelled
  with assms show ?thesis using release by (simp add: report_def)
next
  case (Failed err)
  with assms have "complete_failure now u later None env c w err d = Inr (ok, d')"
    by (simp add: report_def)
  then show ?thesis by (rule failure_decided) (rule failure)
qed

definition report_moves :: moves where
  "report_moves = {(RUNNING, SUCCEEDED), (RUNNING, PENDING), (RUNNING, DEAD)}"

lemma report_db_step:
  assumes "report now u later None env w c oc d = Inr (ok, d')" and "consistent d"
  shows "db_step report_moves d d'"
  using assms(1)
proof (cases rule: report_cases)
  case (success v)
  show ?thesis unfolding success
    by (rule db_step_mono [OF succeeds.db_step [OF assms(2)]]) (simp add: report_moves_def)
next
  case (failure dec err)
  show ?thesis unfolding failure(2)
    by (rule db_step_mono [OF fails.db_step [OF assms(2)]]) (simp add: report_moves_def)
next
  case release
  show ?thesis unfolding release
    by (rule db_step_mono [OF releases.db_step [OF assms(2)]]) (simp add: report_moves_def)
qed

lemma consume_cases:
  assumes "consume s aid now lj lq r d = (r', d')"
  obtains (idle) "r' = r" and "d' = d"
    | (claimed) js where "claim_jobs aid (request_of s r now lj lq) (nat (free_slots s r)) d = (js, d')"
        and "r' = r\<lparr>r_inflight := r_inflight r @ js\<rparr>" and "\<not> r_draining r" and "0 < free_slots s r"
  using assms by (auto simp: consume_def Let_def split: if_splits prod.splits)

lemma consume_db_step:
  assumes "consume s aid now lj lq r d = (r', d')" and "consistent d"
  shows "db_step {(PENDING, RUNNING)} d d'"
  using assms(1)
proof (cases rule: consume_cases)
  case idle
  then show ?thesis using db_step_refl [OF assms(2)] by simp
next
  case (claimed js)
  then show ?thesis
    using claims.db_step [OF assms(2), of aid "request_of s r now lj lq" "nat (free_slots s r)"] by simp
qed

lemma reaper_tick_commit:
  "reaper_tick s got_lock now rnd locked = reap_commit got_lock now rnd locked (worker_offline_after_seconds s)"
  by (rule ext) (simp add: reaper_tick_def reap_commit_def)

lemma step_db_step:
  assumes "step H s \<sigma> \<tau>" and "consistent (store \<sigma>)"
  shows "db_step UNIV (store \<sigma>) (store \<tau>)"
  using assms
proof (induction rule: step.induct)
  case (request \<sigma> d)
  then show ?case using request_db_step db_step_mono by (metis subset_UNIV system.select_convs(1) system.surjective system.update_convs(1))
next
  case (boot now w nm n \<sigma> d)
  then have "d = register_commit now w nm n (store \<sigma>)" by (simp add: register_commit_def)
  then show ?case using db_step_mono [OF registers.db_step [OF boot.prems]] by simp
next
  case (consume r \<sigma> aid now lj lq r' d)
  then show ?case using db_step_mono [OF consume_db_step] by fastforce
next
  case (claim_lost r \<sigma> aid now lj lq r' d)
  then show ?case using db_step_mono [OF consume_db_step] by fastforce
next
  case (report r \<sigma> c now u oc ok d)
  then show ?case using db_step_mono [OF report_db_step] by fastforce
next
  case (heartbeat r \<sigma> now)
  then show ?case using db_step_mono [OF beats.db_step] by (simp add: beat_def)
next
  case (reap \<sigma> got_lock now rnd locked)
  then show ?case using db_step_mono [OF sweeps.db_step] by (simp add: reaper_tick_commit)
next
  case (drain r \<sigma> now)
  then show ?case using db_step_mono [OF drains.db_step] by (simp add: announce_drain_def)
qed (auto intro: db_step_refl db_step_mono [OF summarises.db_step] db_step_mono [OF materializes.db_step]
  db_step_mono [OF drains.db_step])

lemma reachable_consistent: "reachable H s \<sigma> \<Longrightarrow> consistent (store \<sigma>)"
proof (induction rule: reachable.induct)
  case start
  then show ?case by (simp add: consistent_empty)
next
  case (step \<sigma> \<tau>)
  then show ?case using step_db_step by (auto simp: db_step_def)
qed

lemma db_step_from:
  "db_step T d d' \<Longrightarrow> k \<in> set (jobs d') \<Longrightarrow> fresh_job k \<or> (\<exists>j \<in> set (jobs d). job_evolves T j k)"
  using jobs_evolve_from by (auto simp: db_step_def)

lemma db_step_to: "db_step T d d' \<Longrightarrow> j \<in> set (jobs d) \<Longrightarrow> \<exists>k \<in> set (jobs d'). job_evolves T j k"
  using jobs_evolve_to by (auto simp: db_step_def)

lemma job_evolves_ids: "job_evolves T j k \<Longrightarrow> j_id k = j_id j \<and> contract k = contract j"
  by (auto simp: job_evolves_def contract_def)

text \<open>Without an edge into RUNNING, a row that is RUNNING afterwards is the one from before.\<close>

definition no_claims :: "moves \<Rightarrow> bool" where
  "no_claims T \<longleftrightarrow> (\<forall>st. (st, RUNNING) \<notin> T)"

lemma no_claims_moves: "no_claims user_moves" "no_claims report_moves" "no_claims {}"
    "no_claims {(RUNNING, PENDING), (RUNNING, DEAD)}"
  by (auto simp: no_claims_def user_moves_def report_moves_def)

lemma held_before:
  assumes "db_step T d d'" and "no_claims T" and "k \<in> set (jobs d')" and "held_by w k"
  shows "\<exists>j \<in> set (jobs d). held_by w j \<and> j_id j = j_id k \<and> j_attempt_count j = j_attempt_count k"
  using db_step_from [OF assms(1,3)]
proof
  assume "fresh_job k"
  then show ?thesis using assms(4) by (simp add: fresh_job_def held_by_def)
next
  assume "\<exists>j \<in> set (jobs d). job_evolves T j k"
  then obtain j where j: "j \<in> set (jobs d)" "job_evolves T j k" by blast
  then have "j_status j = RUNNING \<and> j_locked_by j = j_locked_by k \<and> j_attempt_count j = j_attempt_count k"
    using assms(2,4) by (auto simp: job_evolves_def no_claims_def held_by_def split: if_splits)
  with j show ?thesis using assms(4) job_evolves_ids by (auto simp: held_by_def)
qed

subsection \<open>The fleet\<close>

lemma replace_runner_cases:
  assumes "x \<in> set (replace_runner r fs)"
  obtains (self) "x = r" | (other) "x \<in> set fs" and "r_id x \<noteq> r_id r"
  using assms unfolding replace_runner_def by (cases rule: update_where_cases) auto

lemma replace_runner_ids: "map r_id (replace_runner r fs) = map r_id fs"
  unfolding replace_runner_def by (rule map_replace) simp

lemma remove_runner_subset: "set (remove_runner w fs) \<subseteq> set fs"
  by (auto simp: remove_runner_def)

lemma runner_kept [simp]:
  "r_id (on_task_done c r) = r_id r" "r_id (request_shutdown r) = r_id r"
  "r_inflight (on_task_done c r) = remove1 c (r_inflight r)"
  "r_inflight (request_shutdown r) = r_inflight r"
  "r_id (new_runner w nm) = w" "r_inflight (new_runner w nm) = []"
  by (simp_all add: on_task_done_def request_shutdown_def new_runner_def)

lemma consume_id: "consume s aid now lj lq r d = (r', d') \<Longrightarrow> r_id r' = r_id r"
  by (erule consume_cases) auto

text \<open>What a worker may rely on for a job it executes.\<close>

definition copy_ok :: "db \<Rightarrow> uuid \<Rightarrow> job \<Rightarrow> bool" where
  "copy_ok d w c \<longleftrightarrow>
     1 \<le> j_attempt_count c \<and> (\<exists>j \<in> set (jobs d). contract j = contract c) \<and>
     (\<exists>a \<in> set (attempts d). a_job_id a = j_id c \<and> a_attempt_number a = j_attempt_count c \<and>
        a_worker_id a = Some w)"

definition fleet_ok :: "Settings \<Rightarrow> system \<Rightarrow> bool" where
  "fleet_ok s \<sigma> \<longleftrightarrow>
     unique_on r_id (fleet \<sigma>) \<and>
     (\<forall>r \<in> set (fleet \<sigma>). int (length (r_inflight r)) \<le> max 0 (worker_concurrency s) \<and>
        (\<forall>c \<in> set (r_inflight r). copy_ok (store \<sigma>) (r_id r) c))"

lemma log_extends_row:
  assumes "log_extends as bs" and "a \<in> set as"
  shows "\<exists>b \<in> set bs. row_kept a b"
proof -
  obtain i where i: "i < length as" "as ! i = a" using assms(2) by (auto simp: in_set_conv_nth)
  then have "row_kept a (take (length as) bs ! i)" "i < length bs"
    using assms(1) by (auto simp: log_extends_def list_all2_conv_all_nth)
  then show ?thesis using i(1) by (intro bexI [of _ "bs ! i"]) simp_all
qed

lemma copy_ok_step:
  assumes "db_step T d d'" and "copy_ok d w c"
  shows "copy_ok d' w c"
proof -
  obtain j a where j: "j \<in> set (jobs d)" "contract j = contract c"
    and a: "a \<in> set (attempts d)" "a_job_id a = j_id c" "a_attempt_number a = j_attempt_count c"
      "a_worker_id a = Some w"
    using assms(2) by (auto simp: copy_ok_def)
  obtain k where "k \<in> set (jobs d')" "contract k = contract j"
    using db_step_to [OF assms(1) j(1)] job_evolves_ids by blast
  moreover obtain b where "b \<in> set (attempts d')" "row_kept a b"
    using log_extends_row [OF _ a(1)] assms(1) by (auto simp: db_step_def)
  ultimately show ?thesis
    using assms(2) j(2) a unfolding copy_ok_def row_kept_def by (metis (no_types))
qed

lemma claimed_copy_ok:
  assumes u: "unique_on j_id (jobs d)" and run: "claim_jobs aid q limit d = (js, d')" and c: "c \<in> set js"
    and "\<forall>j \<in> set (jobs d). counted j"
  shows "copy_ok d' (c_worker q) c"
proof -
  note t = claim_jobs_tables [OF u run]
  obtain j where j: "j \<in> set (jobs d)" "claim_hits js j" "c = claim_values q j" using t(6) [OF c] by blast
  then have "c \<in> set (jobs d')" unfolding t(1) in_update_where by (intro bexI [of _ j]) simp_all
  moreover have "\<exists>a \<in> set (attempts d'). a_job_id a = j_id c \<and> a_attempt_number a = j_attempt_count c \<and>
      a_worker_id a = Some (c_worker q)"
    unfolding t(4)
    by (rule bexI [of _ "\<lparr>a_id = aid (j_id c), a_job_id = j_id c, a_worker_id = Some (c_worker q),
      a_attempt_number = j_attempt_count c, a_status = A_RUNNING, a_error = None,
      a_started_at = c_now q, a_finished_at = None\<rparr>"]) (use c in simp_all)
  moreover have "1 \<le> j_attempt_count c" using j assms(4) by (auto simp: counted_def)
  ultimately show ?thesis unfolding copy_ok_def by blast
qed

text \<open>A fleet whose workers have no more in flight than before.\<close>

definition shrinks :: "runner list \<Rightarrow> runner list \<Rightarrow> bool" where
  "shrinks fs gs \<longleftrightarrow>
     (\<forall>x \<in> set gs. \<exists>r \<in> set fs. r_id x = r_id r \<and> length (r_inflight x) \<le> length (r_inflight r) \<and>
        set (r_inflight x) \<subseteq> set (r_inflight r))"

lemma shrinks_refl [simp]: "shrinks fs fs"
  by (auto simp: shrinks_def)

lemma shrinks_remove: "shrinks fs (remove_runner w fs)"
  using remove_runner_subset by (fastforce simp: shrinks_def)

lemma shrinks_replace:
  assumes "r \<in> set fs" and "r_id x = r_id r" and "length (r_inflight x) \<le> length (r_inflight r)"
    and "set (r_inflight x) \<subseteq> set (r_inflight r)"
  shows "shrinks fs (replace_runner x fs)"
  unfolding shrinks_def
proof
  fix y assume "y \<in> set (replace_runner x fs)"
  then show "\<exists>r \<in> set fs. r_id y = r_id r \<and> length (r_inflight y) \<le> length (r_inflight r) \<and>
      set (r_inflight y) \<subseteq> set (r_inflight r)"
    by (cases rule: replace_runner_cases) (use assms in blast)+
qed

lemma shrinks_done: "r \<in> set fs \<Longrightarrow> shrinks fs (replace_runner (on_task_done c r) fs)"
  by (rule shrinks_replace [of r]) (simp_all add: length_remove1 set_remove1_subset)

lemma shrinks_drain: "r \<in> set fs \<Longrightarrow> shrinks fs (replace_runner (request_shutdown r) fs)"
  by (rule shrinks_replace [of r]) simp_all

lemma fleet_ok_shrinks:
  assumes "fleet_ok s \<sigma>" and "db_step T (store \<sigma>) d" and "shrinks (fleet \<sigma>) fs" and "unique_on r_id fs"
  shows "fleet_ok s \<lparr>store = d, fleet = fs\<rparr>"
  unfolding fleet_ok_def
proof (intro conjI ballI)
  fix x assume "x \<in> set (fleet \<lparr>store = d, fleet = fs\<rparr>)"
  then obtain r where r: "r \<in> set (fleet \<sigma>)" "r_id x = r_id r" "length (r_inflight x) \<le> length (r_inflight r)"
      "set (r_inflight x) \<subseteq> set (r_inflight r)"
    using assms(3) by (auto simp: shrinks_def)
  then show "int (length (r_inflight x)) \<le> max 0 (worker_concurrency s)"
    using assms(1) by (force simp: fleet_ok_def)
  fix c assume "c \<in> set (r_inflight x)"
  then show "copy_ok (store \<lparr>store = d, fleet = fs\<rparr>) (r_id x) c"
    using r assms(1) copy_ok_step [OF assms(2)] by (auto simp: fleet_ok_def)
qed (use assms(4) in simp)

lemma fleet_ok_claims:
  assumes "fleet_ok s \<sigma>" and "consistent (store \<sigma>)" and "r \<in> set (fleet \<sigma>)"
    and "consume s aid now lj lq r (store \<sigma>) = (r', d)"
  shows "fleet_ok s \<lparr>store = d, fleet = replace_runner r' (fleet \<sigma>)\<rparr>"
  unfolding fleet_ok_def
proof (intro conjI ballI)
  note ds = consume_db_step [OF assms(4,2)]
  have ids: "r_id r' = r_id r" by (rule consume_id [OF assms(4)])
  have self: "int (length (r_inflight r')) \<le> max 0 (worker_concurrency s) \<and>
      (\<forall>c \<in> set (r_inflight r'). copy_ok d (r_id r) c)"
    using assms(4)
  proof (cases rule: consume_cases)
    case idle
    then show ?thesis using assms(1,3) by (auto simp: fleet_ok_def)
  next
    case (claimed js)
    have u: "unique_on j_id (jobs (store \<sigma>))" by (rule consistentD(2) [OF assms(2)])
    have "int (length js) \<le> free_slots s r"
      using claim_jobs_tables(7) [OF u claimed(1)] claimed(4) by linarith
    moreover have "copy_ok d (r_id r) c" if "c \<in> set js" for c
      using claimed_copy_ok [OF u claimed(1) that] assms(2) by (simp add: consistent_def request_of_def)
    moreover have "copy_ok d (r_id r) c" if "c \<in> set (r_inflight r)" for c
      using copy_ok_step [OF ds] assms(1,3) that by (auto simp: fleet_ok_def)
    ultimately show ?thesis by (auto simp: claimed(2) free_slots_def)
  qed
  fix x assume "x \<in> set (fleet \<lparr>store = d, fleet = replace_runner r' (fleet \<sigma>)\<rparr>)"
  then have x: "x = r' \<or> x \<in> set (fleet \<sigma>)" by (auto elim: replace_runner_cases)
  then show "int (length (r_inflight x)) \<le> max 0 (worker_concurrency s)"
    using self assms(1) by (auto simp: fleet_ok_def)
  fix c assume "c \<in> set (r_inflight x)"
  then show "copy_ok (store \<lparr>store = d, fleet = replace_runner r' (fleet \<sigma>)\<rparr>) (r_id x) c"
    using x self ids assms(1) copy_ok_step [OF ds] by (auto simp: fleet_ok_def)
next
  show "unique_on r_id (fleet \<lparr>store = d, fleet = replace_runner r' (fleet \<sigma>)\<rparr>)"
    using assms(1) replace_runner_ids by (auto simp: fleet_ok_def unique_on_def)
qed

lemma unique_replace: "unique_on r_id fs \<Longrightarrow> unique_on r_id (replace_runner r fs)"
  by (simp add: unique_on_def replace_runner_ids)

lemma unique_remove: "unique_on r_id fs \<Longrightarrow> unique_on r_id (remove_runner w fs)"
  by (simp add: unique_on_def remove_runner_def distinct_map_filter)

subsection \<open>The attempt budget\<close>

definition budget_ok :: "job \<Rightarrow> bool" where
  "budget_ok j \<longleftrightarrow>
     (case j_status j of
        PENDING \<Rightarrow> 0 \<le> j_attempt_count j \<and> j_attempt_count j < j_max_attempts j
      | RUNNING \<Rightarrow> 1 \<le> j_attempt_count j \<and> j_attempt_count j \<le> j_max_attempts j
      | SUCCEEDED \<Rightarrow> 1 \<le> j_attempt_count j \<and> j_attempt_count j \<le> j_max_attempts j
      | CANCELLED \<Rightarrow> 0 \<le> j_attempt_count j \<and> j_attempt_count j < j_max_attempts j
      | DEAD \<Rightarrow> j_attempt_count j = j_max_attempts j)"

definition budgeted :: "db \<Rightarrow> bool" where
  "budgeted d \<longleftrightarrow> (\<forall>j \<in> set (jobs d). budget_ok j)"

definition keeps_budget :: "moves \<Rightarrow> bool" where
  "keeps_budget T \<longleftrightarrow> (RUNNING, PENDING) \<notin> T \<and> (RUNNING, DEAD) \<notin> T"

lemma budget_evolves:
  assumes "job_evolves T j k" and "keeps_budget T" and "budget_ok j" and "job_checks k"
  shows "budget_ok k"
proof -
  have "j_max_attempts k = j_max_attempts j" "1 \<le> j_max_attempts k"
    using assms(1,4) by (auto simp: job_evolves_def contract_def job_checks_def)
  then show ?thesis
    using assms(1-3)
    by (cases "j_status j"; cases "j_status k")
      (auto simp: job_evolves_def keeps_budget_def budget_ok_def split: if_splits)
qed

lemma checked: "consistent d \<Longrightarrow> j \<in> set (jobs d) \<Longrightarrow> job_checks j"
  using db_keysD(7) consistentD(1) by blast

lemma budgeted_step:
  assumes "db_step T d d'" and "keeps_budget T" and "budgeted d"
  shows "budgeted d'"
  unfolding budgeted_def
proof
  fix k assume k: "k \<in> set (jobs d')"
  have c: "job_checks k" using assms(1) k checked by (auto simp: db_step_def)
  from db_step_from [OF assms(1) k] show "budget_ok k"
  proof
    assume "fresh_job k"
    then show ?thesis using c by (simp add: fresh_job_def budget_ok_def job_checks_def)
  next
    assume "\<exists>j \<in> set (jobs d). job_evolves T j k"
    then show ?thesis using budget_evolves [OF _ assms(2) _ c] assms(3) by (auto simp: budgeted_def)
  qed
qed

lemma budgeted_update:
  assumes "budgeted d" and "jobs d' = update_where P act (jobs d)"
    and "\<And>j. j \<in> set (jobs d) \<Longrightarrow> P j \<Longrightarrow> budget_ok j \<Longrightarrow> budget_ok (act j)"
  shows "budgeted d'"
  using assms by (auto simp: budgeted_def in_update_where)

lemma budgeted_reap:
  assumes "consistent d" and "budgeted d"
  shows "budgeted (reap_commit got_lock now rnd locked off d)"
proof (cases "got_lock \<and> (\<exists>n d'. reap_once True now rnd locked off d = Inr (n, d'))")
  case True
  then obtain n d' where run: "reap_once True now rnd locked off d = Inr (n, d')" by blast
  note t = reap_commit_tables [OF consistentD(2) [OF assms(1)] run]
  have "budget_ok (reaped now rnd j)"
    if j: "j \<in> set (jobs d)" "reap_hits now locked d j" "budget_ok j" for j
  proof -
    obtain dec where dec: "decide_failure (policy_of j) (j_attempt_count j) (rnd (j_id j)) = Inr dec"
      using t(3) [OF j(1,2)] by blast
    then show ?thesis
      using decide_failure_retry_iff [OF dec] j(2,3)
      by (auto simp: reaped_def reap_values_def reap_hits_def budget_ok_def policy_of_def Let_def)
  qed
  then have "budgeted d'" using budgeted_update [OF assms(2) t(1)] by blast
  then show ?thesis using True run by (simp add: reap_commit_def)
next
  case False
  then have "reap_commit got_lock now rnd locked off d = d"
    by (cases got_lock) (auto simp: reap_commit_def reap_once_def split: sum.splits)
  then show ?thesis using assms(2) by simp
qed

text \<open>A report keeps the budget when the execution it ends is the one the row counts.\<close>

lemma budgeted_report:
  assumes "budgeted d" and "consistent d"
    and "report now u later None env w c oc d = Inr (ok, d')"
    and "\<And>j. j \<in> set (jobs d) \<Longrightarrow> j_id j = j_id c \<Longrightarrow> held_by w j \<Longrightarrow>
      j_attempt_count j = j_attempt_count c \<and> contract j = contract c"
  shows "budgeted d'"
  using assms(3)
proof (cases rule: report_cases)
  case (success v)
  then show ?thesis
    using budgeted_step [OF succeeds.db_step [OF assms(2)] _ assms(1)] by (simp add: keeps_budget_def)
next
  case (failure dec err)
  have "budget_ok (failure_values now err (retry dec) (delay_seconds dec) j)"
    if j: "j \<in> set (jobs d)" "j_id j = j_id c" "held_by w j" "budget_ok j" for j
  proof -
    have cj: "j_attempt_count j = j_attempt_count c" "contract j = contract c"
      using assms(4) [OF j(1-3)] by simp_all
    have "policy_of j = policy_of c" by (rule policy_of_contract) (rule cj(2))
    with cj(1) show ?thesis
      using decide_failure_retry_iff [OF failure(1)] j(3,4)
      by (auto simp: failure_values_def held_by_def budget_ok_def policy_of_def Let_def)
  qed
  note kept = this
  show ?thesis
  proof (cases "holds w (j_id c) d")
    case True
    then have "jobs d' = update_where (\<lambda>j. j_id j = j_id c \<and> held_by w j)
        (failure_values now err (retry dec) (delay_seconds dec)) (jobs d)"
      by (simp add: failure(2) record_failure_eq finish_failure_def guarded_update_db)
    then show ?thesis by (rule budgeted_update [OF assms(1)]) (use kept in blast)
  qed (use assms(1) in \<open>simp add: failure(2) record_failure_eq\<close>)
next
  case release
  show ?thesis
  proof (cases "holds w (j_id c) d")
    case True
    then have "jobs d' = update_where (\<lambda>j. j_id j = j_id c \<and> held_by w j)
        (\<lambda>j. j\<lparr>j_status := PENDING, j_attempt_count := j_attempt_count j - 1, j_run_at := now,
              j_locked_by := None, j_lease_expires_at := None, j_updated_at := now\<rparr>) (jobs d)"
      by (simp add: release release_job_eq release_def guarded_update_db)
    then show ?thesis
      by (rule budgeted_update [OF assms(1)]) (simp add: budget_ok_def held_by_def)
  qed (use assms(1) in \<open>simp add: release release_job_eq\<close>)
qed

text \<open>After a report of a worker about a job the worker does not hold the job.\<close>

lemma report_clears:
  assumes "report now u later None env w c oc d = Inr (ok, d')" and "k \<in> set (jobs d')" and "j_id k = j_id c"
  shows "\<not> held_by w k"
proof (cases "holds w (j_id c) d")
  case True
  have gone: ?thesis if "jobs d' = update_where (\<lambda>j. j_id j = j_id c \<and> held_by w j) act (jobs d)"
    and "\<And>j. j_status (act j) \<noteq> RUNNING" for act
    using assms(2) unfolding that(1)
    by (cases rule: update_where_cases) (use that(2) assms(3) in \<open>auto simp: held_by_def\<close>)
  from assms(1) show ?thesis
  proof (cases rule: report_cases)
    case (success v)
    then have "jobs d' = update_where (\<lambda>j. j_id j = j_id c \<and> held_by w j)
        (\<lambda>j. j\<lparr>j_status := SUCCEEDED, j_result := v, j_finished_at := Some now, j_locked_by := None,
               j_lease_expires_at := None, j_last_error := None, j_updated_at := now\<rparr>) (jobs d)"
      using True by (simp add: complete_success_eq finish_success_def guarded_update_db)
    then show ?thesis by (rule gone) simp
  next
    case (failure dec err)
    then have "jobs d' = update_where (\<lambda>j. j_id j = j_id c \<and> held_by w j)
        (failure_values now err (retry dec) (delay_seconds dec)) (jobs d)"
      using True by (simp add: record_failure_eq finish_failure_def guarded_update_db)
    then show ?thesis by (rule gone) (simp add: failure_values_def Let_def)
  next
    case release
    then have "jobs d' = update_where (\<lambda>j. j_id j = j_id c \<and> held_by w j)
        (\<lambda>j. j\<lparr>j_status := PENDING, j_attempt_count := j_attempt_count j - 1, j_run_at := now,
               j_locked_by := None, j_lease_expires_at := None, j_updated_at := now\<rparr>) (jobs d)"
      using True by (simp add: release_job_eq release_def guarded_update_db)
    then show ?thesis by (rule gone) simp
  qed
next
  case False
  from assms(1) have "d' = d"
    by (cases rule: report_cases) (simp_all add: complete_success_eq record_failure_eq release_job_eq False)
  then show ?thesis using False assms(2,3) by (auto simp: holds_def list_ex_iff)
qed

subsection \<open>The kinds of steps\<close>

text \<open>A fleet in which every worker has exactly in flight what it had.\<close>

definition same_copies :: "runner list \<Rightarrow> runner list \<Rightarrow> bool" where
  "same_copies fs gs \<longleftrightarrow>
     (unique_on r_id fs \<longrightarrow> unique_on r_id gs) \<and>
     (\<forall>x \<in> set gs. \<exists>r \<in> set fs. r_id x = r_id r \<and> r_inflight x = r_inflight r)"

lemma same_copies_refl [simp]: "same_copies fs fs"
  by (auto simp: same_copies_def)

lemma same_copies_remove: "same_copies fs (remove_runner w fs)"
  using remove_runner_subset [of w fs] unique_remove by (auto simp: same_copies_def)

lemma same_copies_drain: "r \<in> set fs \<Longrightarrow> same_copies fs (replace_runner (request_shutdown r) fs)"
  unfolding same_copies_def
proof (intro conjI ballI impI)
  fix x assume "r \<in> set fs" "x \<in> set (replace_runner (request_shutdown r) fs)"
  from this(2) show "\<exists>r \<in> set fs. r_id x = r_id r \<and> r_inflight x = r_inflight r"
    by (cases rule: replace_runner_cases) (use \<open>r \<in> set fs\<close> in auto)
qed (rule unique_replace)

lemma same_copies_shrinks: "same_copies fs gs \<Longrightarrow> shrinks fs gs"
  by (fastforce simp: same_copies_def shrinks_def)

definition quiet_step :: "system \<Rightarrow> system \<Rightarrow> bool" where
  "quiet_step \<sigma> \<tau> \<longleftrightarrow>
     (\<exists>T. db_step T (store \<sigma>) (store \<tau>) \<and> no_claims T) \<and> same_copies (fleet \<sigma>) (fleet \<tau>) \<and>
     (budgeted (store \<sigma>) \<longrightarrow> budgeted (store \<tau>)) \<and> (log_exact (store \<sigma>) \<longrightarrow> log_exact (store \<tau>))"

lemma leaves_running_quiet: "leaves_running T \<Longrightarrow> no_claims T \<and> keeps_budget T"
  by (auto simp: leaves_running_def no_claims_def keeps_budget_def)

lemma log_exact_db_step: "db_step T d d' \<Longrightarrow> leaves_running T \<Longrightarrow> log_exact d \<Longrightarrow> log_exact d'"
  by (rule log_exact_same [of d T]) (simp_all add: db_step_def)

lemma quietI:
  assumes "db_step T (store \<sigma>) (store \<tau>)" and "leaves_running T" and "same_copies (fleet \<sigma>) (fleet \<tau>)"
  shows "quiet_step \<sigma> \<tau>"
  using assms budgeted_step log_exact_db_step leaves_running_quiet unfolding quiet_step_def by blast

lemma no_moves: "no_claims {}" "keeps_budget {}" "leaves_running {}"
  by (simp_all add: no_claims_def keeps_budget_def leaves_running_def)

lemma user_moves_quiet: "leaves_running user_moves"
  by (auto simp: leaves_running_def user_moves_def)

inductive noisy_step :: "hazard set \<Rightarrow> Settings \<Rightarrow> system \<Rightarrow> system \<Rightarrow> bool"
  for H :: "hazard set" and s :: Settings where
  boot: "db_step {} (store \<sigma>) d \<Longrightarrow> w \<notin> r_id ` set (fleet \<sigma>) \<Longrightarrow>
    \<forall>j \<in> set (jobs (store \<sigma>)). j_locked_by j \<noteq> Some w \<Longrightarrow>
    noisy_step H s \<sigma> \<lparr>store = d, fleet = fleet \<sigma> @ [new_runner w nm]\<rparr>"
| consume: "r \<in> set (fleet \<sigma>) \<Longrightarrow> consume s aid now lj lq r (store \<sigma>) = (r', d) \<Longrightarrow>
    Self_Reclaim \<in> H \<or> distinct (map j_id (r_inflight r')) \<Longrightarrow>
    noisy_step H s \<sigma> \<lparr>store = d, fleet = replace_runner r' (fleet \<sigma>)\<rparr>"
| claim_lost: "Lost_Reply \<in> H \<Longrightarrow> r \<in> set (fleet \<sigma>) \<Longrightarrow> consume s aid now lj lq r (store \<sigma>) = (r', d) \<Longrightarrow>
    Self_Reclaim \<in> H \<or> distinct (map j_id (r_inflight r')) \<Longrightarrow>
    noisy_step H s \<sigma> (\<sigma>\<lparr>store := d\<rparr>)"
| report: "r \<in> set (fleet \<sigma>) \<Longrightarrow> c \<in> set (r_inflight r) \<Longrightarrow>
    report now u now None id (r_id r) c oc (store \<sigma>) = Inr (ok, d) \<Longrightarrow>
    noisy_step H s \<sigma> \<lparr>store = d, fleet = replace_runner (on_task_done c r) (fleet \<sigma>)\<rparr>"
| report_lost: "Lost_Reply \<in> H \<Longrightarrow> r \<in> set (fleet \<sigma>) \<Longrightarrow> c \<in> set (r_inflight r) \<Longrightarrow>
    noisy_step H s \<sigma> (\<sigma>\<lparr>fleet := replace_runner (on_task_done c r) (fleet \<sigma>)\<rparr>)"

lemma step_kinds:
  assumes "step H s \<sigma> \<tau>" and "consistent (store \<sigma>)"
  shows "quiet_step \<sigma> \<tau> \<or> noisy_step H s \<sigma> \<tau>"
  using assms
proof (induction rule: step.induct)
  case (request \<sigma> d)
  have "db_step user_moves (store \<sigma>) d" by (rule request_db_step [OF request])
  then show ?case by (intro disjI1 quietI [OF _ user_moves_quiet]) simp_all
next
  case (boot now w nm n \<sigma> d)
  then have d: "d = register_commit now w nm n (store \<sigma>)" by (simp add: register_commit_def)
  show ?case unfolding d
    by (rule disjI2, rule noisy_step.boot [OF registers.db_step [OF boot.prems]]) (use boot in auto)
next
  case (consume r \<sigma> aid now lj lq r' d)
  show ?case by (rule disjI2, rule noisy_step.consume [OF consume(1-3)])
next
  case (claim_lost r \<sigma> aid now lj lq r' d)
  show ?case by (rule disjI2, rule noisy_step.claim_lost [OF claim_lost(1-4)])
next
  case (report r \<sigma> c now u oc ok d)
  show ?case by (rule disjI2, rule noisy_step.report [OF report(1-3)])
next
  case (report_lost r \<sigma> c)
  show ?case by (rule disjI2, rule noisy_step.report_lost [OF report_lost(1-3)])
next
  case (summary \<sigma> now gen c err)
  then show ?case by (intro disjI1 quietI [OF _ no_moves(3)]) (simp_all add: summarises.db_step)
next
  case (heartbeat r \<sigma> now)
  then show ?case by (intro disjI1 quietI [OF _ no_moves(3)]) (simp_all add: beat_def beats.db_step)
next
  case (reap \<sigma> got_lock now rnd locked)
  have "db_step {(RUNNING, PENDING), (RUNNING, DEAD)} (store \<sigma>)
      (reaper_tick s got_lock now rnd locked (store \<sigma>))"
    using sweeps.db_step [OF reap.prems] by (simp add: reaper_tick_commit)
  moreover have "budgeted (store \<sigma>) \<Longrightarrow> budgeted (reaper_tick s got_lock now rnd locked (store \<sigma>))"
    using budgeted_reap [OF reap.prems] by (simp add: reaper_tick_commit)
  moreover have "log_exact (store \<sigma>) \<Longrightarrow> log_exact (reaper_tick s got_lock now rnd locked (store \<sigma>))"
    using log_exact_reap [OF _ reap.prems] by (simp add: reaper_tick_commit)
  ultimately show ?case using no_claims_moves(4) by (auto simp: quiet_step_def)
next
  case (materialize \<sigma> got_lock cn now jid locked)
  then show ?case by (intro disjI1 quietI [OF _ no_moves(3)]) (simp_all add: materializes.db_step)
next
  case (drain r \<sigma> now)
  then show ?case
    by (intro disjI1 quietI [OF _ no_moves(3)]) (simp_all add: announce_drain_def drains.db_step same_copies_drain)
next
  case (leave r \<sigma> now)
  then show ?case
    by (intro disjI1 quietI [OF _ no_moves(3)]) (simp_all add: drains.db_step same_copies_remove)
next
  case (crash \<sigma> w)
  then show ?case
    by (intro disjI1 quietI [OF _ no_moves(3)]) (simp_all add: db_step_refl same_copies_remove)
qed

subsection \<open>Invariants of the reachable states\<close>

lemma system_ext: "store \<sigma> = d \<Longrightarrow> fleet \<sigma> = fs \<Longrightarrow> \<sigma> = \<lparr>store = d, fleet = fs\<rparr>" for \<sigma> :: system
  by (cases \<sigma>) simp

lemma fleet_ok_step:
  assumes "step H s \<sigma> \<tau>" and "consistent (store \<sigma>)" and "fleet_ok s \<sigma>"
  shows "fleet_ok s \<tau>"
  using step_kinds [OF assms(1,2)]
proof
  note u = assms(3) [unfolded fleet_ok_def, THEN conjunct1]
  assume "quiet_step \<sigma> \<tau>"
  then obtain T where "db_step T (store \<sigma>) (store \<tau>)" "same_copies (fleet \<sigma>) (fleet \<tau>)"
    by (auto simp: quiet_step_def)
  then have "fleet_ok s \<lparr>store = store \<tau>, fleet = fleet \<tau>\<rparr>"
    using u by (intro fleet_ok_shrinks [OF assms(3)] same_copies_shrinks) (auto simp: same_copies_def)
  then show ?thesis by (simp add: system_ext [of \<tau>, OF refl refl, symmetric])
next
  note u = assms(3) [unfolded fleet_ok_def, THEN conjunct1]
  assume "noisy_step H s \<sigma> \<tau>"
  then show ?thesis
    using assms(2,3)
  proof (cases rule: noisy_step.cases)
    case (boot d w nm)
    have "copy_ok d (r_id r) c" if "r \<in> set (fleet \<sigma>)" "c \<in> set (r_inflight r)" for r c
      using copy_ok_step [OF boot(2)] assms(3) that by (auto simp: fleet_ok_def)
    then show ?thesis
      using boot assms(3) by (auto simp: fleet_ok_def unique_on_append1 fleet_ok_def)
  next
    case (consume r aid now lj lq r' d)
    then show ?thesis using fleet_ok_claims [OF assms(3,2)] by simp
  next
    case (claim_lost r aid now lj lq r' d)
    then have "fleet_ok s \<lparr>store = d, fleet = fleet \<sigma>\<rparr>"
      using u by (intro fleet_ok_shrinks [OF assms(3) consume_db_step [OF _ assms(2)]]) simp_all
    then show ?thesis using claim_lost(1) by (simp add: fleet_ok_def)
  next
    case (report r c now u oc ok d)
    then show ?thesis
      using fleet_ok_shrinks [OF assms(3) report_db_step [OF report(4) assms(2)] shrinks_done [OF report(2)]]
        unique_replace [OF u] by simp
  next
    case (report_lost r c)
    then show ?thesis
      using fleet_ok_shrinks [OF assms(3) db_step_refl [OF assms(2)] shrinks_done [OF report_lost(3)]]
        unique_replace [OF u] by (simp add: fleet_ok_def)
  qed
qed

lemma reachable_fleet_ok: "reachable H s \<sigma> \<Longrightarrow> fleet_ok s \<sigma>"
proof (induction rule: reachable.induct)
  case start
  then show ?case by (simp add: fleet_ok_def unique_on_def)
next
  case (step \<sigma> \<tau>)
  then show ?case using fleet_ok_step reachable_consistent by blast
qed

text \<open>Every lease of a living worker belongs to an execution it has in flight.\<close>

definition covered :: "system \<Rightarrow> bool" where
  "covered \<sigma> \<longleftrightarrow>
     (\<forall>r \<in> set (fleet \<sigma>). \<forall>j \<in> set (jobs (store \<sigma>)). held_by (r_id r) j \<longrightarrow>
        (\<exists>c \<in> set (r_inflight r). j_id c = j_id j \<and> j_attempt_count c = j_attempt_count j))"

lemma coveredD:
  "covered \<sigma> \<Longrightarrow> r \<in> set (fleet \<sigma>) \<Longrightarrow> j \<in> set (jobs (store \<sigma>)) \<Longrightarrow> held_by (r_id r) j \<Longrightarrow>
   \<exists>c \<in> set (r_inflight r). j_id c = j_id j \<and> j_attempt_count c = j_attempt_count j"
  by (simp add: covered_def)

text \<open>A claim leaves the leases of the others and adds those of its worker.\<close>

lemma claim_held:
  assumes "consume s aid now lj lq r d = (r', d')" and "consistent d" and "k \<in> set (jobs d')" and "held_by w k"
  obtains (old) "k \<in> set (jobs d)"
    | (new) "w = r_id r" and "\<exists>js. r_inflight r' = r_inflight r @ js \<and> k \<in> set js"
  using assms(1)
proof (cases rule: consume_cases)
  case idle
  then show ?thesis using assms(3) old by simp
next
  case (claimed js)
  note t = claim_jobs_tables [OF consistentD(2) [OF assms(2)] claimed(1)]
  from assms(3) show ?thesis
    unfolding t(1)
  proof (cases rule: update_where_cases)
    case (changed j)
    then have "k \<in> set js" using t(5) by blast
    moreover have "w = r_id r" using assms(4) changed(3) by (simp add: held_by_def request_of_def)
    ultimately show ?thesis using new claimed(2) by simp
  next
    case kept
    then show ?thesis using old by blast
  qed
qed

lemma same_runner: "fleet_ok s \<sigma> \<Longrightarrow> r \<in> set (fleet \<sigma>) \<Longrightarrow> x \<in> set (fleet \<sigma>) \<Longrightarrow> r_id x = r_id r \<Longrightarrow> x = r"
  by (auto simp: fleet_ok_def dest: unique_onD)

lemma covered_step:
  assumes "step H s \<sigma> \<tau>" and "Lost_Reply \<notin> H" and "consistent (store \<sigma>)" and "covered \<sigma>"
  shows "covered \<tau>"
  unfolding covered_def
proof (intro ballI impI)
  fix x k assume x: "x \<in> set (fleet \<tau>)" and k: "k \<in> set (jobs (store \<tau>))" "held_by (r_id x) k"
  have kept: "\<exists>c \<in> set (r_inflight r). j_id c = j_id k \<and> j_attempt_count c = j_attempt_count k"
    if ds: "db_step T (store \<sigma>) (store \<tau>)" "no_claims T" and r: "r \<in> set (fleet \<sigma>)" "r_id r = r_id x" for T r
  proof -
    obtain j where "j \<in> set (jobs (store \<sigma>))" "held_by (r_id r) j" "j_id j = j_id k"
        "j_attempt_count j = j_attempt_count k"
      using held_before [OF ds k(1), of "r_id r"] k(2) r(2) by auto
    then show ?thesis using coveredD [OF assms(4) r(1)] by metis
  qed
  from step_kinds [OF assms(1,3)]
  show "\<exists>c \<in> set (r_inflight x). j_id c = j_id k \<and> j_attempt_count c = j_attempt_count k"
  proof
    assume "quiet_step \<sigma> \<tau>"
    then obtain T r where "db_step T (store \<sigma>) (store \<tau>)" "no_claims T"
        "r \<in> set (fleet \<sigma>)" "r_id x = r_id r" "r_inflight x = r_inflight r"
      using x unfolding quiet_step_def same_copies_def by metis
    then show ?thesis using kept by simp
  next
    assume "noisy_step H s \<sigma> \<tau>"
    then show ?thesis
    proof (cases rule: noisy_step.cases)
      case (boot d w nm)
      have ds: "db_step {} (store \<sigma>) (store \<tau>)" using boot by simp
      show ?thesis
      proof (cases "x = new_runner w nm")
        case True
        then show ?thesis
          using held_before [OF ds no_moves(1) k] boot(4) by (auto simp: held_by_def)
      next
        case False
        then show ?thesis using kept [OF ds no_moves(1), of x] x boot(1) by simp
      qed
    next
      case (consume r aid now lj lq r' d)
      note ids = consume_id [OF consume(3)]
      have d: "k \<in> set (jobs d)" using k(1) consume(1) by simp
      from consume(3) assms(3) d k(2) show ?thesis
      proof (cases rule: claim_held)
        case old
        obtain r0 where "r0 \<in> set (fleet \<sigma>)" "r_id r0 = r_id x" "set (r_inflight r0) \<subseteq> set (r_inflight x)"
        proof (cases "x = r'")
          case True
          from consume(3) have "set (r_inflight r) \<subseteq> set (r_inflight r')"
            by (cases rule: consume_cases) auto
          then show ?thesis using that [OF consume(2)] ids True by simp
        next
          case False
          then have "x \<in> set (fleet \<sigma>)" using x consume(1) by (auto elim: replace_runner_cases)
          then show ?thesis using that by blast
        qed
        then show ?thesis using coveredD [OF assms(4) _ old] k(2) by (metis subsetD)
      next
        case new
        then have "r_id x = r_id r'" by (simp add: ids)
        then have "x = r'" using x consume(1) by (auto elim: replace_runner_cases)
        then show ?thesis using new(2) by auto
      qed
    next
      case (claim_lost r aid now lj lq r' d)
      then show ?thesis using assms(2) by simp
    next
      case (report r c now u oc ok d)
      have ds: "db_step report_moves (store \<sigma>) (store \<tau>)"
        using report_db_step [OF report(4) assms(3)] report(1) by simp
      show ?thesis
      proof (cases "x = on_task_done c r")
        case True
        then have "j_id k \<noteq> j_id c" using report_clears [OF report(4)] k report(1) by auto
        moreover obtain c' where "c' \<in> set (r_inflight r)" "j_id c' = j_id k" "j_attempt_count c' = j_attempt_count k"
          using kept [OF ds no_claims_moves(2) report(2)] True by auto
        moreover from calculation have "c' \<noteq> c" by auto
        ultimately show ?thesis using True by (intro bexI [of _ c']) (simp_all add: in_set_remove1)
      next
        case False
        then have "x \<in> set (fleet \<sigma>)" using x report(1) by (auto elim: replace_runner_cases)
        then show ?thesis using kept [OF ds no_claims_moves(2)] by simp
      qed
    next
      case (report_lost r c)
      then show ?thesis using assms(2) by simp
    qed
  qed
qed

lemma reachable_covered: "reachable H s \<sigma> \<Longrightarrow> Lost_Reply \<notin> H \<Longrightarrow> covered \<sigma>"
proof (induction rule: reachable.induct)
  case start
  then show ?case by (simp add: covered_def)
next
  case (step \<sigma> \<tau>)
  then show ?case using covered_step reachable_consistent by blast
qed

text \<open>The execution a worker has in flight for a job it holds is the one the row counts.\<close>

definition fresh_copies :: "system \<Rightarrow> bool" where
  "fresh_copies \<sigma> \<longleftrightarrow>
     (\<forall>r \<in> set (fleet \<sigma>). \<forall>c \<in> set (r_inflight r). \<forall>j \<in> set (jobs (store \<sigma>)).
        j_id j = j_id c \<longrightarrow> held_by (r_id r) j \<longrightarrow> j_attempt_count j = j_attempt_count c)"

lemma fresh_copiesD:
  "fresh_copies \<sigma> \<Longrightarrow> r \<in> set (fleet \<sigma>) \<Longrightarrow> c \<in> set (r_inflight r) \<Longrightarrow> j \<in> set (jobs (store \<sigma>)) \<Longrightarrow>
   j_id j = j_id c \<Longrightarrow> held_by (r_id r) j \<Longrightarrow> j_attempt_count j = j_attempt_count c"
  by (simp add: fresh_copies_def)

lemma fresh_copies_keep:
  assumes "fresh_copies \<sigma>" and "db_step T (store \<sigma>) d" and "no_claims T" and "shrinks (fleet \<sigma>) fs"
  shows "fresh_copies \<lparr>store = d, fleet = fs\<rparr>"
  unfolding fresh_copies_def
proof (intro ballI impI)
  fix x c k
  assume x: "x \<in> set (fleet \<lparr>store = d, fleet = fs\<rparr>)" "c \<in> set (r_inflight x)"
    and k: "k \<in> set (jobs (store \<lparr>store = d, fleet = fs\<rparr>))" "j_id k = j_id c" "held_by (r_id x) k"
  obtain r where r: "r \<in> set (fleet \<sigma>)" "r_id x = r_id r" "c \<in> set (r_inflight r)"
    using x assms(4) unfolding shrinks_def by auto
  obtain j where "j \<in> set (jobs (store \<sigma>))" "held_by (r_id r) j" "j_id j = j_id k"
      "j_attempt_count j = j_attempt_count k"
    using held_before [OF assms(2,3), of k "r_id r"] k(1,3) r(2) by auto
  then show "j_attempt_count k = j_attempt_count c"
    using fresh_copiesD [OF assms(1) r(1,3)] k(2) by metis
qed

lemma fresh_after_claim:
  assumes "consume s aid now lj lq r (store \<sigma>) = (r', d)" and "consistent (store \<sigma>)" and "fresh_copies \<sigma>"
    and "r \<in> set (fleet \<sigma>)" and "distinct (map j_id (r_inflight r'))"
    and "x \<in> set (fleet \<sigma>) \<and> (r_id x = r_id r \<longrightarrow> x = r) \<or> x = r'"
    and "c \<in> set (r_inflight x)" and "k \<in> set (jobs d)" and "j_id k = j_id c" and "held_by (r_id x) k"
  shows "j_attempt_count k = j_attempt_count c"
  using assms(1)
proof (cases rule: consume_cases)
  case idle
  then show ?thesis using fresh_copiesD [OF assms(3), of x c k] assms(4,6-10) by auto
next
  case (claimed js)
  note t = claim_jobs_tables [OF consistentD(2) [OF assms(2)] claimed(1)]
  have uniq: "c = k" if "c \<in> set js"
  proof -
    have "c \<in> set (jobs d)" using t(6) [OF that] unfolding t(1) in_update_where by force
    moreover have "unique_on j_id (jobs d)"
      using consume_db_step [OF assms(1,2)] consistentD(2) by (auto simp: db_step_def)
    ultimately show ?thesis using unique_onD assms(8,9) by metis
  qed
  show ?thesis
  proof (cases "c \<in> set js")
    case True
    then show ?thesis using uniq by simp
  next
    case False
    then have x: "x \<in> set (fleet \<sigma>) \<and> c \<in> set (r_inflight x) \<or> x = r' \<and> c \<in> set (r_inflight r)"
      using assms(6,7) claimed(2) by auto
    from assms(1,2,8,10) show ?thesis
    proof (cases rule: claim_held)
      case old
      have "r_id r' = r_id r" by (rule consume_id [OF assms(1)])
      then show ?thesis using x fresh_copiesD [OF assms(3) _ _ old assms(9)] assms(4,10) by auto
    next
      case new
      then have "k \<in> set js" "c \<in> set (r_inflight r)"
        using False assms(6,7) claimed(2) by auto
      then show ?thesis using assms(5,9) claimed(2) by (force simp: distinct_append)
    qed
  qed
qed

lemma fresh_copies_step:
  assumes "step H s \<sigma> \<tau>" and "Self_Reclaim \<notin> H" and "consistent (store \<sigma>)" and "fleet_ok s \<sigma>"
    and "fresh_copies \<sigma>"
  shows "fresh_copies \<tau>"
  using step_kinds [OF assms(1,3)]
proof
  assume "quiet_step \<sigma> \<tau>"
  then obtain T where "db_step T (store \<sigma>) (store \<tau>)" "no_claims T" "same_copies (fleet \<sigma>) (fleet \<tau>)"
    by (auto simp: quiet_step_def)
  then have "fresh_copies \<lparr>store = store \<tau>, fleet = fleet \<tau>\<rparr>"
    by (intro fresh_copies_keep [OF assms(5)] same_copies_shrinks)
  then show ?thesis by (simp add: system_ext [of \<tau>, OF refl refl, symmetric])
next
  assume "noisy_step H s \<sigma> \<tau>"
  then show ?thesis
  proof (cases rule: noisy_step.cases)
    case (boot d w nm)
    then show ?thesis
      using fresh_copies_keep [OF assms(5) boot(2) no_moves(1) shrinks_refl]
      by (auto simp: fresh_copies_def)
  next
    case (consume r aid now lj lq r' d)
    have "distinct (map j_id (r_inflight r'))" using consume(4) assms(2) by simp
    note after = fresh_after_claim [OF consume(3) assms(3,5) consume(2) this]
    have ids: "r_id r' = r_id r" by (rule consume_id [OF consume(3)])
    show ?thesis
      unfolding fresh_copies_def consume(1)
    proof (intro ballI impI)
      fix x c k
      assume x: "x \<in> set (fleet \<lparr>store = d, fleet = replace_runner r' (fleet \<sigma>)\<rparr>)" "c \<in> set (r_inflight x)"
        and k: "k \<in> set (jobs (store \<lparr>store = d, fleet = replace_runner r' (fleet \<sigma>)\<rparr>))" "j_id k = j_id c"
          "held_by (r_id x) k"
      have "x \<in> set (fleet \<sigma>) \<and> (r_id x = r_id r \<longrightarrow> x = r) \<or> x = r'"
        using x(1) ids by (auto elim: replace_runner_cases)
      then show "j_attempt_count k = j_attempt_count c"
        by (rule after) (use x(2) k in simp_all)
    qed
  next
    case (claim_lost r aid now lj lq r' d)
    have "distinct (map j_id (r_inflight r'))" using claim_lost(5) assms(2) by simp
    note after = fresh_after_claim [OF claim_lost(4) assms(3,5) claim_lost(3) this]
    show ?thesis
      unfolding fresh_copies_def claim_lost(1)
    proof (intro ballI impI)
      fix x c k
      assume x: "x \<in> set (fleet (\<sigma>\<lparr>store := d\<rparr>))" "c \<in> set (r_inflight x)"
        and k: "k \<in> set (jobs (store (\<sigma>\<lparr>store := d\<rparr>)))" "j_id k = j_id c" "held_by (r_id x) k"
      have "x \<in> set (fleet \<sigma>) \<and> (r_id x = r_id r \<longrightarrow> x = r) \<or> x = r'"
        using x(1) same_runner [OF assms(4) claim_lost(3)] by auto
      then show "j_attempt_count k = j_attempt_count c"
        by (rule after) (use x(2) k in simp_all)
    qed
  next
    case (report r c now u oc ok d)
    then show ?thesis
      using fresh_copies_keep [OF assms(5) report_db_step [OF report(4) assms(3)] no_claims_moves(2)
        shrinks_done [OF report(2)]] by simp
  next
    case (report_lost r c)
    have "\<tau> = \<lparr>store = store \<sigma>, fleet = replace_runner (on_task_done c r) (fleet \<sigma>)\<rparr>"
      using report_lost(1) by simp
    then show ?thesis
      using fresh_copies_keep [OF assms(5) db_step_refl [OF assms(3)] no_moves(1)
        shrinks_done [OF report_lost(3)]] by simp
  qed
qed

text \<open>So the report of an execution ends the attempt that the row counts.\<close>

lemma report_fits:
  assumes "consistent (store \<sigma>)" and "fleet_ok s \<sigma>" and "fresh_copies \<sigma>"
    and "r \<in> set (fleet \<sigma>)" and "c \<in> set (r_inflight r)"
    and j: "j \<in> set (jobs (store \<sigma>))" "j_id j = j_id c" "held_by (r_id r) j"
  shows "j_attempt_count j = j_attempt_count c \<and> contract j = contract c"
proof -
  have "copy_ok (store \<sigma>) (r_id r) c" using assms(2,4,5) by (auto simp: fleet_ok_def)
  then obtain i where i: "i \<in> set (jobs (store \<sigma>))" "contract i = contract c"
    by (auto simp: copy_ok_def)
  then have "i = j"
    using unique_onD [OF consistentD(2) [OF assms(1)] _ j(1)] j(2) by (simp add: contract_def)
  then show ?thesis using fresh_copiesD [OF assms(3-5) j] i(2) by simp
qed

lemma budgeted_store_step:
  assumes "step H s \<sigma> \<tau>" and "consistent (store \<sigma>)" and "fleet_ok s \<sigma>" and "fresh_copies \<sigma>"
    and "budgeted (store \<sigma>)"
  shows "budgeted (store \<tau>)"
  using step_kinds [OF assms(1,2)]
proof
  assume "quiet_step \<sigma> \<tau>"
  then show ?thesis using assms(5) by (simp add: quiet_step_def)
next
  assume "noisy_step H s \<sigma> \<tau>"
  then show ?thesis
  proof (cases rule: noisy_step.cases)
    case (boot d w nm)
    then show ?thesis using budgeted_step [OF boot(2) no_moves(2) assms(5)] by simp
  next
    case (consume r aid now lj lq r' d)
    then show ?thesis
      using budgeted_step [OF consume_db_step [OF consume(3) assms(2)] _ assms(5)] by (simp add: keeps_budget_def)
  next
    case (claim_lost r aid now lj lq r' d)
    then show ?thesis
      using budgeted_step [OF consume_db_step [OF claim_lost(4) assms(2)] _ assms(5)] by (simp add: keeps_budget_def)
  next
    case (report r c now u oc ok d)
    have "budgeted d"
      by (rule budgeted_report [OF assms(5,2) report(4)]) (rule report_fits [OF assms(2-4) report(2,3)])
    then show ?thesis by (simp add: report(1))
  next
    case (report_lost r c)
    then show ?thesis using assms(5) by simp
  qed
qed

lemma log_exact_consume:
  assumes "log_exact d" and "consistent d" and "consume s aid now lj lq r d = (r', d')"
  shows "log_exact d'"
  using assms(3) by (cases rule: consume_cases) (use assms(1,2) log_exact_claim in blast)+

lemma log_exact_store_step:
  assumes "step H s \<sigma> \<tau>" and "consistent (store \<sigma>)" and "fleet_ok s \<sigma>" and "fresh_copies \<sigma>"
    and "log_exact (store \<sigma>)"
  shows "log_exact (store \<tau>)"
  using step_kinds [OF assms(1,2)]
proof
  assume "quiet_step \<sigma> \<tau>"
  then show ?thesis using assms(5) by (simp add: quiet_step_def)
next
  assume "noisy_step H s \<sigma> \<tau>"
  then show ?thesis
  proof (cases rule: noisy_step.cases)
    case (boot d w nm)
    then show ?thesis using log_exact_db_step [OF boot(2) no_moves(3) assms(5)] by simp
  next
    case (consume r aid now lj lq r' d)
    then show ?thesis using log_exact_consume [OF assms(5,2) consume(3)] by simp
  next
    case (claim_lost r aid now lj lq r' d)
    then show ?thesis using log_exact_consume [OF assms(5,2) claim_lost(4)] by simp
  next
    case (report r c now u oc ok d)
    note fits = report_fits [OF assms(2-4) report(2,3), THEN conjunct1]
    from report(4) have "log_exact d"
      by (cases rule: report_cases) (use log_exact_reports [OF assms(5) fits] in simp_all)
    then show ?thesis by (simp add: report(1))
  next
    case (report_lost r c)
    then show ?thesis using assms(5) by simp
  qed
qed

lemma reachable_budgeted:
  "reachable H s \<sigma> \<Longrightarrow> Self_Reclaim \<notin> H \<Longrightarrow>
   fresh_copies \<sigma> \<and> budgeted (store \<sigma>) \<and> log_exact (store \<sigma>)"
proof (induction rule: reachable.induct)
  case start
  then show ?case using log_exact_empty by (simp add: fresh_copies_def budgeted_def empty_db_def)
next
  case (step \<sigma> \<tau>)
  then have "fresh_copies \<sigma>" "budgeted (store \<sigma>)" "log_exact (store \<sigma>)" by blast+
  moreover note inv = reachable_consistent [OF step.hyps(1)] reachable_fleet_ok [OF step.hyps(1)]
  ultimately show ?case
    using fresh_copies_step [OF step.hyps(2) step.prems inv] budgeted_store_step [OF step.hyps(2) inv]
      log_exact_store_step [OF step.hyps(2) inv] by blast
qed

end
