(* ===== verification/Cluster_Props.thy ===== *)
theory Cluster_Props
  imports Cluster Execution_Props
begin

section \<open>Properties of the cluster\<close>

text \<open>
  What every reachable state satisfies, which hazards the guarantees survive, and what a
  worker leaves behind when it stops.
\<close>

subsection \<open>A sample run\<close>

definition run_boot :: system where
  "run_boot = \<lparr>store = register_commit 0 1 ''w'' 4 empty_db, fleet = [new_runner 1 ''w'']\<rparr>"

definition run_user :: system where
  "run_user = run_boot\<lparr>store := snd (register (\<lambda>p. p) 0 2 3 7 id ''a@b'' ''secret12'' (store run_boot))\<rparr>"

definition run_job :: system where
  "run_job = run_user\<lparr>store := snd (enqueue 0 sample_ids id id sample_user
     (sample_create ''default'' None []) (store run_user))\<rparr>"

definition run_claim_result :: "runner \<times> db" where
  "run_claim_result = consume default_settings (\<lambda>i. i + 500) 0 (\<lambda>_. False) (\<lambda>_. False) (new_runner 1 ''w'') (store run_job)"

definition run_claim :: system where
  "run_claim = \<lparr>store = snd run_claim_result, fleet = replace_runner (fst run_claim_result) (fleet run_job)\<rparr>"

lemma run_claim_eval: "list_all (\<lambda>r. r_id r = 1 \<and> map j_id (r_inflight r) = [20]) (fleet run_claim)
  \<and> length (fleet run_claim) = 1 \<and> list_ex (\<lambda>j. j_id j = 20 \<and> held_by 1 j) (jobs (store run_claim))"
  by code_simp

lemma run_boot_reachable: "reachable H default_settings run_boot"
proof -
  define start :: system where "start = \<lparr>store = empty_db, fleet = []\<rparr>"
  have "step H default_settings start
      \<lparr>store = register_commit 0 1 ''w'' 4 empty_db, fleet = fleet start @ [new_runner 1 ''w'']\<rparr>"
    by (rule step.boot [of 0 1 "''w''" 4])
      (simp_all add: start_def register_commit_def register_worker_def empty_db_def)
  then show ?thesis
    using reachable.step [OF reachable.start] by (simp add: start_def run_boot_def)
qed

lemma run_user_reachable: "reachable H default_settings run_user"
proof -
  have "step H default_settings run_boot run_user"
    unfolding run_user_def by (rule step.request, rule request.post_user)
  then show ?thesis by (rule reachable.step [OF run_boot_reachable])
qed

lemma run_job_reachable: "reachable H default_settings run_job"
proof -
  note run_user_reachable
  moreover have "step H default_settings run_user run_job"
    unfolding run_job_def by (rule step.request, rule request.post_job)
  ultimately show ?thesis by (rule reachable.step)
qed

lemma run_claim_reachable: "reachable H default_settings run_claim"
proof -
  have f: "fleet run_job = [new_runner 1 ''w'']"
    by (simp add: run_job_def run_user_def run_boot_def)
  have "distinct (map j_id (r_inflight (fst run_claim_result)))" by code_simp
  then have "step H default_settings run_job run_claim"
    unfolding run_claim_def
    by (intro step.consume [of "new_runner 1 ''w''"]) (simp_all add: f run_claim_result_def)
  then show ?thesis by (rule reachable.step [OF run_job_reachable])
qed

lemma run_claim_parts:
  obtains r j c where "fleet run_claim = [r]" and "r_id r = 1" and "r_inflight r = [c]" and "j_id c = 20"
    and "j \<in> set (jobs (store run_claim))" and "held_by 1 j" and "j_id j = 20"
proof -
  obtain r where r: "fleet run_claim = [r]" using run_claim_eval by (auto simp: length_Suc_conv)
  then have "r_id r = 1" "map j_id (r_inflight r) = [20]" using run_claim_eval by auto
  moreover obtain j where "j \<in> set (jobs (store run_claim))" "held_by 1 j" "j_id j = 20"
    using run_claim_eval by (auto simp: list_ex_iff)
  ultimately show ?thesis using that r by (auto simp: map_eq_Cons_conv)
qed

subsection \<open>Safety in every reachable state\<close>

text \<open>C1: Every reachable state is consistent, whatever the interleaving and whichever replies are
  lost: identities, queue names and idempotency keys are unique, a job has a lease and a holder
  exactly while it runs, a running job has counted at least one attempt and has an open audit
  row of its holder, and the dependency graph is acyclic.\<close>

theorem reachable_states_consistent:
  assumes "reachable H s \<sigma>"
  shows "unique_on j_id (jobs (store \<sigma>)) \<and> uq_jobs_owner_idempotency (jobs (store \<sigma>)) \<and>
    uq_queues_project_name (queues (store \<sigma>)) \<and>
    (\<forall>j \<in> set (jobs (store \<sigma>)).
       (j_locked_by j \<noteq> None \<longleftrightarrow> j_status j = RUNNING) \<and>
       (j_lease_expires_at j \<noteq> None \<longleftrightarrow> j_status j = RUNNING) \<and>
       (j_status j = RUNNING \<longrightarrow> 1 \<le> j_attempt_count j \<and>
          (\<exists>a \<in> set (attempts (store \<sigma>)). a_job_id a = j_id j \<and> a_status a = A_RUNNING \<and>
             a_attempt_number a = j_attempt_count j \<and> a_worker_id a = j_locked_by j))) \<and>
    acyclic ((\<lambda>e. (d_job_id e, d_depends_on_job_id e)) ` set (dependencies (store \<sigma>)))"
proof -
  have c: "consistent (store \<sigma>)" by (rule reachable_consistent [OF assms])
  note k = db_keysD [OF consistentD(1) [OF c]]
  have "\<exists>a \<in> set (attempts (store \<sigma>)). a_job_id a = j_id j \<and> a_status a = A_RUNNING \<and>
      a_attempt_number a = j_attempt_count j \<and> a_worker_id a = j_locked_by j"
    if j: "j \<in> set (jobs (store \<sigma>))" "j_status j = RUNNING" for j
    using consistentD(3) [OF c] j unfolding audited_def has_open_attempt_def open_attempt_def by fast
  moreover have "lease_ok j" "counted j" if j: "j \<in> set (jobs (store \<sigma>))" for j
    using consistentD(5,6) [OF c] j by blast+
  ultimately show ?thesis
    using k(1,3,4) acyclic_by_position [OF k(1) consistentD(4) [OF c]]
    by (simp add: lease_ok_def counted_def)
qed

theorem reachable_states_consistent_witness:
  "\<exists>j \<in> set (jobs (store run_claim)). j_status j = RUNNING \<and>
     (\<exists>a \<in> set (attempts (store run_claim)). a_job_id a = 20 \<and> a_status a = A_RUNNING)"
proof -
  obtain j where j: "j \<in> set (jobs (store run_claim))" "held_by 1 j" "j_id j = 20"
    by (rule run_claim_parts) blast
  then have "j_status j = RUNNING" by (simp add: held_by_def)
  then show ?thesis
    using reachable_states_consistent [OF run_claim_reachable] j(1,3) by metis
qed

text \<open>C5: Every step moves every job along the documented state machine: rows are never deleted,
  their identity, payload and retry policy never change, a status changes along one edge at
  most, SUCCEEDED is final, and the attempt log is only ever appended to or closed.\<close>

theorem steps_follow_state_machine:
  assumes "reachable H s \<sigma>" and "step H s \<sigma> \<tau>"
  shows "(\<forall>i j. row j_id i (jobs (store \<sigma>)) = Some j \<longrightarrow>
      (\<exists>k. row j_id i (jobs (store \<tau>)) = Some k \<and> contract k = contract j \<and>
         (j_status k = j_status j \<or> job_transition (j_status j) (j_status k)) \<and>
         (j_status j = SUCCEEDED \<longrightarrow> j_status k = SUCCEEDED))) \<and>
    log_extends (attempts (store \<sigma>)) (attempts (store \<tau>))"
proof -
  have ds: "db_step UNIV (store \<sigma>) (store \<tau>)"
    by (rule step_db_step [OF assms(2) reachable_consistent [OF assms(1)]])
  have "\<exists>k. row j_id i (jobs (store \<tau>)) = Some k \<and> contract k = contract j \<and>
      (j_status k = j_status j \<or> job_transition (j_status j) (j_status k)) \<and>
      (j_status j = SUCCEEDED \<longrightarrow> j_status k = SUCCEEDED)"
    if r: "row j_id i (jobs (store \<sigma>)) = Some j" for i j
  proof -
    have "jobs_evolve UNIV (jobs (store \<sigma>)) (jobs (store \<tau>))" using ds by (simp add: db_step_def)
    then obtain k where k: "row j_id i (jobs (store \<tau>)) = Some k" "job_evolves UNIV j k"
      using jobs_evolve_row [OF _ r] by blast
    then have "contract k = contract j" "j_status k = j_status j \<or> job_transition (j_status j) (j_status k)"
      using job_evolves_ids job_evolves_transition by blast+
    moreover from this(2) have "j_status j = SUCCEEDED \<longrightarrow> j_status k = SUCCEEDED"
      by auto
    ultimately show ?thesis using k(1) by blast
  qed
  then show ?thesis using ds by (auto simp: db_step_def)
qed

theorem steps_follow_state_machine_witness:
  "\<exists>k. row j_id 20 (jobs (store (run_claim\<lparr>fleet := []\<rparr>))) = Some k"
proof -
  obtain r j where f: "fleet run_claim = [r]" "r_id r = 1"
    and j: "j \<in> set (jobs (store run_claim))" "j_id j = 20"
    by (rule run_claim_parts) blast
  have "step {} default_settings run_claim (run_claim\<lparr>fleet := remove_runner 1 (fleet run_claim)\<rparr>)"
    by (rule step.crash)
  then have "step {} default_settings run_claim (run_claim\<lparr>fleet := []\<rparr>)"
    using f by (simp add: remove_runner_def)
  moreover have "row j_id 20 (jobs (store run_claim)) = Some j"
    using row_of_member [OF consistentD(2) [OF reachable_consistent [OF run_claim_reachable [of "{}"]]] j(1)] j(2)
    by simp
  ultimately show ?thesis
    using steps_follow_state_machine [OF run_claim_reachable] by blast
qed

text \<open>C6: A worker never has more executions in flight than its concurrency, and, unless the reply
  to a claim or a report is lost, every lease it holds belongs to an execution it has in flight,
  the very attempt the row counts: no job sits RUNNING at a living worker that is not running it.\<close>

theorem living_lease_is_executed:
  assumes "reachable H s \<sigma>" and "Lost_Reply \<notin> H" and "r \<in> set (fleet \<sigma>)"
  shows "int (length (r_inflight r)) \<le> max 0 (worker_concurrency s) \<and>
    (\<forall>j \<in> set (jobs (store \<sigma>)). j_status j = RUNNING \<and> j_locked_by j = Some (r_id r) \<longrightarrow>
       (\<exists>c \<in> set (r_inflight r). j_id c = j_id j \<and> j_attempt_count c = j_attempt_count j))"
  using reachable_fleet_ok [OF assms(1)] coveredD [OF reachable_covered [OF assms(1,2)] assms(3)] assms(3)
  by (auto simp: fleet_ok_def held_by_def)

theorem living_lease_is_executed_witness:
  "\<exists>r j. r \<in> set (fleet run_claim) \<and> j \<in> set (jobs (store run_claim)) \<and> held_by (r_id r) j \<and>
     (\<exists>c \<in> set (r_inflight r). j_id c = j_id j \<and> j_attempt_count c = j_attempt_count j)"
proof -
  obtain r j where r: "fleet run_claim = [r]" "r_id r = 1"
    and j: "j \<in> set (jobs (store run_claim))" "held_by 1 j"
    by (rule run_claim_parts) blast
  have mem: "r \<in> set (fleet run_claim)" by (simp add: r(1))
  have held: "j_status j = RUNNING \<and> j_locked_by j = Some (r_id r)"
    using j(2) r(2) by (simp add: held_by_def)
  have "\<exists>c \<in> set (r_inflight r). j_id c = j_id j \<and> j_attempt_count c = j_attempt_count j"
    using living_lease_is_executed [OF run_claim_reachable [of "{}"] _ mem] j(1) held by simp
  moreover have "held_by (r_id r) j" using j(2) r(2) by simp
  ultimately show ?thesis using mem j(1) by blast
qed

text \<open>C2: No job is ever given more attempts than its budget, and the dead-letter queue holds
  exactly the jobs that used theirs up, as long as no worker claims a job of which it still has
  an earlier execution in flight; crashes, lost replies and expired leases do not matter.\<close>

theorem attempts_within_budget:
  assumes "reachable H s \<sigma>" and "Self_Reclaim \<notin> H" and "j \<in> set (jobs (store \<sigma>))"
  shows "0 \<le> j_attempt_count j \<and> j_attempt_count j \<le> j_max_attempts j \<and>
    (j_status j = DEAD \<longrightarrow> j_attempt_count j = j_max_attempts j) \<and>
    (j_status j = PENDING \<longrightarrow> j_attempt_count j < j_max_attempts j)"
proof -
  have "job_checks j" by (rule checked [OF reachable_consistent [OF assms(1)] assms(3)])
  moreover have "budget_ok j"
    using reachable_budgeted [OF assms(1,2)] assms(3) by (simp add: budgeted_def)
  ultimately show ?thesis
    by (cases "j_status j") (simp_all add: budget_ok_def job_checks_def)
qed

theorem attempts_within_budget_witness:
  "\<exists>j \<in> set (jobs (store run_claim)). j_status j = RUNNING \<and> j_attempt_count j \<le> j_max_attempts j"
proof -
  obtain j where j: "j \<in> set (jobs (store run_claim))" "held_by 1 j"
    by (rule run_claim_parts) blast
  then show ?thesis
    using attempts_within_budget [OF run_claim_reachable [of "{}"] _ j(1)]
    by (intro bexI [of _ j]) (simp_all add: held_by_def)
qed

text \<open>C3: Under the same condition the audit log is exact in every reachable state: each running job
  has exactly one open row, the one of its current attempt and its current holder, a job that
  does not run has none, and no other row is open.\<close>

theorem audit_log_exact:
  assumes "reachable H s \<sigma>" and "Self_Reclaim \<notin> H"
  shows "(\<forall>j \<in> set (jobs (store \<sigma>)).
       count_where (\<lambda>a. a_job_id a = j_id j \<and> a_status a = A_RUNNING) (attempts (store \<sigma>)) =
         (if j_status j = RUNNING then 1 else 0)) \<and>
    (\<forall>a \<in> set (attempts (store \<sigma>)). a_status a = A_RUNNING \<longrightarrow>
       (\<exists>j \<in> set (jobs (store \<sigma>)). j_status j = RUNNING \<and> a_job_id a = j_id j \<and>
          a_attempt_number a = j_attempt_count j \<and> a_worker_id a = j_locked_by j))"
proof (intro conjI ballI impI)
  have exact: "log_exact (store \<sigma>)" using reachable_budgeted [OF assms] by blast
  show current: "\<exists>j \<in> set (jobs (store \<sigma>)). j_status j = RUNNING \<and> a_job_id a = j_id j \<and>
      a_attempt_number a = j_attempt_count j \<and> a_worker_id a = j_locked_by j"
    if "a \<in> set (attempts (store \<sigma>))" "a_status a = A_RUNNING" for a
    using exact that unfolding log_exact_def opened_def open_attempt_def by auto
  have c: "consistent (store \<sigma>)" by (rule reachable_consistent [OF assms(1)])
  fix j assume j: "j \<in> set (jobs (store \<sigma>))"
  have "(\<exists>a \<in> set (opened (store \<sigma>)). a_job_id a = j_id j) \<longleftrightarrow> j_status j = RUNNING"
  proof
    assume "\<exists>a \<in> set (opened (store \<sigma>)). a_job_id a = j_id j"
    then obtain a where a: "a \<in> set (attempts (store \<sigma>))" "a_status a = A_RUNNING" "a_job_id a = j_id j"
      by (auto simp: opened_def)
    obtain k where k: "k \<in> set (jobs (store \<sigma>))" "j_status k = RUNNING" "a_job_id a = j_id k"
      using current [OF a(1,2)] by blast
    then have "k = j" using unique_onD [OF consistentD(2) [OF c] _ j] a(3) by simp
    then show "j_status j = RUNNING" using k(2) by simp
  next
    assume "j_status j = RUNNING"
    then show "\<exists>a \<in> set (opened (store \<sigma>)). a_job_id a = j_id j"
      using consistentD(3) [OF c] j by (fastforce simp: audited_def has_open_attempt_def opened_def open_attempt_def)
  qed
  moreover have "distinct (map a_job_id (opened (store \<sigma>)))" using exact by (simp add: log_exact_def)
  ultimately show "count_where (\<lambda>a. a_job_id a = j_id j \<and> a_status a = A_RUNNING) (attempts (store \<sigma>)) =
      (if j_status j = RUNNING then 1 else 0)"
    using count_key_distinct [of a_job_id "opened (store \<sigma>)" "j_id j"]
    by (simp add: count_where_def opened_def filter_filter conj_commute)
qed

theorem audit_log_exact_witness:
  "\<exists>j \<in> set (jobs (store run_claim)). j_id j = 20 \<and>
     count_where (\<lambda>a. a_job_id a = 20 \<and> a_status a = A_RUNNING) (attempts (store run_claim)) = 1"
proof -
  obtain j where j: "j \<in> set (jobs (store run_claim))" "held_by 1 j" "j_id j = 20"
    by (rule run_claim_parts) blast
  then show ?thesis
    using audit_log_exact [OF run_claim_reachable [of "{}"], THEN conjunct1]
    by (intro bexI [of _ j]) (auto simp: held_by_def)
qed



subsection \<open>A report that is lost\<close>

text \<open>One round of upkeep: the worker beats, then some worker sweeps.\<close>

record upkeep =
  u_beat :: time
  u_got_lock :: bool
  u_sweep :: time
  u_draw :: "uuid \<Rightarrow> real"
  u_locked :: "uuid \<Rightarrow> bool"

definition upkeep_round :: "Settings \<Rightarrow> runner \<Rightarrow> upkeep \<Rightarrow> db \<Rightarrow> db" where
  "upkeep_round s r u d =
     reaper_tick s (u_got_lock u) (u_sweep u) (u_draw u) (u_locked u) (beat s (u_beat u) r d)"

lemma upkeep_round_held:
  assumes "consistent d" and "row j_id i (jobs d) = Some j" and "held_by (r_id r) j"
    and "u_sweep u \<le> u_beat u + lease_seconds s * 1000000"
  shows "consistent (upkeep_round s r u d) \<and>
    (\<exists>k. row j_id i (jobs (upkeep_round s r u d)) = Some k \<and> held_by (r_id r) k \<and>
       j_attempt_count k = j_attempt_count j)"
proof -
  let ?b = "snd (heartbeat (u_beat u) (r_id r) (lease_seconds s) d)"
  let ?k = "j\<lparr>j_lease_expires_at := Some (u_beat u + lease_seconds s * 1000000), j_updated_at := u_beat u\<rparr>"
  have c1: "consistent ?b" using beats.db_step [OF assms(1)] by (simp add: db_step_def)
  have u1: "unique_on j_id (jobs d)" by (rule consistentD(2) [OF assms(1)])
  have j: "j \<in> set (jobs d)" "j_id j = i" using row_SomeD [OF assms(2)] by auto
  have c2: "consistent (upkeep_round s r u d)"
    using sweeps.db_step [OF c1] by (simp add: upkeep_round_def reaper_tick_commit beat_def db_step_def)
  have beaten: "row j_id i (jobs ?b) = Some ?k"
    using heartbeat_then_sweep [OF u1 j(1) assms(3) refl assms(4), of False] j(2)
    by (simp add: reap_once_def)
  have "row j_id i (jobs (upkeep_round s r u d)) = Some ?k"
  proof (cases "reap_once (u_got_lock u) (u_sweep u) (u_draw u) (u_locked u) (worker_offline_after_seconds s) ?b")
    case (Inl e)
    then show ?thesis using beaten by (simp add: upkeep_round_def reaper_tick_def beat_def)
  next
    case (Inr res)
    then obtain n d2 where run: "reap_once (u_got_lock u) (u_sweep u) (u_draw u) (u_locked u)
        (worker_offline_after_seconds s) ?b = Inr (n, d2)" by (cases res) simp
    then show ?thesis
      using heartbeat_then_sweep [OF u1 j(1) assms(3) refl assms(4) run] j(2)
      by (simp add: upkeep_round_def reaper_tick_def beat_def)
  qed
  then show ?thesis using c2 assms(3) by (intro conjI exI [of _ ?k]) (simp_all add: held_by_def)
qed

text \<open>C17: A job whose report was lost is stranded for as long as its worker lives: if the worker's
  heartbeat comes before each sweep, within the lease, then however many rounds pass the row
  stays RUNNING, held by the worker and at the same attempt, whether or not any execution of it
  is in flight.  (The heartbeat renews every lease of the worker, not those of the jobs it is
  executing; the witness is a reachable state with such a job and an idle worker.)\<close>

theorem lost_report_strands_job:
  assumes "reachable H s \<sigma>" and "row j_id i (jobs (store \<sigma>)) = Some j" and "held_by (r_id r) j"
    and "\<forall>u \<in> set rounds. u_sweep u \<le> u_beat u + lease_seconds s * 1000000"
  shows "\<exists>k. row j_id i (jobs (fold (upkeep_round s r) rounds (store \<sigma>))) = Some k \<and>
    j_status k = RUNNING \<and> j_locked_by k = Some (r_id r) \<and> j_attempt_count k = j_attempt_count j"
proof -
  have "consistent d \<Longrightarrow> row j_id i (jobs d) = Some j' \<Longrightarrow> held_by (r_id r) j' \<Longrightarrow>
      j_attempt_count j' = j_attempt_count j \<Longrightarrow>
      \<exists>k. row j_id i (jobs (fold (upkeep_round s r) rounds d)) = Some k \<and> held_by (r_id r) k \<and>
        j_attempt_count k = j_attempt_count j" for d j'
    using assms(4)
  proof (induction rounds arbitrary: d j')
    case (Cons u us)
    then have "u_sweep u \<le> u_beat u + lease_seconds s * 1000000" by simp
    from upkeep_round_held [OF Cons.prems(1-3) this] obtain k
      where "consistent (upkeep_round s r u d)" "row j_id i (jobs (upkeep_round s r u d)) = Some k"
        "held_by (r_id r) k" "j_attempt_count k = j_attempt_count j"
      using Cons.prems(4) by auto
    from Cons.IH [OF this] show ?case using Cons.prems(5) by simp
  qed auto
  from this [OF reachable_consistent [OF assms(1)] assms(2,3) refl]
  show ?thesis by (auto simp: held_by_def)
qed

definition run_lost :: system where
  "run_lost = run_claim\<lparr>fleet := map (\<lambda>r. r\<lparr>r_inflight := []\<rparr>) (fleet run_claim)\<rparr>"

lemma run_lost_reachable: "reachable {Lost_Reply} default_settings run_lost"
proof -
  obtain r c where r: "fleet run_claim = [r]" "r_inflight r = [c]" by (rule run_claim_parts) blast
  have "step {Lost_Reply} default_settings run_claim
      (run_claim\<lparr>fleet := replace_runner (on_task_done c r) (fleet run_claim)\<rparr>)"
    by (rule step.report_lost) (simp_all add: r)
  moreover have "run_claim\<lparr>fleet := replace_runner (on_task_done c r) (fleet run_claim)\<rparr> = run_lost"
    by (simp add: run_lost_def r replace_runner_def update_where_def on_task_done_def)
  ultimately show ?thesis using reachable.step [OF run_claim_reachable] by simp
qed

theorem lost_report_strands_job_witness:
  "\<exists>r j k. fleet run_lost = [r] \<and> r_inflight r = [] \<and> row j_id 20 (jobs (store run_lost)) = Some j \<and>
     row j_id 20 (jobs (fold (upkeep_round default_settings r)
       (replicate 1000 \<lparr>u_beat = 10, u_got_lock = True, u_sweep = 20, u_draw = (\<lambda>_. 0), u_locked = (\<lambda>_. False)\<rparr>)
       (store run_lost))) = Some k \<and> j_status k = RUNNING"
proof -
  obtain r j where r: "fleet run_claim = [r]" "r_id r = 1"
    and j: "j \<in> set (jobs (store run_claim))" "held_by 1 j" "j_id j = 20"
    by (rule run_claim_parts) blast
  have f: "fleet run_lost = [r\<lparr>r_inflight := []\<rparr>]" "store run_lost = store run_claim"
    by (simp_all add: run_lost_def r)
  have row: "row j_id 20 (jobs (store run_lost)) = Some j"
    using row_of_member [OF consistentD(2) [OF reachable_consistent [OF run_claim_reachable [of "{}"]]] j(1)] j(3)
    by (simp add: f(2))
  have "held_by (r_id (r\<lparr>r_inflight := []\<rparr>)) j" using j(2) r(2) by simp
  from lost_report_strands_job [OF run_lost_reachable row this, of
      "replicate 1000 \<lparr>u_beat = 10, u_got_lock = True, u_sweep = 20, u_draw = (\<lambda>_. 0), u_locked = (\<lambda>_. False)\<rparr>"]
  show ?thesis using f(1) row by (auto simp: default_settings_def)
qed

subsection \<open>Shutdown\<close>

lemma release_all_untouched:
  "i \<notin> j_id ` set js \<Longrightarrow> row j_id i (jobs (release_all clock w js d)) = row j_id i (jobs d)"
  by (induction clock w js d rule: release_all.induct) (simp_all add: completion_other_rows)

lemma release_all_unheld:
  assumes "row j_id i (jobs d) = Some k" and "\<not> held_by w k"
  shows "row j_id i (jobs (release_all clock w js d)) = Some k"
  using assms
proof (induction js arbitrary: d)
  case (Cons c js)
  have "row j_id i (jobs (snd (release_job (clock (j_id c)) c w d))) = Some k"
  proof (cases "j_id c = i")
    case True
    show ?thesis
    proof (cases "holds w (j_id c) d")
      case True
      then show ?thesis
        using Cons.prems \<open>j_id c = i\<close> by (simp add: release_job_eq release_def released.by_id_self)
    next
      case False
      then show ?thesis using Cons.prems by (simp add: release_job_eq)
    qed
  next
    case False
    then show ?thesis using Cons.prems by (simp add: completion_other_rows)
  qed
  then show ?case using Cons by simp
qed simp

lemma release_all_held:
  assumes "row j_id i (jobs d) = Some k" and "held_by w k" and "i \<in> j_id ` set js"
  shows "row j_id i (jobs (release_all clock w js d)) =
    Some (k\<lparr>j_status := PENDING, j_attempt_count := j_attempt_count k - 1, j_run_at := clock i,
           j_locked_by := None, j_lease_expires_at := None, j_updated_at := clock i\<rparr>)"
  using assms
proof (induction js arbitrary: d)
  case (Cons c js)
  show ?case
  proof (cases "j_id c = i")
    case True
    then show ?thesis
      using release_job_row [of c d k w "clock i"] Cons.prems
      by (simp add: release_all_unheld held_by_def)
  next
    case False
    then show ?thesis using Cons by (simp add: completion_other_rows)
  qed
qed simp

lemma finish_shutdown_rows:
  assumes "reachable H s \<sigma>" and "Lost_Reply \<notin> H" and "r \<in> set (fleet \<sigma>)"
    and "finish_shutdown clock now r (store \<sigma>) = (r', d)" and r: "row j_id i (jobs (store \<sigma>)) = Some j"
  shows "row j_id i (jobs d) = Some (if j_locked_by j = Some (r_id r)
     then j\<lparr>j_status := PENDING, j_attempt_count := j_attempt_count j - 1, j_run_at := clock i,
            j_locked_by := None, j_lease_expires_at := None, j_updated_at := clock i\<rparr> else j)"
proof -
  have jobs: "jobs d = jobs (release_all clock (r_id r) (r_inflight r) (store \<sigma>))"
    using assms(4) by (auto simp: finish_shutdown_def set_worker_status_def set_status_def)
  show ?thesis
  proof (cases "j_locked_by j = Some (r_id r)")
    case True
    have j: "j \<in> set (jobs (store \<sigma>))" "j_id j = i" using row_SomeD [OF r] by auto
    have held: "held_by (r_id r) j"
      using consistentD(5) [OF reachable_consistent [OF assms(1)] j(1)] True by (simp add: lease_ok_def held_by_def)
    then have "\<exists>c \<in> set (r_inflight r). j_id c = i"
      using coveredD [OF reachable_covered [OF assms(1,2)] assms(3) j(1)] j(2) by blast
    then have "i \<in> j_id ` set (r_inflight r)" by blast
    then show ?thesis using release_all_held [OF r held] True by (simp add: jobs)
  next
    case False
    then have "\<not> held_by (r_id r) j" by (simp add: held_by_def)
    then show ?thesis using release_all_unheld [OF r] False by (simp add: jobs)
  qed
qed

lemma finish_shutdown_unheld:
  assumes "reachable H s \<sigma>" and "Lost_Reply \<notin> H" and "r \<in> set (fleet \<sigma>)"
    and "finish_shutdown clock now r (store \<sigma>) = (r', d)" and k: "k \<in> set (jobs d)"
  shows "j_locked_by k \<noteq> Some (r_id r)"
proof -
  let ?w = "r_id r"
  have jobs: "jobs d = jobs (release_all clock ?w (r_inflight r) (store \<sigma>))"
    using assms(4) by (auto simp: finish_shutdown_def set_worker_status_def set_status_def)
  have ids: "map j_id (jobs (release_all clock ?w js d0)) = map j_id (jobs d0)" for js d0
    by (induction clock ?w js d0 rule: release_all.induct)
      (simp_all add: release_job_eq release_def guarded_update_db map_update_where)
  have u: "unique_on j_id (jobs (store \<sigma>))" by (rule consistentD(2) [OF reachable_consistent [OF assms(1)]])
  have "j_id k \<in> j_id ` set (jobs (store \<sigma>))"
    using k arg_cong [OF ids [of "r_inflight r" "store \<sigma>"], of set] by (simp add: jobs) blast
  then obtain j where j: "j \<in> set (jobs (store \<sigma>))" "j_id j = j_id k" by auto
  have "row j_id (j_id k) (jobs (store \<sigma>)) = Some j" using row_of_member [OF u j(1)] j(2) by simp
  note finish_shutdown_rows [OF assms(1-4) this]
  moreover have "unique_on j_id (jobs d)"
    using u ids [of "r_inflight r" "store \<sigma>"] by (simp add: jobs unique_on_def)
  then have "row j_id (j_id k) (jobs d) = Some k" by (rule row_of_member [OF _ k])
  ultimately have k': "k = (if j_locked_by j = Some ?w
      then j\<lparr>j_status := PENDING, j_attempt_count := j_attempt_count j - 1, j_run_at := clock (j_id k),
             j_locked_by := None, j_lease_expires_at := None, j_updated_at := clock (j_id k)\<rparr> else j)" by simp
  show ?thesis by (subst k') simp
qed

text \<open>C16: A graceful shutdown gives everything back: unless a reply was lost, after the last step of
  the shutdown the worker holds no lease and has nothing in flight, and every job it was still
  running is PENDING and due, with the attempt refunded; no other row of a job changes.\<close>

theorem shutdown_gives_jobs_back:
  assumes "reachable H s \<sigma>" and "Lost_Reply \<notin> H" and "r \<in> set (fleet \<sigma>)"
    and "finish_shutdown clock now r (store \<sigma>) = (r', d)"
  shows "r_inflight r' = [] \<and> (\<forall>k \<in> set (jobs d). j_locked_by k \<noteq> Some (r_id r)) \<and>
    (\<forall>i j. row j_id i (jobs (store \<sigma>)) = Some j \<longrightarrow>
       row j_id i (jobs d) = Some (if j_locked_by j = Some (r_id r)
         then j\<lparr>j_status := PENDING, j_attempt_count := j_attempt_count j - 1, j_run_at := clock i,
                j_locked_by := None, j_lease_expires_at := None, j_updated_at := clock i\<rparr>
         else j))"
  using finish_shutdown_rows [OF assms] finish_shutdown_unheld [OF assms] assms(4)
  by (auto simp: finish_shutdown_def)

theorem shutdown_gives_jobs_back_witness:
  "\<exists>r d k. fleet run_claim = [r] \<and> snd (finish_shutdown (\<lambda>_. 9) 10 r (store run_claim)) = d \<and>
     row j_id 20 (jobs d) = Some k \<and> j_status k = PENDING \<and> j_run_at k = 9"
proof -
  obtain r j where r: "fleet run_claim = [r]" "r_id r = 1"
    and j: "j \<in> set (jobs (store run_claim))" "held_by 1 j" "j_id j = 20"
    by (rule run_claim_parts) blast
  have row: "row j_id 20 (jobs (store run_claim)) = Some j"
    using row_of_member [OF consistentD(2) [OF reachable_consistent [OF run_claim_reachable [of "{}"]]] j(1)] j(3)
    by simp
  have "r \<in> set (fleet run_claim)" by (simp add: r(1))
  from shutdown_gives_jobs_back [OF run_claim_reachable [of "{}"] _ this prod.collapse [symmetric]]
  have "row j_id 20 (jobs (snd (finish_shutdown (\<lambda>_. 9) 10 r (store run_claim)))) =
      Some (j\<lparr>j_status := PENDING, j_attempt_count := j_attempt_count j - 1, j_run_at := 9,
            j_locked_by := None, j_lease_expires_at := None, j_updated_at := 9\<rparr>)"
    using row j(2) r(2) by (simp add: held_by_def)
  then show ?thesis using r(1) by simp
qed

end
