(* ===== verification/Runner_Props.thy ===== *)
theory Runner_Props
  imports Runner Execution_Props
begin

section \<open>Properties of the execution of a job\<close>

text \<open>
  The verdict \<open>_execute\<close> reaches for a handler, and what becomes of a job through repeated
  rounds of claim, execution and report.
\<close>

subsection \<open>The verdict\<close>

lemma run_task_of:
  assumes "get_handler (j_task_name j) reg = Inr fn"
    and "took_seconds (fn (context_of j) (j_payload j)) \<le> real_of_int (j_timeout_seconds j)"
  shows "run_task F reg None j =
    (case ends_with (fn (context_of j) (j_payload j)) of
       Returns v \<Rightarrow> Succeeded v
     | Raises Timeout_Error \<Rightarrow> Timed_Out
     | Raises Cancelled_Error \<Rightarrow> Cancelled
     | Raises (Other_Error ty msg) \<Rightarrow> Failed (last_chars 4000 (F ty msg)))"
  using assms by (simp add: run_task_def Let_def split: handler_end.splits)

definition handler_ends :: "registry \<Rightarrow> job \<Rightarrow> handler_run \<Rightarrow> bool" where
  "handler_ends reg j run \<longleftrightarrow>
     (\<exists>fn. (j_task_name j, fn) \<in> set reg \<and> get_handler (j_task_name j) reg = Inr fn \<and>
        run = fn (context_of j) (j_payload j))"

definition before_cancellation :: "real option \<Rightarrow> real \<Rightarrow> bool" where
  "before_cancellation cancelled_after t = (case cancelled_after of None \<Rightarrow> True | Some c \<Rightarrow> t \<le> c)"

definition in_time :: "job \<Rightarrow> handler_run \<Rightarrow> bool" where
  "in_time j run \<longleftrightarrow> took_seconds run \<le> real_of_int (j_timeout_seconds j)"

text \<open>The verdict on an execution.  It has succeeded exactly if the task has a handler that
  returns within the timeout and before any shutdown cancels it.  It has timed out exactly if
  the deadline comes before the end of the handler and before any cancellation, or the handler
  itself raises a TimeoutError.  It has failed exactly if the task has no handler or the
  handler raises, in time, an exception of another type.\<close>

theorem execution_verdict:
  "(run_task F reg shut j = Succeeded v \<longleftrightarrow>
      (\<exists>run. handler_ends reg j run \<and> in_time j run \<and>
         before_cancellation shut (took_seconds run) \<and> ends_with run = Returns v)) \<and>
   (run_task F reg shut j = Timed_Out \<longleftrightarrow>
      (\<exists>run. handler_ends reg j run \<and>
         (\<not> in_time j run \<and> before_cancellation shut (real_of_int (j_timeout_seconds j)) \<or>
          in_time j run \<and> before_cancellation shut (took_seconds run) \<and>
          ends_with run = Raises Timeout_Error))) \<and>
   ((\<exists>err. run_task F reg shut j = Failed err) \<longleftrightarrow>
      j_task_name j \<notin> fst ` set reg \<or>
      (\<exists>run ty msg. handler_ends reg j run \<and> in_time j run \<and>
         before_cancellation shut (took_seconds run) \<and> ends_with run = Raises (Other_Error ty msg)))"
proof (cases "get_handler (j_task_name j) reg")
  case (Inl e)
  then have "j_task_name j \<notin> fst ` set reg"
    by (simp add: get_handler_def map_of_eq_None_iff split: option.splits)
  moreover have "\<not> handler_ends reg j run" for run using Inl by (simp add: handler_ends_def)
  ultimately show ?thesis using Inl by (simp add: run_task_def)
next
  case (Inr fn)
  then have mem: "(j_task_name j, fn) \<in> set reg"
    by (auto simp: get_handler_def dest: map_of_SomeD split: option.splits)
  then have known: "j_task_name j \<in> fst ` set reg" by force
  have run: "handler_ends reg j run \<longleftrightarrow> run = fn (context_of j) (j_payload j)" for run
    using Inr mem by (auto simp: handler_ends_def)
  obtain t e where fn: "fn (context_of j) (j_payload j) = \<lparr>took_seconds = t, ends_with = e\<rparr>"
    by (metis handler_run.cases)
  show ?thesis
    unfolding run run_task_def Inr sum.case fn Let_def in_time_def before_cancellation_def
    using known by (cases e; cases shut) (auto simp: min_def not_less split: raised.splits)
qed

theorem execution_verdict_witness:
  "run_task (\<lambda>ty msg. msg) [(''demo.echo'', echo_task)] None (sample_job 10 1) =
     Succeeded (Some (JObj [(''echo'', JStr ''hello, chronos'')]))"
proof -
  let ?j = "sample_job 10 1" and ?reg = "[(''demo.echo'', echo_task)]"
  have "handler_ends ?reg ?j (echo_task (context_of ?j) (j_payload ?j))"
    unfolding handler_ends_def by (rule exI [of _ echo_task]) (simp add: get_handler_def sample_job_def)
  then have "\<exists>run. handler_ends ?reg ?j run \<and> in_time ?j run \<and> before_cancellation None (took_seconds run) \<and>
      ends_with run = Returns (Some (JObj [(''echo'', JStr ''hello, chronos'')]))"
    by (intro exI [of _ "echo_task (context_of ?j) (j_payload ?j)"] conjI)
      (simp_all add: in_time_def before_cancellation_def echo_task_def payload_get_def sample_job_def)
  then show ?thesis
    using execution_verdict [of "\<lambda>ty msg. msg" ?reg None ?j "Some (JObj [(''echo'', JStr ''hello, chronos'')])"]
    by blast
qed

subsection \<open>Handlers that cancel themselves\<close>

text \<open>One attempt that runs to its end: a claim hands the job out, its worker executes it with no
  shutdown in sight, and reports.\<close>

definition attempt_round :: "(string \<Rightarrow> string \<Rightarrow> string) \<Rightarrow> registry \<Rightarrow> uuid \<Rightarrow> db \<Rightarrow> db \<Rightarrow> bool" where
  "attempt_round F reg i d d' \<longleftrightarrow>
     (\<exists>aid q limit js d1 c now u ok.
        claim_jobs aid q limit d = (js, d1) \<and> c \<in> set js \<and> j_id c = i \<and>
        report now u now None id (c_worker q) c (run_task F reg None c) d1 = Inr (ok, d'))"

definition cancels_itself :: "handler \<Rightarrow> bool" where
  "cancels_itself fn \<longleftrightarrow> (\<forall>ctx payload. took_seconds (fn ctx payload) \<le> 0 \<and>
     ends_with (fn ctx payload) = Raises Cancelled_Error)"

lemma claimed_row_is_copy:
  assumes "unique_on j_id (jobs d)" and "claim_jobs aid q limit d = (js, d1)" and "c \<in> set js"
    and "row j_id (j_id c) (jobs d) = Some j"
  shows "c = claim_values q j"
proof -
  obtain d0 where "claim_batch q limit d = (js, d0)" using claim_jobs_jobs [OF assms(2)] by blast
  from claimed_from_source [OF claim_batch_claimed(1) [OF assms(1) this] assms(3)]
  obtain k where k: "k \<in> set (jobs d)" "c = claim_values q k" by blast
  then have "row j_id (j_id c) (jobs d) = Some k"
    using row_of_member [OF assms(1) k(1)] by simp
  then show ?thesis using assms(4) k(2) by simp
qed

lemma attempt_round_row:
  assumes "unique_on j_id (jobs d)" and "attempt_round F reg i d d'" and "row j_id i (jobs d) = Some j"
    and "get_handler (j_task_name j) reg = Inr fn" and "cancels_itself fn" and "0 \<le> j_timeout_seconds j"
    and "lease_ok j"
  shows "unique_on j_id (jobs d') \<and>
    (\<exists>k. row j_id i (jobs d') = Some k \<and> j_status k = PENDING \<and> lease_ok k \<and> contract k = contract j \<and>
       j_attempt_count k = j_attempt_count j)"
proof -
  obtain aid q limit js d1 c now u ok where run: "claim_jobs aid q limit d = (js, d1)" "c \<in> set js" "j_id c = i"
      and rep: "report now u now None id (c_worker q) c (run_task F reg None c) d1 = Inr (ok, d')"
    using assms(2) unfolding attempt_round_def by blast
  have "i \<in> j_id ` set js" using run(2,3) by blast
  note cl = claim_jobs_row [OF assms(1) run(1) this assms(3)]
  have c: "c = claim_values q j"
    using claimed_row_is_copy [OF assms(1) run(1,2)] run(3) assms(3) by simp
  have "took_seconds (fn (context_of c) (j_payload c)) \<le> 0"
    and ends: "ends_with (fn (context_of c) (j_payload c)) = Raises Cancelled_Error"
    using assms(5) by (simp_all add: cancels_itself_def)
  then have "took_seconds (fn (context_of c) (j_payload c)) \<le> real_of_int (j_timeout_seconds c)"
    using assms(6) c by (simp add: claim_values_def)
  then have "run_task F reg None c = Cancelled"
    using run_task_of [of c reg fn F] assms(4) ends c by (simp add: claim_values_def)
  then have d': "d' = snd (release_job now c (c_worker q) d1)" using rep by (simp add: report_def)
  have "row j_id (j_id c) (jobs d1) = Some (claim_values q j)" using cl(2) run(3) by simp
  from release_undoes_claim [OF this assms(7) cl(3), of now]
  have row: "row j_id i (jobs d') = Some (j\<lparr>j_run_at := now, j_started_at := Some (c_now q), j_updated_at := now\<rparr>)"
    using run(3) d' by auto
  have "unique_on j_id (jobs d')"
    using cl(1) by (simp add: d' release_job_eq release_def guarded_update_db unique_on_def map_update_where)
  then show ?thesis
    using row cl(3) assms(7) by (simp add: lease_ok_def contract_def)
qed

text \<open>A task whose handler raises CancelledError never reaches the dead-letter queue: the worker
  takes it for its own shutdown and releases the job, so after any number of complete attempts
  the job is PENDING with the attempt count it had at the start.  (A poison job that kills its
  worker, by contrast, spends one attempt per round.)\<close>

theorem self_cancelled_job_never_dies:
  assumes "unique_on j_id (jobs d)" and "row j_id i (jobs d) = Some j" and "j_status j = PENDING"
    and "lease_ok j" and "0 \<le> j_timeout_seconds j"
    and "get_handler (j_task_name j) reg = Inr fn" and "cancels_itself fn"
    and "(attempt_round F reg i ^^ m) d d'"
  shows "\<exists>k. row j_id i (jobs d') = Some k \<and> j_status k = PENDING \<and> j_attempt_count k = j_attempt_count j"
proof -
  have "unique_on j_id (jobs d') \<and> (\<exists>k. row j_id i (jobs d') = Some k \<and> j_status k = PENDING \<and>
      lease_ok k \<and> contract k = contract j \<and> j_attempt_count k = j_attempt_count j)"
    using assms(8)
  proof (induction m arbitrary: d')
    case (Suc m)
    then obtain e where e: "(attempt_round F reg i ^^ m) d e" "attempt_round F reg i e d'" by auto
    from Suc.IH [OF e(1)] obtain k where u: "unique_on j_id (jobs e)"
      and k: "row j_id i (jobs e) = Some k" "lease_ok k" "contract k = contract j"
        "j_attempt_count k = j_attempt_count j" by blast
    have "j_task_name k = j_task_name j" "j_timeout_seconds k = j_timeout_seconds j"
      using k(3) by (simp_all add: contract_def)
    then show ?case using attempt_round_row [OF u e(2) k(1) _ assms(7) _ k(2)] assms(5,6) k(3,4) by auto
  qed (use assms in auto)
  then show ?thesis by blast
qed

definition sample_registry :: registry where
  "sample_registry = [(''demo.echo'', \<lambda>_ _. \<lparr>took_seconds = 0, ends_with = Raises Cancelled_Error\<rparr>)]"

theorem self_cancelled_job_never_dies_witness:
  "\<exists>d' k. (attempt_round (\<lambda>ty msg. msg) sample_registry 11 ^^ 1) (sample_exec_db 1) d' \<and>
     row j_id 11 (jobs d') = Some k \<and> j_status k = PENDING \<and> j_attempt_count k = 0"
proof -
  let ?F = "\<lambda>ty msg :: string. msg" and ?d = "sample_exec_db 1"
  let ?c = "claim_values sample_worker_request (sample_job 11 1)"
  let ?d1 = "snd (claim_jobs id sample_worker_request 5 ?d)"
  have row: "row j_id 11 (jobs ?d) = Some (sample_job 11 1)"
    by (simp add: sample_exec_db_def sample_defs)
  obtain c where c: "c \<in> set (fst (claim_jobs id sample_worker_request 5 ?d))" "j_id c = 11"
  proof -
    have "11 \<in> j_id ` set (fst (claim_jobs id sample_worker_request 5 ?d))" by code_simp
    then show ?thesis using that by auto
  qed
  then have "c = ?c"
    using claimed_row_is_copy [OF sample_exec_unique prod.collapse [symmetric] c(1)] row by simp
  moreover have "get_handler (j_task_name ?c) sample_registry =
      Inr (\<lambda>_ _. \<lparr>took_seconds = 0, ends_with = Raises Cancelled_Error\<rparr>)"
    by (simp add: get_handler_def sample_registry_def sample_job_def claim_values_def)
  ultimately have "run_task ?F sample_registry None c = Cancelled"
    by (simp add: run_task_of claim_values_def sample_job_def)
  then have "report 5000000 0 5000000 None id (c_worker sample_worker_request) c
      (run_task ?F sample_registry None c) ?d1 =
      Inr (release_job 5000000 c (c_worker sample_worker_request) ?d1)"
    by (simp add: report_def)
  then obtain ok d' where "report 5000000 0 5000000 None id (c_worker sample_worker_request) c
      (run_task ?F sample_registry None c) ?d1 = Inr (ok, d')"
    by (metis prod.collapse)
  then have "attempt_round ?F sample_registry 11 ?d d'"
    unfolding attempt_round_def using c prod.collapse [symmetric] by blast
  then have r: "(attempt_round ?F sample_registry 11 ^^ 1) ?d d'" by (simp only: relpowp_1)
  show ?thesis
    using self_cancelled_job_never_dies [OF sample_exec_unique row _ _ _ _ _ r] r
    by (auto simp: sample_job_def lease_ok_def get_handler_def sample_registry_def cancels_itself_def)
qed

end
