(* ===== verification/Routers.thy ===== *)
theory Routers
  imports Queue_Service Schedule_Service Access
begin

section \<open>The HTTP endpoints (app/api/routers)\<close>

text \<open>
  Each endpoint that reads or changes something of a tenant, as the status code of its
  answer and the database after it.  The handlers translate the service errors they catch;
  a ForbiddenError is answered with 403 by the application's exception handler, any other
  error that escapes ends as 500.  Bodies were validated before (422), the caller was
  authenticated before (401).  The row a service returns is validated once more when the
  answer is built: the payload of a job or of a schedule has to be a JSON object, and so has
  a result, or else the answer is 500, after the transaction has committed.
\<close>

definition is_object :: "json \<Rightarrow> bool" where
  "is_object v = (case v of JObj _ \<Rightarrow> True | _ \<Rightarrow> False)"

definition job_readable :: "job \<Rightarrow> bool" where
  "job_readable j \<longleftrightarrow>
     is_object (j_payload j) \<and>
     (case j_result j of None \<Rightarrow> True | Some JNull \<Rightarrow> True | Some v \<Rightarrow> is_object v)"

definition schedule_readable :: "schedule \<Rightarrow> bool" where
  "schedule_readable s \<longleftrightarrow> is_object (s_payload s)"

definition anything :: "'a \<Rightarrow> bool" where
  "anything _ \<longleftrightarrow> True"

definition not_found_only :: "service_error \<Rightarrow> nat option" where
  "not_found_only e = (case e of NotFoundError _ \<Rightarrow> Some 404 | _ \<Rightarrow> None)"

definition conflict_only :: "service_error \<Rightarrow> nat option" where
  "conflict_only e = (case e of ConflictError _ \<Rightarrow> Some 409 | _ \<Rightarrow> None)"

definition not_found_or_conflict :: "service_error \<Rightarrow> nat option" where
  "not_found_or_conflict e =
     (case e of NotFoundError _ \<Rightarrow> Some 404 | ConflictError _ \<Rightarrow> Some 409 | _ \<Rightarrow> None)"

definition uncaught :: "service_error \<Rightarrow> nat" where
  "uncaught e = (case e of ForbiddenError _ \<Rightarrow> 403 | _ \<Rightarrow> 500)"

definition status_of ::
  "(service_error \<Rightarrow> nat option) \<Rightarrow> nat \<Rightarrow> ('a \<Rightarrow> bool) \<Rightarrow> service_error + 'a \<Rightarrow> nat" where
  "status_of caught ok readable r =
     (case r of
        Inr x \<Rightarrow> if readable x then ok else 500
      | Inl e \<Rightarrow> (case caught e of Some code \<Rightarrow> code | None \<Rightarrow> uncaught e))"

definition respond ::
  "(service_error \<Rightarrow> nat option) \<Rightarrow> nat \<Rightarrow> ('a \<Rightarrow> bool) \<Rightarrow> (service_error + 'a) \<times> db \<Rightarrow> nat \<times> db" where
  "respond caught ok readable r = (status_of caught ok readable (fst r), snd r)"

text \<open>A page of rows is answered only if every row of it can be.\<close>

definition page_status :: "('a \<Rightarrow> bool) \<Rightarrow> 'a list \<times> nat \<Rightarrow> nat" where
  "page_status readable page = (if list_all readable (fst page) then 200 else 500)"

text \<open>A handler that starts with \<open>require_role(user, minimum)\<close>.\<close>

definition guarded :: "user \<Rightarrow> UserRole \<Rightarrow> db \<Rightarrow> nat \<times> db \<Rightarrow> nat \<times> db" where
  "guarded usr minimum d r =
     (case require_role usr minimum of Inl e \<Rightarrow> (uncaught e, d) | Inr _ \<Rightarrow> r)"

subsection \<open>routers/jobs.py\<close>

text \<open>The \<open>Idempotency-Key\<close> header fills in a key the body leaves out.\<close>

definition with_header :: "string option \<Rightarrow> JobCreate \<Rightarrow> JobCreate" where
  "with_header header data =
     (case header of
        None \<Rightarrow> data
      | Some h \<Rightarrow>
          if h \<noteq> '''' \<and> (jc_idempotency_key data = None \<or> jc_idempotency_key data = Some '''')
          then data\<lparr>jc_idempotency_key := Some h,
                    jc_fields_set := ''idempotency_key'' # jc_fields_set data\<rparr>
          else data)"

definition post_job ::
  "time \<Rightarrow> fresh_ids \<Rightarrow> (db \<Rightarrow> db) \<Rightarrow> (db \<Rightarrow> db) \<Rightarrow> user \<Rightarrow> string option \<Rightarrow> JobCreate \<Rightarrow> db \<Rightarrow> nat \<times> db" where
  "post_job now ids race_queue race_job usr header data d =
     guarded usr MEMBER d
       (case enqueue now ids race_queue race_job usr (with_header header data) d of
          (Inr (j, created), d1) \<Rightarrow> (if job_readable j then if created then 201 else 200 else 500, d1)
        | (Inl e, d1) \<Rightarrow> (status_of not_found_only 201 job_readable (Inl e), d1))"

definition post_batch ::
  "time \<Rightarrow> (nat \<Rightarrow> uuid) \<Rightarrow> (nat \<Rightarrow> uuid) \<Rightarrow> uuid \<Rightarrow> (db \<Rightarrow> db) \<Rightarrow> user \<Rightarrow> JobCreate list \<Rightarrow> db \<Rightarrow> nat \<times> db" where
  "post_batch now qid jid batch_id race usr items d =
     guarded usr MEMBER d
       (respond not_found_or_conflict 201 (\<lambda>(_, js). list_all job_readable js)
         (enqueue_batch now qid jid batch_id race usr items d))"

definition get_jobs ::
  "user \<Rightarrow> JobStatus option \<Rightarrow> string option \<Rightarrow> uuid option \<Rightarrow> nat \<Rightarrow> nat \<Rightarrow> db \<Rightarrow> nat" where
  "get_jobs usr status queue batch_id limit offset d =
     page_status job_readable (list_jobs (u_id usr) status queue batch_id limit offset d)"

definition get_one_job :: "user \<Rightarrow> uuid \<Rightarrow> db \<Rightarrow> nat \<times> db" where
  "get_one_job usr job_id d = (status_of not_found_only 200 job_readable (get_job (u_id usr) job_id d), d)"

definition get_attempts :: "user \<Rightarrow> uuid \<Rightarrow> db \<Rightarrow> nat \<times> db" where
  "get_attempts usr job_id d = (status_of not_found_only 200 anything (list_attempts (u_id usr) job_id d), d)"

definition post_cancel :: "time \<Rightarrow> user \<Rightarrow> uuid \<Rightarrow> db \<Rightarrow> nat \<times> db" where
  "post_cancel now usr job_id d =
     guarded usr MEMBER d (respond not_found_or_conflict 200 job_readable (cancel_job now (u_id usr) job_id d))"

definition post_requeue :: "time \<Rightarrow> user \<Rightarrow> uuid \<Rightarrow> db \<Rightarrow> nat \<times> db" where
  "post_requeue now usr job_id d =
     guarded usr MEMBER d (respond not_found_or_conflict 200 job_readable (requeue_job now (u_id usr) job_id d))"

definition get_dependencies :: "user \<Rightarrow> uuid \<Rightarrow> db \<Rightarrow> nat \<times> job_dependency list" where
  "get_dependencies usr job_id d =
     (case get_job (u_id usr) job_id d of
        Inl e \<Rightarrow> (status_of not_found_only 200 job_readable (Inl e), [])
      | Inr _ \<Rightarrow> (200, get_for_job job_id d))"

subsection \<open>routers/dlq.py\<close>

definition get_dlq :: "user \<Rightarrow> nat \<Rightarrow> nat \<Rightarrow> db \<Rightarrow> nat" where
  "get_dlq usr limit offset d =
     page_status job_readable (list_jobs (u_id usr) (Some DEAD) None None limit offset d)"

definition post_dlq_requeue :: "time \<Rightarrow> user \<Rightarrow> uuid \<Rightarrow> db \<Rightarrow> nat \<times> db" where
  "post_dlq_requeue now usr job_id d =
     respond not_found_or_conflict 200 job_readable (requeue_job now (u_id usr) job_id d)"

subsection \<open>routers/queues.py\<close>

definition post_queue :: "time \<Rightarrow> uuid \<Rightarrow> user \<Rightarrow> QueueCreate \<Rightarrow> db \<Rightarrow> nat \<times> db" where
  "post_queue now qid usr data d =
     guarded usr ADMIN d (respond not_found_or_conflict 201 anything (create_queue now qid usr data d))"

definition get_one_queue :: "user \<Rightarrow> uuid \<Rightarrow> db \<Rightarrow> nat \<times> db" where
  "get_one_queue usr queue_id d = (status_of not_found_only 200 anything (get_queue usr queue_id d), d)"

definition patch_queue :: "time \<Rightarrow> user \<Rightarrow> uuid \<Rightarrow> QueueUpdate \<Rightarrow> db \<Rightarrow> nat \<times> db" where
  "patch_queue now usr queue_id data d =
     guarded usr ADMIN d (respond not_found_only 200 anything (update_queue now usr queue_id data d))"

definition post_pause :: "time \<Rightarrow> user \<Rightarrow> uuid \<Rightarrow> db \<Rightarrow> nat \<times> db" where
  "post_pause now usr queue_id d =
     guarded usr ADMIN d (respond not_found_only 200 anything (set_paused now usr queue_id True d))"

definition post_resume :: "time \<Rightarrow> user \<Rightarrow> uuid \<Rightarrow> db \<Rightarrow> nat \<times> db" where
  "post_resume now usr queue_id d =
     guarded usr ADMIN d (respond not_found_only 200 anything (set_paused now usr queue_id False d))"

definition get_queue_stats :: "user \<Rightarrow> uuid \<Rightarrow> db \<Rightarrow> nat \<times> db" where
  "get_queue_stats usr queue_id d = (status_of not_found_only 200 anything (queue_stats usr queue_id d), d)"

subsection \<open>routers/schedules.py, routers/projects.py, routers/users.py\<close>

definition post_schedule ::
  "(string \<Rightarrow> time \<Rightarrow> time option) \<Rightarrow> time \<Rightarrow> uuid \<Rightarrow> uuid \<Rightarrow> (db \<Rightarrow> db) \<Rightarrow> user \<Rightarrow> ScheduleCreate \<Rightarrow> db
     \<Rightarrow> nat \<times> db" where
  "post_schedule cron_next now qid sid race usr data d =
     respond not_found_only 201 schedule_readable (create_schedule cron_next now qid sid race usr data d)"

definition get_schedules :: "user \<Rightarrow> nat \<Rightarrow> nat \<Rightarrow> db \<Rightarrow> nat" where
  "get_schedules usr limit offset d = page_status schedule_readable (list_schedules usr limit offset d)"

definition get_one_schedule :: "user \<Rightarrow> uuid \<Rightarrow> db \<Rightarrow> nat \<times> db" where
  "get_one_schedule usr schedule_id d = (status_of not_found_only 200 schedule_readable (get_schedule usr schedule_id d), d)"

definition patch_schedule ::
  "(string \<Rightarrow> time \<Rightarrow> time option) \<Rightarrow> time \<Rightarrow> user \<Rightarrow> uuid \<Rightarrow> ScheduleUpdate \<Rightarrow> db \<Rightarrow> nat \<times> db" where
  "patch_schedule cron_next now usr schedule_id data d =
     respond not_found_only 200 schedule_readable (update_schedule cron_next now usr schedule_id data d)"

definition delete_schedule_endpoint :: "user \<Rightarrow> uuid \<Rightarrow> db \<Rightarrow> nat \<times> db" where
  "delete_schedule_endpoint usr schedule_id d =
     respond not_found_only 204 anything (delete_schedule usr schedule_id d)"

definition get_org_endpoint :: "user \<Rightarrow> db \<Rightarrow> nat" where
  "get_org_endpoint usr d = status_of (\<lambda>_. None) 200 anything (get_organization usr d)"

definition post_project :: "time \<Rightarrow> uuid \<Rightarrow> user \<Rightarrow> string \<Rightarrow> db \<Rightarrow> nat \<times> db" where
  "post_project now pid usr nm d = respond conflict_only 201 anything (create_project now pid usr nm d)"

definition get_one_project :: "user \<Rightarrow> uuid \<Rightarrow> db \<Rightarrow> nat \<times> db" where
  "get_one_project usr project_id d = (status_of not_found_only 200 anything (get_project_of usr project_id d), d)"

definition get_users :: "user \<Rightarrow> db \<Rightarrow> nat" where
  "get_users usr d = status_of (\<lambda>_. None) 200 anything (list_users usr d)"

definition patch_user_role :: "user \<Rightarrow> uuid \<Rightarrow> UserRole \<Rightarrow> db \<Rightarrow> nat \<times> db" where
  "patch_user_role usr user_id role d = respond (\<lambda>_. None) 200 anything (change_role usr user_id role d)"

subsection \<open>What a role guard does\<close>

lemma guarded_forbidden: "privilege (u_role usr) < privilege m \<Longrightarrow> guarded usr m d r = (403, d)"
  by (rule require_role_cases [of usr m]) (simp_all add: guarded_def uncaught_def)

lemma guarded_allowed: "privilege m \<le> privilege (u_role usr) \<Longrightarrow> guarded usr m d r = r"
  using require_role_iff [of usr m] by (simp add: guarded_def)

end
