(* ===== verification/Router_Props.thy ===== *)
theory Router_Props
  imports Routers Schedule_Props
begin

section \<open>Properties of the HTTP endpoints\<close>

text \<open>
  What the role guards refuse, which endpoints have none, and a request that is answered
  with an error after it has been committed.
\<close>

subsection \<open>Role guards\<close>

text \<open>C35: The guarded endpoints enforce the hierarchy: a caller below MEMBER cannot submit, cancel or
  requeue through /jobs, one below ADMIN cannot create, change, pause or resume a queue, one
  below OWNER cannot change a role; each refusal is a 403 that leaves the database as it was.\<close>

theorem role_guards_refuse:
  "(privilege (u_role usr) < privilege MEMBER \<longrightarrow>
      post_job now ids race_queue race_job usr header data d = (403, d) \<and>
      post_batch now qid jid b race usr items d = (403, d) \<and>
      post_cancel now usr i d = (403, d) \<and> post_requeue now usr i d = (403, d)) \<and>
   (privilege (u_role usr) < privilege ADMIN \<longrightarrow>
      post_queue now q usr qdata d = (403, d) \<and> patch_queue now usr i qupdate d = (403, d) \<and>
      post_pause now usr i d = (403, d) \<and> post_resume now usr i d = (403, d)) \<and>
   (privilege (u_role usr) < privilege OWNER \<longrightarrow> patch_user_role usr i role d = (403, d))"
proof -
  have "patch_user_role usr i role d = (403, d)" if "privilege (u_role usr) < privilege OWNER"
  proof (cases rule: require_role_cases [of usr OWNER])
    case (forbidden t)
    then show ?thesis
      by (simp add: patch_user_role_def change_role_def respond_def status_of_def uncaught_def)
  qed (use that in simp)
  then show ?thesis
    by (simp add: post_job_def post_batch_def post_cancel_def post_requeue_def post_queue_def
        patch_queue_def post_pause_def post_resume_def guarded_forbidden)
qed

definition sample_viewer :: user where
  "sample_viewer = sample_user\<lparr>u_role := VIEWER\<rparr>"

theorem role_guards_refuse_witness:
  "post_requeue 5 sample_viewer 10 sample_tenant_db = (403, sample_tenant_db) \<and>
   post_pause 5 sample_viewer 1 sample_tenant_db = (403, sample_tenant_db) \<and>
   patch_user_role sample_viewer 9 OWNER sample_tenant_db = (403, sample_tenant_db)"
  using role_guards_refuse [of sample_viewer]
  by (simp add: sample_viewer_def sample_user_def privilege_def)

subsection \<open>Endpoints without a guard\<close>

definition sample_dead_db :: db where
  "sample_dead_db = sample_tenant_db\<lparr>jobs := [(sample_job 10 1)\<lparr>j_status := DEAD, j_attempt_count := 3\<rparr>],
     users := [sample_viewer]\<rparr>"

definition sample_schedule_create :: ScheduleCreate where
  "sample_schedule_create =
     \<lparr>sc_task_name = ''demo.echo'', sc_payload = JObj [], sc_cron_expr = ''* * * * *'',
      sc_queue = ''default'', sc_project_id = None, sc_priority = 0, sc_max_attempts = 3,
      sc_timeout_seconds = 300, sc_backoff_strategy = EXPONENTIAL, sc_backoff_base_seconds = 5,
      sc_backoff_factor = 2, sc_backoff_max_seconds = 300\<rparr>"

text \<open>The viewer role is not read-only: a VIEWER whom /jobs/{id}/requeue refuses with 403 requeues
  the same job through /dlq/{id}/requeue, and one who may not submit a job creates a schedule,
  whose next sweep submits a job for them.\<close>

theorem viewer_is_not_read_only:
  "\<exists>d d1 d2 d3 n. u_role sample_viewer = VIEWER \<and>
     post_requeue 5 sample_viewer 10 d = (403, d) \<and>
     post_dlq_requeue 5 sample_viewer 10 d = (200, d1) \<and>
     map j_status (jobs d) = [DEAD] \<and> map j_status (jobs d1) = [PENDING] \<and>
     post_job 5 sample_ids id id sample_viewer None (sample_create ''default'' None []) d = (403, d) \<and>
     post_schedule sample_cron 5 30 70 id sample_viewer sample_schedule_create d = (201, d2) \<and>
     materialize_schedules_once True sample_cron 60000000 (\<lambda>_. 20) (\<lambda>_. False) d2 = (Inr n, d3) \<and>
     map j_owner_id (jobs d3) = [7, u_id sample_viewer] \<and> map j_status (jobs d3) = [DEAD, PENDING]"
proof -
  let ?d = sample_dead_db
  let ?d1 = "snd (post_dlq_requeue 5 sample_viewer 10 ?d)"
  let ?s = "post_schedule sample_cron 5 30 70 id sample_viewer sample_schedule_create ?d"
  let ?m = "materialize_schedules_once True sample_cron 60000000 (\<lambda>_. 20) (\<lambda>_. False) (snd ?s)"
  have "privilege (u_role sample_viewer) < privilege MEMBER" by code_simp
  from guarded_forbidden [OF this]
  have "post_requeue 5 sample_viewer 10 ?d = (403, ?d)"
    and "post_job 5 sample_ids id id sample_viewer None (sample_create ''default'' None []) ?d = (403, ?d)"
    by (simp_all add: post_requeue_def post_job_def)
  moreover have "fst (post_dlq_requeue 5 sample_viewer 10 ?d) = 200" and "map j_status (jobs ?d1) = [PENDING]"
    and "map j_status (jobs ?d) = [DEAD]" and "u_role sample_viewer = VIEWER"
    by code_simp+
  moreover have "fst ?s = 201" by code_simp
  moreover have "(case fst ?m of Inr _ \<Rightarrow> True | Inl _ \<Rightarrow> False)" by code_simp
  then obtain n where "?m = (Inr n, snd ?m)" by (cases "fst ?m") (auto simp: prod_eq_iff)
  moreover have "map j_owner_id (jobs (snd ?m)) = [7, u_id sample_viewer]" by code_simp
  moreover have "map j_status (jobs (snd ?m)) = [DEAD, PENDING]" by code_simp
  ultimately show ?thesis by (metis prod.collapse)
qed

subsection \<open>Errors after the commit\<close>

definition sample_null_payload :: ScheduleUpdate where
  "sample_null_payload = \<lparr>su_cron_expr = None, su_paused = None, su_payload = Some None,
     su_priority = None, su_max_attempts = None, su_timeout_seconds = None\<rparr>"

text \<open>A null payload poisons a schedule: PATCH /schedules/{id} with an explicit null for the payload
  is answered with 500 although the change is committed, and from then on the schedule, every
  page of schedules with it and, after the next sweep, every page of jobs with a job it fired
  are answered with 500.\<close>

theorem null_payload_poisons_schedule:
  "\<exists>d1 d2 n. patch_schedule sample_cron 5 sample_user 70 sample_null_payload sample_schedule_db = (500, d1) \<and>
     map s_payload (schedules d1) = [JNull] \<and>
     fst (get_one_schedule sample_user 70 sample_schedule_db) = 200 \<and>
     fst (get_one_schedule sample_user 70 d1) = 500 \<and> get_schedules sample_user 50 0 d1 = 500 \<and>
     materialize_schedules_once True sample_cron 60000000 (\<lambda>_. 20) (\<lambda>_. False) d1 = (Inr n, d2) \<and>
     get_jobs sample_user None None None 50 0 d1 = 200 \<and> get_jobs sample_user None None None 50 0 d2 = 500"
proof -
  let ?p = "patch_schedule sample_cron 5 sample_user 70 sample_null_payload sample_schedule_db"
  let ?m = "materialize_schedules_once True sample_cron 60000000 (\<lambda>_. 20) (\<lambda>_. False) (snd ?p)"
  have "fst ?p = 500" by code_simp
  then have "?p = (500, snd ?p)" by (metis prod.collapse)
  moreover have "map s_payload (schedules (snd ?p)) = [JNull]" by code_simp
  moreover have "fst (get_one_schedule sample_user 70 sample_schedule_db) = 200" by code_simp
  moreover have "fst (get_one_schedule sample_user 70 (snd ?p)) = 500" by code_simp
  moreover have "get_schedules sample_user 50 0 (snd ?p) = 500" by code_simp
  moreover have "(case fst ?m of Inr _ \<Rightarrow> True | Inl _ \<Rightarrow> False)" by code_simp
  then obtain n where "?m = (Inr n, snd ?m)" by (cases "fst ?m") (auto simp: prod_eq_iff)
  moreover have "get_jobs sample_user None None None 50 0 (snd ?p) = 200" by code_simp
  moreover have "get_jobs sample_user None None None 50 0 (snd ?m) = 500" by code_simp
  ultimately show ?thesis by (intro exI [of _ "snd ?p"] exI [of _ "snd ?m"] exI [of _ n] conjI)
qed

end
