(* ===== verification/Events.thy ===== *)
theory Events
  imports Prelude
begin

section \<open>The event bus (app/events.py)\<close>

text \<open>
  Redis is outside the program: its state is of any type, and a command is a function from
  the state to an answer, \<open>None\<close> for an exception, and a new state.  Every operation of the bus
  is best effort: no exception leaves it.
\<close>

type_synonym ('r, 'a) command = "'r \<Rightarrow> 'a option \<times> 'r"

definition publish_wake :: "('r, 'a) command \<Rightarrow> 'r \<Rightarrow> 'r" where
  "publish_wake publish r = snd (publish r)"

text \<open>
  \<open>subscribed\<close> says whether the bus has a subscription.  The answer is whether a message woke
  the caller, the subscription it is left with and the seconds it sleeps in the end.
\<close>

definition wait_for_wake ::
  "('r, unit) command \<Rightarrow> (real \<Rightarrow> ('r, 'm option) command) \<Rightarrow> bool \<Rightarrow> real \<Rightarrow> 'r
     \<Rightarrow> (bool \<times> bool \<times> real) \<times> 'r" where
  "wait_for_wake subscribe get_message subscribed timeout r =
     (case (if subscribed then (Some (), r) else subscribe r) of
        (None, r1) \<Rightarrow> ((False, False, timeout), r1)
      | (Some _, r1) \<Rightarrow>
          (case get_message timeout r1 of
             (None, r2) \<Rightarrow> ((False, False, timeout), r2)
           | (Some message, r2) \<Rightarrow> ((message \<noteq> None, True, 0), r2)))"

definition get_cached :: "(string \<Rightarrow> ('r, string option) command) \<Rightarrow> string \<Rightarrow> 'r \<Rightarrow> string option \<times> 'r" where
  "get_cached get key r = (case get key r of (None, r1) \<Rightarrow> (None, r1) | (Some v, r1) \<Rightarrow> (v, r1))"

definition set_cached ::
  "(string \<Rightarrow> string \<Rightarrow> int \<Rightarrow> ('r, unit) command) \<Rightarrow> string \<Rightarrow> string \<Rightarrow> int \<Rightarrow> 'r \<Rightarrow> 'r" where
  "set_cached set_key key v ttl_seconds r = snd (set_key key v ttl_seconds r)"

definition ping :: "('r, bool) command \<Rightarrow> 'r \<Rightarrow> bool" where
  "ping ping_server r = (case fst (ping_server r) of None \<Rightarrow> False | Some b \<Rightarrow> b)"

subsection \<open>The rate limit\<close>

definition rate_key :: "string \<Rightarrow> string" where
  "rate_key key = ''chronos:ratelimit:'' @ key"

definition check_rate_limit ::
  "(string \<Rightarrow> ('r, int) command) \<Rightarrow> (string \<Rightarrow> int \<Rightarrow> ('r, bool) command)
     \<Rightarrow> string \<Rightarrow> int \<Rightarrow> int \<Rightarrow> 'r \<Rightarrow> bool \<times> 'r" where
  "check_rate_limit incr expire key limit window_seconds r =
     (case incr (rate_key key) r of
        (None, r1) \<Rightarrow> (True, r1)
      | (Some count, r1) \<Rightarrow>
          if count = 1
          then (case expire (rate_key key) window_seconds r1 of
                  (None, r2) \<Rightarrow> (True, r2)
                | (Some _, r2) \<Rightarrow> (count \<le> limit, r2))
          else (count \<le> limit, r1))"

text \<open>Calls for one key with anything happening to Redis before each of them.\<close>

fun rate_calls ::
  "(string \<Rightarrow> ('r, int) command) \<Rightarrow> (string \<Rightarrow> int \<Rightarrow> ('r, bool) command)
     \<Rightarrow> string \<Rightarrow> int \<Rightarrow> int \<Rightarrow> ('r \<Rightarrow> 'r) list \<Rightarrow> 'r \<Rightarrow> bool list" where
  "rate_calls incr expire key limit window_seconds [] r = []"
| "rate_calls incr expire key limit window_seconds (e # es) r =
     (let (ok, r1) = check_rate_limit incr expire key limit window_seconds (e r)
      in ok # rate_calls incr expire key limit window_seconds es r1)"

text \<open>
  What the documentation of Redis says of a counter: \<open>count\<close> is its value, 0 without the key,
  and \<open>volatile\<close> whether the key exists and has a time to live.  \<open>INCR\<close> adds one and keeps the
  time to live; a key without one stays until some command changes it.
\<close>

definition incr_counts ::
  "(string \<Rightarrow> ('r, int) command) \<Rightarrow> (string \<Rightarrow> 'r \<Rightarrow> int) \<Rightarrow> (string \<Rightarrow> 'r \<Rightarrow> bool) \<Rightarrow> bool" where
  "incr_counts incr count volatile \<longleftrightarrow>
     (\<forall>k r n r'. incr k r = (Some n, r') \<longrightarrow>
        n = count k r + 1 \<and> count k r' = n \<and> volatile k r' = volatile k r)"

definition spares :: "(string \<Rightarrow> 'r \<Rightarrow> int) \<Rightarrow> (string \<Rightarrow> 'r \<Rightarrow> bool) \<Rightarrow> string \<Rightarrow> ('r \<Rightarrow> 'r) \<Rightarrow> bool" where
  "spares count volatile k e \<longleftrightarrow>
     (\<forall>r. 1 \<le> count k r \<and> \<not> volatile k r \<longrightarrow> count k (e r) = count k r \<and> \<not> volatile k (e r))"

lemma rate_calls_persistent:
  assumes "incr_counts incr count volatile" and "\<forall>k r. fst (incr k r) \<noteq> None"
    and "\<forall>e \<in> set es. spares count volatile (rate_key key) e"
    and "1 \<le> count (rate_key key) r" and "\<not> volatile (rate_key key) r"
  shows "rate_calls incr expire key limit window es r =
    map (\<lambda>m. count (rate_key key) r + int m \<le> limit) [1..<length es + 1]"
  using assms(3-5)
proof (induction es arbitrary: r)
  case (Cons e es)
  let ?k = "rate_key key"
  obtain n r' where i: "incr ?k (e r) = (Some n, r')"
    using assms(2) by (metis option.exhaust prod.collapse)
  have e: "count ?k (e r) = count ?k r" "\<not> volatile ?k (e r)"
    using Cons.prems by (auto simp: spares_def)
  then have n: "n = count ?k r + 1" "count ?k r' = n" "\<not> volatile ?k r'"
    using assms(1) i unfolding incr_counts_def by metis+
  then have "check_rate_limit incr expire key limit window (e r) = (n \<le> limit, r')"
    using i Cons.prems(2) by (simp add: check_rate_limit_def)
  moreover have "rate_calls incr expire key limit window es r' =
      map (\<lambda>m. n + int m \<le> limit) [1..<length es + 1]"
    using Cons.IH [of r'] Cons.prems n by simp
  moreover have "[1..<length (e # es) + 1] = 1 # map Suc [1..<length es + 1]"
    by (simp add: map_Suc_upt upt_conv_Cons del: upt_Suc)
  ultimately show ?case using n(1) by (simp add: comp_def add.assoc)
qed simp

text \<open>One failed EXPIRE locks an address out for good: if the first attempt's counter was
  incremented but its time to live could not be set, then of all later attempts only the first
  \<open>limit - 1\<close> are let through, and every one after them is refused however much time passes,
  although the limit is meant to fail open and to count one window at a time.\<close>

theorem failed_expire_locks_out:
  assumes "incr_counts incr count volatile" and "\<forall>k r. fst (incr k r) \<noteq> None"
    and "count (rate_key key) r = 0" and "\<not> volatile (rate_key key) r"
    and "\<forall>r. expire (rate_key key) window r = (None, r)"
    and "\<forall>e \<in> set es. spares count volatile (rate_key key) e"
  shows "rate_calls incr expire key limit window ((\<lambda>r. r) # es) r =
    True # map (\<lambda>m. int m + 1 \<le> limit) [1..<length es + 1]"
proof -
  let ?k = "rate_key key"
  obtain n r' where i: "incr ?k r = (Some n, r')"
    using assms(2) by (metis option.exhaust prod.collapse)
  then have n: "n = 1" "count ?k r' = 1" "\<not> volatile ?k r'"
    using assms(1,3,4) unfolding incr_counts_def by (metis add_0)+
  then have "check_rate_limit incr expire key limit window r = (True, r')"
    using i assms(5) by (simp add: check_rate_limit_def)
  then show ?thesis
    using rate_calls_persistent [OF assms(1,2,6), of r'] n by (simp add: add.commute)
qed

text \<open>A Redis that knows counters: each has a value and perhaps a time to live.\<close>

type_synonym counters = "string \<Rightarrow> int \<times> int option"

definition sample_incr :: "string \<Rightarrow> (counters, int) command" where
  "sample_incr k r = (let n = fst (r k) + 1 in (Some n, r(k := (n, snd (r k)))))"

definition sample_tick :: "counters \<Rightarrow> counters" where
  "sample_tick r = (\<lambda>k. case r k of (n, None) \<Rightarrow> (n, None)
     | (n, Some t) \<Rightarrow> if t \<le> 60 then (0, None) else (n, Some (t - 60)))"

theorem failed_expire_locks_out_witness:
  "rate_calls sample_incr (\<lambda>k t r. (None, r)) ''login:ip'' 2 60 [\<lambda>r. r, sample_tick, sample_tick, sample_tick]
     (\<lambda>_. (0, None)) = [True, True, False, False]"
proof -
  have "incr_counts sample_incr (\<lambda>k r. fst (r k)) (\<lambda>k r. snd (r k) \<noteq> None)"
    by (auto simp: incr_counts_def sample_incr_def Let_def)
  moreover have "\<forall>k r. fst (sample_incr k r) \<noteq> None" by (simp add: sample_incr_def Let_def)
  moreover have "spares (\<lambda>k r. fst (r k)) (\<lambda>k r. snd (r k) \<noteq> None) (rate_key ''login:ip'') sample_tick"
    by (auto simp: spares_def sample_tick_def split: prod.splits option.splits)
  ultimately show ?thesis
    using failed_expire_locks_out [where incr = sample_incr and count = "\<lambda>k r. fst (r k)"
        and volatile = "\<lambda>k r. snd (r k) \<noteq> None" and key = "''login:ip''" and r = "\<lambda>_. (0, None)"
        and expire = "\<lambda>k t r. (None, r)" and window = 60 and limit = 2
        and es = "[sample_tick, sample_tick, sample_tick]"]
    by (simp add: upt_rec)
qed

end
