(* ===== verification/Session_Api.thy ===== *)
theory Session_Api
  imports Routers Events Config Worker_Repo
begin

section \<open>Sessions and probes (app/api/deps.py, routers auth, users, workers and health)\<close>

text \<open>
  The token library is a parameter: \<open>decode\<close> is \<open>decode_access_token\<close>, \<open>None\<close> where it raises,
  else the \<open>sub\<close> claim if there is one; \<open>parse_uuid\<close> is the constructor \<open>UUID\<close> of the standard
  library on a text, \<open>None\<close> where it raises.  The password hash and Redis are parameters as in
  the theories of the services.
\<close>

subsection \<open>app/api/deps.py\<close>

text \<open>\<open>None\<close> is the 401 answer.\<close>

definition get_current_user ::
  "(string \<Rightarrow> string option option) \<Rightarrow> (string \<Rightarrow> uuid option) \<Rightarrow> string \<Rightarrow> db \<Rightarrow> user option" where
  "get_current_user decode parse_uuid token d =
     (case decode token of
        None \<Rightarrow> None
      | Some None \<Rightarrow> None
      | Some (Some sub) \<Rightarrow>
          (case parse_uuid sub of
             None \<Rightarrow> None
           | Some user_id \<Rightarrow>
               (case get_user user_id d of Inl _ \<Rightarrow> None | Inr usr \<Rightarrow> Some usr)))"

text \<open>An endpoint that depends on \<open>CurrentUser\<close>.\<close>

definition authenticated ::
  "(string \<Rightarrow> string option option) \<Rightarrow> (string \<Rightarrow> uuid option) \<Rightarrow> string option
     \<Rightarrow> (user \<Rightarrow> db \<Rightarrow> nat \<times> db) \<Rightarrow> db \<Rightarrow> nat \<times> db" where
  "authenticated decode parse_uuid token endpoint d =
     (case token of
        None \<Rightarrow> (401, d)
      | Some t \<Rightarrow>
          (case get_current_user decode parse_uuid t d of
             None \<Rightarrow> (401, d)
           | Some usr \<Rightarrow> endpoint usr d))"

subsection \<open>app/api/routers/auth.py\<close>

definition register_request_valid :: "(string \<Rightarrow> bool) \<Rightarrow> string \<Rightarrow> string \<Rightarrow> bool" where
  "register_request_valid email_ok email password \<longleftrightarrow>
     email_ok email \<and> 8 \<le> length password \<and> length password \<le> 72"

definition post_register ::
  "(string \<Rightarrow> string) \<Rightarrow> time \<Rightarrow> uuid \<Rightarrow> uuid \<Rightarrow> uuid \<Rightarrow> (db \<Rightarrow> db) \<Rightarrow> (string \<Rightarrow> bool) \<Rightarrow> string \<Rightarrow> string
     \<Rightarrow> db \<Rightarrow> nat \<times> db" where
  "post_register hash_password now org_id pid uid race email_ok email password d =
     (if \<not> register_request_valid email_ok email password then (422, d)
      else case register hash_password now org_id pid uid race email password d of
             (Inr usr, d1) \<Rightarrow> (201, d1)
           | (Inl (EmailAlreadyRegisteredError _), d1) \<Rightarrow> (409, d1)
           | (Inl e, d1) \<Rightarrow> (uncaught e, d1))"

definition login_key :: "string option \<Rightarrow> string" where
  "login_key client = ''login:'' @ (case client of None \<Rightarrow> ''unknown'' | Some host \<Rightarrow> host)"

definition post_login ::
  "Settings \<Rightarrow> (string \<Rightarrow> ('r, int) command) \<Rightarrow> (string \<Rightarrow> int \<Rightarrow> ('r, bool) command)
     \<Rightarrow> (string \<Rightarrow> string \<Rightarrow> bool) \<Rightarrow> (uuid \<Rightarrow> string) \<Rightarrow> string option \<Rightarrow> string \<Rightarrow> string \<Rightarrow> db \<Rightarrow> 'r
     \<Rightarrow> (nat \<times> string option) \<times> 'r" where
  "post_login s incr expire verify_password create_token client username password d r =
     (let (allowed, r1) = check_rate_limit incr expire (login_key client) (login_rate_limit_per_minute s) 60 r
      in if \<not> allowed then ((429, None), r1)
         else case login verify_password create_token username password d of
                Inl (AuthenticationError _) \<Rightarrow> ((401, None), r1)
              | Inl e \<Rightarrow> ((uncaught e, None), r1)
              | Inr token \<Rightarrow> ((200, Some token), r1))"

subsection \<open>Workers, health\<close>

definition list_workers :: "db \<Rightarrow> worker list" where
  "list_workers d = list_all_workers 100 d"

text \<open>Only Postgres gates readiness; the answer also carries the two checks.\<close>

definition readyz :: "bool \<Rightarrow> ('r, bool) command \<Rightarrow> 'r \<Rightarrow> nat \<times> string \<times> bool \<times> bool" where
  "readyz postgres_answers ping_server r =
     (let redis = ping ping_server r
      in (if postgres_answers then 200 else 503,
          if postgres_answers then ''ready'' else ''degraded'', postgres_answers, redis))"

end
