(* ===== verification/Security.thy ===== *)
theory Security
  imports Config Py_Text
begin

section \<open>Passwords and tokens (app/core/security.py)\<close>

text \<open>
  bcrypt and PyJWT are parameters: \<open>hashpw\<close> takes a password and a salt, \<open>checkpw\<close> is \<open>None\<close>
  where it raises ValueError; \<open>jwt_encode\<close> takes the claims, the key and the algorithm, and
  \<open>jwt_decode\<close> the current time, a token, the key and the algorithms it accepts, and is \<open>None\<close>
  where it raises.  What the program relies on is their documented behaviour, stated below.
\<close>

definition hash_password :: "(string \<Rightarrow> string \<Rightarrow> string) \<Rightarrow> string \<Rightarrow> string \<Rightarrow> string" where
  "hash_password hashpw salt password = hashpw password salt"

definition verify_password :: "(string \<Rightarrow> string \<Rightarrow> bool option) \<Rightarrow> string \<Rightarrow> string \<Rightarrow> bool" where
  "verify_password checkpw password password_hash =
     (case checkpw password password_hash of None \<Rightarrow> False | Some ok \<Rightarrow> ok)"

text \<open>The claims of a token; \<open>sub\<close> may be missing from a token of another issuer.\<close>

record claims =
  tk_sub :: "string option"
  tk_iat :: time
  tk_exp :: time
  tk_jti :: string

definition create_access_token ::
  "Settings \<Rightarrow> (claims \<Rightarrow> string \<Rightarrow> string \<Rightarrow> string) \<Rightarrow> time \<Rightarrow> string \<Rightarrow> string \<Rightarrow> string" where
  "create_access_token s jwt_encode now jti subject =
     (let payload = \<lparr>tk_sub = Some subject, tk_iat = now,
                     tk_exp = now + access_token_ttl_minutes s * 60 * 1000000, tk_jti = jti\<rparr>
      in jwt_encode payload (jwt_secret s) (jwt_algorithm s))"

definition decode_access_token ::
  "Settings \<Rightarrow> (time \<Rightarrow> string \<Rightarrow> string \<Rightarrow> string list \<Rightarrow> claims option) \<Rightarrow> time \<Rightarrow> string \<Rightarrow> claims option" where
  "decode_access_token s jwt_decode now token = jwt_decode now token (jwt_secret s) [jwt_algorithm s]"

text \<open>The \<open>sub\<close> of a token, as \<open>get_current_user\<close> reads it.\<close>

definition subject_of ::
  "Settings \<Rightarrow> (time \<Rightarrow> string \<Rightarrow> string \<Rightarrow> string list \<Rightarrow> claims option) \<Rightarrow> time \<Rightarrow> string
     \<Rightarrow> string option option" where
  "subject_of s jwt_decode now token = map_option tk_sub (decode_access_token s jwt_decode now token)"

subsection \<open>The libraries\<close>

text \<open>Time claims are written as whole seconds; a token expires when its last second begins.\<close>

definition whole_seconds :: "time \<Rightarrow> time" where
  "whole_seconds t = t div 1000000 * 1000000"

definition jwt_library ::
  "(claims \<Rightarrow> string \<Rightarrow> string \<Rightarrow> string) \<Rightarrow> (time \<Rightarrow> string \<Rightarrow> string \<Rightarrow> string list \<Rightarrow> claims option) \<Rightarrow> bool" where
  "jwt_library jwt_encode jwt_decode \<longleftrightarrow>
     (\<forall>c key alg now.
        (tk_iat c \<le> now \<and> now < whole_seconds (tk_exp c) \<longrightarrow>
           jwt_decode now (jwt_encode c key alg) key [alg] =
             Some (c\<lparr>tk_iat := whole_seconds (tk_iat c), tk_exp := whole_seconds (tk_exp c)\<rparr>)) \<and>
        (whole_seconds (tk_exp c) \<le> now \<longrightarrow> jwt_decode now (jwt_encode c key alg) key [alg] = None) \<and>
        (\<forall>other. other \<noteq> key \<longrightarrow> jwt_decode now (jwt_encode c key alg) other [alg] = None))"

definition bcrypt_library :: "(string \<Rightarrow> string \<Rightarrow> string) \<Rightarrow> (string \<Rightarrow> string \<Rightarrow> bool option) \<Rightarrow> bool" where
  "bcrypt_library hashpw checkpw \<longleftrightarrow> (\<forall>password salt. checkpw password (hashpw password salt) = Some True)"

subsection \<open>The life of a token\<close>

text \<open>\<open>AuthService.login\<close> issues the token of an account for \<open>str(user.id)\<close>.\<close>

definition session_token ::
  "Settings \<Rightarrow> (claims \<Rightarrow> string \<Rightarrow> string \<Rightarrow> string) \<Rightarrow> time \<Rightarrow> string \<Rightarrow> uuid \<Rightarrow> string" where
  "session_token s jwt_encode now jti user_id = create_access_token s jwt_encode now jti (str_uuid user_id)"

definition session_end :: "Settings \<Rightarrow> time \<Rightarrow> time" where
  "session_end s now = whole_seconds (now + access_token_ttl_minutes s * 60 * 1000000)"

lemmas token_defs = session_token_def session_end_def subject_of_def decode_access_token_def
  create_access_token_def Let_def

lemma live_token:
  assumes "jwt_library jwt_encode jwt_decode" and "now \<le> t"
    and "t < session_end s now"
  shows "subject_of s jwt_decode t (session_token s jwt_encode now jti i) = Some (Some (str_uuid i))"
  using assms unfolding jwt_library_def token_defs by simp

lemma dead_token:
  assumes "jwt_library jwt_encode jwt_decode"
    and "session_end s now \<le> t"
  shows "subject_of s jwt_decode t (session_token s jwt_encode now jti i) = None"
  using assms unfolding jwt_library_def token_defs by simp

lemma foreign_token:
  assumes "jwt_library jwt_encode jwt_decode" and "jwt_secret s' \<noteq> jwt_secret s"
    and "jwt_algorithm s' = jwt_algorithm s"
  shows "subject_of s' jwt_decode t (session_token s jwt_encode now jti i) = None"
  using assms unfolding jwt_library_def token_defs by simp

end
