(* ===== verification/Session_Props.thy ===== *)
theory Session_Props
  imports Session_Api Security Router_Props
begin

section \<open>Properties of accounts and sessions\<close>

text \<open>
  A registered account can sign in and is recognised by its token; a token is only ever
  answered with the account it was issued for.
\<close>

lemma find_appended: "(\<forall>x \<in> set xs. \<not> P x) \<Longrightarrow> P y \<Longrightarrow> List.find P (xs @ [y]) = Some y"
  by (induction xs) auto

lemma register_inserts:
  assumes "register hash now oi pid uid race email pw d = (Inr usr, d')"
  shows "u_id usr = uid \<and> u_email usr = normalize_email email \<and> u_password_hash usr = hash pw \<and>
    u_role usr = OWNER \<and>
    (\<exists>us. users d' = us @ [usr] \<and> (\<forall>x \<in> set us. u_id x \<noteq> uid) \<and>
       (\<forall>x \<in> set us. u_email x \<noteq> normalize_email email))"
proof -
  obtain d1 d2 where i: "insert_organization \<lparr>o_id = oi, o_name = normalize_email email, o_created_at = now\<rparr> d = Inr d1"
      and u: "usr = \<lparr>u_id = uid, u_org_id = oi, u_email = normalize_email email,
        u_password_hash = hash pw, u_role = OWNER, u_created_at = now\<rparr>"
      and p: "insert_project \<lparr>p_id = pid, p_org_id = oi, p_name = ''default'', p_created_at = now\<rparr> (race d1) = Inr d2"
      and d': "insert_user usr d2 = Inr d'"
    using assms by (auto simp: register_def Let_def split: sum.splits)
  have "users d' = users d2 @ [usr] \<and> (\<forall>x \<in> set (users d2). u_id x \<noteq> uid) \<and>
      (\<forall>x \<in> set (users d2). u_email x \<noteq> normalize_email email)"
    using d' by (auto simp: u insert_user_def image_iff split: if_splits)
  then have "\<exists>us. users d' = us @ [usr] \<and> (\<forall>x \<in> set us. u_id x \<noteq> uid) \<and>
      (\<forall>x \<in> set us. u_email x \<noteq> normalize_email email)" by (rule exI)
  then show ?thesis by (simp add: u)
qed

text \<open>Registration and sign-in fit together: an account that was registered signs in with any
  spelling of its address that normalises to the same text, the token is its own, and the token
  authenticates requests as that account, the owner of its organization; a password the hash
  does not accept is answered with no token.\<close>

theorem registered_user_signs_in:
  assumes "register hash now oi pid uid race email pw d = (Inr usr, d')"
    and "normalize_email email' = normalize_email email"
    and "verify pw (hash pw)"
    and "\<not> verify wrong (hash pw)"
    and "decode (create_token uid) = Some (Some (str_uuid uid))"
    and "parse_uuid (str_uuid uid) = Some uid"
  shows "login verify create_token email' pw d' = Inr (create_token uid) \<and>
    get_current_user decode parse_uuid (create_token uid) d' = Some usr \<and> u_role usr = OWNER \<and>
    login verify create_token email' wrong d' = Inl (AuthenticationError ''invalid email or password'')"
proof -
  note r = register_inserts [OF assms(1)]
  then obtain us where d1: "users d' = us @ [usr]" "\<forall>x \<in> set us. u_id x \<noteq> uid"
      "\<forall>x \<in> set us. u_email x \<noteq> normalize_email email" by blast
  have "get_by_email (normalize_email email') d' = Some usr"
    unfolding get_by_email_def d1(1) assms(2) using d1(3) r by (intro find_appended) simp_all
  moreover have "get_user_row uid d' = Some usr"
    unfolding get_user_row_def d1(1) using d1(2) r by (intro find_appended) simp_all
  ultimately show ?thesis
    using r assms(3-6)
    by (simp add: login_def get_current_user_def get_user_def require_def)
qed

definition sample_hash :: "string \<Rightarrow> string" where
  "sample_hash pw = ''#'' @ pw"

theorem registered_user_signs_in_witness:
  "\<exists>usr d'. register sample_hash 0 2 3 7 id '' Ann@x '' ''secret12'' empty_db = (Inr usr, d') \<and>
     login (\<lambda>pw h. h = sample_hash pw) str_uuid ''ann@X'' ''secret12'' d' = Inr (str_uuid 7) \<and>
     get_current_user (\<lambda>t. Some (Some t)) (\<lambda>s. if s = str_uuid 7 then Some 7 else None) (str_uuid 7) d' = Some usr"
proof -
  have "(case fst (register sample_hash 0 2 3 7 id '' Ann@x '' ''secret12'' empty_db) of Inr _ \<Rightarrow> True | Inl _ \<Rightarrow> False)"
    by code_simp
  then obtain usr d' where r: "register sample_hash 0 2 3 7 id '' Ann@x '' ''secret12'' empty_db = (Inr usr, d')"
    by (metis prod.collapse sum.case_eq_if sum.collapse(2) sum.disc_eq_case(1))
  have n: "normalize_email ''ann@X'' = normalize_email '' Ann@x ''" by code_simp
  from registered_user_signs_in [OF r n, where verify = "\<lambda>pw h. h = sample_hash pw"
      and wrong = "''''" and create_token = str_uuid and decode = "\<lambda>t. Some (Some t)"
      and parse_uuid = "\<lambda>s. if s = str_uuid 7 then Some 7 else None"]
  show ?thesis using r by (simp add: sample_hash_def)
qed

subsection \<open>The life of a session\<close>

text \<open>C37: A session lasts exactly its time to live: an account that was registered signs in with any
  spelling of its address that normalises to the same text, and from that moment until the
  last whole second of the configured minutes the token stands for the row that then has the
  account's identifier, whatever happened to the database in between (a changed role counts at
  once, a deleted account is refused); afterwards, and at any time on a server with another
  secret, it is answered with 401, and a password bcrypt does not accept never gets a token.\<close>

theorem session_lasts_its_ttl:
  assumes "register (hash_password hashpw salt) now oi pid uid race email pw d = (Inr usr, d1)"
    and "normalize_email email' = normalize_email email"
    and "bcrypt_library hashpw checkpw" and "jwt_library jwt_encode jwt_decode"
    and "checkpw wrong (hashpw pw salt) \<noteq> Some True"
    and "parse_uuid (str_uuid uid) = Some uid"
    and "jwt_secret s' \<noteq> jwt_secret s" and "jwt_algorithm s' = jwt_algorithm s"
  shows "login (verify_password checkpw) (session_token s jwt_encode t0 jti) email' pw d1 =
      Inr (session_token s jwt_encode t0 jti uid) \<and>
    get_user_row uid d1 = Some usr \<and>
    (t0 \<le> t \<and> t < session_end s t0 \<longrightarrow>
       get_current_user (subject_of s jwt_decode t) parse_uuid (session_token s jwt_encode t0 jti uid) d2 =
         get_user_row uid d2) \<and>
    (session_end s t0 \<le> t \<longrightarrow>
       get_current_user (subject_of s jwt_decode t) parse_uuid (session_token s jwt_encode t0 jti uid) d2 = None) \<and>
    get_current_user (subject_of s' jwt_decode t) parse_uuid (session_token s jwt_encode t0 jti uid) d2 = None \<and>
    login (verify_password checkpw) (session_token s jwt_encode t0 jti) email' wrong d1 =
      Inl (AuthenticationError ''invalid email or password'')"
proof -
  have right: "verify_password checkpw pw (hash_password hashpw salt pw)"
    using assms(3) by (simp add: bcrypt_library_def verify_password_def hash_password_def)
  have wrong: "\<not> verify_password checkpw wrong (hash_password hashpw salt pw)"
    using assms(5) by (auto simp: verify_password_def hash_password_def split: option.splits)
  have signs_in: "login (verify_password checkpw) (session_token s jwt_encode t0 jti) email' pw d1 =
        Inr (session_token s jwt_encode t0 jti uid) \<and>
      get_current_user (\<lambda>_. Some (Some (str_uuid uid))) parse_uuid (session_token s jwt_encode t0 jti uid) d1 =
        Some usr \<and> u_role usr = OWNER \<and>
      login (verify_password checkpw) (session_token s jwt_encode t0 jti) email' wrong d1 =
        Inl (AuthenticationError ''invalid email or password'')"
    by (rule registered_user_signs_in [where hash = "hash_password hashpw salt" and pw = pw])
      (rule assms(1) assms(2) right wrong refl assms(6))+
  have row: "get_user_row uid d1 = Some usr"
    using signs_in by (auto simp: get_current_user_def get_user_def require_def assms(6) split: sum.splits option.splits)
  have found: "get_current_user dec parse_uuid tok d2 = get_user_row uid d2" if "dec tok = Some (Some (str_uuid uid))" for dec tok
    using that assms(6) by (simp add: get_current_user_def get_user_def require_def split: option.split)
  have refused: "get_current_user dec parse_uuid tok d2 = None" if "dec tok = None" for dec tok
    using that by (simp add: get_current_user_def)
  show ?thesis
    using signs_in row found [of "subject_of s jwt_decode t", OF live_token [OF assms(4), of t0 t s jti uid]]
      refused [of "subject_of s jwt_decode t", OF dead_token [OF assms(4), of s t0 t jti uid]]
      refused [of "subject_of s' jwt_decode t", OF foreign_token [OF assms(4,7,8), of t t0 jti uid]]
    by blast
qed

text \<open>A token library: the fields of a token one after the other, with their lengths.\<close>

definition write_nat :: "nat \<Rightarrow> string" where
  "write_nat n = replicate n (CHR ''1'') @ ''0''"

definition read_nat :: "string \<Rightarrow> nat \<times> string" where
  "read_nat xs = (let n = length (takeWhile (\<lambda>c. c = CHR ''1'') xs) in (n, drop (Suc n) xs))"

definition write_text :: "string \<Rightarrow> string" where
  "write_text s = write_nat (length s) @ s"

definition read_text :: "string \<Rightarrow> string \<times> string" where
  "read_text xs = (case read_nat xs of (n, r) \<Rightarrow> (take n r, drop n r))"

definition write_int :: "int \<Rightarrow> string" where
  "write_int i = write_nat (nat (if 0 \<le> i then i else 0)) @ write_nat (nat (if 0 \<le> i then 0 else - i))"

definition read_int :: "string \<Rightarrow> int \<times> string" where
  "read_int xs = (case read_nat xs of (n, r) \<Rightarrow> (case read_nat r of (m, r') \<Rightarrow> (int n - int m, r')))"

lemma read_write_nat [simp]: "read_nat (write_nat n @ r) = (n, r)"
proof -
  have "takeWhile (\<lambda>c. c = CHR ''1'') (replicate n (CHR ''1'') @ CHR ''0'' # r) = replicate n (CHR ''1'')"
    by (induction n) simp_all
  then show ?thesis by (simp add: read_nat_def write_nat_def)
qed

lemma read_write_text [simp]: "read_text (write_text s @ r) = (s, r)"
  by (simp add: read_text_def write_text_def)

lemma read_write_int [simp]: "read_int (write_int i @ r) = (i, r)"
  by (simp add: read_int_def write_int_def)

definition sample_encode :: "claims \<Rightarrow> string \<Rightarrow> string \<Rightarrow> string" where
  "sample_encode c key alg = write_text key @ write_text alg @ write_int (whole_seconds (tk_iat c))
     @ write_int (whole_seconds (tk_exp c)) @ write_text (tk_jti c)
     @ (case tk_sub c of None \<Rightarrow> '''' | Some i \<Rightarrow> ''+'' @ i)"

definition sample_decode :: "time \<Rightarrow> string \<Rightarrow> string \<Rightarrow> string list \<Rightarrow> claims option" where
  "sample_decode now token key algs =
     (case read_text token of (k, r1) \<Rightarrow> (case read_text r1 of (alg, r2) \<Rightarrow>
        (case read_int r2 of (iat, r3) \<Rightarrow> (case read_int r3 of (expires, r4) \<Rightarrow>
        (case read_text r4 of (jti, r5) \<Rightarrow>
           if k = key \<and> alg \<in> set algs \<and> now < expires
           then Some \<lparr>tk_sub = (case r5 of [] \<Rightarrow> None | _ # i \<Rightarrow> Some i), tk_iat = iat, tk_exp = expires, tk_jti = jti\<rparr>
           else None)))))"

lemma sample_jwt_library: "jwt_library sample_encode sample_decode"
  by (auto simp: jwt_library_def sample_encode_def sample_decode_def split: option.split)

theorem session_lasts_its_ttl_witness:
  "\<exists>usr d1. register (hash_password (\<lambda>pw salt. salt @ pw) ''#'') 0 2 3 7 id '' Ann@x '' ''secret12'' empty_db = (Inr usr, d1) \<and>
     get_current_user (subject_of default_settings sample_decode 60000000)
       (\<lambda>t. if t = str_uuid 7 then Some 7 else None)
       (session_token default_settings sample_encode 0 ''j'' 7) d1 = Some usr \<and>
     get_current_user (subject_of default_settings sample_decode 86400000000)
       (\<lambda>t. if t = str_uuid 7 then Some 7 else None)
       (session_token default_settings sample_encode 0 ''j'' 7) d1 = None"
proof -
  let ?hashpw = "\<lambda>pw salt :: string. salt @ pw"
    and ?checkpw = "\<lambda>pw h :: string. Some (drop (length h - length pw) h = pw)"
  let ?other = "default_settings\<lparr>jwt_secret := ''other''\<rparr>"
  have "\<not> isl (fst (register (hash_password ?hashpw ''#'') 0 2 3 7 id '' Ann@x '' ''secret12'' empty_db))"
    by code_simp
  then obtain usr d1 where r: "register (hash_password ?hashpw ''#'') 0 2 3 7 id '' Ann@x '' ''secret12'' empty_db = (Inr usr, d1)"
    by (metis prod.collapse sum.collapse(2))
  have n: "normalize_email ''ann@X'' = normalize_email '' Ann@x ''" by code_simp
  have b: "bcrypt_library ?hashpw ?checkpw" by (simp add: bcrypt_library_def)
  have w: "?checkpw ''x'' (?hashpw ''secret12'' ''#'') \<noteq> Some True" by simp
  have s: "jwt_secret ?other \<noteq> jwt_secret default_settings" "jwt_algorithm ?other = jwt_algorithm default_settings"
    by (simp_all add: default_settings_def DEFAULT_JWT_SECRET_def)
  have ttl: "session_end default_settings 0 = 86400000000"
    by (simp add: default_settings_def session_end_def whole_seconds_def)
  note session = session_lasts_its_ttl [OF r n b sample_jwt_library w _ s,
      where parse_uuid = "\<lambda>t. if t = str_uuid 7 then Some 7 else None" and ?t0.0 = 0 and jti = "''j''" and ?d2.0 = d1,
      unfolded ttl]
  show ?thesis using r session [of 60000000] session [of 86400000000] by auto
qed

end
