(* ===== verification/Failure_Pipeline.thy ===== *)
theory Failure_Pipeline
  imports Events Py_Text Config "HOL-Library.Sublist"
begin

section \<open>Failure analysis (app/services/failure_pipeline.py, ai_summary_service.py)\<close>

text \<open>
  The language model is a parameter: a function of a state of its own, the system prompt and
  the user prompt to a response, \<open>None\<close> for an exception.  The graph library runs a node,
  merges what it returns into the state and follows the edge to the next node.  Texts are
  their UTF-8 bytes; the cut of the error at 2000 characters is exact for ASCII errors.
\<close>

subsection \<open>Messages\<close>

datatype part = DictPart "string option" | OtherPart string

datatype content = Plain string | Parts "part list"

type_synonym 'l llm = "'l \<Rightarrow> string \<Rightarrow> string \<Rightarrow> content option \<times> 'l"

fun join :: "string \<Rightarrow> string list \<Rightarrow> string" where
  "join sep [] = ''''"
| "join sep [x] = x"
| "join sep (x # xs) = x @ sep @ join sep xs"

fun part_text :: "part \<Rightarrow> string" where
  "part_text (DictPart t) = (case t of None \<Rightarrow> '''' | Some s \<Rightarrow> s)"
| "part_text (OtherPart s) = s"

fun text_of :: "content \<Rightarrow> string" where
  "text_of (Plain s) = py_strip s"
| "text_of (Parts ps) = py_strip (join '' '' (map part_text ps))"

definition ask :: "'l llm \<Rightarrow> string \<Rightarrow> string \<Rightarrow> 'l \<Rightarrow> string option \<times> 'l" where
  "ask llm system user l =
     (case llm l system user of (None, l1) \<Rightarrow> (None, l1) | (Some c, l1) \<Rightarrow> (Some (text_of c), l1))"

definition em_dash :: string where
  "em_dash = [CHR 0xE2, CHR 0x80, CHR 0x94]"

definition newline :: string where
  "newline = [CHR 0x0A]"

definition categories :: "string list" where
  "categories = [''transient'', ''permanent'', ''code'', ''config'']"

definition TRIAGE_PROMPT :: string where
  "TRIAGE_PROMPT =
     ''You are a triage agent for a distributed job scheduler. Classify the ''
     @ ''failure into exactly one category:'' @ newline
     @ ''- transient: network blips, timeouts, connection resets, dependency ''
     @ ''5xx '' @ em_dash @ '' likely to succeed on requeue'' @ newline
     @ ''- permanent: the input or external state makes success impossible'' @ newline
     @ ''- code: a bug in the task handler (TypeError, KeyError, assertion...)'' @ newline
     @ ''- config: missing/invalid credentials, endpoints or settings'' @ newline
     @ ''Reply with ONLY the category word.''"

definition DIAGNOSE_PROMPT :: string where
  "DIAGNOSE_PROMPT =
     ''You are a root-cause analyst. Given a job failure'' @ [CHR 0x27] @ ''s traceback, state ''
     @ ''the most likely root cause in one short sentence. Name the failing ''
     @ ''operation and why it failed; no speculation beyond the evidence.''"

definition REMEDIATE_PROMPT :: string where
  "REMEDIATE_PROMPT =
     ''You are an SRE remediation agent. Given a failure'' @ [CHR 0x27] @ ''s category and ''
     @ ''root cause, propose exactly ONE concrete next action for the operator ''
     @ ''(e.g. '' @ [CHR 0x27] @ ''requeue the job'' @ [CHR 0x27] @ '', '' @ [CHR 0x27]
     @ ''fix the payload field X'' @ [CHR 0x27] @ '', '' @ [CHR 0x27] @ ''rotate the API ''
     @ ''key'' @ [CHR 0x27] @ ''). One short sentence.''"

definition COMPOSE_PROMPT :: string where
  "COMPOSE_PROMPT =
     ''You write concise incident notes for a job dashboard. Combine the ''
     @ ''material into 2-3 plain-English sentences: what failed, why, and the ''
     @ ''recommended action. No preamble, no markdown.''"

subsection \<open>The state and the agents\<close>

record FailureState =
  f_task_name :: string
  f_error_text :: string
  f_attempt_count :: int
  f_category :: "string option"
  f_diagnosis :: "string option"
  f_remediation :: "string option"
  f_summary :: "string option"

definition contains :: "string \<Rightarrow> string \<Rightarrow> bool" where
  "contains needle text = sublist needle text"

text \<open>\<open>next((c for c in CATEGORIES if c in raw), "permanent")\<close>.\<close>

definition category_of :: "string \<Rightarrow> string" where
  "category_of raw =
     (case List.find (\<lambda>c. contains c raw) categories of None \<Rightarrow> ''permanent'' | Some c \<Rightarrow> c)"

definition triage :: "'l llm \<Rightarrow> FailureState \<Rightarrow> 'l \<Rightarrow> FailureState option \<times> 'l" where
  "triage llm st l =
     (case ask llm TRIAGE_PROMPT
             (''Task: '' @ f_task_name st @ newline @ ''Attempts: '' @ str_int (f_attempt_count st)
               @ newline @ ''Error:'' @ newline @ take 2000 (f_error_text st)) l of
        (None, l1) \<Rightarrow> (None, l1)
      | (Some raw, l1) \<Rightarrow> (Some (st\<lparr>f_category := Some (category_of (py_lower raw))\<rparr>), l1))"

definition diagnose :: "'l llm \<Rightarrow> FailureState \<Rightarrow> 'l \<Rightarrow> FailureState option \<times> 'l" where
  "diagnose llm st l =
     (case ask llm DIAGNOSE_PROMPT
             (''Task: '' @ f_task_name st @ newline @ ''Traceback:'' @ newline
               @ take 2000 (f_error_text st)) l of
        (None, l1) \<Rightarrow> (None, l1)
      | (Some t, l1) \<Rightarrow> (Some (st\<lparr>f_diagnosis := Some t\<rparr>), l1))"

text \<open>A missing key of the state is a KeyError.\<close>

definition remediate :: "'l llm \<Rightarrow> FailureState \<Rightarrow> 'l \<Rightarrow> FailureState option \<times> 'l" where
  "remediate llm st l =
     (case f_category st of
        None \<Rightarrow> (None, l)
      | Some category \<Rightarrow>
          (case ask llm REMEDIATE_PROMPT
                  (''Category: '' @ category @ newline @ ''Root cause: ''
                    @ (case f_diagnosis st of None \<Rightarrow> ''not analyzed '' @ em_dash @ '' transient'' | Some t \<Rightarrow> t)
                    @ newline @ ''Task: '' @ f_task_name st @ '', failed ''
                    @ str_int (f_attempt_count st) @ '' attempts'') l of
             (None, l1) \<Rightarrow> (None, l1)
           | (Some t, l1) \<Rightarrow> (Some (st\<lparr>f_remediation := Some t\<rparr>), l1)))"

definition compose :: "'l llm \<Rightarrow> FailureState \<Rightarrow> 'l \<Rightarrow> FailureState option \<times> 'l" where
  "compose llm st l =
     (case (f_category st, f_remediation st) of
        (Some category, Some remediation) \<Rightarrow>
          (case ask llm COMPOSE_PROMPT
                  (''Task: '' @ f_task_name st @ '' (failed '' @ str_int (f_attempt_count st)
                    @ '' attempts)'' @ newline @ ''Category: '' @ category @ newline @ ''Root cause: ''
                    @ (case f_diagnosis st of None \<Rightarrow> ''likely transient'' | Some t \<Rightarrow> t) @ newline
                    @ ''Recommended action: '' @ remediation) l of
             (None, l1) \<Rightarrow> (None, l1)
           | (Some t, l1) \<Rightarrow> (Some (st\<lparr>f_summary := Some (''['' @ category @ ''] '' @ t)\<rparr>), l1))
      | _ \<Rightarrow> (None, l))"

subsection \<open>The graph\<close>

datatype agent = Triage | Diagnose | Remediate | Compose | Finished

definition route_after_triage :: "FailureState \<Rightarrow> agent" where
  "route_after_triage st = (if f_category st = Some ''transient'' then Remediate else Diagnose)"

fun run_agent :: "'l llm \<Rightarrow> agent \<Rightarrow> FailureState \<Rightarrow> 'l \<Rightarrow> FailureState option \<times> 'l" where
  "run_agent llm Triage st l = triage llm st l"
| "run_agent llm Diagnose st l = diagnose llm st l"
| "run_agent llm Remediate st l = remediate llm st l"
| "run_agent llm Compose st l = compose llm st l"
| "run_agent llm Finished st l = (Some st, l)"

fun edge :: "agent \<Rightarrow> FailureState \<Rightarrow> agent" where
  "edge Triage st = route_after_triage st"
| "edge Diagnose st = Remediate"
| "edge Remediate st = Compose"
| "edge Compose st = Finished"
| "edge Finished st = Finished"

fun agents_left :: "agent \<Rightarrow> nat" where
  "agents_left Triage = 4"
| "agents_left Diagnose = 3"
| "agents_left Remediate = 2"
| "agents_left Compose = 1"
| "agents_left Finished = 0"

lemma edge_forward: "a \<noteq> Finished \<Longrightarrow> agents_left (edge a st) < agents_left a"
  by (cases a) (simp_all add: route_after_triage_def)

function run_graph :: "'l llm \<Rightarrow> agent \<Rightarrow> FailureState \<Rightarrow> 'l \<Rightarrow> FailureState option \<times> 'l" where
  "run_graph llm a st l =
     (if a = Finished then (Some st, l)
      else case run_agent llm a st l of
             (None, l1) \<Rightarrow> (None, l1)
           | (Some st1, l1) \<Rightarrow> run_graph llm (edge a st1) st1 l1)"
  by auto

termination
  by (relation "measure (\<lambda>(llm, a, st, l). agents_left a)") (simp_all add: edge_forward)

declare run_graph.simps [simp del]

text \<open>The outer \<open>None\<close> is an exception, the inner one the answer \<open>None\<close>.\<close>

definition analyze_failure ::
  "'l llm \<Rightarrow> string \<Rightarrow> string \<Rightarrow> int \<Rightarrow> 'l \<Rightarrow> string option option \<times> 'l" where
  "analyze_failure llm task_name error_text attempt_count l =
     (case run_graph llm Triage
             \<lparr>f_task_name = task_name, f_error_text = error_text, f_attempt_count = attempt_count,
              f_category = None, f_diagnosis = None, f_remediation = None, f_summary = None\<rparr> l of
        (None, l1) \<Rightarrow> (None, l1)
      | (Some st, l1) \<Rightarrow>
          (Some (case f_summary st of
                   None \<Rightarrow> None
                 | Some summary \<Rightarrow> if summary = '''' then None else Some summary), l1))"

subsection \<open>AISummaryService\<close>

definition cache_key :: "(string \<Rightarrow> string) \<Rightarrow> string \<Rightarrow> string" where
  "cache_key sha256_hex error_text = ''chronos:ai:summary:'' @ take 16 (sha256_hex error_text)"

definition truthy :: "string option \<Rightarrow> bool" where
  "truthy t \<longleftrightarrow> t \<noteq> None \<and> t \<noteq> Some ''''"

definition generate_summary ::
  "Settings \<Rightarrow> (string \<Rightarrow> string) \<Rightarrow> (string \<Rightarrow> ('r, string option) command)
     \<Rightarrow> (string \<Rightarrow> string \<Rightarrow> int \<Rightarrow> ('r, unit) command) \<Rightarrow> 'l llm \<Rightarrow> string \<Rightarrow> string \<Rightarrow> int \<Rightarrow> 'r \<times> 'l
     \<Rightarrow> string option \<times> 'r \<times> 'l" where
  "generate_summary s sha256_hex get set_key llm error_text task_name attempt_count = (\<lambda>(r, l).
     if gemini_api_key s = '''' then (None, r, l)
     else let key = cache_key sha256_hex error_text;
              (cached, r1) = get_cached get key r
          in if truthy cached then (cached, r1, l)
             else case analyze_failure llm task_name error_text attempt_count l of
                    (Some (Some summary), l1) \<Rightarrow> (Some summary, set_cached set_key key summary 86400 r1, l1)
                  | (_, l1) \<Rightarrow> (None, r1, l1))"

end
