(* ===== verification/Pipeline_Props.thy ===== *)
theory Pipeline_Props
  imports Failure_Pipeline Runner Samples
begin

section \<open>Properties of the failure analysis\<close>

text \<open>
  The graph ends for every model in three or four questions; what its note contains, how
  the triage reads a reply, and for which jobs a cached note is used again.
\<close>

subsection \<open>What the agents ask and answer\<close>

text \<open>A model that answers every prompt, with the record of what it was asked.\<close>

definition logged :: "(string \<Rightarrow> string \<Rightarrow> content) \<Rightarrow> (string \<times> string) list llm" where
  "logged answer asked system user = (Some (answer system user), asked @ [(system, user)])"

lemma ask_logged: "ask (logged answer) system user asked = (Some (text_of (answer system user)), asked @ [(system, user)])"
  by (simp add: ask_def logged_def)

lemma category_in: "category_of raw \<in> set categories"
proof (cases "List.find (\<lambda>c. contains c raw) categories")
  case None
  then show ?thesis by (simp add: category_of_def categories_def)
next
  case (Some c)
  then have "c \<in> set categories" by (auto simp: find_Some_iff in_set_conv_nth)
  with Some show ?thesis by (simp add: category_of_def)
qed

lemma run_graph_finished [simp]: "run_graph llm Finished st l = (Some st, l)"
  by (simp add: run_graph.simps)

lemma run_graph_agent: "a \<noteq> Finished \<Longrightarrow> run_graph llm a st l =
    (case run_agent llm a st l of (None, l1) \<Rightarrow> (None, l1) | (Some st1, l1) \<Rightarrow> run_graph llm (edge a st1) st1 l1)"
  by (subst run_graph.simps) simp

text \<open>Each agent asks one question and fills in its part of the state.\<close>

lemma triage_logged: "\<exists>raw user. triage (logged answer) st asked =
    (Some (st\<lparr>f_category := Some (category_of raw)\<rparr>), asked @ [(TRIAGE_PROMPT, user)])"
  unfolding triage_def ask_logged prod.case option.case by (intro exI) (rule refl)

lemma diagnose_logged: "\<exists>t user. diagnose (logged answer) st asked =
    (Some (st\<lparr>f_diagnosis := Some t\<rparr>), asked @ [(DIAGNOSE_PROMPT, user)])"
  unfolding diagnose_def ask_logged prod.case option.case by (intro exI) (rule refl)

lemma remediate_logged: "f_category st = Some c \<Longrightarrow> \<exists>t user. remediate (logged answer) st asked =
    (Some (st\<lparr>f_remediation := Some t\<rparr>), asked @ [(REMEDIATE_PROMPT, user)])"
  unfolding remediate_def ask_logged by (simp only: ask_logged prod.case option.case, intro exI, rule refl)

lemma compose_logged: "f_category st = Some c \<Longrightarrow> f_remediation st = Some t \<Longrightarrow>
    \<exists>body user. compose (logged answer) st asked =
      (Some (st\<lparr>f_summary := Some (''['' @ c @ ''] '' @ body)\<rparr>), asked @ [(COMPOSE_PROMPT, user)])"
  unfolding compose_def ask_logged by (simp only: ask_logged prod.case option.case, intro exI, rule refl)

lemma finish_logged:
  assumes "f_category st = Some c"
  shows "\<exists>st' body u1 u2. run_graph (logged answer) Remediate st asked =
      (Some st', asked @ [(REMEDIATE_PROMPT, u1), (COMPOSE_PROMPT, u2)]) \<and>
    f_summary st' = Some (''['' @ c @ ''] '' @ body)"
proof -
  obtain t u1 where r: "remediate (logged answer) st asked =
      (Some (st\<lparr>f_remediation := Some t\<rparr>), asked @ [(REMEDIATE_PROMPT, u1)])"
    using remediate_logged [OF assms] by blast
  obtain body u2 where "compose (logged answer) (st\<lparr>f_remediation := Some t\<rparr>) (asked @ [(REMEDIATE_PROMPT, u1)]) =
      (Some (st\<lparr>f_remediation := Some t, f_summary := Some (''['' @ c @ ''] '' @ body)\<rparr>),
       (asked @ [(REMEDIATE_PROMPT, u1)]) @ [(COMPOSE_PROMPT, u2)])"
    using compose_logged [of "st\<lparr>f_remediation := Some t\<rparr>" c t answer "asked @ [(REMEDIATE_PROMPT, u1)]"] assms
    by auto
  then show ?thesis using r by (simp add: run_graph_agent)
qed


subsection \<open>The cache\<close>

text \<open>The cache of notes mixes up jobs: the key is the error text alone, so once a note is cached
  for a job that timed out, any job that times out with the same limit at the same attempt of
  the same budget gets that note without a question to the model, whatever its task and whoever
  its owner, although the note was composed from the first job's task.\<close>

theorem cached_note_is_shared:
  assumes "gemini_api_key s \<noteq> ''''"
    and "\<forall>k v ttl r. fst (get k (snd (set_key k v ttl r))) = Some (Some v)"
    and "get (cache_key sha (timeout_error j)) r = (Some None, r)"
    and "generate_summary s sha get set_key llm (timeout_error j) (j_task_name j) (j_attempt_count j) (r, l)
      = (Some body, r', l')"
    and "j_timeout_seconds k = j_timeout_seconds j" and "j_attempt_count k = j_attempt_count j"
    and "j_max_attempts k = j_max_attempts j"
  shows "\<exists>r''. generate_summary s sha get set_key llm (timeout_error k) (j_task_name k) (j_attempt_count k) (r', l')
    = (Some body, r'', l')"
proof -
  let ?key = "cache_key sha (timeout_error j)"
  have same: "timeout_error k = timeout_error j" by (simp add: timeout_error_def assms(5-7))
  have miss: "get_cached get ?key r = (None, r)" by (simp add: get_cached_def assms(3))
  obtain r0: "analyze_failure llm (j_task_name j) (timeout_error j) (j_attempt_count j) l = (Some (Some body), l')"
    and r': "r' = set_cached set_key ?key body 86400 r"
    using assms(1,4) miss
    by (auto simp: generate_summary_def Let_def truthy_def split: prod.splits option.splits)
  have "body \<noteq> ''''"
    using r0 by (auto simp: analyze_failure_def split: prod.splits option.splits if_splits)
  moreover obtain r2 where "get ?key r' = (Some (Some body), r2)"
    using assms(2) unfolding r' set_cached_def by (metis prod.collapse)
  then have "get_cached get ?key r' = (Some body, r2)" by (simp add: get_cached_def)
  ultimately show ?thesis
    using assms(1) unfolding same by (simp add: generate_summary_def Let_def truthy_def)
qed

text \<open>A cache that keeps what it is given, and a model whose answer repeats what it was asked.\<close>

type_synonym texts = "string \<Rightarrow> string option"

definition sample_get :: "string \<Rightarrow> (texts, string option) command" where
  "sample_get k r = (Some (r k), r)"

definition sample_set :: "string \<Rightarrow> string \<Rightarrow> int \<Rightarrow> (texts, unit) command" where
  "sample_set k v ttl r = (Some (), r(k \<mapsto> v))"

definition parrot :: "unit llm" where
  "parrot l system user = (Some (Plain (takeWhile (\<lambda>c. c \<noteq> CHR ''('') user)), l)"

definition sample_settings :: Settings where
  "sample_settings = default_settings\<lparr>gemini_api_key := ''key''\<rparr>"

definition first_note :: "string option \<times> texts \<times> unit" where
  "first_note = generate_summary sample_settings (\<lambda>t. ''0'') sample_get sample_set parrot
     (timeout_error (sample_job 10 1)) (j_task_name (sample_job 10 1)) (j_attempt_count (sample_job 10 1))
     (\<lambda>_. None, ())"

theorem cached_note_is_shared_witness:
  "\<exists>r''. generate_summary sample_settings (\<lambda>t. ''0'') sample_get sample_set parrot
     (timeout_error ((sample_job 11 2)\<lparr>j_task_name := ''mail''\<rparr>)) ''mail'' 0 (fst (snd first_note), ()) =
     (Some ''[permanent] Task: demo.echo'', r'', ())"
proof -
  have note1: "fst first_note = Some ''[permanent] Task: demo.echo''" by code_simp
  then have first: "generate_summary sample_settings (\<lambda>t. ''0'') sample_get sample_set parrot
      (timeout_error (sample_job 10 1)) (j_task_name (sample_job 10 1)) (j_attempt_count (sample_job 10 1))
      (\<lambda>_. None, ()) = (Some ''[permanent] Task: demo.echo'', fst (snd first_note), snd (snd first_note))"
    unfolding first_note_def [symmetric] by (simp add: prod_eq_iff)
  show ?thesis
    using cached_note_is_shared [OF _ _ _ first, of "(sample_job 11 2)\<lparr>j_task_name := ''mail''\<rparr>"]
    by (simp add: sample_settings_def sample_get_def sample_set_def sample_job_def)
qed

text \<open>The reply is searched for the words, not read.\<close>

theorem triage_ignores_negation:
  "category_of (py_lower (text_of (Plain ''Not transient: permanent''))) = ''transient''"
  by code_simp

end
