(* ===== verification/Observability.thy ===== *)
theory Observability
  imports Execution Events Config
begin

section \<open>Statistics and metrics (app/services/stats_service.py, metrics_service.py)\<close>

text \<open>
  The queries behind the dashboard and the Prometheus page, the throughput chart and the text
  of the metrics page.  \<open>now\<close> is the clock of the API process, \<open>db_now\<close> that of the database.
\<close>

subsection \<open>Queries (app/repositories/jobs.py, attempts.py)\<close>

definition mean :: "real list \<Rightarrow> real" where
  "mean xs = (if xs = [] then 0 else sum_list xs / real (length xs))"

definition greatest :: "real list \<Rightarrow> real" where
  "greatest xs = (case xs of [] \<Rightarrow> 0 | y # ys \<Rightarrow> fold max ys y)"

definition wait_seconds :: "time \<Rightarrow> int \<Rightarrow> job \<Rightarrow> real list" where
  "wait_seconds db_now window_seconds j =
     (case j_started_at j of
        None \<Rightarrow> []
      | Some t \<Rightarrow>
          if db_now - interval (real_of_int window_seconds) \<le> t then [epoch (t - j_run_at j)] else [])"

definition claim_wait_stats :: "time \<Rightarrow> int \<Rightarrow> db \<Rightarrow> real \<times> real" where
  "claim_wait_stats db_now window_seconds d =
     (let waits = concat (map (wait_seconds db_now window_seconds) (jobs d))
      in (mean waits, greatest waits))"

text \<open>\<open>date_trunc('minute', t)\<close>; \<open>t.replace(second=0, microsecond=0)\<close> is the same.\<close>

definition minute_of :: "time \<Rightarrow> time" where
  "minute_of t = t div 60000000 * 60000000"

definition charted :: "time \<Rightarrow> job_attempt \<Rightarrow> bool" where
  "charted since a \<longleftrightarrow>
     (case a_finished_at a of None \<Rightarrow> False | Some f \<Rightarrow> since \<le> f) \<and>
     a_status a \<in> {A_SUCCEEDED, A_FAILED, A_LOST}"

definition group_key :: "job_attempt \<Rightarrow> time \<times> AttemptStatus" where
  "group_key a = (case a_finished_at a of None \<Rightarrow> 0 | Some f \<Rightarrow> minute_of f, a_status a)"

text \<open>The groups, in the order of their first rows (\<open>GROUP BY\<close> promises no order).\<close>

definition throughput_by_minute :: "time \<Rightarrow> db \<Rightarrow> (time \<times> AttemptStatus \<times> nat) list" where
  "throughput_by_minute since d =
     (let hits = filter (charted since) (attempts d)
      in map (\<lambda>k. (fst k, snd k, count_where (\<lambda>a. group_key a = k) hits)) (remdups (map group_key hits)))"

subsection \<open>StatsService\<close>

record ThroughputPoint =
  t_minute :: time
  t_succeeded :: nat
  t_failed :: nat

record StatsOverview =
  o_counts_by_status :: "(string \<times> nat) list"
  o_ready_now :: nat
  o_scheduled_later :: nat
  o_workers_online :: nat
  o_dlq_size :: nat
  o_throughput_last_hour :: "ThroughputPoint list"
  o_generated_at :: time

definition empty_buckets :: "time \<Rightarrow> ThroughputPoint list" where
  "empty_buckets since =
     map (\<lambda>i. \<lparr>t_minute = minute_of (since + int i * 60000000), t_succeeded = 0, t_failed = 0\<rparr>) [0..<61]"

definition add_group :: "time \<times> AttemptStatus \<times> nat \<Rightarrow> ThroughputPoint list \<Rightarrow> ThroughputPoint list" where
  "add_group g buckets =
     (case g of (minute, status, n) \<Rightarrow>
        update_where (\<lambda>p. t_minute p = minute_of minute)
          (\<lambda>p. if status = A_SUCCEEDED then p\<lparr>t_succeeded := t_succeeded p + n\<rparr>
               else p\<lparr>t_failed := t_failed p + n\<rparr>) buckets)"

definition throughput :: "time \<Rightarrow> db \<Rightarrow> ThroughputPoint list" where
  "throughput since d =
     sort_key t_minute (fold add_group (throughput_by_minute since d) (empty_buckets since))"

definition counts_row :: "db \<Rightarrow> (string \<times> nat) list" where
  "counts_row d = map (\<lambda>s. (job_status_value s, counts_by_status d s)) job_statuses"

definition compute_overview :: "time \<Rightarrow> time \<Rightarrow> db \<Rightarrow> StatsOverview" where
  "compute_overview now db_now d =
     (let (ready_now, scheduled_later) = ready_and_scheduled_counts db_now d
      in \<lparr>o_counts_by_status = counts_row d, o_ready_now = ready_now, o_scheduled_later = scheduled_later,
          o_workers_online = count_online d, o_dlq_size = counts_by_status d DEAD,
          o_throughput_last_hour = throughput (now - 3600000000) d, o_generated_at = now\<rparr>)"

text \<open>
  \<open>dump\<close> and \<open>validate_json\<close> are pydantic's; \<open>None\<close> is a validation error, which escapes.
\<close>

definition overview ::
  "Settings \<Rightarrow> (StatsOverview \<Rightarrow> string) \<Rightarrow> (string \<Rightarrow> StatsOverview option)
     \<Rightarrow> (string \<Rightarrow> ('r, string option) command) \<Rightarrow> (string \<Rightarrow> string \<Rightarrow> int \<Rightarrow> ('r, unit) command)
     \<Rightarrow> time \<Rightarrow> time \<Rightarrow> db \<Rightarrow> 'r \<Rightarrow> StatsOverview option \<times> 'r" where
  "overview s dump validate_json get set_key now db_now d r =
     (case get_cached get ''chronos:stats:overview'' r of
        (cached, r1) \<Rightarrow>
          if cached \<noteq> None \<and> cached \<noteq> Some '''' then (validate_json (the cached), r1)
          else let o1 = compute_overview now db_now d
               in (Some o1, set_cached set_key ''chronos:stats:overview'' (dump o1) (stats_cache_ttl_seconds s) r1))"

subsection \<open>MetricsService\<close>

record metric =
  m_name :: string
  m_help_text :: string
  m_samples :: "(string \<times> real) list"

definition round3 :: "real \<Rightarrow> real" where
  "round3 x = real_of_int (round_half_even (x * 1000)) / 1000"

definition status_label :: "string \<Rightarrow> string" where
  "status_label s = ''{status='' @ [CHR 0x22] @ s @ [CHR 0x22] @ ''}''"

definition metrics :: "time \<Rightarrow> db \<Rightarrow> metric list" where
  "metrics db_now d =
     (let (ready_now, scheduled) = ready_and_scheduled_counts db_now d;
          (claim_avg, claim_max) = claim_wait_stats db_now 300 d
      in [\<lparr>m_name = ''chronos_jobs'', m_help_text = ''Jobs by status.'',
           m_samples = map (\<lambda>s. (status_label (job_status_value s), real (counts_by_status d s)))
             [CANCELLED, DEAD, PENDING, RUNNING, SUCCEEDED]\<rparr>,
          \<lparr>m_name = ''chronos_queue_ready_depth'', m_help_text = ''PENDING jobs due to run now.'',
           m_samples = [('''', real ready_now)]\<rparr>,
          \<lparr>m_name = ''chronos_queue_scheduled_depth'',
           m_help_text = ''PENDING jobs scheduled for the future (includes retry backoffs).'',
           m_samples = [('''', real scheduled)]\<rparr>,
          \<lparr>m_name = ''chronos_oldest_ready_job_age_seconds'',
           m_help_text = ''Age of the oldest ready-but-unclaimed job. Rising means ''
             @ ''workers are dead, saturated, or the queue is backing up.'',
           m_samples = [('''', round3 (oldest_ready_age_seconds db_now d))]\<rparr>,
          \<lparr>m_name = ''chronos_claim_wait_seconds_avg_5m'',
           m_help_text = ''Average ready-to-claimed wait for jobs claimed in the last 5m.'',
           m_samples = [('''', round3 claim_avg)]\<rparr>,
          \<lparr>m_name = ''chronos_claim_wait_seconds_max_5m'',
           m_help_text = ''Worst ready-to-claimed wait for jobs claimed in the last 5m.'',
           m_samples = [('''', round3 claim_max)]\<rparr>,
          \<lparr>m_name = ''chronos_lease_reclaims_1m'',
           m_help_text = ''Attempts closed as LOST (lease expired) in the last minute.'',
           m_samples = [('''', real (count_recent_by_status db_now A_LOST 60 d))]\<rparr>,
          \<lparr>m_name = ''chronos_worker_heartbeat_lag_seconds'',
           m_help_text = ''Worst heartbeat staleness among ONLINE workers.'',
           m_samples = [('''', round3 (max_heartbeat_lag_seconds db_now d))]\<rparr>,
          \<lparr>m_name = ''chronos_workers_online'', m_help_text = ''Workers currently ONLINE.'',
           m_samples = [('''', real (count_online d))]\<rparr>,
          \<lparr>m_name = ''chronos_dlq_size'', m_help_text = ''Jobs in the dead letter queue (status=dead).'',
           m_samples = [('''', real (counts_by_status d DEAD))]\<rparr>])"

definition metric_lines :: "(real \<Rightarrow> string) \<Rightarrow> metric \<Rightarrow> string list" where
  "metric_lines str_float m =
     [''# HELP '' @ m_name m @ '' '' @ m_help_text m, ''# TYPE '' @ m_name m @ '' gauge'']
     @ map (\<lambda>(labels, v). m_name m @ labels @ '' '' @ str_float v) (m_samples m)"

definition render :: "(real \<Rightarrow> string) \<Rightarrow> time \<Rightarrow> db \<Rightarrow> string" where
  "render str_float db_now d =
     concat (map (\<lambda>line. line @ [CHR 0x0A]) (concat (map (metric_lines str_float) (metrics db_now d))))"

end
