(* ===== verification/Observability_Props.thy ===== *)
theory Observability_Props
  imports Observability Execution_Props
begin

section \<open>Properties of the statistics\<close>

text \<open>
  The chart agrees with a count of the attempt log minute by minute, and the gauge of the
  claim wait can be negative.
\<close>

subsection \<open>The throughput chart\<close>

lemma minute_of_idem [simp]: "minute_of (minute_of t) = minute_of t"
  by (simp add: minute_of_def)

lemma minute_of_shift: "minute_of (t + i * 60000000) = minute_of t + i * 60000000"
  by (simp add: minute_of_def algebra_simps)

text \<open>Counting by groups is counting.\<close>

lemma group_counts:
  assumes "distinct ks" and "key ` set xs \<subseteq> set ks"
  shows "(\<Sum>k \<leftarrow> ks. if P k then count_where (\<lambda>a. key a = k) xs else 0) = count_where (\<lambda>a. P (key a)) xs"
  using assms(2)
proof (induction xs)
  case Nil
  then show ?case by (simp add: sum_list_0 cong: if_cong)
next
  case (Cons x xs)
  have one: "(\<Sum>k \<leftarrow> ks. if P k \<and> key x = k then (1 :: nat) else 0) = (if P (key x) then 1 else 0)"
    if "distinct ks" "key x \<in> set ks" for ks
    using that by (induction ks) auto
  have split: "(if P k then count_where (\<lambda>a. key a = k) (x # xs) else 0) =
      (if P k \<and> key x = k then 1 else 0) + (if P k then count_where (\<lambda>a. key a = k) xs else 0)" for k
    by simp
  show ?case
    using Cons one [OF assms(1)] by (simp add: split sum_list_addf del: count_where_Cons) simp
qed

definition bucket_sum :: "(AttemptStatus \<Rightarrow> bool) \<Rightarrow> time \<Rightarrow> (time \<times> AttemptStatus \<times> nat) list \<Rightarrow> nat" where
  "bucket_sum S m gs = (\<Sum>(minute, status, n) \<leftarrow> gs. if minute_of minute = m \<and> S status then n else 0)"

lemma fold_add_group:
  "fold add_group gs bs =
     map (\<lambda>p. p\<lparr>t_succeeded := t_succeeded p + bucket_sum (\<lambda>s. s = A_SUCCEEDED) (t_minute p) gs,
                t_failed := t_failed p + bucket_sum (\<lambda>s. s \<noteq> A_SUCCEEDED) (t_minute p) gs\<rparr>) bs"
proof (induction gs arbitrary: bs)
  case Nil
  then show ?case by (simp add: bucket_sum_def)
next
  case (Cons g gs)
  obtain m st n where g: "g = (m, st, n)" by (cases g)
  have "add_group g bs = map (\<lambda>p. if t_minute p = minute_of m
      then (if st = A_SUCCEEDED then p\<lparr>t_succeeded := t_succeeded p + n\<rparr> else p\<lparr>t_failed := t_failed p + n\<rparr>)
      else p) bs"
    by (simp add: g add_group_def update_where_def)
  then show ?case
    using Cons.IH by (simp add: g bucket_sum_def)
qed

lemma bucket_sum_groups:
  "bucket_sum S m (throughput_by_minute since d) =
     count_where (\<lambda>a. fst (group_key a) = m \<and> S (a_status a)) (filter (charted since) (attempts d))"
proof -
  have idem: "minute_of (fst (group_key a)) = fst (group_key a)" for a
    by (simp add: group_key_def minute_of_def split: option.splits)
  let ?hits = "filter (charted since) (attempts d)"
  let ?ks = "remdups (map group_key ?hits)"
  let ?P = "\<lambda>k. minute_of (fst k) = m \<and> S (snd k)"
  have "bucket_sum S m (throughput_by_minute since d) =
      (\<Sum>k \<leftarrow> ?ks. if ?P k then count_where (\<lambda>a. group_key a = k) ?hits else 0)"
    by (simp add: bucket_sum_def throughput_by_minute_def comp_def Let_def)
  also have "\<dots> = count_where (\<lambda>a. ?P (group_key a)) ?hits" by (rule group_counts) auto
  finally show ?thesis unfolding idem by (simp add: group_key_def)
qed

lemma count_where_filter: "count_where P (filter Q xs) = count_where (\<lambda>x. Q x \<and> P x) xs"
  by (induction xs) auto

lemma empty_buckets_minutes: "map t_minute (empty_buckets since) = map (\<lambda>i. minute_of since + int i * 60000000) [0..<61]"
  by (simp add: empty_buckets_def minute_of_shift)

definition finished_in :: "time \<Rightarrow> time \<Rightarrow> job_attempt \<Rightarrow> bool" where
  "finished_in since minute a \<longleftrightarrow>
     (\<exists>f. a_finished_at a = Some f \<and> since \<le> f \<and> minute \<le> f \<and> f < minute + 60000000)"

lemma minute_of_eq_iff: "minute_of f = minute_of since + int i * 60000000 \<longleftrightarrow>
    minute_of since + int i * 60000000 \<le> f \<and> f < minute_of since + int i * 60000000 + 60000000"
proof -
  have div: "f div n = k \<longleftrightarrow> k * n \<le> f \<and> f < k * n + n" if "0 < n" for k n :: int
  proof
    assume "f div n = k"
    then show "k * n \<le> f \<and> f < k * n + n"
      using div_mult_mod_eq [of f n] pos_mod_bound [OF that, of f] pos_mod_sign [OF that, of f] by simp
  next
    assume "k * n \<le> f \<and> f < k * n + n"
    then show "f div n = k" by (intro int_div_pos_eq [of f n k "f - k * n"]) (simp_all add: mult.commute)
  qed
  have "minute_of f = minute_of since + int i * 60000000 \<longleftrightarrow>
      f div 60000000 = (minute_of since + int i * 60000000) div 60000000"
  proof -
    have "a * 60000000 = b * 60000000 + c * 60000000 \<longleftrightarrow> a = b + c" for a b c :: int by linarith
    then show ?thesis by (simp add: minute_of_def)
  qed
  then show ?thesis
    using div [of 60000000 "(minute_of since + int i * 60000000) div 60000000"]
    by (simp add: minute_of_def)
qed

lemma bucket_count:
  assumes "m = minute_of since + int i * 60000000"
  shows "bucket_sum (\<lambda>s. s = A_SUCCEEDED) m (throughput_by_minute since d) =
      count_where (\<lambda>a. finished_in since m a \<and> a_status a = A_SUCCEEDED) (attempts d)"
    and "bucket_sum (\<lambda>s. s \<noteq> A_SUCCEEDED) m (throughput_by_minute since d) =
      count_where (\<lambda>a. finished_in since m a \<and> (a_status a = A_FAILED \<or> a_status a = A_LOST)) (attempts d)"
  unfolding bucket_sum_groups count_where_filter assms
  by (rule count_where_cong,
      (auto simp: charted_def finished_in_def group_key_def minute_of_eq_iff split: option.splits)[1])+

text \<open>C38: The throughput chart is exact: it has one point for each of the 61 minutes from the minute of
  its start, in order, and each point counts exactly the attempts that finished in that minute
  and not before the start, the succeeded ones as successes, the failed and the lost ones as
  failures; no attempt of the hour is missing and none is counted twice.\<close>

theorem throughput_chart_exact:
  "throughput since d = map (\<lambda>i. let m = minute_of since + int i * 60000000 in
     \<lparr>t_minute = m,
      t_succeeded = count_where (\<lambda>a. finished_in since m a \<and> a_status a = A_SUCCEEDED) (attempts d),
      t_failed = count_where (\<lambda>a. finished_in since m a \<and>
        (a_status a = A_FAILED \<or> a_status a = A_LOST)) (attempts d)\<rparr>) [0..<61]"
proof -
  let ?point = "\<lambda>i. let m = minute_of since + int i * 60000000 in
     \<lparr>t_minute = m,
      t_succeeded = count_where (\<lambda>a. finished_in since m a \<and> a_status a = A_SUCCEEDED) (attempts d),
      t_failed = count_where (\<lambda>a. finished_in since m a \<and>
        (a_status a = A_FAILED \<or> a_status a = A_LOST)) (attempts d)\<rparr>"
  have "fold add_group (throughput_by_minute since d) (empty_buckets since) = map ?point [0..<61]"
    unfolding fold_add_group empty_buckets_def map_map
    by (rule map_cong) (simp_all add: minute_of_shift bucket_count Let_def)
  moreover have "sorted (map t_minute (map ?point [0..<61]))"
    by (simp add: Let_def comp_def sorted_iff_nth_mono del: upt_Suc)
  ultimately show ?thesis by (simp add: throughput_def sort_key_id_if_sorted del: upt_Suc)
qed

subsection \<open>Claim waits\<close>

definition fresh_queue_db :: db where
  "fresh_queue_db = sample_db [sample_queue 1 None] [sample_job 11 1] []"

definition first_claim :: "job list \<times> db" where
  "first_claim = claim_jobs id sample_worker_request 1 fresh_queue_db"

definition after_failure :: "value_error + bool \<times> db" where
  "after_failure = complete_failure 2000000 0 2000000 None id (hd (fst first_claim)) 51 ''boom'' (snd first_claim)"

text \<open>The wait of a job that was claimed and has failed is measured against its next due time:
  the gauges that mean the wait from ready to claimed turn negative as soon as a failed job is
  waiting for its retry, the average and the maximum alike.\<close>

theorem claim_wait_turns_negative:
  "\<exists>c d1 d2. claim_jobs id sample_worker_request 1 fresh_queue_db = ([c], d1) \<and>
     claim_wait_stats 2000000 300 d1 = (1, 1) \<and>
     complete_failure 2000000 0 2000000 None id c 51 ''boom'' d1 = Inr (True, d2) \<and>
     claim_wait_stats 3000000 300 d2 = (- 6, - 6)"
proof -
  have "length (fst first_claim) = 1" by code_simp
  then obtain c where c: "fst first_claim = [c]" by (auto simp: length_Suc_conv)
  have "claim_wait_stats 2000000 300 (snd first_claim) = (1, 1)" by code_simp
  moreover have "(case after_failure of Inl _ \<Rightarrow> False
      | Inr (ok, d2) \<Rightarrow> ok \<and> claim_wait_stats 3000000 300 d2 = (- 6, - 6))"
    by code_simp
  then obtain d2 where "after_failure = Inr (True, d2)" "claim_wait_stats 3000000 300 d2 = (- 6, - 6)"
    by (auto split: sum.splits)
  moreover have "claim_jobs id sample_worker_request 1 fresh_queue_db = ([c], snd first_claim)"
    using c by (simp add: first_claim_def prod_eq_iff)
  moreover have "after_failure = complete_failure 2000000 0 2000000 None id c 51 ''boom'' (snd first_claim)"
    by (simp add: after_failure_def c)
  ultimately show ?thesis by metis
qed

end
