(* ===== verification/Submission_Props.thy ===== *)
theory Submission_Props
  imports Cluster_Props Routers
begin

section \<open>What a submission can come to\<close>

text \<open>
  A request that passed the schema meets the constraints of the database in any reachable
  state, so the errors of a submission can be listed.
\<close>

lemma get_by_name_None:
  "get_by_name p nm d = None \<Longrightarrow> (p, nm) \<notin> (\<lambda>q. (q_project_id q, q_name q)) ` set (queues d)"
  unfolding get_by_name_def by (auto simp: find_None_iff)

lemma resolve_project_cases:
  obtains (missing) m where "resolve_project usr pid d = Inl (NotFoundError m)"
    | (found) p where "resolve_project usr pid d = Inr p" and "p \<in> set (projects d)"
  unfolding resolve_project_def
  by (cases pid; cases "default_project (u_org_id usr) d"; cases "get_project (the pid) (u_org_id usr) d")
    (auto dest: get_project_SomeD default_project_SomeD)

lemma resolve_queue_plain:
  assumes "db_keys d" and "qid \<notin> q_id ` set (queues d)"
  obtains (missing) m where "resolve_queue now qid id usr pid nm d = Inl (NotFoundError m)"
    | (found) q d1 where "resolve_queue now qid id usr pid nm d = Inr (q, d1)" and "q \<in> set (queues d1)"
proof (cases rule: resolve_project_cases [of usr pid d])
  case (missing m)
  then show ?thesis using that(1) by (simp add: resolve_queue_def)
next
  case (found p)
  show ?thesis
  proof (cases "get_by_name (p_id p) nm d")
    case None
    let ?q = "new_queue now qid (p_id p) nm"
    have "insert_queue ?q d = Inr (d\<lparr>queues := queues d @ [?q]\<rparr>)"
      using assms(2) found(2) get_by_name_None [OF None] new_queue_checks
      by (simp add: insert_queue_def new_queue_def queue_checks_def)
    then show ?thesis using that(2) found None by (simp add: resolve_queue_def)
  next
    case (Some q)
    then show ?thesis using that(2) found get_by_name_SomeD [OF Some] by (simp add: resolve_queue_def)
  qed
qed

lemma find_duplicate_same: "jobs d' = jobs d \<Longrightarrow> find_duplicate usr data d' = find_duplicate usr data d"
  by (cases "jc_idempotency_key data") (simp_all add: find_duplicate_def get_by_idempotency_key_def)

lemma workflow_of_error: "workflow_of wid usr data d = Inl e \<Longrightarrow> \<exists>m. e = NotFoundError m"
proof -
  have "inherit_workflow usr ts w d = Inl e \<Longrightarrow> \<exists>m. e = NotFoundError m" for ts w
    by (induction ts arbitrary: w) (auto simp: require_def split: option.splits)
  then show "workflow_of wid usr data d = Inl e \<Longrightarrow> \<exists>m. e = NotFoundError m"
    by (auto simp: workflow_of_def split: if_splits)
qed

lemma workflow_of_targets: "workflow_of wid usr data d = Inr w \<Longrightarrow> set (jc_depends_on data) \<subseteq> j_id ` set (jobs d)"
  using inherit_workflow_targets by (fastforce simp: workflow_of_def split: if_splits)

lemma add_many_total:
  assumes "distinct ts" and "set ts \<subseteq> j_id ` set (jobs d)" and "i \<in> j_id ` set (jobs d)"
    and "\<forall>e \<in> set (dependencies d). d_job_id e = i \<longrightarrow> d_depends_on_job_id e \<notin> set ts"
  shows "\<exists>d'. add_many f i ts d = Inr d'"
  using assms
proof (induction ts arbitrary: d)
  case (Cons t ts)
  let ?d = "d\<lparr>dependencies := dependencies d @ [\<lparr>d_id = f t, d_job_id = i, d_depends_on_job_id = t\<rparr>]\<rparr>"
  have "insert_dependency \<lparr>d_id = f t, d_job_id = i, d_depends_on_job_id = t\<rparr> d = Inr ?d"
    using Cons.prems by (auto simp: insert_dependency_def)
  moreover have "\<exists>d'. add_many f i ts ?d = Inr d'" using Cons.prems by (intro Cons.IH) auto
  ultimately show ?case by simp
qed simp

lemma add_many_error: "add_many f i ts d = Inl e \<Longrightarrow> e = IntegrityError"
  by (induction ts arbitrary: d) (auto simp: insert_dependency_def split: if_splits)

lemma insert_job_rejected:
  assumes "insert_job j d = Inl e" and "j_id j \<notin> j_id ` set (jobs d)" and "j_queue_id j \<in> q_id ` set (queues d)"
    and "j_owner_id j \<in> u_id ` set (users d)" and "job_checks j"
  shows "e = IntegrityError \<and> (\<exists>key. j_idempotency_key j = Some key \<and>
    get_by_idempotency_key (j_owner_id j) key d \<noteq> None)"
  using assms by (auto simp: insert_job_def get_by_idempotency_key_None_iff split: if_splits)

text \<open>Storing the row and its dependencies.\<close>

lemma store_job_outcome:
  assumes "find_duplicate usr data d = None" and "j_owner_id j = u_id usr"
    and "j_idempotency_key j = jc_idempotency_key data" and "job_checks j"
    and "j_id j \<notin> j_id ` set (jobs d)" and "j_queue_id j \<in> q_id ` set (queues d)"
    and "u_id usr \<in> u_id ` set (users d)" and "set (jc_depends_on data) \<subseteq> j_id ` set (jobs d)"
    and "depends_earlier d"
  shows "case bind (insert_job j d) (add_many f (j_id j) (jc_depends_on data)) of
      Inr d' \<Rightarrow> j \<in> set (jobs d') \<and> distinct (jc_depends_on data)
    | Inl e \<Rightarrow> e = IntegrityError \<and> (jc_idempotency_key data = Some '''' \<or> \<not> distinct (jc_depends_on data))"
proof (cases "insert_job j d")
  case (Inl e)
  have "e = IntegrityError \<and> (\<exists>key. jc_idempotency_key data = Some key \<and>
      get_by_idempotency_key (u_id usr) key d \<noteq> None)"
    using insert_job_rejected [OF Inl assms(5,6) _ assms(4)] assms(2,3,7) by simp
  with assms(1) show ?thesis by (auto simp: Inl find_duplicate_def split: if_splits)
next
  case (Inr d1)
  note d1 = insert_job_db [OF Inr]
  show ?thesis
  proof (cases "add_many f (j_id j) (jc_depends_on data) d1")
    case (Inr d')
    then show ?thesis
      using add_many_distinct [OF Inr] add_many_db [OF Inr] by (simp add: \<open>insert_job j d = Inr d1\<close> d1)
  next
    case (Inl e)
    have "d_job_id x \<in> j_id ` set (jobs d)" if "x \<in> set (dependencies d)" for x
    proof -
      obtain xs ys where "map j_id (jobs d) = xs @ d_job_id x # ys"
        using assms(9) \<open>x \<in> set (dependencies d)\<close> unfolding depends_earlier_def by blast
      then have "d_job_id x \<in> set (map j_id (jobs d))" by simp
      then show ?thesis by simp
    qed
    moreover have "dependencies d1 = dependencies d" by (simp add: d1)
    ultimately have "\<forall>x \<in> set (dependencies d1). d_job_id x \<noteq> j_id j" using assms(5) by metis
    moreover have "set (jc_depends_on data) \<subseteq> j_id ` set (jobs d1)" "j_id j \<in> j_id ` set (jobs d1)"
      using assms(8) by (auto simp: d1)
    ultimately have "\<not> distinct (jc_depends_on data)"
      using add_many_total [of "jc_depends_on data" d1 "j_id j" f] Inl by auto
    moreover have "e = IntegrityError" by (rule add_many_error [OF Inl])
    ultimately show ?thesis by (simp add: \<open>insert_job j d = Inr d1\<close> Inl)
  qed
qed

text \<open>A new key and a queue that is known: the outcome is that of storing the job.\<close>

lemma fresh_submission_outcome:
  assumes "consistent d" and "job_create_valid json_bytes data" and "u_id usr \<in> u_id ` set (users d)"
    and "i_job ids \<notin> j_id ` set (jobs d)" and None: "find_duplicate usr data d = None"
    and found: "resolve_queue now (i_queue ids) id usr (jc_project_id data) (jc_queue data) d = Inr (q, d1)"
      "q \<in> set (queues d1)"
    and Inr: "workflow_of (i_workflow ids) usr data d1 = Inr w"
  shows "case enqueue now ids id id usr data d of
      (Inr (j, created), d') \<Rightarrow> j \<in> set (jobs d') \<and> job_checks j \<and> j_owner_id j = u_id usr \<and>
        (created \<longrightarrow> distinct (jc_depends_on data))
    | (Inl e, d') \<Rightarrow> d' = d \<and> e = IntegrityError \<and>
        (jc_idempotency_key data = Some '''' \<or> \<not> distinct (jc_depends_on data))"
proof -
  note t = resolve_queue_tables [OF found(1), simplified]
  have k1: "db_keys d1" using resolve_queue_keys [OF found(1)] consistentD(1) [OF assms(1)] by simp
  define j where "j = build_job now (i_job ids) (u_id usr) q data None w"
  define stored_job where "stored_job =
    bind (insert_job j d1) (add_many (i_dependency ids) (j_id j) (jc_depends_on data))"
  have row: "job_checks j" using queue_defaults_inherited [OF assms(2) db_keysD(8) [OF k1 found(2)] j_def] by blast
  have dup: "find_duplicate usr data d1 = None" using None find_duplicate_same [OF t(1)] by simp
  have "depends_earlier d1" using depends_earlier_same [of d1 d] t(1,2) consistentD(4) [OF assms(1)] by simp
  moreover have "u_id usr \<in> u_id ` set (users d1)" "i_job ids \<notin> j_id ` set (jobs d1)"
    using assms(3,4) t by simp_all
  ultimately have "case stored_job of
      Inr d' \<Rightarrow> j \<in> set (jobs d') \<and> distinct (jc_depends_on data)
    | Inl e \<Rightarrow> e = IntegrityError \<and> (jc_idempotency_key data = Some '''' \<or> \<not> distinct (jc_depends_on data))"
    using found(2) workflow_of_targets [OF Inr]
    unfolding stored_job_def by (intro store_job_outcome [OF dup _ _ row]) (simp_all add: j_def)
  moreover have "enqueue now ids id id usr data d =
      (case stored_job of Inr d2 \<Rightarrow> (Inr (j, True), d2) | Inl e \<Rightarrow> (Inl e, d))"
    using None found(1) Inr by (simp add: enqueue_def Let_def stored_job_def j_def cong: sum.case_cong)
  ultimately show ?thesis using row by (cases stored_job) (simp_all add: j_def)
qed



text \<open>A repeated dependency is the second of the two inputs: the answer is 500, not a 4xx.\<close>

theorem repeated_dependency_is_rejected:
  "job_create_valid (\<lambda>_. 2) (sample_create ''default'' None [10, 10]) \<and>
   fst (post_job 0 sample_ids id id sample_user None (sample_create ''default'' None [10, 10]) sample_tenant_db) = 500"
proof
  show "job_create_valid (\<lambda>_. 2) (sample_create ''default'' None [10, 10])"
    by (simp add: job_create_valid_def sample_create_def length_between_def max_payload_bytes_def)
  show "fst (post_job 0 sample_ids id id sample_user None (sample_create ''default'' None [10, 10]) sample_tenant_db) = 500"
    by code_simp
qed

end
