(* ===== verification/Ledger.thy ===== *)
theory Ledger
  imports Cluster
begin

section \<open>What a scheduler promises: the ledger\<close>

text \<open>
  The abstract specification: no tables, leases, clocks, workers or transactions, only a ledger
  with one entry per job and the events that change one entry at a time.  \<open>ledger_of\<close> reads the
  ledger off the jobs table, and every step of the cluster is a sequence of events of the ledger.
\<close>

subsection \<open>The specification\<close>

record entry =
  e_status :: JobStatus
  e_used :: int
  e_holder :: "uuid option"

type_synonym ledger = "uuid \<Rightarrow> entry option"

datatype event =
    Submit uuid
  | Begin_run uuid uuid
  | Complete uuid
  | Retry_later uuid
  | Refund uuid
  | Bury uuid
  | Withdraw uuid
  | Revive uuid

fun event_job :: "event \<Rightarrow> uuid" where
  "event_job (Submit i) = i"
| "event_job (Begin_run i w) = i"
| "event_job (Complete i) = i"
| "event_job (Retry_later i) = i"
| "event_job (Refund i) = i"
| "event_job (Bury i) = i"
| "event_job (Withdraw i) = i"
| "event_job (Revive i) = i"

text \<open>An event that changes an existing entry: from which status, and to what.\<close>

fun change :: "event \<Rightarrow> entry \<Rightarrow> entry option" where
  "change (Submit i) e = None"
| "change (Begin_run i w) e =
     (if e_status e = PENDING then Some \<lparr>e_status = RUNNING, e_used = e_used e + 1, e_holder = Some w\<rparr> else None)"
| "change (Complete i) e =
     (if e_status e = RUNNING then Some \<lparr>e_status = SUCCEEDED, e_used = e_used e, e_holder = None\<rparr> else None)"
| "change (Retry_later i) e =
     (if e_status e = RUNNING then Some \<lparr>e_status = PENDING, e_used = e_used e, e_holder = None\<rparr> else None)"
| "change (Refund i) e =
     (if e_status e = RUNNING then Some \<lparr>e_status = PENDING, e_used = e_used e - 1, e_holder = None\<rparr> else None)"
| "change (Bury i) e =
     (if e_status e = RUNNING then Some \<lparr>e_status = DEAD, e_used = e_used e, e_holder = None\<rparr> else None)"
| "change (Withdraw i) e =
     (if e_status e = PENDING then Some \<lparr>e_status = CANCELLED, e_used = e_used e, e_holder = None\<rparr> else None)"
| "change (Revive i) e =
     (if e_status e = DEAD \<or> e_status e = CANCELLED
      then Some \<lparr>e_status = PENDING, e_used = 0, e_holder = None\<rparr> else None)"

definition apply_event :: "event \<Rightarrow> ledger \<Rightarrow> ledger option" where
  "apply_event ev L =
     (case L (event_job ev) of
        None \<Rightarrow> (case ev of
            Submit i \<Rightarrow> Some (L(i \<mapsto> \<lparr>e_status = PENDING, e_used = 0, e_holder = None\<rparr>))
          | _ \<Rightarrow> None)
      | Some e \<Rightarrow> (case change ev e of None \<Rightarrow> None | Some e' \<Rightarrow> Some (L(event_job ev \<mapsto> e'))))"

fun run_events :: "event list \<Rightarrow> ledger \<Rightarrow> ledger option" where
  "run_events [] L = Some L"
| "run_events (ev # evs) L = (case apply_event ev L of None \<Rightarrow> None | Some L' \<Rightarrow> run_events evs L')"

lemma run_events_append:
  "run_events (es @ fs) L = (case run_events es L of None \<Rightarrow> None | Some L' \<Rightarrow> run_events fs L')"
  by (induction es arbitrary: L) (auto split: option.split)

text \<open>Which events take an edge of the state machine.\<close>

fun takes_edge :: "moves \<Rightarrow> event \<Rightarrow> bool" where
  "takes_edge T (Submit i) \<longleftrightarrow> True"
| "takes_edge T (Begin_run i w) \<longleftrightarrow> (PENDING, RUNNING) \<in> T"
| "takes_edge T (Complete i) \<longleftrightarrow> (RUNNING, SUCCEEDED) \<in> T"
| "takes_edge T (Retry_later i) \<longleftrightarrow> (RUNNING, PENDING) \<in> T"
| "takes_edge T (Refund i) \<longleftrightarrow> (RUNNING, PENDING) \<in> T"
| "takes_edge T (Bury i) \<longleftrightarrow> (RUNNING, DEAD) \<in> T"
| "takes_edge T (Withdraw i) \<longleftrightarrow> (PENDING, CANCELLED) \<in> T"
| "takes_edge T (Revive i) \<longleftrightarrow> (DEAD, PENDING) \<in> T \<or> (CANCELLED, PENDING) \<in> T"

subsection \<open>What the specification guarantees\<close>

text \<open>The runs of a job that began and that ended in a history.\<close>

definition begun :: "uuid \<Rightarrow> event list \<Rightarrow> nat" where
  "begun i es = length (filter (\<lambda>e. \<exists>w. e = Begin_run i w) es)"

definition ended :: "uuid \<Rightarrow> event list \<Rightarrow> nat" where
  "ended i es = length (filter (\<lambda>e. e \<in> {Complete i, Retry_later i, Refund i, Bury i}) es)"

definition running :: "uuid \<Rightarrow> ledger \<Rightarrow> nat" where
  "running i L = (case L i of None \<Rightarrow> 0 | Some e \<Rightarrow> if e_status e = RUNNING then 1 else 0)"

lemma apply_event_balance:
  "apply_event ev L = Some L' \<Longrightarrow> running i L' + ended i [ev] = running i L + begun i [ev]"
  by (cases ev)
    (auto simp: apply_event_def running_def begun_def ended_def split: option.splits if_splits)

lemma run_events_balance:
  "run_events es L = Some L' \<Longrightarrow> running i L' + ended i es = running i L + begun i es"
proof (induction es arbitrary: L)
  case Nil
  then show ?case by (simp add: begun_def ended_def)
next
  case (Cons ev es)
  then obtain L1 where L1: "apply_event ev L = Some L1" "run_events es L1 = Some L'"
    by (auto split: option.splits)
  have "begun i (ev # es) = begun i [ev] + begun i es" "ended i (ev # es) = ended i [ev] + ended i es"
    by (simp_all add: begun_def ended_def)
  then show ?case using Cons.IH [OF L1(2)] apply_event_balance [OF L1(1), of i] by simp
qed

lemma running_le_1: "running i L \<le> 1"
  by (simp add: running_def split: option.split)

text \<open>At most one run of a job is open at any moment of a history.\<close>

lemma runs_never_overlap:
  assumes "run_events es Map.empty = Some L"
  shows "begun i (take n es) = ended i (take n es) \<or> begun i (take n es) = Suc (ended i (take n es))"
proof -
  have "run_events (take n es @ drop n es) Map.empty = Some L" using assms by simp
  then obtain M where "run_events (take n es) Map.empty = Some M"
    by (auto simp: run_events_append simp del: append_take_drop_id split: option.splits)
  from run_events_balance [OF this, of i] running_le_1 [of i M] show ?thesis
    by (auto simp: running_def)
qed

text \<open>A job succeeds at most once, and no run begins after that.\<close>

definition successes :: "uuid \<Rightarrow> event list \<Rightarrow> nat" where
  "successes i es = length (filter (\<lambda>e. e = Complete i) es)"

definition succeeded :: "uuid \<Rightarrow> ledger \<Rightarrow> nat" where
  "succeeded i L = (case L i of None \<Rightarrow> 0 | Some e \<Rightarrow> if e_status e = SUCCEEDED then 1 else 0)"

lemma apply_event_successes:
  "apply_event ev L = Some L' \<Longrightarrow> succeeded i L' = succeeded i L + successes i [ev]"
  by (cases ev)
    (auto simp: apply_event_def succeeded_def successes_def split: option.splits if_splits)

lemma run_events_successes:
  "run_events es L = Some L' \<Longrightarrow> succeeded i L' = succeeded i L + successes i es"
proof (induction es arbitrary: L)
  case Nil
  then show ?case by (simp add: successes_def)
next
  case (Cons ev es)
  then obtain L1 where L1: "apply_event ev L = Some L1" "run_events es L1 = Some L'"
    by (auto split: option.splits)
  have "successes i (ev # es) = successes i [ev] + successes i es" by (simp add: successes_def)
  then show ?case using Cons.IH [OF L1(2)] apply_event_successes [OF L1(1), of i] by simp
qed

lemma one_success:
  assumes "run_events es Map.empty = Some L"
  shows "successes i es \<le> 1"
  using run_events_successes [OF assms, of i] by (simp add: succeeded_def split: option.splits if_splits)

subsection \<open>The ledger of a jobs table\<close>

definition entry_of :: "job \<Rightarrow> entry" where
  "entry_of j = \<lparr>e_status = j_status j, e_used = j_attempt_count j, e_holder = j_locked_by j\<rparr>"

definition ledger_of :: "job list \<Rightarrow> ledger" where
  "ledger_of js i = map_option entry_of (row j_id i js)"

lemma ledger_of_Nil [simp]: "ledger_of [] = Map.empty"
  by (auto simp: ledger_of_def)

lemma ledger_of_replace:
  assumes "unique_on j_id (xs @ j # ys)" and "j_id k = j_id j"
  shows "ledger_of (xs @ k # ys) = (ledger_of (xs @ j # ys))(j_id j \<mapsto> entry_of k)"
    and "ledger_of (xs @ j # ys) (j_id j) = Some (entry_of j)"
proof -
  have "row j_id (j_id j) xs = None"
    using assms(1) by (auto simp: unique_on_def row_def find_None_iff image_iff)
  then show "ledger_of (xs @ k # ys) = (ledger_of (xs @ j # ys))(j_id j \<mapsto> entry_of k)"
    "ledger_of (xs @ j # ys) (j_id j) = Some (entry_of j)"
    using assms(2) by (auto simp: ledger_of_def row_append fun_eq_iff split: option.split)
qed

lemma ledger_of_snoc:
  assumes "j_id k \<notin> j_id ` set js"
  shows "ledger_of (js @ [k]) = (ledger_of js)(j_id k \<mapsto> entry_of k)" and "ledger_of js (j_id k) = None"
proof -
  have "row j_id (j_id k) js = None"
    using assms by (auto simp: row_def find_None_iff image_iff)
  then show "ledger_of (js @ [k]) = (ledger_of js)(j_id k \<mapsto> entry_of k)" "ledger_of js (j_id k) = None"
    by (auto simp: ledger_of_def row_append fun_eq_iff split: option.split)
qed

text \<open>The change of one row is no event or one.\<close>

lemma row_change_is_event:
  assumes "job_evolves T j k" and "lease_ok j" and "lease_ok k"
  shows "entry_of k = entry_of j \<or>
    (\<exists>ev. event_job ev = j_id j \<and> takes_edge T ev \<and> change ev (entry_of j) = Some (entry_of k))"
proof (cases "j_status k = j_status j")
  case True
  then show ?thesis using assms(1) by (simp add: job_evolves_def entry_of_def)
next
  case False
  then have edge: "(j_status j, j_status k) \<in> T" "job_transition (j_status j) (j_status k)"
    and count: "counts_along (j_status j) (j_status k) (j_attempt_count j) (j_attempt_count k)"
    using assms(1) by (auto simp: job_evolves_def)
  have free: "j_status k \<noteq> RUNNING \<Longrightarrow> j_locked_by k = None" using assms(3) by (auto simp: lease_ok_def)
  have held: "j_status k = RUNNING \<Longrightarrow> \<exists>w. j_locked_by k = Some w" using assms(3) by (auto simp: lease_ok_def)
  have "\<exists>ev. event_job ev = j_id j \<and> takes_edge T ev \<and> change ev (entry_of j) = Some (entry_of k)"
    using edge(2)
  proof cases
    case claim
    then obtain w where "j_locked_by k = Some w" using held by blast
    with claim show ?thesis using edge(1) count by (intro exI [of _ "Begin_run (j_id j) w"]) (simp add: entry_of_def)
  next
    case cancel
    then show ?thesis using edge(1) count free by (intro exI [of _ "Withdraw (j_id j)"]) (simp add: entry_of_def)
  next
    case succeed
    then show ?thesis using edge(1) count free by (intro exI [of _ "Complete (j_id j)"]) (simp add: entry_of_def)
  next
    case return_to_pending
    then consider "j_attempt_count k = j_attempt_count j" | "j_attempt_count k = j_attempt_count j - 1"
      using count by auto
    then show ?thesis
    proof cases
      case 1
      then show ?thesis using return_to_pending edge(1) free
        by (intro exI [of _ "Retry_later (j_id j)"]) (simp add: entry_of_def)
    next
      case 2
      then show ?thesis using return_to_pending edge(1) free
        by (intro exI [of _ "Refund (j_id j)"]) (simp add: entry_of_def)
    qed
  next
    case exhaust
    then show ?thesis using edge(1) count free by (intro exI [of _ "Bury (j_id j)"]) (simp add: entry_of_def)
  next
    case requeue_dead
    then show ?thesis using edge(1) count free by (intro exI [of _ "Revive (j_id j)"]) (simp add: entry_of_def)
  next
    case requeue_cancelled
    then show ?thesis using edge(1) count free by (intro exI [of _ "Revive (j_id j)"]) (simp add: entry_of_def)
  qed
  then show ?thesis by blast
qed

lemma rows_change_by_events:
  assumes "list_all2 (job_evolves T) js ks" and "unique_on j_id (xs @ js)"
    and "\<forall>j \<in> set js. lease_ok j" and "\<forall>k \<in> set ks. lease_ok k"
  shows "\<exists>es. run_events es (ledger_of (xs @ js)) = Some (ledger_of (xs @ ks)) \<and> list_all (takes_edge T) es"
  using assms
proof (induction js ks arbitrary: xs rule: list_all2_induct)
  case Nil
  show ?case by (rule exI [of _ "[]"]) simp
next
  case (Cons j js k ks)
  have ids: "j_id k = j_id j" using Cons.hyps(1) job_evolves_ids by blast
  note repl = ledger_of_replace [OF Cons.prems(1) ids]
  have "unique_on j_id ((xs @ [k]) @ js)" using Cons.prems(1) ids by (simp add: unique_on_def)
  then obtain es where es: "run_events es (ledger_of (xs @ k # js)) = Some (ledger_of (xs @ k # ks))"
      "list_all (takes_edge T) es"
    using Cons.IH [of "xs @ [k]"] Cons.prems(2,3) by auto
  from row_change_is_event [OF Cons.hyps(1)] Cons.prems(2,3)
  consider "entry_of k = entry_of j"
    | ev where "event_job ev = j_id j" "takes_edge T ev" "change ev (entry_of j) = Some (entry_of k)"
    by auto
  then show ?case
  proof cases
    case 1
    then have "ledger_of (xs @ k # js) = ledger_of (xs @ j # js)"
      using repl by (simp add: fun_upd_idem)
    then show ?thesis using es by auto
  next
    case (2 ev)
    then have "apply_event ev (ledger_of (xs @ j # js)) = Some (ledger_of (xs @ k # js))"
      using repl by (simp add: apply_event_def)
    then show ?thesis using es 2(2) by (intro exI [of _ "ev # es"]) simp
  qed
qed

lemma new_rows_are_submitted:
  assumes "\<forall>j \<in> set ks. fresh_job j" and "unique_on j_id (js @ ks)"
  shows "\<exists>es. run_events es (ledger_of js) = Some (ledger_of (js @ ks)) \<and> list_all (takes_edge T) es"
  using assms
proof (induction ks arbitrary: js)
  case Nil
  show ?case by (rule exI [of _ "[]"]) simp
next
  case (Cons k ks)
  have "j_id k \<notin> j_id ` set js" using Cons.prems(2) by (auto simp: unique_on_def)
  note snoc = ledger_of_snoc [OF this]
  have "entry_of k = \<lparr>e_status = PENDING, e_used = 0, e_holder = None\<rparr>"
    using Cons.prems(1) by (simp add: entry_of_def fresh_job_def)
  then have "apply_event (Submit (j_id k)) (ledger_of js) = Some (ledger_of (js @ [k]))"
    by (simp add: apply_event_def snoc)
  moreover obtain es where "run_events es (ledger_of (js @ [k])) = Some (ledger_of (js @ k # ks))"
      "list_all (takes_edge T) es"
    using Cons.IH [of "js @ [k]"] Cons.prems by auto
  ultimately show ?case by (intro exI [of _ "Submit (j_id k) # es"]) simp
qed

subsection \<open>The simulation\<close>

lemma db_step_simulates:
  assumes "db_step T d d'" and "consistent d"
  shows "\<exists>es. run_events es (ledger_of (jobs d)) = Some (ledger_of (jobs d')) \<and> list_all (takes_edge T) es"
proof -
  obtain olds news where d': "jobs d' = olds @ news" "list_all2 (job_evolves T) (jobs d) olds"
      "\<forall>j \<in> set news. fresh_job j"
    using assms(1) by (auto simp: db_step_def jobs_evolve_def)
  have c: "consistent d'" using assms(1) by (simp add: db_step_def)
  obtain es where es: "run_events es (ledger_of (jobs d)) = Some (ledger_of olds)" "list_all (takes_edge T) es"
    using rows_change_by_events [OF d'(2), of "[]"] consistentD(2,5) [OF assms(2)] consistentD(5) [OF c]
    by (auto simp: d'(1))
  moreover obtain fs where "run_events fs (ledger_of olds) = Some (ledger_of (jobs d'))" "list_all (takes_edge T) fs"
    using new_rows_are_submitted [OF d'(3), of olds T] consistentD(2) [OF c] by (auto simp: d'(1))
  ultimately show ?thesis by (intro exI [of _ "es @ fs"]) (simp add: run_events_append)
qed

lemma reachable_history: "reachable H s \<sigma> \<Longrightarrow> \<exists>es. run_events es Map.empty = Some (ledger_of (jobs (store \<sigma>)))"
proof (induction rule: reachable.induct)
  case start
  show ?case by (rule exI [of _ "[]"]) (simp add: empty_db_def)
next
  case (step \<sigma> \<tau>)
  then obtain es where es: "run_events es Map.empty = Some (ledger_of (jobs (store \<sigma>)))" by blast
  have c: "consistent (store \<sigma>)" by (rule reachable_consistent [OF step.hyps(1)])
  obtain fs where "run_events fs (ledger_of (jobs (store \<sigma>))) = Some (ledger_of (jobs (store \<tau>)))"
    using db_step_simulates [OF step_db_step [OF step.hyps(2) c] c] by blast
  with es show ?case by (intro exI [of _ "es @ fs"]) (simp add: run_events_append)
qed

end
