(* ===== verification/Ledger_Props.thy ===== *)
theory Ledger_Props
  imports Ledger Cluster_Props
begin

section \<open>The cluster implements the ledger\<close>

text \<open>
  The refinement between the transactions of the program and the specification of \<open>Ledger\<close>, and
  what the specification's guarantees mean for the jobs table.
\<close>

text \<open>The events that a user can cause.\<close>

fun user_event :: "event \<Rightarrow> bool" where
  "user_event (Submit i) \<longleftrightarrow> True"
| "user_event (Withdraw i) \<longleftrightarrow> True"
| "user_event (Revive i) \<longleftrightarrow> True"
| "user_event ev \<longleftrightarrow> False"

lemma user_moves_events: "takes_edge user_moves ev \<Longrightarrow> user_event ev"
  by (cases ev) (auto simp: user_moves_def)

lemma step_events:
  assumes "step H s \<sigma> \<tau>" and "consistent (store \<sigma>)"
  shows "\<exists>fs. run_events fs (ledger_of (jobs (store \<sigma>))) = Some (ledger_of (jobs (store \<tau>))) \<and>
    (request (store \<sigma>) (store \<tau>) \<longrightarrow> list_all user_event fs)"
proof (cases "request (store \<sigma>) (store \<tau>)")
  case True
  obtain fs where "run_events fs (ledger_of (jobs (store \<sigma>))) = Some (ledger_of (jobs (store \<tau>)))"
      "list_all (takes_edge user_moves) fs"
    using db_step_simulates [OF request_db_step [OF True assms(2)] assms(2)] by blast
  moreover from this(2) have "list_all user_event fs"
    using user_moves_events by (auto simp: list_all_iff)
  ultimately show ?thesis by blast
next
  case False
  then show ?thesis using db_step_simulates [OF step_db_step [OF assms] assms(2)] by blast
qed



end
