(* ===== verification/Ddl.thy ===== *)
theory Ddl
  imports Prelude
begin

section \<open>Schemas and the statements that change them\<close>

text \<open>
  The catalog of a PostgreSQL database as far as the migrations touch it: enum types, tables,
  columns, constraints and indexes, and the DDL statements alembic issues for the operations
  the migrations use.  A statement PostgreSQL rejects is \<open>None\<close>; a migration runs in one
  transaction, so it then leaves the catalog as it was.
\<close>

datatype col_type =
    Uuid_col | Varchar nat | Text_col | Integer_col | Float_col | Boolean_col | Timestamptz | Jsonb
  | Enum_col string

record column =
  col_name :: string
  col_type :: col_type
  col_nullable :: bool
  col_primary :: bool
  col_default :: "string option"

text \<open>The two shapes of CHECK expressions the program uses.\<close>

datatype check_expr = Between string int int | Null_or_between string int int

datatype on_delete = On_delete_cascade | On_delete_set_null

datatype table_constraint =
    Unique_key "string option" "string list"
  | Check_range "string option" check_expr
  | Foreign_key "string option" string string string on_delete

datatype index_key = Asc string | Desc string

record index =
  ix_name :: string
  ix_keys :: "index_key list"
  ix_unique :: bool
  ix_where :: "string option"

record db_table =
  t_name :: string
  t_columns :: "column list"
  t_constraints :: "table_constraint list"
  t_indexes :: "index list"

record catalog =
  enum_types :: "(string \<times> string list) list"
  tables :: "db_table list"

definition empty_catalog :: catalog where
  "empty_catalog = \<lparr>enum_types = [], tables = []\<rparr>"

subsection \<open>Reading a catalog\<close>

fun constraint_name :: "table_constraint \<Rightarrow> string option" where
  "constraint_name (Unique_key n _) = n"
| "constraint_name (Check_range n _) = n"
| "constraint_name (Foreign_key n _ _ _ _) = n"

fun check_column :: "check_expr \<Rightarrow> string" where
  "check_column (Between c _ _) = c"
| "check_column (Null_or_between c _ _) = c"

fun constraint_columns :: "table_constraint \<Rightarrow> string list" where
  "constraint_columns (Unique_key _ cs) = cs"
| "constraint_columns (Check_range _ e) = [check_column e]"
| "constraint_columns (Foreign_key _ c _ _ _) = [c]"

fun key_column :: "index_key \<Rightarrow> string" where
  "key_column (Asc c) = c"
| "key_column (Desc c) = c"

definition has_table :: "string \<Rightarrow> catalog \<Rightarrow> bool" where
  "has_table t c \<longleftrightarrow> list_ex (\<lambda>x. t_name x = t) (tables c)"

definition has_column :: "string \<Rightarrow> db_table \<Rightarrow> bool" where
  "has_column n t \<longleftrightarrow> list_ex (\<lambda>x. col_name x = n) (t_columns t)"

definition has_index :: "string \<Rightarrow> catalog \<Rightarrow> bool" where
  "has_index n c \<longleftrightarrow> list_ex (\<lambda>t. list_ex (\<lambda>x. ix_name x = n) (t_indexes t)) (tables c)"

fun type_known :: "catalog \<Rightarrow> col_type \<Rightarrow> bool" where
  "type_known c (Enum_col n) \<longleftrightarrow> list_ex (\<lambda>e. fst e = n) (enum_types c)"
| "type_known c _ \<longleftrightarrow> True"

definition type_used :: "string \<Rightarrow> catalog \<Rightarrow> bool" where
  "type_used n c \<longleftrightarrow> list_ex (\<lambda>t. list_ex (\<lambda>x. col_type x = Enum_col n) (t_columns t)) (tables c)"

fun references :: "string \<Rightarrow> table_constraint \<Rightarrow> bool" where
  "references t (Foreign_key _ _ r _ _) \<longleftrightarrow> r = t"
| "references t _ \<longleftrightarrow> False"

fun target_known :: "catalog \<Rightarrow> table_constraint \<Rightarrow> bool" where
  "target_known c (Foreign_key _ _ r k _) \<longleftrightarrow>
     list_ex (\<lambda>t. t_name t = r \<and> list_ex (\<lambda>x. col_name x = k \<and> col_primary x) (t_columns t)) (tables c)"
| "target_known c _ \<longleftrightarrow> True"

definition constraint_fits :: "catalog \<Rightarrow> db_table \<Rightarrow> table_constraint \<Rightarrow> bool" where
  "constraint_fits c t k \<longleftrightarrow>
     list_all (\<lambda>n. has_column n t) (constraint_columns k) \<and> target_known c k \<and>
     (constraint_name k \<noteq> None \<longrightarrow> \<not> list_ex (\<lambda>x. constraint_name x = constraint_name k) (t_constraints t))"

subsection \<open>Statements\<close>

datatype ddl =
    Create_type string "string list"
  | Drop_type string
  | Create_table string "column list" "table_constraint list"
  | Drop_table string
  | Add_column string column
  | Drop_column string string
  | Set_not_null string string
  | Add_constraint string table_constraint
  | Drop_constraint string string
  | Create_index string index
  | Drop_index string string
  | Execute string

text \<open>A change of one table: \<open>None\<close> when it does not exist or the change is rejected.\<close>

fun alter :: "string \<Rightarrow> (db_table \<Rightarrow> db_table option) \<Rightarrow> db_table list \<Rightarrow> db_table list option" where
  "alter n f [] = None"
| "alter n f (t # ts) =
     (if t_name t = n then (case f t of None \<Rightarrow> None | Some t' \<Rightarrow> Some (t' # ts))
      else (case alter n f ts of None \<Rightarrow> None | Some ts' \<Rightarrow> Some (t # ts')))"

definition alter_table :: "string \<Rightarrow> (db_table \<Rightarrow> db_table option) \<Rightarrow> catalog \<Rightarrow> catalog option" where
  "alter_table n f c =
     (case alter n f (tables c) of None \<Rightarrow> None | Some ts \<Rightarrow> Some (c\<lparr>tables := ts\<rparr>))"

definition add_constraint :: "catalog \<Rightarrow> table_constraint \<Rightarrow> db_table \<Rightarrow> db_table option" where
  "add_constraint c k t =
     (if constraint_fits c t k then Some (t\<lparr>t_constraints := t_constraints t @ [k]\<rparr>) else None)"

fun add_constraints :: "catalog \<Rightarrow> table_constraint list \<Rightarrow> db_table \<Rightarrow> db_table option" where
  "add_constraints c [] t = Some t"
| "add_constraints c (k # ks) t =
     (case add_constraint c k t of None \<Rightarrow> None | Some t' \<Rightarrow> add_constraints c ks t')"

text \<open>
  Enum types are created and dropped with \<open>checkfirst\<close>; a type in use cannot be dropped, nor a
  table that a foreign key refers to.  Dropping a column takes the constraints and indexes on it
  along.
\<close>

fun exec_ddl :: "ddl \<Rightarrow> catalog \<Rightarrow> catalog option" where
  "exec_ddl (Create_type n ls) c =
     (if list_ex (\<lambda>e. fst e = n) (enum_types c) then Some c
      else Some (c\<lparr>enum_types := enum_types c @ [(n, ls)]\<rparr>))"
| "exec_ddl (Drop_type n) c =
     (if type_used n c then None else Some (c\<lparr>enum_types := filter (\<lambda>e. fst e \<noteq> n) (enum_types c)\<rparr>))"
| "exec_ddl (Create_table n cols ks) c =
     (if has_table n c \<or> \<not> list_all (\<lambda>x. type_known c (col_type x)) cols then None
      else case add_constraints c ks \<lparr>t_name = n, t_columns = cols, t_constraints = [], t_indexes = []\<rparr> of
             None \<Rightarrow> None
           | Some t \<Rightarrow> Some (c\<lparr>tables := tables c @ [t]\<rparr>))"
| "exec_ddl (Drop_table n) c =
     (if \<not> has_table n c \<or>
         list_ex (\<lambda>t. t_name t \<noteq> n \<and> list_ex (references n) (t_constraints t)) (tables c) then None
      else Some (c\<lparr>tables := filter (\<lambda>t. t_name t \<noteq> n) (tables c)\<rparr>))"
| "exec_ddl (Add_column n x) c =
     alter_table n (\<lambda>t. if has_column (col_name x) t \<or> \<not> type_known c (col_type x) then None
                        else Some (t\<lparr>t_columns := t_columns t @ [x]\<rparr>)) c"
| "exec_ddl (Drop_column n x) c =
     alter_table n (\<lambda>t. if \<not> has_column x t then None
       else Some (t\<lparr>t_columns := filter (\<lambda>y. col_name y \<noteq> x) (t_columns t),
                    t_constraints := filter (\<lambda>k. x \<notin> set (constraint_columns k)) (t_constraints t),
                    t_indexes := filter (\<lambda>i. x \<notin> key_column ` set (ix_keys i)) (t_indexes t)\<rparr>)) c"
| "exec_ddl (Set_not_null n x) c =
     alter_table n (\<lambda>t. if \<not> has_column x t then None
       else Some (t\<lparr>t_columns := update_where (\<lambda>y. col_name y = x) (\<lambda>y. y\<lparr>col_nullable := False\<rparr>)
                                  (t_columns t)\<rparr>)) c"
| "exec_ddl (Add_constraint n k) c = alter_table n (add_constraint c k) c"
| "exec_ddl (Drop_constraint n k) c =
     alter_table n (\<lambda>t. if \<not> list_ex (\<lambda>x. constraint_name x = Some k) (t_constraints t) then None
       else Some (t\<lparr>t_constraints := filter (\<lambda>x. constraint_name x \<noteq> Some k) (t_constraints t)\<rparr>)) c"
| "exec_ddl (Create_index n i) c =
     (if has_index (ix_name i) c then None
      else alter_table n (\<lambda>t. if \<not> list_all (\<lambda>k. has_column (key_column k) t) (ix_keys i) then None
                              else Some (t\<lparr>t_indexes := t_indexes t @ [i]\<rparr>)) c)"
| "exec_ddl (Drop_index n i) c =
     alter_table n (\<lambda>t. if \<not> list_ex (\<lambda>x. ix_name x = i) (t_indexes t) then None
       else Some (t\<lparr>t_indexes := filter (\<lambda>x. ix_name x \<noteq> i) (t_indexes t)\<rparr>)) c"
| "exec_ddl (Execute sql) c = Some c"

fun exec_all :: "ddl list \<Rightarrow> catalog \<Rightarrow> catalog option" where
  "exec_all [] c = Some c"
| "exec_all (s # ss) c = (case exec_ddl s c of None \<Rightarrow> None | Some c' \<Rightarrow> exec_all ss c')"

lemma exec_all_append:
  "exec_all (ss @ ts) c = (case exec_all ss c of None \<Rightarrow> None | Some c' \<Rightarrow> exec_all ts c')"
  by (induction ss arbitrary: c) (auto split: option.split)

subsection \<open>What two schemas have in common\<close>

text \<open>
  Two tables are alike when they have the same columns, up to their order and their server
  defaults, the same constraints, up to order and names, and the same indexes.
\<close>

definition column_shape :: "column \<Rightarrow> string \<times> col_type \<times> bool \<times> bool" where
  "column_shape x = (col_name x, col_type x, col_nullable x, col_primary x)"

fun unnamed :: "table_constraint \<Rightarrow> table_constraint" where
  "unnamed (Unique_key _ cs) = Unique_key None cs"
| "unnamed (Check_range _ e) = Check_range None e"
| "unnamed (Foreign_key _ x t k d) = Foreign_key None x t k d"

definition same_members :: "'a list \<Rightarrow> 'a list \<Rightarrow> bool" where
  "same_members xs ys \<longleftrightarrow> list_all (\<lambda>x. x \<in> set ys) xs \<and> list_all (\<lambda>y. y \<in> set xs) ys"

lemma same_members_iff: "same_members xs ys \<longleftrightarrow> set xs = set ys"
  by (auto simp: same_members_def list_all_iff)

definition tables_alike :: "db_table \<Rightarrow> db_table \<Rightarrow> bool" where
  "tables_alike t u \<longleftrightarrow>
     t_name t = t_name u \<and>
     same_members (map column_shape (t_columns t)) (map column_shape (t_columns u)) \<and>
     same_members (map unnamed (t_constraints t)) (map unnamed (t_constraints u)) \<and>
     same_members (t_indexes t) (t_indexes u)"

end
