(* ===== verification/Migrations.thy ===== *)
theory Migrations
  imports Ddl
begin

section \<open>The migrations (alembic/versions)\<close>

text \<open>
  The four revisions as lists of DDL statements, in the order of their \<open>upgrade\<close> and
  \<open>downgrade\<close>.  An \<open>Execute\<close> names one of the four data statements of revision 0003, which
  the theory \<open>Backfill\<close> models; they leave the catalog alone.
\<close>

subsection \<open>Columns and indexes as they are written\<close>

definition pk :: "string \<Rightarrow> column" where
  "pk n = \<lparr>col_name = n, col_type = Uuid_col, col_nullable = False, col_primary = True, col_default = None\<rparr>"

definition not_null :: "string \<Rightarrow> col_type \<Rightarrow> column" where
  "not_null n t = \<lparr>col_name = n, col_type = t, col_nullable = False, col_primary = False, col_default = None\<rparr>"

definition nullable :: "string \<Rightarrow> col_type \<Rightarrow> column" where
  "nullable n t = \<lparr>col_name = n, col_type = t, col_nullable = True, col_primary = False, col_default = None\<rparr>"

definition defaulted :: "string \<Rightarrow> col_type \<Rightarrow> string \<Rightarrow> column" where
  "defaulted n t d =
     \<lparr>col_name = n, col_type = t, col_nullable = False, col_primary = False, col_default = Some d\<rparr>"

definition plain_index :: "string \<Rightarrow> index_key list \<Rightarrow> index" where
  "plain_index n ks = \<lparr>ix_name = n, ix_keys = ks, ix_unique = False, ix_where = None\<rparr>"

definition partial_index :: "string \<Rightarrow> index_key list \<Rightarrow> string \<Rightarrow> index" where
  "partial_index n ks w = \<lparr>ix_name = n, ix_keys = ks, ix_unique = False, ix_where = Some w\<rparr>"

definition unique_index :: "string \<Rightarrow> index_key list \<Rightarrow> string \<Rightarrow> index" where
  "unique_index n ks w = \<lparr>ix_name = n, ix_keys = ks, ix_unique = True, ix_where = Some w\<rparr>"

text \<open>SQL literals with their quotes.\<close>

definition quoted :: "string \<Rightarrow> string" where
  "quoted x = [CHR 0x27] @ x @ [CHR 0x27]"

definition json_default :: string where
  "json_default = quoted ''{}'' @ ''::jsonb''"

definition status_is_pending :: string where
  "status_is_pending = ''status = '' @ quoted ''pending''"

definition status_is_running :: string where
  "status_is_running = ''status = '' @ quoted ''running''"

subsection \<open>0001_initial_schema\<close>

definition users_0001 :: "ddl list" where
  "users_0001 =
     [Create_table ''users''
        [pk ''id'', not_null ''email'' (Varchar 255), not_null ''password_hash'' (Varchar 255),
         defaulted ''created_at'' Timestamptz ''now()'']
        [Unique_key (Some ''uq_users_email'') [''email'']]]"

definition workers_0001 :: "ddl list" where
  "workers_0001 =
     [Create_table ''workers''
        [pk ''id'', not_null ''name'' (Varchar 255),
         not_null ''status'' (Enum_col ''worker_status''), not_null ''concurrency'' Integer_col,
         defaulted ''last_heartbeat_at'' Timestamptz ''now()'',
         defaulted ''started_at'' Timestamptz ''now()'', nullable ''stopped_at'' Timestamptz]
        [],
      Create_index ''workers'' (plain_index ''ix_workers_status'' [Asc ''status''])]"

definition jobs_0001 :: "ddl list" where
  "jobs_0001 =
     [Create_table ''jobs''
        [pk ''id'', not_null ''owner_id'' Uuid_col, not_null ''queue'' (Varchar 100),
         not_null ''task_name'' (Varchar 255), defaulted ''payload'' Jsonb json_default,
         not_null ''status'' (Enum_col ''job_status''), not_null ''priority'' Integer_col,
         defaulted ''run_at'' Timestamptz ''now()'', nullable ''idempotency_key'' (Varchar 255),
         not_null ''max_attempts'' Integer_col, not_null ''attempt_count'' Integer_col,
         not_null ''backoff_base_seconds'' Integer_col, not_null ''backoff_factor'' Float_col,
         not_null ''backoff_max_seconds'' Integer_col, nullable ''locked_by'' Uuid_col,
         nullable ''lease_expires_at'' Timestamptz, nullable ''last_error'' Text_col,
         nullable ''result'' Jsonb, defaulted ''created_at'' Timestamptz ''now()'',
         defaulted ''updated_at'' Timestamptz ''now()'', nullable ''started_at'' Timestamptz,
         nullable ''finished_at'' Timestamptz]
        [Foreign_key (Some ''fk_jobs_owner_id_users'') ''owner_id'' ''users'' ''id'' On_delete_cascade,
         Foreign_key (Some ''fk_jobs_locked_by_workers'')
           ''locked_by'' ''workers'' ''id'' On_delete_set_null,
         Check_range (Some ''ck_jobs_max_attempts_range'') (Between ''max_attempts'' 1 20),
         Check_range (Some ''ck_jobs_priority_range'') (Between ''priority'' (-100) 100),
         Check_range (Some ''ck_jobs_backoff_base_range'') (Between ''backoff_base_seconds'' 0 3600),
         Check_range (Some ''ck_jobs_backoff_factor_range'') (Between ''backoff_factor'' 1 10),
         Check_range (Some ''ck_jobs_backoff_max_range'') (Between ''backoff_max_seconds'' 1 86400)],
      Create_index ''jobs'' (plain_index ''ix_jobs_status'' [Asc ''status'']),
      Create_index ''jobs''
        (partial_index ''ix_jobs_claim'' [Desc ''priority'', Asc ''run_at''] status_is_pending),
      Create_index ''jobs'' (partial_index ''ix_jobs_lease'' [Asc ''lease_expires_at''] status_is_running),
      Create_index ''jobs''
        (unique_index ''uq_jobs_owner_idempotency'' [Asc ''owner_id'', Asc ''idempotency_key''] ''idempotency_key IS NOT NULL''),
      Create_index ''jobs''
        (plain_index ''ix_jobs_owner_created'' [Asc ''owner_id'', Desc ''created_at''])]"

definition job_attempts_0001 :: "ddl list" where
  "job_attempts_0001 =
     [Create_table ''job_attempts''
        [pk ''id'', not_null ''job_id'' Uuid_col, nullable ''worker_id'' Uuid_col,
         not_null ''attempt_number'' Integer_col,
         not_null ''status'' (Enum_col ''attempt_status''), nullable ''error'' Text_col,
         defaulted ''started_at'' Timestamptz ''now()'', nullable ''finished_at'' Timestamptz]
        [Foreign_key (Some ''fk_job_attempts_job_id_jobs'')
          ''job_id'' ''jobs'' ''id'' On_delete_cascade,
         Foreign_key (Some ''fk_job_attempts_worker_id_workers'')
           ''worker_id'' ''workers'' ''id'' On_delete_set_null],
      Create_index ''job_attempts''
        (plain_index ''ix_job_attempts_job_number'' [Asc ''job_id'', Asc ''attempt_number'']),
      Create_index ''job_attempts'' (plain_index ''ix_job_attempts_finished'' [Asc ''finished_at''])]"

definition enums_0001 :: "ddl list" where
  "enums_0001 =
     [Create_type ''job_status'' [''pending'', ''running'', ''succeeded'', ''cancelled'', ''dead''],
      Create_type ''worker_status'' [''online'', ''draining'', ''offline''],
      Create_type ''attempt_status'' [''running'', ''succeeded'', ''failed'', ''lost'', ''aborted'']]"

definition upgrade_0001 :: "ddl list" where
  "upgrade_0001 = enums_0001 @ users_0001 @ workers_0001 @ jobs_0001 @ job_attempts_0001"

definition downgrade_0001 :: "ddl list" where
  "downgrade_0001 =
     [Drop_table ''job_attempts'',
      Drop_table ''jobs'',
      Drop_table ''workers'',
      Drop_table ''users'',
      Drop_type ''attempt_status'',
      Drop_type ''job_status'',
      Drop_type ''worker_status'']"

subsection \<open>0002_job_timeout\<close>

definition upgrade_0002 :: "ddl list" where
  "upgrade_0002 =
     [Add_column ''jobs'' (defaulted ''timeout_seconds'' Integer_col ''300''),
      Add_constraint ''jobs'' (Check_range (Some ''ck_jobs_timeout_range'')
        (Between ''timeout_seconds'' 1 86400))]"

definition downgrade_0002 :: "ddl list" where
  "downgrade_0002 =
     [Drop_constraint ''jobs'' ''ck_jobs_timeout_range'',
      Drop_column ''jobs'' ''timeout_seconds'']"

subsection \<open>0003_tenancy_queues_schedules\<close>

definition tenancy_0003 :: "ddl list" where
  "tenancy_0003 =
     [Create_type ''retry_strategy'' [''fixed'', ''linear'', ''exponential''],
      Create_table ''organizations''
        [pk ''id'', not_null ''name'' (Varchar 255),
         defaulted ''created_at'' Timestamptz ''now()'']
        [],
      Create_table ''projects''
        [pk ''id'', not_null ''org_id'' Uuid_col, not_null ''name'' (Varchar 100),
         defaulted ''created_at'' Timestamptz ''now()'']
        [Foreign_key (Some ''fk_projects_org_id_organizations'')
          ''org_id'' ''organizations'' ''id'' On_delete_cascade,
         Unique_key (Some ''uq_projects_org_name'') [''org_id'', ''name'']]]"

definition queues_0003 :: "ddl list" where
  "queues_0003 =
     [Create_table ''queues''
        [pk ''id'', not_null ''project_id'' Uuid_col, not_null ''name'' (Varchar 100),
         defaulted ''paused'' Boolean_col ''false'', nullable ''max_concurrency'' Integer_col,
         defaulted ''default_priority'' Integer_col ''0'',
         defaulted ''default_max_attempts'' Integer_col ''3'',
         defaulted ''default_backoff_strategy'' (Enum_col ''retry_strategy'') ''exponential'',
         defaulted ''default_backoff_base_seconds'' Integer_col ''5'',
         defaulted ''default_backoff_factor'' Float_col ''2.0'',
         defaulted ''default_backoff_max_seconds'' Integer_col ''300'',
         defaulted ''default_timeout_seconds'' Integer_col ''300'',
         defaulted ''created_at'' Timestamptz ''now()'',
         defaulted ''updated_at'' Timestamptz ''now()'']
        [Foreign_key (Some ''fk_queues_project_id_projects'')
          ''project_id'' ''projects'' ''id'' On_delete_cascade,
         Unique_key (Some ''uq_queues_project_name'') [''project_id'', ''name''],
         Check_range (Some ''ck_queues_max_concurrency_range'')
           (Null_or_between ''max_concurrency'' 1 10000),
         Check_range (Some ''ck_queues_default_max_attempts_range'')
           (Between ''default_max_attempts'' 1 20),
         Check_range (Some ''ck_queues_default_priority_range'')
           (Between ''default_priority'' (-100) 100),
         Check_range (Some ''ck_queues_default_backoff_base_range'')
           (Between ''default_backoff_base_seconds'' 0 3600),
         Check_range (Some ''ck_queues_default_backoff_factor_range'')
           (Between ''default_backoff_factor'' 1 10),
         Check_range (Some ''ck_queues_default_backoff_max_range'')
           (Between ''default_backoff_max_seconds'' 1 86400),
         Check_range (Some ''ck_queues_default_timeout_range'')
           (Between ''default_timeout_seconds'' 1 86400)]]"

definition users_0003 :: "ddl list" where
  "users_0003 =
     [Add_column ''users'' (nullable ''org_id'' Uuid_col),
      Execute ''personal_orgs'',
      Execute ''default_projects'',
      Set_not_null ''users'' ''org_id'',
      Add_constraint ''users''
        (Foreign_key (Some ''fk_users_org_id_organizations'') ''org_id'' ''organizations'' ''id'' On_delete_cascade)]"

definition jobs_0003 :: "ddl list" where
  "jobs_0003 =
     [Add_column ''jobs'' (nullable ''queue_id'' Uuid_col),
      Add_column ''jobs'' (nullable ''batch_id'' Uuid_col),
      Add_column ''jobs''
        (defaulted ''backoff_strategy'' (Enum_col ''retry_strategy'') ''exponential''),
      Execute ''materialize_queues'',
      Execute ''point_jobs'',
      Set_not_null ''jobs'' ''queue_id'',
      Add_constraint ''jobs''
        (Foreign_key (Some ''fk_jobs_queue_id_queues'') ''queue_id'' ''queues'' ''id'' On_delete_cascade),
      Create_index ''jobs'' (partial_index ''ix_jobs_queue_running'' [Asc ''queue_id''] status_is_running),
      Create_index ''jobs''
        (partial_index ''ix_jobs_batch'' [Asc ''batch_id''] ''batch_id IS NOT NULL'')]"

definition schedules_0003 :: "ddl list" where
  "schedules_0003 =
     [Create_table ''schedules''
        [pk ''id'', not_null ''owner_id'' Uuid_col, not_null ''queue_id'' Uuid_col,
         not_null ''queue'' (Varchar 100), not_null ''task_name'' (Varchar 255),
         defaulted ''payload'' Jsonb json_default, not_null ''cron_expr'' (Varchar 100),
         defaulted ''paused'' Boolean_col ''false'', defaulted ''priority'' Integer_col ''0'',
         defaulted ''max_attempts'' Integer_col ''3'',
         defaulted ''timeout_seconds'' Integer_col ''300'',
         defaulted ''backoff_strategy'' (Enum_col ''retry_strategy'') ''exponential'',
         defaulted ''backoff_base_seconds'' Integer_col ''5'',
         defaulted ''backoff_factor'' Float_col ''2.0'',
         defaulted ''backoff_max_seconds'' Integer_col ''300'',
         not_null ''next_run_at'' Timestamptz, nullable ''last_run_at'' Timestamptz,
         defaulted ''created_at'' Timestamptz ''now()'',
         defaulted ''updated_at'' Timestamptz ''now()'']
        [Foreign_key (Some ''fk_schedules_owner_id_users'')
          ''owner_id'' ''users'' ''id'' On_delete_cascade,
         Foreign_key (Some ''fk_schedules_queue_id_queues'')
           ''queue_id'' ''queues'' ''id'' On_delete_cascade,
         Check_range (Some ''ck_schedules_max_attempts_range'') (Between ''max_attempts'' 1 20),
         Check_range (Some ''ck_schedules_priority_range'') (Between ''priority'' (-100) 100),
         Check_range (Some ''ck_schedules_backoff_base_range'')
           (Between ''backoff_base_seconds'' 0 3600),
         Check_range (Some ''ck_schedules_backoff_factor_range'') (Between ''backoff_factor'' 1 10),
         Check_range (Some ''ck_schedules_backoff_max_range'')
           (Between ''backoff_max_seconds'' 1 86400),
         Check_range (Some ''ck_schedules_timeout_range'') (Between ''timeout_seconds'' 1 86400)],
      Create_index ''schedules''
        (partial_index ''ix_schedules_due'' [Asc ''next_run_at''] ''NOT paused''),
      Create_index ''schedules'' (plain_index ''ix_schedules_owner'' [Asc ''owner_id''])]"

definition upgrade_0003 :: "ddl list" where
  "upgrade_0003 = tenancy_0003 @ queues_0003 @ users_0003 @ jobs_0003 @ schedules_0003"

definition downgrade_0003 :: "ddl list" where
  "downgrade_0003 =
     [Drop_table ''schedules'',
      Drop_index ''jobs'' ''ix_jobs_batch'',
      Drop_index ''jobs'' ''ix_jobs_queue_running'',
      Drop_constraint ''jobs'' ''fk_jobs_queue_id_queues'',
      Drop_column ''jobs'' ''backoff_strategy'',
      Drop_column ''jobs'' ''batch_id'',
      Drop_column ''jobs'' ''queue_id'',
      Drop_constraint ''users'' ''fk_users_org_id_organizations'',
      Drop_column ''users'' ''org_id'',
      Drop_table ''queues'',
      Drop_table ''projects'',
      Drop_table ''organizations'',
      Drop_type ''retry_strategy'']"

subsection \<open>0004_bonus_features\<close>

definition upgrade_0004 :: "ddl list" where
  "upgrade_0004 =
     [Create_type ''user_role'' [''owner'', ''admin'', ''member'', ''viewer''],
      Add_column ''users'' (defaulted ''role'' (Enum_col ''user_role'') ''owner''),
      Add_column ''jobs'' (nullable ''workflow_id'' Uuid_col),
      Create_index ''jobs''
        (partial_index ''ix_jobs_workflow'' [Asc ''workflow_id''] ''workflow_id IS NOT NULL''),
      Create_table ''job_dependencies''
        [pk ''id'', not_null ''job_id'' Uuid_col, not_null ''depends_on_job_id'' Uuid_col]
        [Foreign_key None ''job_id'' ''jobs'' ''id'' On_delete_cascade,
         Foreign_key None ''depends_on_job_id'' ''jobs'' ''id'' On_delete_cascade,
         Unique_key (Some ''uq_job_dep_pair'') [''job_id'', ''depends_on_job_id'']],
      Create_index ''job_dependencies''
        (plain_index ''ix_job_deps_depends_on'' [Asc ''depends_on_job_id'']),
      Add_column ''queues'' (defaulted ''shard_key'' Integer_col ''0''),
      Add_column ''jobs'' (nullable ''ai_summary'' Text_col)]"

definition downgrade_0004 :: "ddl list" where
  "downgrade_0004 =
     [Drop_column ''jobs'' ''ai_summary'',
      Drop_column ''queues'' ''shard_key'',
      Drop_index ''job_dependencies'' ''ix_job_deps_depends_on'',
      Drop_table ''job_dependencies'',
      Drop_index ''jobs'' ''ix_jobs_workflow'',
      Drop_column ''jobs'' ''workflow_id'',
      Drop_column ''users'' ''role'',
      Drop_type ''user_role'']"

subsection \<open>The chain of revisions\<close>

record revision =
  revision_id :: string
  down_revision :: "string option"
  upgrade :: "ddl list"
  downgrade :: "ddl list"

definition revision_0001 :: revision where
  "revision_0001 = \<lparr>revision_id = ''0001'', down_revision = None,
     upgrade = upgrade_0001, downgrade = downgrade_0001\<rparr>"

definition revision_0002 :: revision where
  "revision_0002 = \<lparr>revision_id = ''0002'', down_revision = Some ''0001'',
     upgrade = upgrade_0002, downgrade = downgrade_0002\<rparr>"

definition revision_0003 :: revision where
  "revision_0003 = \<lparr>revision_id = ''0003'', down_revision = Some ''0002'',
     upgrade = upgrade_0003, downgrade = downgrade_0003\<rparr>"

definition revision_0004 :: revision where
  "revision_0004 = \<lparr>revision_id = ''0004'', down_revision = Some ''0003'',
     upgrade = upgrade_0004, downgrade = downgrade_0004\<rparr>"

definition revisions :: "revision list" where
  "revisions = [revision_0001, revision_0002, revision_0003, revision_0004]"

text \<open>\<open>alembic upgrade head\<close> and \<open>alembic downgrade base\<close>.\<close>

definition upgrade_head :: "ddl list" where
  "upgrade_head = concat (map upgrade revisions)"

definition downgrade_base :: "ddl list" where
  "downgrade_base = concat (map downgrade (rev revisions))"

end
