(* ===== verification/Orm_Schema.thy ===== *)
theory Orm_Schema
  imports Migrations Models
begin

section \<open>The schema the ORM classes declare (app/models)\<close>

text \<open>
  \<open>Base.metadata\<close>: one table per class, its columns in the order of the class, with the
  constraints and indexes of the columns and of \<open>__table_args__\<close>.  Names the convention of
  app/db/base.py supplies are left open.
\<close>

definition orm_users :: db_table where
  "orm_users =
     \<lparr>t_name = ''users'',
      t_columns =
        [pk ''id'', not_null ''org_id'' Uuid_col, not_null ''email'' (Varchar 255),
         not_null ''password_hash'' (Varchar 255), not_null ''role'' (Enum_col ''user_role''),
         defaulted ''created_at'' Timestamptz ''now()''],
      t_constraints =
        [Foreign_key None ''org_id'' ''organizations'' ''id'' On_delete_cascade,
         Unique_key None [''email'']],
      t_indexes = []\<rparr>"

definition orm_organizations :: db_table where
  "orm_organizations =
     \<lparr>t_name = ''organizations'',
      t_columns =
        [pk ''id'', not_null ''name'' (Varchar 255),
         defaulted ''created_at'' Timestamptz ''now()''],
      t_constraints = [],
      t_indexes = []\<rparr>"

definition orm_projects :: db_table where
  "orm_projects =
     \<lparr>t_name = ''projects'',
      t_columns =
        [pk ''id'', not_null ''org_id'' Uuid_col, not_null ''name'' (Varchar 100),
         defaulted ''created_at'' Timestamptz ''now()''],
      t_constraints =
        [Foreign_key None ''org_id'' ''organizations'' ''id'' On_delete_cascade,
         Unique_key (Some ''uq_projects_org_name'') [''org_id'', ''name'']],
      t_indexes = []\<rparr>"

definition orm_queues :: db_table where
  "orm_queues =
     \<lparr>t_name = ''queues'',
      t_columns =
        [pk ''id'', not_null ''project_id'' Uuid_col, not_null ''name'' (Varchar 100),
         not_null ''paused'' Boolean_col, not_null ''shard_key'' Integer_col,
         nullable ''max_concurrency'' Integer_col, not_null ''default_priority'' Integer_col,
         not_null ''default_max_attempts'' Integer_col,
         not_null ''default_backoff_strategy'' (Enum_col ''retry_strategy''),
         not_null ''default_backoff_base_seconds'' Integer_col,
         not_null ''default_backoff_factor'' Float_col,
         not_null ''default_backoff_max_seconds'' Integer_col,
         not_null ''default_timeout_seconds'' Integer_col,
         defaulted ''created_at'' Timestamptz ''now()'',
         defaulted ''updated_at'' Timestamptz ''now()''],
      t_constraints =
        [Foreign_key None ''project_id'' ''projects'' ''id'' On_delete_cascade,
         Unique_key (Some ''uq_queues_project_name'') [''project_id'', ''name''],
         Check_range (Some ''max_concurrency_range'') (Null_or_between ''max_concurrency'' 1 10000),
         Check_range (Some ''default_max_attempts_range'') (Between ''default_max_attempts'' 1 20),
         Check_range (Some ''default_priority_range'') (Between ''default_priority'' (-100) 100),
         Check_range (Some ''default_backoff_base_range'')
           (Between ''default_backoff_base_seconds'' 0 3600),
         Check_range (Some ''default_backoff_factor_range'') (Between ''default_backoff_factor'' 1 10),
         Check_range (Some ''default_backoff_max_range'')
           (Between ''default_backoff_max_seconds'' 1 86400),
         Check_range (Some ''default_timeout_range'') (Between ''default_timeout_seconds'' 1 86400)],
      t_indexes = []\<rparr>"

definition orm_jobs :: db_table where
  "orm_jobs =
     \<lparr>t_name = ''jobs'',
      t_columns =
        [pk ''id'', not_null ''owner_id'' Uuid_col, not_null ''queue_id'' Uuid_col,
         not_null ''queue'' (Varchar 100), not_null ''task_name'' (Varchar 255),
         nullable ''batch_id'' Uuid_col, nullable ''workflow_id'' Uuid_col,
         defaulted ''payload'' Jsonb json_default,
         not_null ''status'' (Enum_col ''job_status''), not_null ''priority'' Integer_col,
         defaulted ''run_at'' Timestamptz ''now()'', nullable ''idempotency_key'' (Varchar 255),
         not_null ''max_attempts'' Integer_col,
         not_null ''backoff_strategy'' (Enum_col ''retry_strategy''),
         not_null ''attempt_count'' Integer_col, not_null ''timeout_seconds'' Integer_col,
         not_null ''backoff_base_seconds'' Integer_col, not_null ''backoff_factor'' Float_col,
         not_null ''backoff_max_seconds'' Integer_col, nullable ''locked_by'' Uuid_col,
         nullable ''lease_expires_at'' Timestamptz, nullable ''last_error'' Text_col,
         nullable ''ai_summary'' Text_col, nullable ''result'' Jsonb,
         defaulted ''created_at'' Timestamptz ''now()'',
         defaulted ''updated_at'' Timestamptz ''now()'', nullable ''started_at'' Timestamptz,
         nullable ''finished_at'' Timestamptz],
      t_constraints =
        [Foreign_key None ''owner_id'' ''users'' ''id'' On_delete_cascade,
         Foreign_key None ''queue_id'' ''queues'' ''id'' On_delete_cascade,
         Foreign_key None ''locked_by'' ''workers'' ''id'' On_delete_set_null,
         Check_range (Some ''max_attempts_range'') (Between ''max_attempts'' 1 20),
         Check_range (Some ''priority_range'') (Between ''priority'' (-100) 100),
         Check_range (Some ''backoff_base_range'') (Between ''backoff_base_seconds'' 0 3600),
         Check_range (Some ''backoff_factor_range'') (Between ''backoff_factor'' 1 10),
         Check_range (Some ''backoff_max_range'') (Between ''backoff_max_seconds'' 1 86400),
         Check_range (Some ''timeout_range'') (Between ''timeout_seconds'' 1 86400)],
      t_indexes =
        [plain_index ''ix_jobs_status'' [Asc ''status''],
         partial_index ''ix_jobs_claim'' [Desc ''priority'', Asc ''run_at''] status_is_pending,
         partial_index ''ix_jobs_lease'' [Asc ''lease_expires_at''] status_is_running,
         unique_index ''uq_jobs_owner_idempotency'' [Asc ''owner_id'', Asc ''idempotency_key''] ''idempotency_key IS NOT NULL'',
         plain_index ''ix_jobs_owner_created'' [Asc ''owner_id'', Desc ''created_at''],
         partial_index ''ix_jobs_queue_running'' [Asc ''queue_id''] status_is_running,
         partial_index ''ix_jobs_batch'' [Asc ''batch_id''] ''batch_id IS NOT NULL'',
         partial_index ''ix_jobs_workflow'' [Asc ''workflow_id''] ''workflow_id IS NOT NULL'']\<rparr>"

definition orm_job_attempts :: db_table where
  "orm_job_attempts =
     \<lparr>t_name = ''job_attempts'',
      t_columns =
        [pk ''id'', not_null ''job_id'' Uuid_col, nullable ''worker_id'' Uuid_col,
         not_null ''attempt_number'' Integer_col,
         not_null ''status'' (Enum_col ''attempt_status''), nullable ''error'' Text_col,
         defaulted ''started_at'' Timestamptz ''now()'', nullable ''finished_at'' Timestamptz],
      t_constraints =
        [Foreign_key None ''job_id'' ''jobs'' ''id'' On_delete_cascade,
         Foreign_key None ''worker_id'' ''workers'' ''id'' On_delete_set_null],
      t_indexes =
        [plain_index ''ix_job_attempts_job_number'' [Asc ''job_id'', Asc ''attempt_number''],
         plain_index ''ix_job_attempts_finished'' [Asc ''finished_at'']]\<rparr>"

definition orm_job_dependencies :: db_table where
  "orm_job_dependencies =
     \<lparr>t_name = ''job_dependencies'',
      t_columns =
        [pk ''id'', not_null ''job_id'' Uuid_col, not_null ''depends_on_job_id'' Uuid_col],
      t_constraints =
        [Foreign_key None ''job_id'' ''jobs'' ''id'' On_delete_cascade,
         Foreign_key None ''depends_on_job_id'' ''jobs'' ''id'' On_delete_cascade,
         Unique_key (Some ''uq_job_dep_pair'') [''job_id'', ''depends_on_job_id'']],
      t_indexes =
        [plain_index ''ix_job_deps_depends_on'' [Asc ''depends_on_job_id'']]\<rparr>"

definition orm_schedules :: db_table where
  "orm_schedules =
     \<lparr>t_name = ''schedules'',
      t_columns =
        [pk ''id'', not_null ''owner_id'' Uuid_col, not_null ''queue_id'' Uuid_col,
         not_null ''queue'' (Varchar 100), not_null ''task_name'' (Varchar 255),
         defaulted ''payload'' Jsonb json_default, not_null ''cron_expr'' (Varchar 100),
         not_null ''paused'' Boolean_col, not_null ''priority'' Integer_col,
         not_null ''max_attempts'' Integer_col, not_null ''timeout_seconds'' Integer_col,
         not_null ''backoff_strategy'' (Enum_col ''retry_strategy''),
         not_null ''backoff_base_seconds'' Integer_col, not_null ''backoff_factor'' Float_col,
         not_null ''backoff_max_seconds'' Integer_col, not_null ''next_run_at'' Timestamptz,
         nullable ''last_run_at'' Timestamptz, defaulted ''created_at'' Timestamptz ''now()'',
         defaulted ''updated_at'' Timestamptz ''now()''],
      t_constraints =
        [Foreign_key None ''owner_id'' ''users'' ''id'' On_delete_cascade,
         Foreign_key None ''queue_id'' ''queues'' ''id'' On_delete_cascade,
         Check_range (Some ''max_attempts_range'') (Between ''max_attempts'' 1 20),
         Check_range (Some ''priority_range'') (Between ''priority'' (-100) 100),
         Check_range (Some ''backoff_base_range'') (Between ''backoff_base_seconds'' 0 3600),
         Check_range (Some ''backoff_factor_range'') (Between ''backoff_factor'' 1 10),
         Check_range (Some ''backoff_max_range'') (Between ''backoff_max_seconds'' 1 86400),
         Check_range (Some ''timeout_range'') (Between ''timeout_seconds'' 1 86400)],
      t_indexes =
        [partial_index ''ix_schedules_due'' [Asc ''next_run_at''] ''NOT paused'',
         plain_index ''ix_schedules_owner'' [Asc ''owner_id'']]\<rparr>"

definition orm_workers :: db_table where
  "orm_workers =
     \<lparr>t_name = ''workers'',
      t_columns =
        [pk ''id'', not_null ''name'' (Varchar 255),
         not_null ''status'' (Enum_col ''worker_status''), not_null ''concurrency'' Integer_col,
         defaulted ''last_heartbeat_at'' Timestamptz ''now()'',
         defaulted ''started_at'' Timestamptz ''now()'', nullable ''stopped_at'' Timestamptz],
      t_constraints = [],
      t_indexes = []\<rparr>"

text \<open>The tables in the order in which the migrations create them.\<close>

definition orm_tables :: "db_table list" where
  "orm_tables = [orm_users, orm_workers, orm_jobs, orm_job_attempts, orm_organizations, orm_projects,
     orm_queues, orm_schedules, orm_job_dependencies]"

definition orm_enums :: "(string \<times> string list) list" where
  "orm_enums =
     [(''job_status'', map job_status_value job_statuses),
      (''worker_status'', [''online'', ''draining'', ''offline'']),
      (''attempt_status'', [''running'', ''succeeded'', ''failed'', ''lost'', ''aborted'']),
      (''retry_strategy'', [''fixed'', ''linear'', ''exponential'']),
      (''user_role'', map user_role_value [OWNER, ADMIN, MEMBER, VIEWER])]"

end
