(* ===== verification/Schema_Props.thy ===== *)
theory Schema_Props
  imports Orm_Schema
begin

section \<open>Properties of the migrated schema\<close>

text \<open>
  The migrated schema is the one the ORM classes declare, each downgrade undoes its upgrade, and
  the CHECK constraints are the predicates of the model.
\<close>

subsection \<open>The schema\<close>

definition workers_status_index :: index where
  "workers_status_index = plain_index ''ix_workers_status'' [Asc ''status'']"

text \<open>C25: The migrations and the models agree: \<open>alembic upgrade head\<close> on an empty database succeeds and
  builds exactly the enums and tables the ORM classes declare, the same columns with the same
  types and nullability, the same keys, CHECK expressions, foreign keys with the same ON DELETE
  and the same indexes, but for one index on workers.status that no class declares.\<close>

theorem migrations_build_the_models:
  "\<exists>c. exec_all upgrade_head empty_catalog = Some c \<and> enum_types c = orm_enums \<and>
     list_all2 tables_alike (tables c)
       (map (\<lambda>t. if t_name t = ''workers'' then t\<lparr>t_indexes := workers_status_index # t_indexes t\<rparr> else t)
          orm_tables)"
proof -
  have "case exec_all upgrade_head empty_catalog of None \<Rightarrow> False | Some c \<Rightarrow> enum_types c = orm_enums \<and>
     list_all2 tables_alike (tables c)
       (map (\<lambda>t. if t_name t = ''workers'' then t\<lparr>t_indexes := workers_status_index # t_indexes t\<rparr> else t)
          orm_tables)"
    by code_simp
  then show ?thesis by (simp split: option.splits)
qed

definition schema_at :: "nat \<Rightarrow> catalog option" where
  "schema_at n = exec_all (concat (map upgrade (take n revisions))) empty_catalog"

definition undone :: "nat \<Rightarrow> bool" where
  "undone n \<longleftrightarrow> (case schema_at (Suc n) of
     None \<Rightarrow> False | Some c \<Rightarrow> exec_all (downgrade (revisions ! n)) c = schema_at n)"

lemma undone_0001: "undone 0" by code_simp
lemma undone_0002: "undone 1" by code_simp
lemma undone_0003: "undone 2" by code_simp
lemma undone_0004: "undone 3" by code_simp

lemma undone_step:
  assumes "n < length revisions" and "undone n"
  shows "\<exists>c c'. schema_at n = Some c \<and> exec_all (upgrade (revisions ! n)) c = Some c' \<and>
    schema_at (Suc n) = Some c' \<and> exec_all (downgrade (revisions ! n)) c' = Some c"
  using assms
  by (auto simp: undone_def schema_at_def take_Suc_conv_app_nth exec_all_append split: option.splits)

lemma four_revisions: "length revisions = 4" "upgrade_head = concat (map upgrade (take 4 revisions))"
    "downgrade_base = downgrade (revisions ! 3) @ downgrade (revisions ! 2) @ downgrade (revisions ! 1) @
       downgrade (revisions ! 0)"
  by (simp_all add: revisions_def upgrade_head_def downgrade_base_def)

text \<open>C26: Every downgrade undoes its upgrade: from the schema of each revision, upgrading by one and
  downgrading again succeeds and gives back that very schema (columns in the same order); the
  four revisions form one chain, and going down from the head to the base leaves nothing.\<close>

theorem downgrades_undo_upgrades:
  "\<exists>c1 c2 c3 c4.
     exec_all upgrade_0001 empty_catalog = Some c1 \<and> exec_all downgrade_0001 c1 = Some empty_catalog \<and>
     exec_all upgrade_0002 c1 = Some c2 \<and> exec_all downgrade_0002 c2 = Some c1 \<and>
     exec_all upgrade_0003 c2 = Some c3 \<and> exec_all downgrade_0003 c3 = Some c2 \<and>
     exec_all upgrade_0004 c3 = Some c4 \<and> exec_all downgrade_0004 c4 = Some c3 \<and>
     exec_all upgrade_head empty_catalog = Some c4 \<and>
     exec_all (upgrade_head @ downgrade_base) empty_catalog = Some empty_catalog \<and>
     map down_revision revisions = None # map (Some \<circ> revision_id) (butlast revisions)"
proof -
  have ups: "upgrade (revisions ! 0) = upgrade_0001" "upgrade (revisions ! 1) = upgrade_0002"
      "upgrade (revisions ! 2) = upgrade_0003" "upgrade (revisions ! 3) = upgrade_0004"
      "downgrade (revisions ! 0) = downgrade_0001" "downgrade (revisions ! 1) = downgrade_0002"
      "downgrade (revisions ! 2) = downgrade_0003" "downgrade (revisions ! 3) = downgrade_0004"
    by (simp_all add: revisions_def revision_0001_def revision_0002_def revision_0003_def revision_0004_def)
  have s0: "schema_at 0 = Some empty_catalog" by (simp add: schema_at_def)
  from undone_step [OF _ undone_0001] undone_step [OF _ undone_0002] undone_step [OF _ undone_0003]
    undone_step [OF _ undone_0004]
  obtain c1 c2 c3 c4 where
    up: "exec_all upgrade_0001 empty_catalog = Some c1" "exec_all upgrade_0002 c1 = Some c2"
      "exec_all upgrade_0003 c2 = Some c3" "exec_all upgrade_0004 c3 = Some c4" "schema_at 4 = Some c4" and
    down: "exec_all downgrade_0001 c1 = Some empty_catalog" "exec_all downgrade_0002 c2 = Some c1"
      "exec_all downgrade_0003 c3 = Some c2" "exec_all downgrade_0004 c4 = Some c3"
    by (auto simp: four_revisions(1) ups s0 One_nat_def [symmetric] simp del: One_nat_def)
  have head: "exec_all upgrade_head empty_catalog = Some c4"
    using up(5) by (simp add: four_revisions(2) schema_at_def)
  then have round: "exec_all (upgrade_head @ downgrade_base) empty_catalog = Some empty_catalog"
    by (simp add: exec_all_append four_revisions(3) ups down del: One_nat_def)
  have chain: "map down_revision revisions = None # map (Some \<circ> revision_id) (butlast revisions)"
    by (simp add: revisions_def revision_0001_def revision_0002_def revision_0003_def revision_0004_def)
  show ?thesis
    by (rule exI [of _ c1], rule exI [of _ c2], rule exI [of _ c3], rule exI [of _ c4])
      (intro conjI up down head round chain)
qed

subsection \<open>The CHECK constraints\<close>

text \<open>A CHECK passes on a null; the numeric columns of a row by name.\<close>

definition in_range :: "int \<Rightarrow> int \<Rightarrow> real option \<Rightarrow> bool" where
  "in_range lo hi v = (case v of None \<Rightarrow> True | Some x \<Rightarrow> real_of_int lo \<le> x \<and> x \<le> real_of_int hi)"

fun check_holds :: "(string \<Rightarrow> real option) \<Rightarrow> check_expr \<Rightarrow> bool" where
  "check_holds value (Between c lo hi) = in_range lo hi (value c)"
| "check_holds value (Null_or_between c lo hi) = (value c = None \<or> in_range lo hi (value c))"

fun checks_of :: "table_constraint list \<Rightarrow> check_expr list" where
  "checks_of [] = []"
| "checks_of (Check_range _ e # ks) = e # checks_of ks"
| "checks_of (_ # ks) = checks_of ks"

definition table_checks :: "catalog \<Rightarrow> string \<Rightarrow> check_expr list" where
  "table_checks c n = concat (map (\<lambda>t. if t_name t = n then checks_of (t_constraints t) else []) (tables c))"

definition job_column :: "job \<Rightarrow> string \<Rightarrow> real option" where
  "job_column j = map_of [(''max_attempts'', real_of_int (j_max_attempts j)), (''priority'', real_of_int (j_priority j)),
     (''backoff_base_seconds'', real_of_int (j_backoff_base_seconds j)), (''backoff_factor'', j_backoff_factor j),
     (''backoff_max_seconds'', real_of_int (j_backoff_max_seconds j)),
     (''timeout_seconds'', real_of_int (j_timeout_seconds j))]"

definition schedule_column :: "schedule \<Rightarrow> string \<Rightarrow> real option" where
  "schedule_column s = map_of [(''max_attempts'', real_of_int (s_max_attempts s)), (''priority'', real_of_int (s_priority s)),
     (''backoff_base_seconds'', real_of_int (s_backoff_base_seconds s)), (''backoff_factor'', s_backoff_factor s),
     (''backoff_max_seconds'', real_of_int (s_backoff_max_seconds s)),
     (''timeout_seconds'', real_of_int (s_timeout_seconds s))]"

definition queue_column :: "job_queue \<Rightarrow> string \<Rightarrow> real option" where
  "queue_column q n = (if n = ''max_concurrency'' then map_option real_of_int (q_max_concurrency q)
     else map_of [(''default_max_attempts'', real_of_int (q_default_max_attempts q)),
     (''default_priority'', real_of_int (q_default_priority q)),
     (''default_backoff_base_seconds'', real_of_int (q_default_backoff_base_seconds q)),
     (''default_backoff_factor'', q_default_backoff_factor q),
     (''default_backoff_max_seconds'', real_of_int (q_default_backoff_max_seconds q)),
     (''default_timeout_seconds'', real_of_int (q_default_timeout_seconds q))] n)"

lemma head_checks:
  "case exec_all upgrade_head empty_catalog of None \<Rightarrow> False | Some c \<Rightarrow>
     table_checks c ''jobs'' = [Between ''max_attempts'' 1 20, Between ''priority'' (-100) 100,
       Between ''backoff_base_seconds'' 0 3600, Between ''backoff_factor'' 1 10,
       Between ''backoff_max_seconds'' 1 86400, Between ''timeout_seconds'' 1 86400] \<and>
     table_checks c ''schedules'' = table_checks c ''jobs'' \<and>
     table_checks c ''queues'' = [Null_or_between ''max_concurrency'' 1 10000,
       Between ''default_max_attempts'' 1 20, Between ''default_priority'' (-100) 100,
       Between ''default_backoff_base_seconds'' 0 3600, Between ''default_backoff_factor'' 1 10,
       Between ''default_backoff_max_seconds'' 1 86400, Between ''default_timeout_seconds'' 1 86400]"
  by code_simp

text \<open>C27: The predicates of the model are the CHECK constraints of the migrated schema: a row of jobs,
  queues or schedules passes every CHECK expression the migrations put on its table exactly when
  it satisfies \<open>job_checks\<close>, \<open>queue_checks\<close> or \<open>schedule_checks\<close>.\<close>

theorem checks_are_the_migrated_ones:
  "\<exists>c. exec_all upgrade_head empty_catalog = Some c \<and>
     (list_all (check_holds (job_column j)) (table_checks c ''jobs'') \<longleftrightarrow> job_checks j) \<and>
     (list_all (check_holds (queue_column q)) (table_checks c ''queues'') \<longleftrightarrow> queue_checks q) \<and>
     (list_all (check_holds (schedule_column s)) (table_checks c ''schedules'') \<longleftrightarrow> schedule_checks s)"
proof -
  obtain c where c: "exec_all upgrade_head empty_catalog = Some c"
    and checks: "table_checks c ''jobs'' = [Between ''max_attempts'' 1 20, Between ''priority'' (-100) 100,
       Between ''backoff_base_seconds'' 0 3600, Between ''backoff_factor'' 1 10,
       Between ''backoff_max_seconds'' 1 86400, Between ''timeout_seconds'' 1 86400]"
     "table_checks c ''schedules'' = table_checks c ''jobs''"
     "table_checks c ''queues'' = [Null_or_between ''max_concurrency'' 1 10000,
       Between ''default_max_attempts'' 1 20, Between ''default_priority'' (-100) 100,
       Between ''default_backoff_base_seconds'' 0 3600, Between ''default_backoff_factor'' 1 10,
       Between ''default_backoff_max_seconds'' 1 86400, Between ''default_timeout_seconds'' 1 86400]"
    using head_checks by (simp split: option.splits)
  have [simp]: "- 100 \<le> real_of_int x \<longleftrightarrow> - 100 \<le> x" for x by linarith
  have "list_all (check_holds (job_column j)) (table_checks c ''jobs'') \<longleftrightarrow> job_checks j"
    by (simp add: checks job_checks_def job_column_def in_range_def conj_ac)
  moreover have "list_all (check_holds (schedule_column s)) (table_checks c ''schedules'') \<longleftrightarrow> schedule_checks s"
    by (simp add: checks schedule_checks_def schedule_column_def in_range_def conj_ac)
  moreover have "list_all (check_holds (queue_column q)) (table_checks c ''queues'') \<longleftrightarrow> queue_checks q"
    by (cases "q_max_concurrency q") (simp_all add: checks queue_checks_def queue_column_def in_range_def conj_ac)
  ultimately show ?thesis using c by blast
qed

end
