(* ===== verification/Backfill.thy ===== *)
theory Backfill
  imports System Migrations
begin

section \<open>The data the migrations carry over (alembic/versions)\<close>

text \<open>
  Revisions 0002 to 0004 run over the rows of an older database.  The rows of a revision extend
  those of the one before by the columns it adds, a server default filling a new column; the
  four data statements of 0003 give every user an organization with a project and every job a
  queue.  \<open>gen_random_uuid()\<close> is an argument, a function of the row it is drawn for.  \<open>None\<close> is a
  migration that fails and rolls back.
\<close>

subsection \<open>Rows of the older revisions\<close>

record user_0001 =
  old_user_id :: uuid
  old_email :: string
  old_password_hash :: string
  old_user_created_at :: time

record user_0003 = user_0001 +
  old_org_id :: "uuid option"

record job_0001 =
  old_id :: uuid
  old_owner_id :: uuid
  old_queue :: string
  old_task_name :: string
  old_payload :: json
  old_status :: JobStatus
  old_priority :: int
  old_run_at :: time
  old_idempotency_key :: "string option"
  old_max_attempts :: int
  old_attempt_count :: int
  old_backoff_base_seconds :: int
  old_backoff_factor :: real
  old_backoff_max_seconds :: int
  old_locked_by :: "uuid option"
  old_lease_expires_at :: "time option"
  old_last_error :: "string option"
  old_result :: "json option"
  old_created_at :: time
  old_updated_at :: time
  old_started_at :: "time option"
  old_finished_at :: "time option"

record job_0002 = job_0001 +
  old_timeout_seconds :: int

record job_0003 = job_0002 +
  old_queue_id :: "uuid option"
  old_batch_id :: "uuid option"
  old_backoff_strategy :: RetryStrategy

record db_0001 =
  old_users :: "user_0001 list"
  old_workers :: "worker list"
  old_jobs :: "job_0001 list"
  old_attempts :: "job_attempt list"

subsection \<open>Columns that are added\<close>

definition add_timeout :: "job_0001 \<Rightarrow> job_0002" where
  "add_timeout j = job_0001.extend j (job_0002.fields 300)"

definition add_org :: "user_0001 \<Rightarrow> user_0003" where
  "add_org u = user_0001.extend u (user_0003.fields None)"

definition add_queue :: "job_0002 \<Rightarrow> job_0003" where
  "add_queue j = job_0002.extend j (job_0003.fields None None EXPONENTIAL)"

subsection \<open>The data statements of 0003\<close>

record backfill_ids =
  b_org :: "uuid \<Rightarrow> uuid"
  b_project :: "uuid \<Rightarrow> uuid"
  b_queue :: "uuid \<Rightarrow> string \<Rightarrow> uuid"

text \<open>One organization per user without one, named after the email, and the user points at it.\<close>

definition personal_orgs ::
  "time \<Rightarrow> backfill_ids \<Rightarrow> user_0003 list \<Rightarrow> (organization list \<times> user_0003 list) option" where
  "personal_orgs now ids us =
     (let new_orgs = map (\<lambda>u. \<lparr>o_id = b_org ids (old_user_id u), o_name = old_email u, o_created_at = now\<rparr>)
                       (filter (\<lambda>u. old_org_id u = None) us)
      in if \<not> distinct (map o_id new_orgs) then None
         else Some (new_orgs, map (\<lambda>u. if old_org_id u \<noteq> None then u
                else case List.find (\<lambda>x. o_name x = old_email u) new_orgs of
                       None \<Rightarrow> u | Some x \<Rightarrow> u\<lparr>old_org_id := Some (o_id x)\<rparr>) us))"

definition default_projects ::
  "time \<Rightarrow> backfill_ids \<Rightarrow> organization list \<Rightarrow> project list \<Rightarrow> project list option" where
  "default_projects now ids os ps =
     (let added = map (\<lambda>x. \<lparr>p_id = b_project ids (o_id x), p_org_id = o_id x, p_name = ''default'',
                             p_created_at = now\<rparr>)
                    (filter (\<lambda>x. \<not> list_ex (\<lambda>p. p_org_id p = o_id x \<and> p_name p = ''default'') ps) os)
      in if distinct (map p_id (ps @ added)) then Some (ps @ added) else None)"

text \<open>The default projects of the organization of a user.\<close>

definition homes :: "user_0003 list \<Rightarrow> project list \<Rightarrow> uuid \<Rightarrow> project list" where
  "homes us ps ow =
     concat (map (\<lambda>u. filter (\<lambda>p. Some (p_org_id p) = old_org_id u \<and> p_name p = ''default'') ps)
       (filter (\<lambda>u. old_user_id u = ow) us))"

text \<open>\<open>ON CONFLICT (project_id, name) DO NOTHING\<close>; a clash of primary keys is an error.\<close>

fun insert_unless_named :: "job_queue list \<Rightarrow> job_queue list \<Rightarrow> job_queue list option" where
  "insert_unless_named [] qs = Some qs"
| "insert_unless_named (q # new) qs =
     (if (q_project_id q, q_name q) \<in> (\<lambda>x. (q_project_id x, q_name x)) ` set qs then insert_unless_named new qs
      else if q_id q \<in> q_id ` set qs then None
      else insert_unless_named new (qs @ [q]))"

definition materialize_queues ::
  "time \<Rightarrow> backfill_ids \<Rightarrow> user_0003 list \<Rightarrow> project list \<Rightarrow> job_0003 list \<Rightarrow> job_queue list
     \<Rightarrow> job_queue list option" where
  "materialize_queues now ids us ps js qs =
     insert_unless_named
       (concat (map (\<lambda>(ow, nm). map (\<lambda>p. new_queue now (b_queue ids (p_id p) nm) (p_id p) nm) (homes us ps ow))
          (remdups (map (\<lambda>j. (old_owner_id j, old_queue j)) js)))) qs"

definition point_job :: "user_0003 list \<Rightarrow> project list \<Rightarrow> job_queue list \<Rightarrow> job_0003 \<Rightarrow> job_0003" where
  "point_job us ps qs j =
     (if old_queue_id j \<noteq> None then j
      else case List.find (\<lambda>q. q_project_id q \<in> p_id ` set (homes us ps (old_owner_id j)) \<and> q_name q = old_queue j) qs of
             None \<Rightarrow> j | Some q \<Rightarrow> j\<lparr>old_queue_id := Some (q_id q)\<rparr>)"

subsection \<open>The whole upgrade\<close>

text \<open>\<open>SET NOT NULL\<close> scans the table; 0004 adds a role, a workflow and a summary.\<close>

definition modern_user :: "user_0003 \<Rightarrow> user option" where
  "modern_user u = map_option (\<lambda>i. \<lparr>u_id = old_user_id u, u_org_id = i, u_email = old_email u,
     u_password_hash = old_password_hash u, u_role = OWNER, u_created_at = old_user_created_at u\<rparr>) (old_org_id u)"

definition modern_job :: "job_0003 \<Rightarrow> job option" where
  "modern_job j = map_option (\<lambda>i.
     \<lparr>j_id = old_id j, j_owner_id = old_owner_id j, j_queue_id = i, j_queue = old_queue j,
      j_task_name = old_task_name j, j_batch_id = old_batch_id j, j_workflow_id = None,
      j_payload = old_payload j, j_status = old_status j, j_priority = old_priority j,
      j_run_at = old_run_at j, j_idempotency_key = old_idempotency_key j,
      j_max_attempts = old_max_attempts j, j_backoff_strategy = old_backoff_strategy j,
      j_attempt_count = old_attempt_count j, j_timeout_seconds = old_timeout_seconds j,
      j_backoff_base_seconds = old_backoff_base_seconds j, j_backoff_factor = old_backoff_factor j,
      j_backoff_max_seconds = old_backoff_max_seconds j, j_locked_by = old_locked_by j,
      j_lease_expires_at = old_lease_expires_at j, j_last_error = old_last_error j,
      j_ai_summary = None, j_result = old_result j, j_created_at = old_created_at j,
      j_updated_at = old_updated_at j, j_started_at = old_started_at j,
      j_finished_at = old_finished_at j\<rparr>) (old_queue_id j)"

definition upgrade_data :: "time \<Rightarrow> backfill_ids \<Rightarrow> db_0001 \<Rightarrow> db option" where
  "upgrade_data now ids d =
     Option.bind (personal_orgs now ids (map add_org (old_users d))) (\<lambda>(orgs, us).
     Option.bind (default_projects now ids orgs []) (\<lambda>ps.
     Option.bind (those (map modern_user us)) (\<lambda>modern_users.
     let js = map (add_queue \<circ> add_timeout) (old_jobs d) in
     Option.bind (materialize_queues now ids us ps js []) (\<lambda>qs.
     Option.bind (those (map (modern_job \<circ> point_job us ps qs) js)) (\<lambda>modern_jobs.
       Some \<lparr>organizations = orgs, projects = ps, users = modern_users, queues = qs, jobs = modern_jobs,
             attempts = old_attempts d, dependencies = [], workers = old_workers d, schedules = []\<rparr>)))))"

end
