(* ===== verification/Migration_Props.thy ===== *)
theory Migration_Props
  imports Backfill
begin

section \<open>Properties of the backfill\<close>

text \<open>
  The statements of revision 0003 one by one, and the database they end with: consistent,
  whatever sound database of revision 0001 they started from.
\<close>

text \<open>What the schema of 0001 and the program of its time guarantee of the rows.\<close>

definition sound_job_0001 :: "db_0001 \<Rightarrow> job_0001 \<Rightarrow> bool" where
  "sound_job_0001 d j \<longleftrightarrow>
     old_owner_id j \<in> old_user_id ` set (old_users d) \<and>
     1 \<le> old_max_attempts j \<and> old_max_attempts j \<le> 20 \<and>
     -100 \<le> old_priority j \<and> old_priority j \<le> 100 \<and>
     0 \<le> old_backoff_base_seconds j \<and> old_backoff_base_seconds j \<le> 3600 \<and>
     1 \<le> old_backoff_factor j \<and> old_backoff_factor j \<le> 10 \<and>
     1 \<le> old_backoff_max_seconds j \<and> old_backoff_max_seconds j \<le> 86400 \<and>
     (old_locked_by j \<noteq> None \<longleftrightarrow> old_status j = RUNNING) \<and>
     (old_lease_expires_at j \<noteq> None \<longleftrightarrow> old_status j = RUNNING) \<and> 0 \<le> old_attempt_count j \<and>
     (old_status j = RUNNING \<longrightarrow> 1 \<le> old_attempt_count j \<and>
        (\<exists>a \<in> set (old_attempts d). open_attempt (old_id j) (old_attempt_count j) a \<and>
           a_worker_id a = old_locked_by j))"

definition sound_0001 :: "db_0001 \<Rightarrow> bool" where
  "sound_0001 d \<longleftrightarrow>
     unique_on old_user_id (old_users d) \<and> unique_on old_email (old_users d) \<and> unique_on old_id (old_jobs d) \<and>
     unique_on (\<lambda>j. (old_owner_id j, old_idempotency_key j))
       (filter (\<lambda>j. old_idempotency_key j \<noteq> None) (old_jobs d)) \<and>
     (\<forall>j \<in> set (old_jobs d). sound_job_0001 d j)"

text \<open>No two rows draw the same UUID.\<close>

definition distinct_ids :: "backfill_ids \<Rightarrow> db_0001 \<Rightarrow> bool" where
  "distinct_ids ids d \<longleftrightarrow> inj (b_org ids) \<and> inj (b_project ids) \<and>
     inj_on (\<lambda>(p, n). b_queue ids p n) (UNIV \<times> old_queue ` set (old_jobs d))"

definition migrated_user :: "backfill_ids \<Rightarrow> user_0001 \<Rightarrow> user_0003" where
  "migrated_user ids u = (add_org u)\<lparr>old_org_id := Some (b_org ids (old_user_id u))\<rparr>"

definition home :: "time \<Rightarrow> backfill_ids \<Rightarrow> uuid \<Rightarrow> project" where
  "home now ids ow = \<lparr>p_id = b_project ids (b_org ids ow), p_org_id = b_org ids ow, p_name = ''default'',
     p_created_at = now\<rparr>"

lemma add_org_fields [simp]:
  "old_user_id (add_org u) = old_user_id u" "old_email (add_org u) = old_email u"
  "old_password_hash (add_org u) = old_password_hash u" "old_org_id (add_org u) = None"
  "old_user_created_at (add_org u) = old_user_created_at u"
  by (cases u; simp add: add_org_def user_0001.defs user_0003.defs)+

lemma migrated_user_fields [simp]:
  "old_user_id (migrated_user ids u) = old_user_id u"
  "old_org_id (migrated_user ids u) = Some (b_org ids (old_user_id u))"
  by (simp_all add: migrated_user_def)

lemma filter_unique_key:
  "unique_on key rs \<Longrightarrow> r \<in> set rs \<Longrightarrow> filter (\<lambda>x. key x = key r) rs = [r]"
proof (induction rs)
  case (Cons x rs)
  show ?case
  proof (cases "r = x")
    case True
    then have "filter (\<lambda>y. key y = key r) rs = []"
      using Cons.prems(1) by (auto simp: unique_on_def filter_empty_conv image_iff)
    then show ?thesis using True by simp
  next
    case False
    then have "r \<in> set rs" using Cons.prems(2) by simp
    moreover from this have "key x \<noteq> key r" using Cons.prems(1) by (auto simp: unique_on_def)
    ultimately show ?thesis using Cons by (simp add: unique_on_def)
  qed
qed simp

lemma find_unique_key:
  "unique_on key rs \<Longrightarrow> r \<in> set rs \<Longrightarrow> List.find (\<lambda>x. key x = key r) rs = Some r"
  by (induction rs) (auto simp: unique_on_def image_iff)

lemma distinct_map_inj: "inj f \<Longrightarrow> distinct (map f xs) = distinct xs"
  by (auto simp: distinct_map intro: inj_on_subset)

lemma find_the_one:
  assumes "x \<in> set xs" and "P x" and "\<And>y. y \<in> set xs \<Longrightarrow> P y \<Longrightarrow> y = x"
  shows "List.find P xs = Some x"
proof (cases "List.find P xs")
  case None
  then show ?thesis using assms(1,2) by (simp add: find_None_iff)
next
  case (Some y)
  then show ?thesis using assms(3) find_SomeD by metis
qed

lemma those_map: "(\<And>x. x \<in> set xs \<Longrightarrow> f x = Some (g x)) \<Longrightarrow> those (map f xs) = Some (map g xs)"
  by (induction xs) auto

lemma personal_orgs_result:
  assumes "unique_on old_user_id us" and "unique_on old_email us" and "inj (b_org ids)"
  shows "personal_orgs now ids (map add_org us) =
    Some (map (\<lambda>u. \<lparr>o_id = b_org ids (old_user_id u), o_name = old_email u, o_created_at = now\<rparr>) us,
          map (migrated_user ids) us)"
proof -
  let ?org = "\<lambda>u. \<lparr>o_id = b_org ids (old_user_id u), o_name = old_email u, o_created_at = now\<rparr>"
  have all: "filter (\<lambda>u. old_org_id u = None) (map add_org us) = map add_org us" by (simp add: filter_map o_def)
  have "distinct (map (b_org ids) (map old_user_id us))"
    using assms(1) unfolding distinct_map_inj [OF assms(3)] unique_on_def .
  moreover have "unique_on o_name (map ?org us)" using assms(2) by (simp add: unique_on_def o_def)
  then have "List.find (\<lambda>x. o_name x = old_email u) (map ?org us) = Some (?org u)" if "u \<in> set us" for u
    using find_unique_key [of o_name "map ?org us" "?org u"] that by simp
  ultimately show ?thesis
    by (simp add: personal_orgs_def all Let_def o_def migrated_user_def)
qed

lemma default_projects_result:
  assumes "unique_on old_user_id us" and "inj (b_org ids)" and "inj (b_project ids)"
  shows "default_projects now ids
      (map (\<lambda>u. \<lparr>o_id = b_org ids (old_user_id u), o_name = old_email u, o_created_at = now\<rparr>) us) [] =
    Some (map (\<lambda>u. home now ids (old_user_id u)) us)"
proof -
  have "distinct (map (b_project ids) (map (b_org ids) (map old_user_id us)))"
    using assms(1) unfolding distinct_map_inj [OF assms(3)] distinct_map_inj [OF assms(2)] unique_on_def .
  then show ?thesis by (simp add: default_projects_def home_def o_def)
qed

lemma homes_result:
  assumes "unique_on old_user_id us" and "inj (b_org ids)" and "u \<in> set us"
  shows "homes (map (migrated_user ids) us) (map (\<lambda>u. home now ids (old_user_id u)) us) (old_user_id u) =
    [home now ids (old_user_id u)]"
proof -
  have "filter (\<lambda>x. old_user_id x = old_user_id u) (map (migrated_user ids) us) = [migrated_user ids u]"
    using filter_unique_key [OF assms(1,3)] by (simp add: filter_map o_def)
  moreover have "filter (\<lambda>p. Some (p_org_id p) = Some (b_org ids (old_user_id u)) \<and> p_name p = ''default'')
      (map (\<lambda>u. home now ids (old_user_id u)) us) = [home now ids (old_user_id u)]"
  proof -
    have "Some (p_org_id (home now ids i)) = Some (b_org ids k) \<and> p_name (home now ids i) = ''default'' \<longleftrightarrow> i = k"
      for i k using assms(2) by (auto simp: home_def dest: injD)
    then show ?thesis unfolding filter_map o_def using filter_unique_key [OF assms(1,3)] by simp
  qed
  ultimately show ?thesis by (simp add: homes_def)
qed

lemma insert_unless_named_result:
  assumes "unique_on (\<lambda>q. (q_project_id q, q_name q)) (qs @ new)" and "unique_on q_id (qs @ new)"
  shows "insert_unless_named new qs = Some (qs @ new)"
  using assms
proof (induction new arbitrary: qs)
  case (Cons q new)
  have "insert_unless_named new (qs @ [q]) = Some ((qs @ [q]) @ new)"
    by (rule Cons.IH) (use Cons.prems in simp_all)
  then show ?case using Cons.prems by (auto simp: unique_on_def)
qed simp

text \<open>A job after the added columns, its queue, and the row it becomes.\<close>

definition widened :: "job_0001 \<Rightarrow> job_0003" where
  "widened j = add_queue (add_timeout j)"

definition queue_for :: "time \<Rightarrow> backfill_ids \<Rightarrow> uuid \<times> string \<Rightarrow> job_queue" where
  "queue_for now ids k = new_queue now (b_queue ids (p_id (home now ids (fst k))) (snd k))
     (p_id (home now ids (fst k))) (snd k)"

definition migrated_job :: "time \<Rightarrow> backfill_ids \<Rightarrow> job_0001 \<Rightarrow> job" where
  "migrated_job now ids j = the (modern_job ((widened j)
     \<lparr>old_queue_id := Some (q_id (queue_for now ids (old_owner_id j, old_queue j)))\<rparr>))"

lemma widened_fields [simp]:
  "old_id (widened j) = old_id j" "old_owner_id (widened j) = old_owner_id j"
  "old_queue (widened j) = old_queue j" "old_task_name (widened j) = old_task_name j"
  "old_payload (widened j) = old_payload j" "old_status (widened j) = old_status j"
  "old_priority (widened j) = old_priority j" "old_run_at (widened j) = old_run_at j"
  "old_idempotency_key (widened j) = old_idempotency_key j"
  "old_max_attempts (widened j) = old_max_attempts j"
  "old_attempt_count (widened j) = old_attempt_count j"
  "old_backoff_base_seconds (widened j) = old_backoff_base_seconds j"
  "old_backoff_factor (widened j) = old_backoff_factor j"
  "old_backoff_max_seconds (widened j) = old_backoff_max_seconds j"
  "old_locked_by (widened j) = old_locked_by j" "old_lease_expires_at (widened j) = old_lease_expires_at j"
  "old_timeout_seconds (widened j) = 300" "old_queue_id (widened j) = None"
  "old_backoff_strategy (widened j) = EXPONENTIAL" "old_batch_id (widened j) = None"
  by (cases j; simp add: widened_def add_queue_def add_timeout_def job_0001.defs job_0002.defs job_0003.defs)+

lemma migrated_job_fields [simp]:
  "j_id (migrated_job now ids j) = old_id j" "j_owner_id (migrated_job now ids j) = old_owner_id j"
  "j_queue_id (migrated_job now ids j) = q_id (queue_for now ids (old_owner_id j, old_queue j))"
  "j_queue (migrated_job now ids j) = old_queue j" "j_status (migrated_job now ids j) = old_status j"
  "j_attempt_count (migrated_job now ids j) = old_attempt_count j"
  "j_idempotency_key (migrated_job now ids j) = old_idempotency_key j"
  "j_locked_by (migrated_job now ids j) = old_locked_by j"
  "j_lease_expires_at (migrated_job now ids j) = old_lease_expires_at j"
  by (simp_all add: migrated_job_def modern_job_def)

lemma queue_for_fields [simp]:
  "q_name (queue_for now ids k) = snd k" "q_project_id (queue_for now ids k) = p_id (home now ids (fst k))"
  "q_id (queue_for now ids k) = b_queue ids (p_id (home now ids (fst k))) (snd k)"
  "queue_checks (queue_for now ids k)"
  by (simp_all add: queue_for_def new_queue_checks) (simp_all add: new_queue_def)

lemma home_inj: "inj (b_org ids) \<Longrightarrow> inj (b_project ids) \<Longrightarrow> p_id (home now ids i) = p_id (home now ids k) \<longleftrightarrow> i = k"
  by (auto simp: home_def dest: injD)

definition old_keys :: "db_0001 \<Rightarrow> (uuid \<times> string) list" where
  "old_keys d = remdups (map (\<lambda>j. (old_owner_id j, old_queue j)) (old_jobs d))"

lemma old_keys_member: "j \<in> set (old_jobs d) \<Longrightarrow> (old_owner_id j, old_queue j) \<in> set (old_keys d)"
  by (auto simp: old_keys_def)

lemma queue_keys:
  assumes "distinct_ids ids d"
  shows "unique_on (\<lambda>q. (q_project_id q, q_name q)) (map (queue_for now ids) (old_keys d))"
    and "unique_on q_id (map (queue_for now ids) (old_keys d))"
proof -
  have home: "p_id (home now ids i) = p_id (home now ids k) \<longleftrightarrow> i = k" for i k
    using assms home_inj by (simp add: distinct_ids_def)
  have "distinct (old_keys d)" by (simp add: old_keys_def)
  moreover have "inj_on (\<lambda>k. (p_id (home now ids (fst k)), snd k)) (set (old_keys d))"
    by (auto simp: inj_on_def home prod_eq_iff)
  ultimately show "unique_on (\<lambda>q. (q_project_id q, q_name q)) (map (queue_for now ids) (old_keys d))"
    by (simp add: unique_on_def o_def distinct_map)
  have names: "snd k \<in> old_queue ` set (old_jobs d)" if "k \<in> set (old_keys d)" for k
    using that by (auto simp: old_keys_def)
  have "inj_on (\<lambda>k. b_queue ids (p_id (home now ids (fst k))) (snd k)) (set (old_keys d))"
  proof (rule inj_onI)
    fix k l assume kl: "k \<in> set (old_keys d)" "l \<in> set (old_keys d)"
      "b_queue ids (p_id (home now ids (fst k))) (snd k) = b_queue ids (p_id (home now ids (fst l))) (snd l)"
    have "inj_on (\<lambda>(p, n). b_queue ids p n) (UNIV \<times> old_queue ` set (old_jobs d))"
      using assms by (simp add: distinct_ids_def)
    from inj_onD [OF this, of "(p_id (home now ids (fst k)), snd k)" "(p_id (home now ids (fst l)), snd l)"]
    show "k = l" using kl(3) names [OF kl(1)] names [OF kl(2)] by (simp add: home prod_eq_iff)
  qed
  with \<open>distinct (old_keys d)\<close> show "unique_on q_id (map (queue_for now ids) (old_keys d))"
    by (simp add: unique_on_def o_def distinct_map)
qed

definition new_projects :: "time \<Rightarrow> backfill_ids \<Rightarrow> db_0001 \<Rightarrow> project list" where
  "new_projects now ids d = map (\<lambda>u. home now ids (old_user_id u)) (old_users d)"

definition new_queues :: "time \<Rightarrow> backfill_ids \<Rightarrow> db_0001 \<Rightarrow> job_queue list" where
  "new_queues now ids d = map (queue_for now ids) (old_keys d)"

lemma homes_of:
  assumes "sound_0001 d" and "distinct_ids ids d" and "ow \<in> old_user_id ` set (old_users d)"
  shows "homes (map (migrated_user ids) (old_users d)) (new_projects now ids d) ow = [home now ids ow]"
  using assms homes_result [of "old_users d" ids] unfolding new_projects_def sound_0001_def distinct_ids_def
  by auto

lemma materialize_queues_result:
  assumes "sound_0001 d" and "distinct_ids ids d"
  shows "materialize_queues now ids (map (migrated_user ids) (old_users d)) (new_projects now ids d)
      (map widened (old_jobs d)) [] = Some (new_queues now ids d)"
proof -
  have "fst k \<in> old_user_id ` set (old_users d)" if "k \<in> set (old_keys d)" for k
    using that assms(1) by (auto simp: old_keys_def sound_0001_def sound_job_0001_def)
  then have "map (\<lambda>(ow, nm). map (\<lambda>p. new_queue now (b_queue ids (p_id p) nm) (p_id p) nm)
      (homes (map (migrated_user ids) (old_users d)) (new_projects now ids d) ow)) (old_keys d) =
    map (\<lambda>k. [queue_for now ids k]) (old_keys d)"
    using homes_of [OF assms] by (auto simp: queue_for_def)
  moreover have "concat (map (\<lambda>k. [queue_for now ids k]) ks) = map (queue_for now ids) ks" for ks
    by (induction ks) simp_all
  ultimately have rows: "concat (map (\<lambda>(ow, nm). map (\<lambda>p. new_queue now (b_queue ids (p_id p) nm) (p_id p) nm)
      (homes (map (migrated_user ids) (old_users d)) (new_projects now ids d) ow)) (old_keys d)) =
    map (queue_for now ids) (old_keys d)"
    by (simp only:)
  have keys: "remdups (map (\<lambda>j. (old_owner_id j, old_queue j)) (map widened (old_jobs d))) = old_keys d"
    by (simp add: old_keys_def o_def)
  show ?thesis
    using insert_unless_named_result [of "[]" "map (queue_for now ids) (old_keys d)"] queue_keys [OF assms(2)]
    unfolding materialize_queues_def new_queues_def keys rows by simp
qed

lemma point_job_result:
  assumes "sound_0001 d" and "distinct_ids ids d" and "j \<in> set (old_jobs d)"
  shows "modern_job (point_job (map (migrated_user ids) (old_users d)) (new_projects now ids d)
      (new_queues now ids d) (widened j)) = Some (migrated_job now ids j)"
proof -
  let ?k = "(old_owner_id j, old_queue j)"
  let ?P = "\<lambda>q. q_project_id q = p_id (home now ids (old_owner_id j)) \<and> q_name q = old_queue j"
  have home: "p_id (home now ids i) = p_id (home now ids k) \<longleftrightarrow> i = k" for i k
    using assms(2) home_inj by (simp add: distinct_ids_def)
  have "queue_for now ids ?k \<in> set (new_queues now ids d)" "?P (queue_for now ids ?k)"
    using old_keys_member [OF assms(3)] by (simp_all add: new_queues_def)
  moreover have "q = queue_for now ids ?k" if "q \<in> set (new_queues now ids d)" "?P q" for q
    using that by (auto simp: new_queues_def home prod_eq_iff)
  ultimately have "List.find ?P (new_queues now ids d) = Some (queue_for now ids ?k)"
    by (rule find_the_one)
  moreover have "old_owner_id j \<in> old_user_id ` set (old_users d)"
    using assms(1,3) by (simp add: sound_0001_def sound_job_0001_def)
  ultimately show ?thesis
    using homes_of [OF assms(1,2)] by (simp add: point_job_def migrated_job_def modern_job_def)
qed

lemma upgrade_data_result:
  assumes "sound_0001 d" and "distinct_ids ids d"
  shows "upgrade_data now ids d = Some
    \<lparr>organizations = map (\<lambda>u. \<lparr>o_id = b_org ids (old_user_id u), o_name = old_email u, o_created_at = now\<rparr>)
       (old_users d),
     projects = new_projects now ids d,
     users = map (\<lambda>u. \<lparr>u_id = old_user_id u, u_org_id = b_org ids (old_user_id u), u_email = old_email u,
       u_password_hash = old_password_hash u, u_role = OWNER, u_created_at = old_user_created_at u\<rparr>) (old_users d),
     queues = new_queues now ids d, jobs = map (migrated_job now ids) (old_jobs d),
     attempts = old_attempts d, dependencies = [], workers = old_workers d, schedules = []\<rparr>"
proof -
  have u: "unique_on old_user_id (old_users d)" "unique_on old_email (old_users d)"
    and i: "inj (b_org ids)" "inj (b_project ids)"
    using assms by (simp_all add: sound_0001_def distinct_ids_def)
  note orgs = personal_orgs_result [OF u i(1)] and projects = default_projects_result [OF u(1) i]
  have "those (map modern_user (map (migrated_user ids) (old_users d))) =
      Some (map (\<lambda>u. \<lparr>u_id = old_user_id u, u_org_id = b_org ids (old_user_id u), u_email = old_email u,
        u_password_hash = old_password_hash u, u_role = OWNER, u_created_at = old_user_created_at u\<rparr>) (old_users d))"
    unfolding map_map by (rule those_map) (simp add: modern_user_def migrated_user_def)
  moreover have "add_queue \<circ> add_timeout = widened" by (auto simp: widened_def)
  moreover have "those (map (modern_job \<circ> point_job (map (migrated_user ids) (old_users d)) (new_projects now ids d)
      (new_queues now ids d)) (map widened (old_jobs d))) = Some (map (migrated_job now ids) (old_jobs d))"
    unfolding map_map by (rule those_map) (simp add: point_job_result [OF assms])
  ultimately show ?thesis
    using materialize_queues_result [OF assms]
    by (simp add: upgrade_data_def orgs projects flip: new_projects_def)
qed

lemma migrated_job_sound:
  assumes "sound_job_0001 d j"
  shows "job_checks (migrated_job now ids j)" "lease_ok (migrated_job now ids j)" "counted (migrated_job now ids j)"
    and "j_status (migrated_job now ids j) = RUNNING \<Longrightarrow> has_open_attempt (old_attempts d) (migrated_job now ids j)"
  using assms
  by (auto simp: sound_job_0001_def lease_ok_def counted_def has_open_attempt_def)
    (simp_all add: job_checks_def migrated_job_def modern_job_def sound_job_0001_def)

lemma sound_member: "sound_0001 d \<Longrightarrow> j \<in> set (old_jobs d) \<Longrightarrow> sound_job_0001 d j"
  by (simp add: sound_0001_def)

lemma queue_for_member: "j \<in> set (old_jobs d) \<Longrightarrow> queue_for now ids (old_owner_id j, old_queue j) \<in> set (new_queues now ids d)"
  using old_keys_member by (simp add: new_queues_def)

text \<open>The tables the data statements leave, and what holds of them.\<close>

definition owning_user :: "backfill_ids \<Rightarrow> user_0001 \<Rightarrow> user" where
  "owning_user ids u = \<lparr>u_id = old_user_id u, u_org_id = b_org ids (old_user_id u), u_email = old_email u,
     u_password_hash = old_password_hash u, u_role = OWNER, u_created_at = old_user_created_at u\<rparr>"

lemma upgraded_consistent:
  assumes "sound_0001 d" and "distinct_ids ids d"
    and jobs: "jobs d' = map (migrated_job now ids) (old_jobs d)" and queues: "queues d' = new_queues now ids d"
    and rest: "attempts d' = old_attempts d" "dependencies d' = []"
  shows "consistent d'"
proof -
  note sound = sound_member [OF assms(1)]
  have keys: "unique_on j_id (jobs d')" "uq_jobs_owner_idempotency (jobs d')"
    using assms(1) unfolding jobs uq_jobs_owner_idempotency_def unique_on_def sound_0001_def
    by (simp_all add: filter_map o_def)
  have "\<forall>k \<in> set (jobs d'). j_queue_id k \<in> q_id ` set (queues d')"
  proof
    fix k assume "k \<in> set (jobs d')"
    then obtain j where j: "j \<in> set (old_jobs d)" "k = migrated_job now ids j" by (auto simp: jobs)
    show "j_queue_id k \<in> q_id ` set (queues d')"
      unfolding j(2) migrated_job_fields(3) queues by (rule imageI) (rule queue_for_member [OF j(1)])
  qed
  moreover have "\<forall>k \<in> set (jobs d'). job_checks k"
    using migrated_job_sound(1) [OF sound] by (auto simp: jobs)
  moreover have "\<forall>q \<in> set (queues d'). queue_checks q" by (auto simp: queues new_queues_def)
  moreover have "unique_on q_id (queues d')" "uq_queues_project_name (queues d')"
    using queue_keys [OF assms(2)] by (simp_all only: queues new_queues_def uq_queues_project_name_def)
  moreover have "uq_job_dep_pair (dependencies d')" by (simp add: rest uq_job_dep_pair_def unique_on_def)
  ultimately have "db_keys d'" using keys by (simp only: db_keys_def simp_thms)
  moreover have "\<forall>j \<in> set (jobs d'). lease_ok j \<and> counted j"
    using migrated_job_sound(2,3) [OF sound] by (auto simp: jobs)
  moreover have "audited d'"
    using migrated_job_sound(4) [OF sound] by (auto simp: audited_def jobs rest)
  ultimately show ?thesis by (simp add: consistent_def depends_earlier_def rest)
qed

lemma upgraded_job_at_home:
  assumes "sound_0001 d" and jobs: "jobs d' = map (migrated_job now ids) (old_jobs d)"
    and queues: "queues d' = new_queues now ids d" and projects: "projects d' = new_projects now ids d"
    and users: "users d' = map (owning_user ids) (old_users d)" and k: "k \<in> set (jobs d')"
  shows "\<exists>q \<in> set (queues d'). \<exists>p \<in> set (projects d'). \<exists>u \<in> set (users d').
     q_id q = j_queue_id k \<and> q_name q = j_queue k \<and> p_id p = q_project_id q \<and>
     u_org_id u = p_org_id p \<and> u_id u = j_owner_id k"
proof -
  obtain j where j: "j \<in> set (old_jobs d)" "k = migrated_job now ids j" using k by (auto simp: jobs)
  obtain u where u: "u \<in> set (old_users d)" "old_user_id u = old_owner_id j"
    using sound_member [OF assms(1) j(1)] by (auto simp: sound_job_0001_def)
  have "home now ids (old_user_id u) \<in> set (projects d')" using u(1) by (auto simp: projects new_projects_def)
  moreover have "\<exists>x \<in> set (users d'). u_id x = old_user_id u \<and> u_org_id x = b_org ids (old_user_id u)"
    using u(1) by (auto simp: users owning_user_def)
  ultimately show ?thesis
    using queue_for_member [OF j(1)] u(2)
    by (intro bexI [of _ "queue_for now ids (old_owner_id j, old_queue j)"]
          bexI [of _ "home now ids (old_user_id u)"]) (auto simp: j(2) home_def queues)
qed

text \<open>C24: The migrations carry the data of every older database over: on a database of revision 0001
  whose rows are sound the backfill of 0003 succeeds (no NOT NULL or primary key fails, whatever
  the order of the rows), and the result is consistent in the sense of today's program.  Every
  user owns an organization of their own, every job keeps its identity, status and attempts and
  points at a queue of its own name in a project of its owner's organization.\<close>

theorem backfill_yields_consistent_db:
  assumes "sound_0001 d" and "distinct_ids ids d"
  shows "\<exists>d'. upgrade_data now ids d = Some d' \<and> consistent d' \<and>
    unique_on u_org_id (users d') \<and> map u_id (users d') = map old_user_id (old_users d) \<and>
    map (\<lambda>j. (j_id j, j_owner_id j, j_status j, j_attempt_count j)) (jobs d') =
      map (\<lambda>j. (old_id j, old_owner_id j, old_status j, old_attempt_count j)) (old_jobs d) \<and>
    (\<forall>j \<in> set (jobs d'). \<exists>q \<in> set (queues d'). \<exists>p \<in> set (projects d'). \<exists>u \<in> set (users d').
       q_id q = j_queue_id j \<and> q_name q = j_queue j \<and> p_id p = q_project_id q \<and>
       u_org_id u = p_org_id p \<and> u_id u = j_owner_id j)"
proof -
  obtain d' where d': "upgrade_data now ids d = Some d'"
    and jobs: "jobs d' = map (migrated_job now ids) (old_jobs d)"
    and queues: "queues d' = new_queues now ids d"
    and users: "users d' = map (owning_user ids) (old_users d)"
    and projects: "projects d' = new_projects now ids d"
    and rest: "attempts d' = old_attempts d" "dependencies d' = []"
    using upgrade_data_result [OF assms, of now] by (auto simp: owning_user_def)
  have "distinct (map (b_org ids) (map old_user_id (old_users d)))"
    using assms by (subst distinct_map_inj) (simp_all add: sound_0001_def distinct_ids_def unique_on_def)
  then have "unique_on u_org_id (users d')" by (simp add: users unique_on_def o_def owning_user_def)
  then show ?thesis
    using d' upgraded_consistent [OF assms jobs queues rest] upgraded_job_at_home [OF assms(1) jobs queues projects users]
    by (intro exI [of _ d'] conjI ballI) (simp_all add: users jobs o_def owning_user_def)
qed

definition sample_0001 :: db_0001 where
  "sample_0001 = \<lparr>old_users = [\<lparr>old_user_id = 7, old_email = ''a@b'', old_password_hash = ''h'', old_user_created_at = 0\<rparr>],
     old_workers = [],
     old_jobs = [\<lparr>old_id = 10, old_owner_id = 7, old_queue = ''mail'', old_task_name = ''demo.echo'', old_payload = JObj [],
       old_status = RUNNING, old_priority = 0, old_run_at = 0, old_idempotency_key = None, old_max_attempts = 3,
       old_attempt_count = 1, old_backoff_base_seconds = 5, old_backoff_factor = 2, old_backoff_max_seconds = 300,
       old_locked_by = Some 50, old_lease_expires_at = Some 9, old_last_error = None, old_result = None,
       old_created_at = 0, old_updated_at = 0, old_started_at = Some 0, old_finished_at = None\<rparr>],
     old_attempts = [\<lparr>a_id = 90, a_job_id = 10, a_worker_id = Some 50, a_attempt_number = 1, a_status = A_RUNNING,
       a_error = None, a_started_at = 0, a_finished_at = None\<rparr>]\<rparr>"

definition sample_backfill_ids :: backfill_ids where
  "sample_backfill_ids = \<lparr>b_org = (\<lambda>i. i + 100), b_project = (\<lambda>i. i + 200), b_queue = (\<lambda>p n. p + 300)\<rparr>"

theorem backfill_yields_consistent_db_witness:
  "\<exists>d'. upgrade_data 5 sample_backfill_ids sample_0001 = Some d' \<and> consistent d' \<and>
     (\<forall>j \<in> set (jobs d'). \<exists>q \<in> set (queues d'). q_id q = j_queue_id j \<and> q_name q = j_queue j)"
proof -
  have "sound_0001 sample_0001"
    by (simp add: sound_0001_def sound_job_0001_def sample_0001_def unique_on_def open_attempt_def)
  moreover have "distinct_ids sample_backfill_ids sample_0001"
    by (auto simp: distinct_ids_def sample_backfill_ids_def sample_0001_def inj_def inj_on_def)
  ultimately show ?thesis using backfill_yields_consistent_db [of sample_0001 sample_backfill_ids 5] by blast
qed

end
