(* ===== verification/Api.thy ===== *)
theory Api
  imports Session_Api Observability
begin

section \<open>The application (app/main.py and the decorators of app/api/routers)\<close>

text \<open>
  The routes in the order the application includes them, what a request has to pass before its
  endpoint runs (the caller, the identifiers in the path, the query, the body), and the call of
  the endpoint.  A path is the list of its segments, a body is typed: what does not parse as the
  body an endpoint declares is of another constructor and is answered with 422.

  Which route serves a request is decided by the web framework: \<open>select\<close> is a parameter, and
  \<open>serves_in_order\<close> is its documented behaviour (the first route in order that takes the method
  and whose template matches the path, a variable being one segment that is not empty).
\<close>

subsection \<open>Routes\<close>

datatype endpoint =
    Healthz | Readyz | Metrics_page
  | Register | Login | Me
  | Get_org | List_projects | Create_project | Get_project
  | List_queues | Create_queue | Get_queue | Update_queue | Pause_queue | Resume_queue | Queue_stats
  | Create_job | Create_batch | List_jobs | Get_job | List_attempts | Cancel_job | Requeue_job
  | List_dependencies
  | Create_schedule | List_schedules | Get_schedule | Update_schedule | Delete_schedule
  | List_dlq | Requeue_dead_job
  | List_workers | Overview
  | List_users | Update_role

datatype segment = Fixed string | Variable string

record route =
  rt_method :: string
  rt_path :: "segment list"
  rt_endpoint :: endpoint
  rt_secured :: bool

definition public :: "string \<Rightarrow> segment list \<Rightarrow> endpoint \<Rightarrow> route" where
  "public m p e = \<lparr>rt_method = m, rt_path = p, rt_endpoint = e, rt_secured = False\<rparr>"

text \<open>An endpoint with a parameter of type \<open>CurrentUser\<close>.\<close>

definition secured :: "string \<Rightarrow> segment list \<Rightarrow> endpoint \<Rightarrow> route" where
  "secured m p e = \<lparr>rt_method = m, rt_path = p, rt_endpoint = e, rt_secured = True\<rparr>"

definition under :: "string list \<Rightarrow> route list \<Rightarrow> route list" where
  "under prefix rs = map (\<lambda>r. r\<lparr>rt_path := map Fixed prefix @ rt_path r\<rparr>) rs"

definition healthz_route :: route where
  "healthz_route = public ''GET'' [Fixed ''healthz''] Healthz"

definition readyz_route :: route where
  "readyz_route = public ''GET'' [Fixed ''readyz''] Readyz"

definition health_router :: "route list" where
  "health_router = [healthz_route, readyz_route]"

definition metrics_route :: route where
  "metrics_route = public ''GET'' [Fixed ''metrics''] Metrics_page"

definition metrics_router :: "route list" where
  "metrics_router = [metrics_route]"

definition register_route :: route where
  "register_route = public ''POST'' [Fixed ''register''] Register"

definition login_route :: route where
  "login_route = public ''POST'' [Fixed ''login''] Login"

definition me_route :: route where
  "me_route = secured ''GET'' [Fixed ''me''] Me"

definition auth_router :: "route list" where
  "auth_router = under [''auth'']
     [register_route, login_route,
      me_route]"

definition get_org_route :: route where
  "get_org_route = secured ''GET'' [Fixed ''org''] Get_org"

definition list_projects_route :: route where
  "list_projects_route = secured ''GET'' [Fixed ''projects''] List_projects"

definition create_project_route :: route where
  "create_project_route = secured ''POST'' [Fixed ''projects''] Create_project"

definition get_project_route :: route where
  "get_project_route = secured ''GET'' [Fixed ''projects'', Variable ''project_id''] Get_project"

definition projects_router :: "route list" where
  "projects_router =
     [get_org_route, list_projects_route,
      create_project_route,
      get_project_route]"

definition list_queues_route :: route where
  "list_queues_route = secured ''GET'' [] List_queues"

definition create_queue_route :: route where
  "create_queue_route = secured ''POST'' [] Create_queue"

definition get_queue_route :: route where
  "get_queue_route = secured ''GET'' [Variable ''queue_id''] Get_queue"

definition update_queue_route :: route where
  "update_queue_route = secured ''PATCH'' [Variable ''queue_id''] Update_queue"

definition pause_queue_route :: route where
  "pause_queue_route = secured ''POST'' [Variable ''queue_id'', Fixed ''pause''] Pause_queue"

definition resume_queue_route :: route where
  "resume_queue_route = secured ''POST'' [Variable ''queue_id'', Fixed ''resume''] Resume_queue"

definition queue_stats_route :: route where
  "queue_stats_route = secured ''GET'' [Variable ''queue_id'', Fixed ''stats''] Queue_stats"

definition queues_router :: "route list" where
  "queues_router = under [''queues'']
     [list_queues_route, create_queue_route,
      get_queue_route,
      update_queue_route,
      pause_queue_route,
      resume_queue_route,
      queue_stats_route]"

definition create_job_route :: route where
  "create_job_route = secured ''POST'' [] Create_job"

definition create_batch_route :: route where
  "create_batch_route = secured ''POST'' [Fixed ''batch''] Create_batch"

definition list_jobs_route :: route where
  "list_jobs_route = secured ''GET'' [] List_jobs"

definition get_job_route :: route where
  "get_job_route = secured ''GET'' [Variable ''job_id''] Get_job"

definition list_attempts_route :: route where
  "list_attempts_route = secured ''GET'' [Variable ''job_id'', Fixed ''attempts''] List_attempts"

definition cancel_job_route :: route where
  "cancel_job_route = secured ''POST'' [Variable ''job_id'', Fixed ''cancel''] Cancel_job"

definition requeue_job_route :: route where
  "requeue_job_route = secured ''POST'' [Variable ''job_id'', Fixed ''requeue''] Requeue_job"

definition list_dependencies_route :: route where
  "list_dependencies_route = secured ''GET'' [Variable ''job_id'', Fixed ''dependencies''] List_dependencies"

definition jobs_router :: "route list" where
  "jobs_router = under [''jobs'']
     [create_job_route, create_batch_route,
      list_jobs_route, get_job_route,
      list_attempts_route,
      cancel_job_route,
      requeue_job_route,
      list_dependencies_route]"

definition create_schedule_route :: route where
  "create_schedule_route = secured ''POST'' [] Create_schedule"

definition list_schedules_route :: route where
  "list_schedules_route = secured ''GET'' [] List_schedules"

definition get_schedule_route :: route where
  "get_schedule_route = secured ''GET'' [Variable ''schedule_id''] Get_schedule"

definition update_schedule_route :: route where
  "update_schedule_route = secured ''PATCH'' [Variable ''schedule_id''] Update_schedule"

definition delete_schedule_route :: route where
  "delete_schedule_route = secured ''DELETE'' [Variable ''schedule_id''] Delete_schedule"

definition schedules_router :: "route list" where
  "schedules_router = under [''schedules'']
     [create_schedule_route, list_schedules_route,
      get_schedule_route,
      update_schedule_route,
      delete_schedule_route]"

definition list_dlq_route :: route where
  "list_dlq_route = secured ''GET'' [] List_dlq"

definition requeue_dead_job_route :: route where
  "requeue_dead_job_route = secured ''POST'' [Variable ''job_id'', Fixed ''requeue''] Requeue_dead_job"

definition dlq_router :: "route list" where
  "dlq_router = under [''dlq'']
     [list_dlq_route, requeue_dead_job_route]"

definition list_workers_route :: route where
  "list_workers_route = secured ''GET'' [] List_workers"

definition workers_router :: "route list" where
  "workers_router = under [''workers''] [list_workers_route]"

definition overview_route :: route where
  "overview_route = secured ''GET'' [Fixed ''overview''] Overview"

definition stats_router :: "route list" where
  "stats_router = under [''stats''] [overview_route]"

definition list_users_route :: route where
  "list_users_route = secured ''GET'' [] List_users"

definition update_role_route :: route where
  "update_role_route = secured ''PATCH'' [Variable ''user_id'', Fixed ''role''] Update_role"

definition users_router :: "route list" where
  "users_router = under [''users'']
     [list_users_route, update_role_route]"

definition app_routes :: "route list" where
  "app_routes = health_router @ metrics_router @ under [''api'', ''v1'']
     (auth_router @ projects_router @ queues_router @ jobs_router @ schedules_router @ dlq_router
      @ workers_router @ stats_router @ users_router)"

subsection \<open>Which route serves a request\<close>

fun match_path :: "segment list \<Rightarrow> string list \<Rightarrow> string list option" where
  "match_path [] [] = Some []"
| "match_path (Fixed s # ts) (p # ps) = (if s = p then match_path ts ps else None)"
| "match_path (Variable x # ts) (p # ps) = (if p = '''' then None else map_option ((#) p) (match_path ts ps))"
| "match_path ts ps = None"

definition serving :: "string \<Rightarrow> string list \<Rightarrow> route \<Rightarrow> bool" where
  "serving m p r \<longleftrightarrow> rt_method r = m \<and> match_path (rt_path r) p \<noteq> None"

datatype selection = Served route "string list" | Refused nat

definition serves_in_order :: "(route list \<Rightarrow> string \<Rightarrow> string list \<Rightarrow> selection) \<Rightarrow> bool" where
  "serves_in_order select \<longleftrightarrow>
     (\<forall>rs m p. case List.find (serving m p) rs of
        Some r \<Rightarrow> select rs m p = Served r (the (match_path (rt_path r) p))
      | None \<Rightarrow> select rs m p \<in> {Refused 307, Refused 404, Refused 405})"

subsection \<open>Requests\<close>

datatype body =
    No_body
  | Register_body string string
  | Login_form string string
  | Project_body string
  | Queue_body QueueCreate
  | Queue_patch QueueUpdate
  | Job_body JobCreate
  | Batch_body "JobCreate list"
  | Schedule_body ScheduleCreate
  | Schedule_patch ScheduleUpdate
  | Role_body UserRole

record http_request =
  rq_method :: string
  rq_path :: "string list"
  rq_token :: "string option"
  rq_request_id :: "string option"
  rq_idempotency_key :: "string option"
  rq_client :: "string option"
  rq_status :: "string option"
  rq_queue :: "string option"
  rq_batch_id :: "string option"
  rq_project_id :: "string option"
  rq_limit :: "int option"
  rq_offset :: "int option"
  rq_body :: body

text \<open>What the server brings along: settings, clock, fresh identifiers, libraries, services.\<close>

record 'r server =
  sv_settings :: Settings
  sv_now :: time
  sv_db_now :: time
  sv_job_ids :: fresh_ids
  sv_batch_queue_ids :: "nat \<Rightarrow> uuid"
  sv_batch_job_ids :: "nat \<Rightarrow> uuid"
  sv_row_id :: uuid
  sv_queue_id :: uuid
  sv_org_id :: uuid
  sv_project_id :: uuid
  sv_request_id :: string
  sv_hash_password :: "string \<Rightarrow> string"
  sv_verify_password :: "string \<Rightarrow> string \<Rightarrow> bool"
  sv_create_token :: "uuid \<Rightarrow> string"
  sv_decode :: "string \<Rightarrow> string option option"
  sv_parse_uuid :: "string \<Rightarrow> uuid option"
  sv_cron_next :: "string \<Rightarrow> time \<Rightarrow> time option"
  sv_cron_ok :: "string \<Rightarrow> bool"
  sv_email_ok :: "string \<Rightarrow> bool"
  sv_json_bytes :: "json \<Rightarrow> nat"
  sv_postgres_answers :: bool
  sv_ping :: "('r, bool) command"
  sv_incr :: "string \<Rightarrow> ('r, int) command"
  sv_expire :: "string \<Rightarrow> int \<Rightarrow> ('r, bool) command"
  sv_get :: "string \<Rightarrow> ('r, string option) command"
  sv_set :: "string \<Rightarrow> string \<Rightarrow> int \<Rightarrow> ('r, unit) command"
  sv_dump :: "StatsOverview \<Rightarrow> string"
  sv_validate_json :: "string \<Rightarrow> StatsOverview option"

subsection \<open>Parameters of the endpoints\<close>

text \<open>\<open>None\<close> is a parameter that does not validate.\<close>

definition status_filter :: "string option \<Rightarrow> JobStatus option option" where
  "status_filter v =
     (case v of None \<Rightarrow> Some None
      | Some x \<Rightarrow> map_option Some (List.find (\<lambda>s. job_status_value s = x) job_statuses))"

definition uuid_filter :: "'r server \<Rightarrow> string option \<Rightarrow> uuid option option" where
  "uuid_filter sv v = (case v of None \<Rightarrow> Some None | Some x \<Rightarrow> map_option Some (sv_parse_uuid sv x))"

definition page_limit :: "http_request \<Rightarrow> nat option" where
  "page_limit rq = (let n = (case rq_limit rq of None \<Rightarrow> 50 | Some n \<Rightarrow> n)
     in if 1 \<le> n \<and> n \<le> 200 then Some (nat n) else None)"

definition page_offset :: "http_request \<Rightarrow> nat option" where
  "page_offset rq = (let n = (case rq_offset rq of None \<Rightarrow> 0 | Some n \<Rightarrow> n)
     in if 0 \<le> n then Some (nat n) else None)"

definition validated :: "'a option \<Rightarrow> ('a \<Rightarrow> nat \<times> db) \<Rightarrow> db \<Rightarrow> nat \<times> db" where
  "validated x f d = (case x of None \<Rightarrow> (422, d) | Some v \<Rightarrow> f v)"

definition paged :: "http_request \<Rightarrow> (nat \<Rightarrow> nat \<Rightarrow> nat) \<Rightarrow> db \<Rightarrow> nat \<times> db" where
  "paged rq f d = validated (page_limit rq) (\<lambda>n. validated (page_offset rq) (\<lambda>k. (f n k, d)) d) d"

definition path_id :: "'r server \<Rightarrow> string list \<Rightarrow> uuid option" where
  "path_id sv args = (case args of [x] \<Rightarrow> sv_parse_uuid sv x | _ \<Rightarrow> None)"

fun job_body :: "'r server \<Rightarrow> body \<Rightarrow> JobCreate option" where
  "job_body sv (Job_body data) =
     (if job_create_valid (sv_json_bytes sv) data \<and> is_object (jc_payload data) then Some data else None)"
| "job_body sv b = None"

fun batch_body :: "'r server \<Rightarrow> body \<Rightarrow> JobCreate list option" where
  "batch_body sv (Batch_body items) =
     (if batch_valid (sv_json_bytes sv) items \<and> list_all (\<lambda>c. is_object (jc_payload c)) items
      then Some items else None)"
| "batch_body sv b = None"

fun project_body :: "body \<Rightarrow> string option" where
  "project_body (Project_body nm) = (if length_between 1 100 nm then Some nm else None)"
| "project_body b = None"

fun queue_body :: "body \<Rightarrow> QueueCreate option" where
  "queue_body (Queue_body data) = (if queue_create_valid data then Some data else None)"
| "queue_body b = None"

fun queue_patch :: "body \<Rightarrow> QueueUpdate option" where
  "queue_patch (Queue_patch data) = (if queue_update_valid data then Some data else None)"
| "queue_patch b = None"

fun schedule_body :: "'r server \<Rightarrow> body \<Rightarrow> ScheduleCreate option" where
  "schedule_body sv (Schedule_body data) =
     (if schedule_create_valid (sv_json_bytes sv) (sv_cron_ok sv) data \<and> is_object (sc_payload data)
      then Some data else None)"
| "schedule_body sv b = None"

fun schedule_patch :: "'r server \<Rightarrow> body \<Rightarrow> ScheduleUpdate option" where
  "schedule_patch sv (Schedule_patch data) = (if schedule_update_valid (sv_cron_ok sv) data then Some data else None)"
| "schedule_patch sv b = None"

fun role_body :: "body \<Rightarrow> UserRole option" where
  "role_body (Role_body r) = Some r"
| "role_body b = None"

subsection \<open>The endpoints behind their routes\<close>

definition read_endpoint ::
  "'r server \<Rightarrow> endpoint \<Rightarrow> user \<Rightarrow> string list \<Rightarrow> http_request \<Rightarrow> db \<Rightarrow> nat \<times> db" where
  "read_endpoint sv e usr args rq d =
     (let on_path = (\<lambda>f. validated (path_id sv args) f d)
      in case e of
        Me \<Rightarrow> (200, d)
      | Get_org \<Rightarrow> (get_org_endpoint usr d, d)
      | List_projects \<Rightarrow> (200, d)
      | Get_project \<Rightarrow> on_path (\<lambda>i. get_one_project usr i d)
      | List_queues \<Rightarrow> validated (uuid_filter sv (rq_project_id rq)) (\<lambda>_. (200, d)) d
      | Get_queue \<Rightarrow> on_path (\<lambda>i. get_one_queue usr i d)
      | Queue_stats \<Rightarrow> on_path (\<lambda>i. get_queue_stats usr i d)
      | List_jobs \<Rightarrow> validated (status_filter (rq_status rq)) (\<lambda>st.
          validated (uuid_filter sv (rq_batch_id rq)) (\<lambda>b.
            paged rq (\<lambda>n k. get_jobs usr st (rq_queue rq) b n k d) d) d) d
      | Get_job \<Rightarrow> on_path (\<lambda>i. get_one_job usr i d)
      | List_attempts \<Rightarrow> on_path (\<lambda>i. get_attempts usr i d)
      | List_dependencies \<Rightarrow> on_path (\<lambda>i. (fst (get_dependencies usr i d), d))
      | List_schedules \<Rightarrow> paged rq (\<lambda>n k. get_schedules usr n k d) d
      | Get_schedule \<Rightarrow> on_path (\<lambda>i. get_one_schedule usr i d)
      | List_dlq \<Rightarrow> paged rq (\<lambda>n k. get_dlq usr n k d) d
      | List_workers \<Rightarrow> (200, d)
      | List_users \<Rightarrow> (get_users usr d, d)
      | _ \<Rightarrow> (404, d))"

definition user_endpoint ::
  "'r server \<Rightarrow> endpoint \<Rightarrow> user \<Rightarrow> string list \<Rightarrow> http_request \<Rightarrow> db \<Rightarrow> nat \<times> db" where
  "user_endpoint sv e usr args rq d =
     (let now = sv_now sv;
          on_path = (\<lambda>f. validated (path_id sv args) f d)
      in case e of
        Create_project \<Rightarrow> validated (project_body (rq_body rq)) (\<lambda>nm. post_project now (sv_row_id sv) usr nm d) d
      | Create_queue \<Rightarrow> validated (queue_body (rq_body rq)) (\<lambda>x. post_queue now (sv_queue_id sv) usr x d) d
      | Update_queue \<Rightarrow> on_path (\<lambda>i. validated (queue_patch (rq_body rq)) (\<lambda>x. patch_queue now usr i x d) d)
      | Pause_queue \<Rightarrow> on_path (\<lambda>i. post_pause now usr i d)
      | Resume_queue \<Rightarrow> on_path (\<lambda>i. post_resume now usr i d)
      | Create_job \<Rightarrow> validated (job_body sv (rq_body rq)) (\<lambda>x.
          post_job now (sv_job_ids sv) id id usr (rq_idempotency_key rq) x d) d
      | Create_batch \<Rightarrow> validated (batch_body sv (rq_body rq)) (\<lambda>xs.
          post_batch now (sv_batch_queue_ids sv) (sv_batch_job_ids sv) (sv_row_id sv) (\<lambda>x. x) usr xs d) d
      | Cancel_job \<Rightarrow> on_path (\<lambda>i. post_cancel now usr i d)
      | Requeue_job \<Rightarrow> on_path (\<lambda>i. post_requeue now usr i d)
      | Requeue_dead_job \<Rightarrow> on_path (\<lambda>i. post_dlq_requeue now usr i d)
      | Create_schedule \<Rightarrow> validated (schedule_body sv (rq_body rq)) (\<lambda>x.
          post_schedule (sv_cron_next sv) now (sv_queue_id sv) (sv_row_id sv) id usr x d) d
      | Update_schedule \<Rightarrow> on_path (\<lambda>i. validated (schedule_patch sv (rq_body rq)) (\<lambda>x.
          patch_schedule (sv_cron_next sv) now usr i x d) d)
      | Delete_schedule \<Rightarrow> on_path (\<lambda>i. delete_schedule_endpoint usr i d)
      | Update_role \<Rightarrow> on_path (\<lambda>i. validated (role_body (rq_body rq)) (\<lambda>x. patch_user_role usr i x d) d)
      | _ \<Rightarrow> read_endpoint sv e usr args rq d)"

definition stats_endpoint :: "'r server \<Rightarrow> db \<Rightarrow> 'r \<Rightarrow> nat \<times> 'r" where
  "stats_endpoint sv d r =
     (case overview (sv_settings sv) (sv_dump sv) (sv_validate_json sv) (sv_get sv) (sv_set sv)
         (sv_now sv) (sv_db_now sv) d r of
        (answer, r1) \<Rightarrow> (if answer = None then 500 else 200, r1))"

definition public_endpoint ::
  "'r server \<Rightarrow> endpoint \<Rightarrow> http_request \<Rightarrow> db \<Rightarrow> 'r \<Rightarrow> (nat \<times> db) \<times> 'r" where
  "public_endpoint sv e rq d r =
     (case e of
        Healthz \<Rightarrow> ((200, d), r)
      | Readyz \<Rightarrow> ((fst (readyz (sv_postgres_answers sv) (sv_ping sv) r), d), r)
      | Metrics_page \<Rightarrow> ((200, d), r)
      | Register \<Rightarrow> (case rq_body rq of
            Register_body email password \<Rightarrow>
              (post_register (sv_hash_password sv) (sv_now sv) (sv_org_id sv) (sv_project_id sv) (sv_row_id sv)
                 id (sv_email_ok sv) email password d, r)
          | _ \<Rightarrow> ((422, d), r))
      | Login \<Rightarrow> (case rq_body rq of
            Login_form username password \<Rightarrow>
              (case post_login (sv_settings sv) (sv_incr sv) (sv_expire sv) (sv_verify_password sv)
                  (sv_create_token sv) (rq_client rq) username password d r of
                 ((code, token), r1) \<Rightarrow> ((code, d), r1))
          | _ \<Rightarrow> ((422, d), r))
      | _ \<Rightarrow> ((404, d), r))"

text \<open>A caller the token does not name is refused before anything else is looked at.\<close>

definition caller :: "'r server \<Rightarrow> http_request \<Rightarrow> db \<Rightarrow> user option" where
  "caller sv rq d = Option.bind (rq_token rq) (\<lambda>t. get_current_user (sv_decode sv) (sv_parse_uuid sv) t d)"

definition call_route ::
  "'r server \<Rightarrow> route \<Rightarrow> string list \<Rightarrow> http_request \<Rightarrow> db \<Rightarrow> 'r \<Rightarrow> (nat \<times> db) \<times> 'r" where
  "call_route sv rt args rq d r =
     (if \<not> rt_secured rt then public_endpoint sv (rt_endpoint rt) rq d r
      else if rt_endpoint rt = Overview
      then (case caller sv rq d of
              None \<Rightarrow> ((401, d), r)
            | Some _ \<Rightarrow> (case stats_endpoint sv d r of (code, r1) \<Rightarrow> ((code, d), r1)))
      else (authenticated (sv_decode sv) (sv_parse_uuid sv) (rq_token rq)
              (\<lambda>usr. user_endpoint sv (rt_endpoint rt) usr args rq) d, r))"

definition create_app ::
  "(route list \<Rightarrow> string \<Rightarrow> string list \<Rightarrow> selection) \<Rightarrow> 'r server \<Rightarrow> http_request \<Rightarrow> db \<Rightarrow> 'r
     \<Rightarrow> (nat \<times> db) \<times> 'r" where
  "create_app select sv rq d r =
     (case select app_routes (rq_method rq) (rq_path rq) of
        Refused code \<Rightarrow> ((code, d), r)
      | Served rt args \<Rightarrow> call_route sv rt args rq d r)"

subsection \<open>The middleware\<close>

record http_answer =
  an_status :: nat
  an_request_id :: "string option"
  an_logged :: bool

text \<open>
  \<open>request_context\<close>: the identifier of the caller or a fresh one goes back in a header, and the
  request is logged unless it is a probe.  A 500 is an exception here: it leaves the middleware
  before the header is set and the line is written, and is answered further out.
\<close>

definition probe_path :: "string list \<Rightarrow> bool" where
  "probe_path p =
     (case p of [] \<Rightarrow> False
      | x # _ \<Rightarrow> list_ex (\<lambda>probe. take (length probe) x = probe) [''healthz'', ''readyz'', ''metrics''])"

definition request_context :: "string \<Rightarrow> http_request \<Rightarrow> nat \<Rightarrow> http_answer" where
  "request_context fresh rq code =
     (if code = 500 then \<lparr>an_status = 500, an_request_id = None, an_logged = False\<rparr>
      else \<lparr>an_status = code, an_request_id = Some (case rq_request_id rq of None \<Rightarrow> fresh | Some i \<Rightarrow> i),
            an_logged = \<not> probe_path (rq_path rq)\<rparr>)"

definition handle_request ::
  "(route list \<Rightarrow> string \<Rightarrow> string list \<Rightarrow> selection) \<Rightarrow> 'r server \<Rightarrow> http_request \<Rightarrow> db \<Rightarrow> 'r
     \<Rightarrow> (http_answer \<times> db) \<times> 'r" where
  "handle_request select sv rq d r =
     (case create_app select sv rq d r of
        ((code, d1), r1) \<Rightarrow> ((request_context (sv_request_id sv) rq code, d1), r1))"

end
