(* ===== verification/Api_Props.thy ===== *)
theory Api_Props
  imports Api Cluster_Props
begin

section \<open>Properties of the application\<close>

text \<open>
  Every request over HTTP is a request of the cluster or changes nothing, a refused one changes
  nothing, and no route hides another.
\<close>

subsection \<open>What an endpoint may do to the database\<close>

text \<open>
  An answer and the database after it: unchanged, or after a request of the cluster; unchanged
  for sure if the status is one of 400 to 499.
\<close>

definition accounted :: "db \<Rightarrow> nat \<times> db \<Rightarrow> bool" where
  "accounted d res \<longleftrightarrow>
     (snd res = d \<or> request d (snd res)) \<and> (400 \<le> fst res \<and> fst res < 500 \<longrightarrow> snd res = d)"

named_theorems accounts

lemma accounted_same [accounts, simp]: "accounted d (code, d)"
  by (simp add: accounted_def)

lemma accounted_validated [accounts]: "(\<And>v. accounted d (f v)) \<Longrightarrow> accounted d (validated x f d)"
  by (simp add: validated_def split: option.split)

lemma accounted_guarded [accounts]: "accounted d r \<Longrightarrow> accounted d (guarded usr m d r)"
  by (simp add: guarded_def split: sum.split)

lemma accounted_respond:
  assumes "request d (snd r)" and "\<And>e. fst r = Inl e \<Longrightarrow> snd r = d" and "\<not> (400 \<le> ok \<and> ok < 500)"
  shows "accounted d (respond caught ok readable r)"
  using assms by (cases "fst r") (auto simp: accounted_def respond_def status_of_def)

text \<open>A service operation that fails has rolled back.\<close>

lemma case_sum_fails:
  "fst (case x of Inl e \<Rightarrow> (Inl e, d) | Inr s \<Rightarrow> (Inr (f s), g s)) = Inl e' \<Longrightarrow>
     snd (case x of Inl e \<Rightarrow> (Inl e, d) | Inr s \<Rightarrow> (Inr (f s), g s)) = d"
  by (cases x) simp_all

lemma failed_cancel: "fst (cancel_job now ow i d) = Inl e \<Longrightarrow> snd (cancel_job now ow i d) = d"
  by (auto simp: cancel_job_def split: prod.splits option.splits)

lemma failed_requeue: "fst (requeue_job now ow i d) = Inl e \<Longrightarrow> snd (requeue_job now ow i d) = d"
  by (auto simp: requeue_job_def split: prod.splits option.splits)

lemma failed_create_queue: "fst (create_queue now q usr qdata d) = Inl e \<Longrightarrow> snd (create_queue now q usr qdata d) = d"
  by (auto simp: create_queue_def Let_def split: sum.splits)

lemma failed_update_queue: "fst (update_queue now usr i qupdate d) = Inl e \<Longrightarrow> snd (update_queue now usr i qupdate d) = d"
  by (auto simp: update_queue_def store_queue_def Let_def split: sum.splits option.splits if_splits)

lemma failed_set_paused: "fst (set_paused now usr i b d) = Inl e \<Longrightarrow> snd (set_paused now usr i b d) = d"
  by (auto simp: set_paused_def store_queue_def Let_def split: sum.splits if_splits)

lemma failed_create_schedule: "fst (create_schedule cn now q s id usr sdata d) = Inl e \<Longrightarrow> snd (create_schedule cn now q s id usr sdata d) = d"
  by (auto simp: create_schedule_def split: sum.splits prod.splits)

lemma failed_update_schedule: "fst (update_schedule cn now usr i supdate d) = Inl e \<Longrightarrow> snd (update_schedule cn now usr i supdate d) = d"
  unfolding update_schedule_def by (erule case_sum_fails)

lemma failed_delete_schedule: "fst (delete_schedule usr i d) = Inl e \<Longrightarrow> snd (delete_schedule usr i d) = d"
  by (auto simp: delete_schedule_def split: sum.splits)

lemma failed_create_project: "fst (create_project now i usr nm d) = Inl e \<Longrightarrow> snd (create_project now i usr nm d) = d"
  by (auto simp: create_project_def Let_def split: sum.splits)

lemma failed_change_role: "fst (change_role usr i role d) = Inl e \<Longrightarrow> snd (change_role usr i role d) = d"
  by (auto simp: change_role_def split: sum.splits if_splits option.splits prod.splits)

lemma failed_enqueue: "fst (enqueue now ids id id usr data d) = Inl e \<Longrightarrow> snd (enqueue now ids id id usr data d) = d"
  by (auto simp: enqueue_def Let_def split: prod.splits option.splits sum.splits if_splits)

lemma failed_batch:
  assumes "fst (enqueue_batch now q j b (\<lambda>x. x) usr items d) = Inl e"
  shows "snd (enqueue_batch now q j b (\<lambda>x. x) usr items d) = d"
  using batch_result [OF surjective_pairing, of now q j b usr items d] assms by simp

lemma failed_register:
  "fst (register h now oi pid uid id email pw d) = Inl e \<Longrightarrow> snd (register h now oi pid uid id email pw d) = d"
  by (auto simp: register_def Let_def split: sum.splits)

subsection \<open>Every endpoint is accounted for\<close>

lemma accounted_post_job [accounts]: "accounted d (post_job now ids id id usr header data d)"
  unfolding post_job_def
proof (rule accounted_guarded)
  let ?r = "enqueue now ids id id usr (with_header header data) d"
  have "request d (snd ?r)" by (rule request.post_job)
  moreover have "fst ?r = Inl e \<Longrightarrow> snd ?r = d" for e by (rule failed_enqueue)
  ultimately show "accounted d (case ?r of
      (Inr (j, created), d1) \<Rightarrow> (if job_readable j then if created then 201 else 200 else 500, d1)
    | (Inl e, d1) \<Rightarrow> (status_of not_found_only 201 job_readable (Inl e), d1))"
    by (cases ?r) (auto simp: accounted_def split: sum.split)
qed

lemma accounted_post_batch [accounts]: "accounted d (post_batch now q j b (\<lambda>x. x) usr items d)"
  unfolding post_batch_def
  by (intro accounted_guarded accounted_respond request.post_batch) (erule failed_batch, simp)

lemma accounted_post_cancel [accounts]: "accounted d (post_cancel now usr i d)"
  unfolding post_cancel_def
  by (intro accounted_guarded accounted_respond request.cancel) (erule failed_cancel, simp)

lemma accounted_post_requeue [accounts]: "accounted d (post_requeue now usr i d)"
  unfolding post_requeue_def
  by (intro accounted_guarded accounted_respond request.requeue) (erule failed_requeue, simp)

lemma accounted_dlq_requeue [accounts]: "accounted d (post_dlq_requeue now usr i d)"
  unfolding post_dlq_requeue_def
  by (intro accounted_respond request.requeue) (erule failed_requeue, simp)

lemma accounted_post_queue [accounts]: "accounted d (post_queue now q usr x d)"
  unfolding post_queue_def
  by (intro accounted_guarded accounted_respond request.post_queue) (erule failed_create_queue, simp)

lemma accounted_patch_queue [accounts]: "accounted d (patch_queue now usr i x d)"
  unfolding patch_queue_def
  by (intro accounted_guarded accounted_respond request.patch_queue) (erule failed_update_queue, simp)

lemma accounted_pause [accounts]: "accounted d (post_pause now usr i d)" "accounted d (post_resume now usr i d)"
  unfolding post_pause_def post_resume_def
  by (intro accounted_guarded accounted_respond request.pause_queue; (erule failed_set_paused | simp))+

lemma accounted_post_schedule [accounts]: "accounted d (post_schedule cn now q s id usr x d)"
  unfolding post_schedule_def
  by (intro accounted_respond request.post_schedule) (erule failed_create_schedule, simp)

lemma accounted_patch_schedule [accounts]: "accounted d (patch_schedule cn now usr i x d)"
  unfolding patch_schedule_def
  by (intro accounted_respond request.patch_schedule) (erule failed_update_schedule, simp)

lemma accounted_delete_schedule [accounts]: "accounted d (delete_schedule_endpoint usr i d)"
  unfolding delete_schedule_endpoint_def
  by (intro accounted_respond request.delete_schedule) (erule failed_delete_schedule, simp)

lemma accounted_post_project [accounts]: "accounted d (post_project now i usr nm d)"
  unfolding post_project_def
  by (intro accounted_respond request.post_project) (erule failed_create_project, simp)

lemma accounted_role [accounts]: "accounted d (patch_user_role usr i role d)"
  unfolding patch_user_role_def
  by (intro accounted_respond request.patch_role) (erule failed_change_role, simp)

lemma accounted_register [accounts]: "accounted d (post_register h now oi pid uid id ok email pw d)"
proof -
  let ?r = "register h now oi pid uid id email pw d"
  have "request d (snd ?r)" by (rule request.post_user)
  moreover have "fst ?r = Inl e \<Longrightarrow> snd ?r = d" for e by (rule failed_register)
  ultimately show ?thesis
    unfolding post_register_def by (cases ?r) (auto simp: accounted_def split: sum.split service_error.split)
qed

lemma read_endpoint_db: "snd (read_endpoint sv e usr args rq d) = d"
  by (cases e)
    (simp_all add: read_endpoint_def validated_def paged_def get_one_project_def get_one_queue_def
      get_queue_stats_def get_one_job_def get_attempts_def get_one_schedule_def split: option.split)

lemma accounted_read: "accounted d (read_endpoint sv e usr args rq d)"
  by (simp add: accounted_def read_endpoint_db)

lemma accounted_user_endpoint: "accounted d (user_endpoint sv e usr args rq d)"
  unfolding user_endpoint_def Let_def
  by (cases e) (simp_all, (intro accounts accounted_read)+)

lemma accounted_public: "accounted d (fst (public_endpoint sv e rq d r))"
  by (cases e)
    (auto simp: public_endpoint_def accounted_register split: body.split prod.split)

lemma accounted_call: "accounted d (fst (call_route sv rt args rq d r))"
proof -
  have "accounted d (authenticated dec pu tok (\<lambda>usr. user_endpoint sv e usr args rq) d)" for dec pu tok e
    by (auto simp: authenticated_def accounted_user_endpoint split: option.split)
  then show ?thesis
    by (auto simp: call_route_def accounted_public split: option.split prod.split)
qed

subsection \<open>Routes\<close>

fun fill :: "segment list \<Rightarrow> string list \<Rightarrow> string list option" where
  "fill [] [] = Some []"
| "fill (Fixed s # ts) args = map_option ((#) s) (fill ts args)"
| "fill (Variable x # ts) (a # args) = (if a = '''' then None else map_option ((#) a) (fill ts args))"
| "fill ts args = None"

lemma match_path_fill: "fill ts args = Some p \<Longrightarrow> match_path ts p = Some args"
  by (induction ts args arbitrary: p rule: fill.induct) (auto split: if_splits)

fun overlap :: "segment list \<Rightarrow> segment list \<Rightarrow> bool" where
  "overlap [] [] \<longleftrightarrow> True"
| "overlap (Fixed a # ts) (Fixed b # us) \<longleftrightarrow> a = b \<and> overlap ts us"
| "overlap (t # ts) (u # us) \<longleftrightarrow> overlap ts us"
| "overlap ts us \<longleftrightarrow> False"

lemma both_match_overlap: "match_path ts p \<noteq> None \<Longrightarrow> match_path us p \<noteq> None \<Longrightarrow> overlap ts us"
proof (induction ts p arbitrary: us rule: match_path.induct)
  case (2 s ts p ps)
  then show ?case by (cases us rule: list.exhaust; cases "hd us") (auto split: if_splits)
next
  case (3 x ts p ps)
  then show ?case by (cases us rule: list.exhaust; cases "hd us") (auto split: if_splits)
next
  case 1
  then show ?case by (cases us rule: list.exhaust; cases "hd us") auto
qed simp_all

fun apart :: "route list \<Rightarrow> bool" where
  "apart [] \<longleftrightarrow> True"
| "apart (r # rs) \<longleftrightarrow>
     list_all (\<lambda>x. rt_method x = rt_method r \<longrightarrow> \<not> overlap (rt_path x) (rt_path r)) rs \<and> apart rs"

lemma find_apart: "apart rs \<Longrightarrow> r \<in> set rs \<Longrightarrow> serving m p r \<Longrightarrow> List.find (serving m p) rs = Some r"
proof (induction rs)
  case (Cons x rs)
  show ?case
  proof (cases "r = x")
    case False
    then have r: "r \<in> set rs" using Cons.prems(2) by simp
    have "\<not> serving m p x"
    proof
      assume "serving m p x"
      then have "overlap (rt_path r) (rt_path x)" "rt_method r = rt_method x"
        using Cons.prems(3) both_match_overlap by (auto simp: serving_def)
      then show False using Cons.prems(1) r by (auto simp: list_all_iff)
    qed
    then show ?thesis using Cons r by simp
  qed (use Cons.prems(3) in simp)
qed simp

lemma app_routes_apart: "apart app_routes"
  by code_simp

definition writing :: "endpoint \<Rightarrow> bool" where
  "writing e \<longleftrightarrow> e \<in> {Register, Create_project, Create_queue, Update_queue, Pause_queue, Resume_queue, Create_job,
     Create_batch, Cancel_job, Requeue_job, Requeue_dead_job, Create_schedule, Update_schedule, Delete_schedule,
     Update_role}"

lemma app_routes_methods: "list_all (\<lambda>r. writing (rt_endpoint r) \<longrightarrow> rt_method r \<in> {''POST'', ''PATCH'', ''DELETE''}) app_routes"
  by code_simp

lemma app_routes_public: "list_all (\<lambda>r. rt_secured r \<or> rt_endpoint r \<in> {Healthz, Readyz, Metrics_page, Register, Login}) app_routes"
  by code_simp

lemma app_routes_register: "list_all (\<lambda>r. rt_endpoint r = Register \<longrightarrow>
    rt_method r = ''POST'' \<and> rt_path r = map Fixed [''api'', ''v1'', ''auth'', ''register'']) app_routes"
  by code_simp

lemma match_fixed: "match_path (map Fixed xs) p = Some args \<Longrightarrow> p = xs"
  by (induction xs arbitrary: p args; case_tac p) (auto split: if_splits)

lemma call_reads: "\<not> writing (rt_endpoint rt) \<Longrightarrow> snd (fst (call_route sv rt args rq d r)) = d"
  by (cases "rt_endpoint rt")
    (auto simp: writing_def call_route_def authenticated_def user_endpoint_def Let_def read_endpoint_db
      public_endpoint_def split: option.split prod.split body.split)

lemma call_anonymous:
  "caller sv rq d = None \<Longrightarrow> rt_secured rt \<Longrightarrow> snd (fst (call_route sv rt args rq d r)) = d"
  by (auto simp: call_route_def authenticated_def caller_def split: option.split)

lemma serves_in_orderD:
  assumes "serves_in_order select"
  shows "case List.find (serving m p) rs of
      Some r \<Rightarrow> select rs m p = Served r (the (match_path (rt_path r) p))
    | None \<Rightarrow> select rs m p \<in> {Refused 307, Refused 404, Refused 405}"
  using assms unfolding serves_in_order_def by blast

text \<open>No route hides another: whatever identifiers stand in its path, a request for the path of a
  route with its method is served by that route, and the caller need not be signed in for the
  probes, the metrics, registration and login only.\<close>

theorem every_route_is_served:
  assumes "serves_in_order select" and "rt \<in> set app_routes" and "fill (rt_path rt) args = Some p"
  shows "select app_routes (rt_method rt) p = Served rt args \<and>
    (rt_secured rt \<or> rt_endpoint rt \<in> {Healthz, Readyz, Metrics_page, Register, Login})"
proof -
  have m: "match_path (rt_path rt) p = Some args" by (rule match_path_fill [OF assms(3)])
  then have "List.find (serving (rt_method rt) p) app_routes = Some rt"
    by (intro find_apart [OF app_routes_apart assms(2)]) (simp add: serving_def)
  then have "select app_routes (rt_method rt) p = Served rt args"
    using serves_in_orderD [OF assms(1), where m = "rt_method rt" and p = p and rs = app_routes] m by simp
  then show ?thesis using app_routes_public assms(2) by (auto simp: list_all_iff)
qed

text \<open>A framework that serves in order.\<close>

definition in_order :: "route list \<Rightarrow> string \<Rightarrow> string list \<Rightarrow> selection" where
  "in_order rs m p =
     (case List.find (serving m p) rs of
        Some r \<Rightarrow> Served r (the (match_path (rt_path r) p))
      | None \<Rightarrow> Refused (if list_ex (\<lambda>r. match_path (rt_path r) p \<noteq> None) rs then 405 else 404))"

lemma in_order_serves: "serves_in_order in_order"
  by (auto simp: serves_in_order_def in_order_def split: option.split)

theorem every_route_is_served_witness:
  "\<exists>rt. rt_endpoint rt = Requeue_dead_job \<and>
     in_order app_routes ''POST'' [''api'', ''v1'', ''dlq'', ''7'', ''requeue''] = Served rt [''7'']"
proof -
  define rt where "rt = \<lparr>rt_method = ''POST'', rt_path = map Fixed [''api'', ''v1'', ''dlq''] @
    [Variable ''job_id'', Fixed ''requeue''], rt_endpoint = Requeue_dead_job, rt_secured = True\<rparr>"
  have "rt \<in> set app_routes"
    by (simp add: rt_def app_routes_def under_def dlq_router_def requeue_dead_job_route_def secured_def)
  moreover have "fill (rt_path rt) [''7''] = Some [''api'', ''v1'', ''dlq'', ''7'', ''requeue'']"
    by (simp add: rt_def)
  ultimately have "in_order app_routes (rt_method rt) [''api'', ''v1'', ''dlq'', ''7'', ''requeue''] = Served rt [''7'']"
    using every_route_is_served [OF in_order_serves] by blast
  then show ?thesis by (intro exI [of _ rt]) (simp add: rt_def)
qed

subsection \<open>Requests over HTTP\<close>

lemma created_app:
  assumes "serves_in_order select"
  shows "(\<exists>code. create_app select sv rq d r = ((code, d), r)) \<or>
    (\<exists>rt args. rt \<in> set app_routes \<and> rt_method rt = rq_method rq \<and>
       match_path (rt_path rt) (rq_path rq) = Some args \<and>
       create_app select sv rq d r = call_route sv rt args rq d r)"
proof (cases "List.find (serving (rq_method rq) (rq_path rq)) app_routes")
  case None
  then have "select app_routes (rq_method rq) (rq_path rq) \<in> {Refused 307, Refused 404, Refused 405}"
    using serves_in_orderD [OF assms, where m = "rq_method rq" and p = "rq_path rq" and rs = app_routes] by simp
  then show ?thesis by (auto simp: create_app_def)
next
  case (Some rt)
  then have rt: "rt \<in> set app_routes" "serving (rq_method rq) (rq_path rq) rt"
    by (auto simp: find_Some_iff)
  moreover have "select app_routes (rq_method rq) (rq_path rq) = Served rt (the (match_path (rt_path rt) (rq_path rq)))"
    using serves_in_orderD [OF assms, where m = "rq_method rq" and p = "rq_path rq" and rs = app_routes] Some by simp
  ultimately show ?thesis by (auto simp: create_app_def serving_def)
qed

text \<open>C34: The API over HTTP is the API of the cluster: whatever a client sends, with or without a
  token, to whatever path, the database is left as it was or goes through one of the requests
  of the cluster, so that it stays reachable and every property of the reachable states holds
  after any sequence of HTTP requests.  An answer of 400 to 499 has changed nothing, nor has a
  GET, and a caller without a valid token changes nothing but by registering.\<close>

theorem http_requests_are_cluster_requests:
  assumes "serves_in_order select" and "handle_request select sv rq (store \<sigma>) r = ((ans, d'), r')"
  shows "(d' = store \<sigma> \<or> request (store \<sigma>) d') \<and>
    (reachable H s \<sigma> \<longrightarrow> reachable H s (\<sigma>\<lparr>store := d'\<rparr>)) \<and>
    (400 \<le> an_status ans \<and> an_status ans < 500 \<longrightarrow> d' = store \<sigma>) \<and>
    (rq_method rq \<notin> {''POST'', ''PATCH'', ''DELETE''} \<longrightarrow> d' = store \<sigma>) \<and>
    (caller sv rq (store \<sigma>) = None \<and> d' \<noteq> store \<sigma> \<longrightarrow>
       rq_method rq = ''POST'' \<and> rq_path rq = [''api'', ''v1'', ''auth'', ''register''])"
proof -
  let ?d = "store \<sigma>"
  obtain code where app: "create_app select sv rq ?d r = ((code, d'), r')"
    and code: "an_status ans = code"
    using assms(2) by (auto simp: handle_request_def request_context_def split: prod.splits if_splits)
  have facts: "accounted ?d (code, d') \<and> (rq_method rq \<notin> {''POST'', ''PATCH'', ''DELETE''} \<longrightarrow> d' = ?d) \<and>
    (caller sv rq ?d = None \<and> d' \<noteq> ?d \<longrightarrow>
       rq_method rq = ''POST'' \<and> rq_path rq = [''api'', ''v1'', ''auth'', ''register''])"
    using created_app [OF assms(1), of sv rq ?d r]
  proof (elim disjE exE conjE)
    fix rt args
    assume rt: "rt \<in> set app_routes" "rt_method rt = rq_method rq"
      and m: "match_path (rt_path rt) (rq_path rq) = Some args"
      and call: "create_app select sv rq ?d r = call_route sv rt args rq ?d r"
    have res: "fst (call_route sv rt args rq ?d r) = (code, d')" using app call by simp
    have "accounted ?d (code, d')" using accounted_call [of ?d sv rt args rq r] res by simp
    moreover have writes: "writing (rt_endpoint rt)" if "d' \<noteq> ?d"
      using call_reads [of rt sv args rq ?d r] res that by auto
    moreover have "rt_method rt \<in> {''POST'', ''PATCH'', ''DELETE''}" if "d' \<noteq> ?d"
      using app_routes_methods rt(1) writes [OF that] by (simp add: list_all_iff)
    moreover have "rq_method rq = ''POST'' \<and> rq_path rq = [''api'', ''v1'', ''auth'', ''register'']"
      if "caller sv rq ?d = None" "d' \<noteq> ?d"
    proof -
      have "\<not> rt_secured rt" using call_anonymous [OF that(1), of rt args r] res that(2) by auto
      then have "rt_endpoint rt = Register"
        using app_routes_public rt(1) writes [OF that(2)] by (auto simp: list_all_iff writing_def)
      then have "rt_method rt = ''POST''" "rt_path rt = map Fixed [''api'', ''v1'', ''auth'', ''register'']"
        using app_routes_register rt(1) by (auto simp: list_all_iff)
      then show ?thesis using rt(2) m match_fixed by metis
    qed
    ultimately show ?thesis using rt(2) by metis
  qed (use app in simp)
  have req: "d' = ?d \<or> request ?d d'" and client: "400 \<le> code \<Longrightarrow> code < 500 \<Longrightarrow> d' = ?d"
    using facts [THEN conjunct1] by (auto simp: accounted_def)
  moreover have "reachable H s (\<sigma>\<lparr>store := d'\<rparr>)" if "reachable H s \<sigma>"
    using req
  proof
    assume "d' = ?d"
    then have "\<sigma>\<lparr>store := d'\<rparr> = \<sigma>" by simp
    then show ?thesis using that by simp
  qed (rule reachable.step [OF that step.request])
  moreover have "d' = ?d" if "400 \<le> an_status ans" "an_status ans < 500"
    using client code that by simp
  ultimately show ?thesis using facts [THEN conjunct2] by blast
qed

definition sample_server :: "unit server" where
  "sample_server = \<lparr>sv_settings = default_settings, sv_now = 5, sv_db_now = 5, sv_job_ids = sample_ids,
     sv_batch_queue_ids = (\<lambda>i. 300 + i), sv_batch_job_ids = (\<lambda>i. 400 + i), sv_row_id = 60, sv_queue_id = 61,
     sv_org_id = 62, sv_project_id = 63, sv_request_id = ''fresh'', sv_hash_password = id,
     sv_verify_password = (=), sv_create_token = (\<lambda>_. ''token''),
     sv_decode = (\<lambda>t. if t = ''token'' then Some (Some ''60'') else None),
     sv_parse_uuid = (\<lambda>t. if t = ''60'' then Some 60 else None), sv_cron_next = (\<lambda>_ t. Some (t + 60000000)),
     sv_cron_ok = (\<lambda>_. True), sv_email_ok = (\<lambda>_. True), sv_json_bytes = (\<lambda>_. 2), sv_postgres_answers = True,
     sv_ping = (\<lambda>r. (Some True, r)), sv_incr = (\<lambda>_ r. (Some 1, r)), sv_expire = (\<lambda>_ _ r. (Some True, r)),
     sv_get = (\<lambda>_ r. (Some None, r)), sv_set = (\<lambda>_ _ _ r. (Some (), r)), sv_dump = (\<lambda>_. ''{}''),
     sv_validate_json = (\<lambda>_. None)\<rparr>"

definition sample_request :: "string \<Rightarrow> string list \<Rightarrow> body \<Rightarrow> http_request" where
  "sample_request m p b = \<lparr>rq_method = m, rq_path = p, rq_token = None, rq_request_id = Some ''r-1'',
     rq_idempotency_key = None, rq_client = None, rq_status = None, rq_queue = None, rq_batch_id = None,
     rq_project_id = None, rq_limit = None, rq_offset = None, rq_body = b\<rparr>"

definition sign_up :: http_request where
  "sign_up = sample_request ''POST'' [''api'', ''v1'', ''auth'', ''register''] (Register_body ''c@d'' ''secret12'')"

lemma sign_up_answer:
  "case handle_request in_order sample_server sign_up (store run_boot) () of
     ((ans, d'), _) \<Rightarrow> an_status ans = 201 \<and> an_request_id ans = Some ''r-1'' \<and> map u_email (users d') = [''c@d'']"
  by code_simp

theorem http_requests_are_cluster_requests_witness:
  "\<exists>ans d'. handle_request in_order sample_server sign_up (store run_boot) () = ((ans, d'), ()) \<and>
     an_status ans = 201 \<and> map u_email (users d') = [''c@d''] \<and> request (store run_boot) d' \<and>
     reachable {} default_settings (run_boot\<lparr>store := d'\<rparr>)"
proof -
  obtain ans d' where h: "handle_request in_order sample_server sign_up (store run_boot) () = ((ans, d'), ())"
    by (metis prod.exhaust unit.exhaust)
  have a: "an_status ans = 201" "map u_email (users d') = [''c@d'']"
    using sign_up_answer by (simp_all add: h)
  have "users (store run_boot) = []"
    by (simp add: run_boot_def register_commit_def register_worker_def empty_db_def add_worker_def)
  then have "d' \<noteq> store run_boot" using a(2) by auto
  then have "request (store run_boot) d' \<and> reachable {} default_settings (run_boot\<lparr>store := d'\<rparr>)"
    using http_requests_are_cluster_requests [OF in_order_serves h, of "{}" default_settings]
      run_boot_reachable [of "{}"] by blast
  then show ?thesis using h a by (intro exI [of _ ans] exI [of _ d'] conjI) simp_all
qed

end
