(* ===== verification/Script.thy ===== *)
theory Script
  imports Exceptions Models
begin

section \<open>Scripts (app/scripts)\<close>

text \<open>
  A script calls the services one after the other.  A call answers with an error or a value and
  the database after it; an error that is not caught ends the script, with what was committed
  so far.
\<close>

type_synonym 'a call = "(service_error + 'a) \<times> db"

definition and_then :: "'a call \<Rightarrow> ('a \<Rightarrow> db \<Rightarrow> 'b call) \<Rightarrow> 'b call" where
  "and_then r next = (case r of (Inl e, d) \<Rightarrow> (Inl e, d) | (Inr x, d) \<Rightarrow> next x d)"

text \<open>\<open>try: ... except caught: recover\<close>\<close>

definition catching :: "(service_error \<Rightarrow> bool) \<Rightarrow> 'a call \<Rightarrow> (db \<Rightarrow> 'a call) \<Rightarrow> 'a call" where
  "catching caught r recover =
     (case r of (Inl e, d) \<Rightarrow> if caught e then recover d else (Inl e, d) | (Inr x, d) \<Rightarrow> (Inr x, d))"

definition ignoring :: "'a call \<Rightarrow> unit call" where
  "ignoring r = and_then r (\<lambda>_ d. (Inr (), d))"

lemma and_then_simps [simp]:
  "and_then (Inl e, d) k = (Inl e, d)"
  "and_then (Inr x, d) k = k x d"
  by (simp_all add: and_then_def)

lemma and_then_Inr_iff:
  "and_then r k = (Inr y, d') \<longleftrightarrow> (\<exists>x d. r = (Inr x, d) \<and> k x d = (Inr y, d'))"
  by (cases r; cases "fst r") auto

end
