(* ===== verification/Bench.thy ===== *)
theory Bench
  imports System Script
begin

section \<open>The benchmark (app/scripts/bench.py)\<close>

text \<open>
  The script creates its own account, enqueues its jobs in chunks, polls until the fleet has
  executed them, reports percentiles over the timestamps of the rows and deletes the rows.
  What the rest of the system does meanwhile is an argument, the databases the polls see.
\<close>

subsection \<open>The account\<close>

definition BENCH_EMAIL :: string where
  "BENCH_EMAIL = ''bench@example.com''"

record bench_ids =
  n_org :: uuid
  n_project :: uuid
  n_user :: uuid
  n_queue :: uuid

text \<open>One transaction: it commits all three rows or none.\<close>

definition ensure_account :: "time \<Rightarrow> bench_ids \<Rightarrow> db \<Rightarrow> user call" where
  "ensure_account now ids d =
     (case get_by_email BENCH_EMAIL d of
        Some usr \<Rightarrow> (Inr usr, d)
      | None \<Rightarrow>
          (let usr = \<lparr>u_id = n_user ids, u_org_id = n_org ids, u_email = BENCH_EMAIL,
                     u_password_hash = ''not-a-login-user'', u_role = OWNER, u_created_at = now\<rparr>
           in case bind (insert_organization \<lparr>o_id = n_org ids, o_name = BENCH_EMAIL, o_created_at = now\<rparr> d)
                 (\<lambda>d1. bind (insert_project \<lparr>p_id = n_project ids, p_org_id = n_org ids, p_name = ''default'',
                                p_created_at = now\<rparr> d1) (insert_user usr)) of
                Inl e \<Rightarrow> (Inl e, d)
              | Inr d1 \<Rightarrow> (Inr usr, d1)))"

definition ensure_user :: "time \<Rightarrow> bench_ids \<Rightarrow> db \<Rightarrow> (uuid \<times> uuid) call" where
  "ensure_user now ids d =
     and_then (ensure_account now ids d) (\<lambda>usr d1.
       (case sort_key p_created_at (filter (\<lambda>p. p_org_id p = u_org_id usr) (projects d1)) of
          [] \<Rightarrow> (Inl (NotFoundError ''No row was found when one was required''), d1)
        | p # _ \<Rightarrow>
            (case get_by_name (p_id p) ''default'' d1 of
               Some q \<Rightarrow> (Inr (u_id usr, q_id q), d1)
             | None \<Rightarrow>
                 (case insert_queue (new_queue now (n_queue ids) (p_id p) ''default'') d1 of
                    Inl e \<Rightarrow> (Inl e, d1)
                  | Inr d2 \<Rightarrow> (Inr (u_id usr, n_queue ids), d2)))))"

subsection \<open>The jobs\<close>

definition bench_job :: "time \<Rightarrow> uuid \<Rightarrow> uuid \<Rightarrow> uuid \<Rightarrow> job" where
  "bench_job now owner_id queue_id i =
     \<lparr>j_id = i, j_owner_id = owner_id, j_queue_id = queue_id, j_queue = ''default'',
      j_task_name = ''demo.echo'', j_batch_id = None, j_workflow_id = None,
      j_payload = JObj [(''bench'', JBool True)], j_status = PENDING, j_priority = 0, j_run_at = now,
      j_idempotency_key = None, j_max_attempts = 3, j_backoff_strategy = EXPONENTIAL, j_attempt_count = 0,
      j_timeout_seconds = 300, j_backoff_base_seconds = 5, j_backoff_factor = 2, j_backoff_max_seconds = 300,
      j_locked_by = None, j_lease_expires_at = None, j_last_error = None, j_ai_summary = None, j_result = None,
      j_created_at = now, j_updated_at = now, j_started_at = None, j_finished_at = None\<rparr>"

text \<open>\<open>range(0, n_jobs, 500)\<close>: one transaction per chunk, at its own time.\<close>

function chunks :: "'a list \<Rightarrow> 'a list list" where
  "chunks xs = (if xs = [] then [] else take 500 xs # chunks (drop 500 xs))"
  by auto
termination by (relation "measure length") auto

declare chunks.simps [simp del]

fun enqueue_chunks :: "(nat \<Rightarrow> time) \<Rightarrow> uuid \<Rightarrow> uuid \<Rightarrow> nat \<Rightarrow> uuid list list \<Rightarrow> db \<Rightarrow> unit call" where
  "enqueue_chunks clock owner_id queue_id k [] d = (Inr (), d)"
| "enqueue_chunks clock owner_id queue_id k (chunk # rest) d =
     (case insert_jobs (map (bench_job (clock k) owner_id queue_id) chunk) d of
        Inl e \<Rightarrow> (Inl e, d)
      | Inr d1 \<Rightarrow> enqueue_chunks clock owner_id queue_id (Suc k) rest d1)"

subsection \<open>Waiting for the fleet\<close>

definition done_count :: "uuid list \<Rightarrow> db \<Rightarrow> nat" where
  "done_count job_ids d = count_where (\<lambda>j. j_id j \<in> set job_ids \<and> j_status j = SUCCEEDED) (jobs d)"

datatype drain = Drained db | Gave_up db | Interrupted db

text \<open>A poll: the seconds since the start and the database it sees.  No poll is left: Ctrl-C.\<close>

fun await_drain :: "uuid list \<Rightarrow> (real \<times> db) list \<Rightarrow> db \<Rightarrow> drain" where
  "await_drain job_ids [] d = Interrupted d"
| "await_drain job_ids ((elapsed, d1) # polls) d =
     (if done_count job_ids d1 \<ge> length job_ids then Drained d1
      else if elapsed > 600 then Gave_up d1
      else await_drain job_ids polls d1)"

text \<open>\<open>DELETE FROM jobs WHERE id IN ...\<close>: the foreign keys of attempts and dependencies cascade.\<close>

definition delete_jobs :: "uuid list \<Rightarrow> db \<Rightarrow> db" where
  "delete_jobs job_ids d =
     d\<lparr>jobs := filter (\<lambda>j. j_id j \<notin> set job_ids) (jobs d),
       attempts := filter (\<lambda>a. a_job_id a \<notin> set job_ids) (attempts d),
       dependencies := filter (\<lambda>e. d_job_id e \<notin> set job_ids \<and> d_depends_on_job_id e \<notin> set job_ids) (dependencies d)\<rparr>"

subsection \<open>The report\<close>

definition seconds_between :: "time \<Rightarrow> time \<Rightarrow> real" where
  "seconds_between s e = real_of_int (e - s) / 1000000"

text \<open>\<open>percentile_cont\<close>: linear interpolation between the two rows next to the rank.\<close>

definition percentile_cont :: "real \<Rightarrow> real list \<Rightarrow> real option" where
  "percentile_cont p xs =
     (if xs = [] then None
      else let ys = sort xs; rank = p * real (length xs - 1); lo = nat \<lfloor>rank\<rfloor>; hi = nat \<lceil>rank\<rceil>
           in Some (ys ! lo + (rank - real lo) * (ys ! hi - ys ! lo)))"

definition claim_waits :: "uuid list \<Rightarrow> db \<Rightarrow> real list" where
  "claim_waits job_ids d =
     concat (map (\<lambda>j. case j_started_at j of None \<Rightarrow> [] | Some s \<Rightarrow> [seconds_between (j_run_at j) s])
       (filter (\<lambda>j. j_id j \<in> set job_ids) (jobs d)))"

definition exec_times :: "uuid list \<Rightarrow> db \<Rightarrow> real list" where
  "exec_times job_ids d =
     concat (map (\<lambda>j. case (j_started_at j, j_finished_at j) of (Some s, Some e) \<Rightarrow> [seconds_between s e] | _ \<Rightarrow> [])
       (filter (\<lambda>j. j_id j \<in> set job_ids) (jobs d)))"

definition somes :: "'a option list \<Rightarrow> 'a list" where
  "somes xs = concat (map (\<lambda>x. case x of None \<Rightarrow> [] | Some v \<Rightarrow> [v]) xs)"

definition run_window :: "uuid list \<Rightarrow> db \<Rightarrow> real option" where
  "run_window job_ids d =
     (let js = filter (\<lambda>j. j_id j \<in> set job_ids) (jobs d);
          starts = somes (map j_started_at js); ends = somes (map j_finished_at js)
      in if starts = [] \<or> ends = [] then None
         else Some (seconds_between (foldr min starts (hd starts)) (foldr max ends (hd ends))))"

record bench_report =
  b_window :: real
  b_throughput :: real
  b_wait_p50 :: real
  b_wait_p95 :: real
  b_exec_p50 :: real
  b_exec_p95 :: real

text \<open>\<open>None\<close> is an exception: \<open>float\<close> of a null, or a division by a window of zero.\<close>

definition bench_stats :: "uuid list \<Rightarrow> db \<Rightarrow> bench_report option" where
  "bench_stats job_ids d =
     (case (run_window job_ids d, percentile_cont (1 / 2) (claim_waits job_ids d),
            percentile_cont (19 / 20) (claim_waits job_ids d), percentile_cont (1 / 2) (exec_times job_ids d),
            percentile_cont (19 / 20) (exec_times job_ids d)) of
        (Some w, Some w50, Some w95, Some e50, Some e95) \<Rightarrow>
          if w = 0 then None
          else Some \<lparr>b_window = w, b_throughput = real (length job_ids) / w, b_wait_p50 = w50, b_wait_p95 = w95,
                     b_exec_p50 = e50, b_exec_p95 = e95\<rparr>
      | _ \<Rightarrow> None)"

subsection \<open>The script\<close>

datatype bench_end = Reported bench_report | Timed_out_with nat | Stopped | Crashed

text \<open>The cleanup stands in the handler of the waiting loop and after the report, nowhere else.\<close>

definition finish_bench :: "uuid list \<Rightarrow> drain \<Rightarrow> bench_end \<times> db" where
  "finish_bench job_ids waited =
     (case waited of
        Gave_up d \<Rightarrow> (Timed_out_with (done_count job_ids d), delete_jobs job_ids d)
      | Interrupted d \<Rightarrow> (Stopped, delete_jobs job_ids d)
      | Drained d \<Rightarrow>
          (case bench_stats job_ids d of
             None \<Rightarrow> (Crashed, d)
           | Some report \<Rightarrow> (Reported report, delete_jobs job_ids d)))"

definition enqueue_bench :: "(nat \<Rightarrow> time) \<Rightarrow> bench_ids \<Rightarrow> uuid list \<Rightarrow> db \<Rightarrow> unit call" where
  "enqueue_bench clock ids job_ids d =
     and_then (ensure_user (clock 0) ids d) (\<lambda>(owner_id, queue_id).
       enqueue_chunks clock owner_id queue_id 0 (chunks job_ids))"

end
