(* ===== verification/Bench_Props.thy ===== *)
theory Bench_Props
  imports Bench Cluster_Props
begin

section \<open>Properties of the benchmark\<close>

text \<open>
  The benchmark adds its own jobs and nothing else, and takes exactly them away again, whatever
  the fleet and the other clients did in between.
\<close>

subsection \<open>What is enqueued\<close>

lemma chunks_parts: "concat (chunks xs) = xs \<and> (\<forall>c \<in> set (chunks xs). c \<noteq> [] \<and> length c \<le> 500)"
proof (induction xs rule: chunks.induct)
  case (1 xs)
  then show ?case by (subst (1 2) chunks.simps) (auto simp: min_def)
qed

definition only_new_jobs :: "uuid list \<Rightarrow> db \<Rightarrow> db \<Rightarrow> bool" where
  "only_new_jobs ids d d' \<longleftrightarrow>
     consistent d' \<and> attempts d' = attempts d \<and> dependencies d' = dependencies d \<and>
     (\<exists>js. jobs d' = jobs d @ js \<and> map j_id js = ids \<and> (\<forall>j \<in> set js. fresh_job j \<and> j_task_name j = ''demo.echo''))"

lemma only_new_jobs_trans: "only_new_jobs is d d1 \<Longrightarrow> only_new_jobs ks d1 d2 \<Longrightarrow> only_new_jobs (is @ ks) d d2"
  by (fastforce simp: only_new_jobs_def)

lemma new_jobs_consistent:
  assumes "consistent d" and "db_keys d'" and "jobs d' = jobs d @ js" and "\<forall>j \<in> set js. fresh_job j"
    and "attempts d' = attempts d" and "dependencies d' = dependencies d"
  shows "consistent d'"
proof -
  have "depends_earlier d'"
    by (rule depends_earlier_append [OF consistentD(4) [OF assms(1)], of _ "map j_id js"]) (simp_all add: assms)
  moreover have "lease_ok j \<and> counted j" if "j \<in> set (jobs d')" for j
    using that assms(3,4) consistentD(5,6) [OF assms(1)] by (auto simp: fresh_job_def lease_ok_def counted_def)
  moreover have "audited d'"
    using consistentD(3) [OF assms(1)] assms(3-5) by (auto simp: audited_def fresh_job_def)
  ultimately show ?thesis using assms(2) by (simp add: consistent_def)
qed

lemma chunk_enqueued:
  assumes "consistent d" and "insert_jobs (map (bench_job now ow q) ids) d = Inr d'"
  shows "only_new_jobs ids d d'"
proof -
  note db = insert_jobs_db [OF assms(2)]
  have "\<forall>j \<in> set (map (bench_job now ow q) ids). fresh_job j \<and> j_task_name j = ''demo.echo''"
    by (simp add: bench_job_def fresh_job_def)
  moreover from this have "consistent d'"
    by (intro new_jobs_consistent [OF assms(1) insert_jobs_keys [OF consistentD(1) [OF assms(1)] assms(2)],
          where js = "map (bench_job now ow q) ids"]) (auto simp: db)
  moreover have "map j_id (map (bench_job now ow q) ids) = ids" by (induction ids) (simp_all add: bench_job_def)
  ultimately show ?thesis unfolding only_new_jobs_def db
    by (intro conjI exI [of _ "map (bench_job now ow q) ids"]) simp_all
qed

lemma chunks_enqueued:
  "consistent d \<Longrightarrow> enqueue_chunks clock ow q k cs d = (Inr (), d') \<Longrightarrow> only_new_jobs (concat cs) d d'"
proof (induction cs arbitrary: k d)
  case Nil
  then show ?case by (simp add: only_new_jobs_def)
next
  case (Cons c cs)
  then obtain d1 where d1: "insert_jobs (map (bench_job (clock k) ow q) c) d = Inr d1"
      "enqueue_chunks clock ow q (Suc k) cs d1 = (Inr (), d')"
    by (cases "insert_jobs (map (bench_job (clock k) ow q) c) d") auto
  then have "only_new_jobs c d d1" by (intro chunk_enqueued Cons.prems(1))
  moreover from this have "only_new_jobs (concat cs) d1 d'"
    by (intro Cons.IH [OF _ d1(2)]) (simp add: only_new_jobs_def)
  ultimately show ?case using only_new_jobs_trans by simp
qed

lemma account_tables:
  assumes "ensure_account now ids d = (Inr usr, d')"
  shows "jobs d' = jobs d \<and> attempts d' = attempts d \<and> queues d' = queues d \<and> dependencies d' = dependencies d"
  using assms
  by (auto simp: ensure_account_def insert_organization_def insert_project_def insert_user_def Let_def
      split: option.splits sum.splits if_splits)

lemma user_ensured:
  assumes "consistent d" and "ensure_user now ids d = (Inr r, d')"
  shows "only_new_jobs [] d d'"
proof -
  obtain usr d1 where d1: "ensure_account now ids d = (Inr usr, d1)"
    using assms(2) by (auto simp: ensure_user_def and_then_Inr_iff)
  note t = account_tables [OF d1]
  have c1: "consistent d1" using t assms(1) consistent_frame [of d1 d] by simp
  have "d' = d1 \<or> (\<exists>p. insert_queue (new_queue now (n_queue ids) p ''default'') d1 = Inr d')"
    using assms(2) d1 by (auto simp: ensure_user_def split: list.splits option.splits sum.splits)
  then show ?thesis
  proof
    assume "\<exists>p. insert_queue (new_queue now (n_queue ids) p ''default'') d1 = Inr d'"
    then obtain p where p: "insert_queue (new_queue now (n_queue ids) p ''default'') d1 = Inr d'" ..
    note db = insert_queue_db [OF p]
    have "consistent d'"
      by (rule new_jobs_consistent [OF c1 insert_queue_keys [OF consistentD(1) [OF c1] p], where js = "[]"])
        (simp_all add: db)
    then show ?thesis using t db by (simp add: only_new_jobs_def)
  qed (use t c1 in \<open>simp add: only_new_jobs_def\<close>)
qed

lemma bench_enqueued:
  assumes "consistent d" and "enqueue_bench clock ids job_ids d = (Inr (), d')"
  shows "only_new_jobs job_ids d d'"
proof -
  obtain ow q d1 where d1: "ensure_user (clock 0) ids d = (Inr (ow, q), d1)"
      "enqueue_chunks clock ow q 0 (chunks job_ids) d1 = (Inr (), d')"
    using assms(2) by (auto simp: enqueue_bench_def and_then_Inr_iff)
  have u: "only_new_jobs [] d d1" by (rule user_ensured [OF assms(1) d1(1)])
  have "only_new_jobs (concat (chunks job_ids)) d1 d'"
    by (rule chunks_enqueued [OF _ d1(2)]) (use u in \<open>simp add: only_new_jobs_def\<close>)
  then show ?thesis using only_new_jobs_trans [OF u] chunks_parts [of job_ids] by simp
qed

subsection \<open>What is deleted\<close>

lemma row_filter_key: "k \<notin> ks \<Longrightarrow> row key k (filter (\<lambda>r. key r \<notin> ks) rs) = row key k rs"
  by (induction rs) auto

lemma depends_earlier_delete:
  assumes "depends_earlier d"
  shows "depends_earlier (delete_jobs ids d)"
  unfolding depends_earlier_def
proof
  fix e assume "e \<in> set (dependencies (delete_jobs ids d))"
  then have e: "e \<in> set (dependencies d)" "d_job_id e \<notin> set ids" "d_depends_on_job_id e \<notin> set ids"
    by (auto simp: delete_jobs_def)
  obtain xs ys where "map j_id (jobs d) = xs @ d_job_id e # ys" "d_depends_on_job_id e \<in> set xs"
    using assms e(1) unfolding depends_earlier_def by blast
  moreover have "map j_id (jobs (delete_jobs ids d)) = filter (\<lambda>i. i \<notin> set ids) (map j_id (jobs d))"
    by (simp add: delete_jobs_def filter_map o_def)
  ultimately show "\<exists>xs ys. map j_id (jobs (delete_jobs ids d)) = xs @ d_job_id e # ys \<and> d_depends_on_job_id e \<in> set xs"
    using e by (intro exI [of _ "filter (\<lambda>i. i \<notin> set ids) xs"] exI [of _ "filter (\<lambda>i. i \<notin> set ids) ys"]) simp
qed

lemma unique_on_filter: "unique_on key rs \<Longrightarrow> unique_on key (filter P rs)"
  by (simp add: unique_on_def distinct_map_filter)

lemma uq_jobs_filter:
  assumes "uq_jobs_owner_idempotency js"
  shows "uq_jobs_owner_idempotency (filter P js)"
proof -
  have "filter (\<lambda>j. j_idempotency_key j \<noteq> None) (filter P js) = filter P (filter (\<lambda>j. j_idempotency_key j \<noteq> None) js)"
    by (simp add: filter_filter conj_commute)
  then show ?thesis using assms unique_on_filter unfolding uq_jobs_owner_idempotency_def by metis
qed

lemma delete_jobs_keys: "db_keys d \<Longrightarrow> db_keys (delete_jobs ids d)"
  by (auto simp: db_keys_def delete_jobs_def unique_on_filter uq_jobs_filter uq_job_dep_pair_def)

lemma delete_jobs_consistent:
  assumes "consistent d"
  shows "consistent (delete_jobs ids d)"
proof -
  have "audited (delete_jobs ids d)"
    using consistentD(3) [OF assms]
    by (fastforce simp: audited_def has_open_attempt_def delete_jobs_def open_attempt_def)
  moreover have "lease_ok j \<and> counted j" if "j \<in> set (jobs (delete_jobs ids d))" for j
    using that consistentD(5,6) [OF assms] by (auto simp: delete_jobs_def)
  ultimately show ?thesis
    using delete_jobs_keys [OF consistentD(1) [OF assms]] depends_earlier_delete [OF consistentD(4) [OF assms]]
    by (simp add: consistent_def)
qed

lemma steps_keep_rows:
  assumes "(step H s)\<^sup>*\<^sup>* \<sigma> \<tau>" and "consistent (store \<sigma>)" and "row j_id i (jobs (store \<sigma>)) = Some j"
  shows "consistent (store \<tau>) \<and> (\<exists>k. row j_id i (jobs (store \<tau>)) = Some k \<and> contract k = contract j)"
  using assms(1)
proof (induction rule: rtranclp_induct)
  case base
  then show ?case using assms(2,3) by blast
next
  case (step \<tau> \<upsilon>)
  then obtain k where k: "row j_id i (jobs (store \<tau>)) = Some k" "contract k = contract j" by blast
  have ds: "db_step UNIV (store \<tau>) (store \<upsilon>)" using step step_db_step by blast
  then obtain k' where "row j_id i (jobs (store \<upsilon>)) = Some k'" "job_evolves UNIV k k'"
    using jobs_evolve_row [OF _ k(1)] by (auto simp: db_step_def)
  then show ?case using ds k(2) job_evolves_ids by (fastforce simp: db_step_def)
qed

lemma steps_consistent: "(step H s)\<^sup>*\<^sup>* \<sigma> \<tau> \<Longrightarrow> consistent (store \<sigma>) \<Longrightarrow> consistent (store \<tau>)"
  by (induction rule: rtranclp_induct) (auto dest: step_db_step simp: db_step_def)

text \<open>A worker that still executes a deleted job cannot report anything about it.\<close>

lemma deleted_not_held: "j_id c \<in> set ids \<Longrightarrow> \<not> holds w (j_id c) (delete_jobs ids d)"
  by (auto simp: holds_def list_ex_iff delete_jobs_def)


definition bench_sample_ids :: bench_ids where
  "bench_sample_ids = \<lparr>n_org = 62, n_project = 63, n_user = 64, n_queue = 61\<rparr>"

definition bench_start :: "unit call" where
  "bench_start = enqueue_bench (\<lambda>_. 0) bench_sample_ids [70, 71] sample_tenant_db"

lemma bench_start_ok: "case bench_start of (r, d) \<Rightarrow> r = Inr ()"
  by code_simp

lemma sample_tenant_consistent: "consistent sample_tenant_db"
  using sample_tenant_keys
  by (simp add: consistent_def audited_def depends_earlier_def sample_tenant_db_def sample_db_def
      sample_job_def lease_ok_def counted_def)


end
