(* ===== verification/Seed.thy ===== *)
theory Seed
  imports Script Queue_Service Schedule_Service Access
begin

section \<open>The demo data (app/scripts/seed.py)\<close>

text \<open>
  The script calls the services one after the other and catches the errors that mean a thing is
  there already; any other error ends it, with what was committed so far.  Identifiers and times
  are arguments, a fresh family of each for every call.
\<close>

fun is_conflict :: "service_error \<Rightarrow> bool" where
  "is_conflict (ConflictError m) \<longleftrightarrow> True"
| "is_conflict e \<longleftrightarrow> False"

fun is_taken_email :: "service_error \<Rightarrow> bool" where
  "is_taken_email (EmailAlreadyRegisteredError m) \<longleftrightarrow> True"
| "is_taken_email e \<longleftrightarrow> False"

subsection \<open>What is submitted\<close>

definition DEMO_EMAIL :: string where "DEMO_EMAIL = ''demo@example.com''"
definition DEMO_PASSWORD :: string where "DEMO_PASSWORD = ''demo12345''"
definition VIEWER_EMAIL :: string where "VIEWER_EMAIL = ''viewer@example.com''"
definition VIEWER_PASSWORD :: string where "VIEWER_PASSWORD = ''viewer12345''"

text \<open>\<open>JobCreate\<close> with a task and a payload; the other fields have their defaults and are not set.\<close>

definition job_create :: "string \<Rightarrow> json \<Rightarrow> JobCreate" where
  "job_create task payload =
     \<lparr>jc_task_name = task, jc_payload = payload, jc_queue = ''default'', jc_project_id = None,
      jc_priority = 0, jc_backoff_strategy = EXPONENTIAL, jc_run_at = None, jc_max_attempts = 3,
      jc_timeout_seconds = 300, jc_backoff_base_seconds = 5, jc_backoff_factor = 2,
      jc_backoff_max_seconds = 300, jc_idempotency_key = None, jc_depends_on = [],
      jc_fields_set = [''task_name'', ''payload'']\<rparr>"

definition keyed :: "string \<Rightarrow> JobCreate \<Rightarrow> JobCreate" where
  "keyed key c = c\<lparr>jc_idempotency_key := Some key, jc_fields_set := ''idempotency_key'' # jc_fields_set c\<rparr>"

definition DEMO_JOBS :: "JobCreate list" where
  "DEMO_JOBS =
     [job_create ''demo.echo'' (JObj [(''message'', JStr ''hello from the seed'')]),
      job_create ''demo.sleep'' (JObj [(''seconds'', JNum 10)]),
      (job_create ''demo.fail_until'' (JObj [(''succeed_on_attempt'', JNum 3)]))
        \<lparr>jc_max_attempts := 5, jc_backoff_base_seconds := 5,
         jc_fields_set := [''task_name'', ''payload'', ''max_attempts'', ''backoff_base_seconds'']\<rparr>,
      (job_create ''demo.flaky'' (JObj [(''failure_rate'', JNum (1 / 2))]))
        \<lparr>jc_max_attempts := 4, jc_fields_set := [''task_name'', ''payload'', ''max_attempts'']\<rparr>,
      (job_create ''demo.always_fail'' (JObj [(''error'', JStr ''seeded DLQ example'')]))
        \<lparr>jc_max_attempts := 2, jc_backoff_base_seconds := 3,
         jc_fields_set := [''task_name'', ''payload'', ''max_attempts'', ''backoff_base_seconds'']\<rparr>,
      keyed ''seed-idempotent-job''
        (job_create ''demo.echo'' (JObj [(''message'', JStr ''idempotency demo'')]))]"

definition batch_item :: "nat \<Rightarrow> string \<Rightarrow> JobCreate" where
  "batch_item i sfx =
     (keyed (''seed-capped-batch-'' @ sfx)
        (job_create ''demo.sleep'' (JObj [(''seconds'', JNum 8), (''n'', JNum (real i))])))
       \<lparr>jc_queue := ''capped'', jc_fields_set := [''task_name'', ''payload'', ''queue'', ''idempotency_key'']\<rparr>"

definition DEMO_BATCH :: "JobCreate list" where
  "DEMO_BATCH = [batch_item 0 ''0'', batch_item 1 ''1'', batch_item 2 ''2'']"

definition workflow_step :: "string \<Rightarrow> string \<Rightarrow> uuid list \<Rightarrow> JobCreate" where
  "workflow_step step key deps =
     (keyed (''seed-workflow-'' @ key)
        (job_create ''demo.echo'' (JObj [(''step'', JStr step), (''message'', JStr (''workflow step '' @ step))])))
       \<lparr>jc_depends_on := deps,
        jc_fields_set := [''task_name'', ''payload'', ''queue'', ''idempotency_key'']
          @ (if deps = [] then [] else [''depends_on''])\<rparr>"

definition queue_named :: "string \<Rightarrow> QueueCreate" where
  "queue_named nm =
     \<lparr>qc_name = nm, qc_project_id = None, qc_shard_key = 0, qc_max_concurrency = None,
      qc_default_priority = 0, qc_default_max_attempts = 3, qc_default_backoff_strategy = EXPONENTIAL,
      qc_default_backoff_base_seconds = 5, qc_default_backoff_factor = 2,
      qc_default_backoff_max_seconds = 300, qc_default_timeout_seconds = 300\<rparr>"

definition DEMO_SCHEDULE :: ScheduleCreate where
  "DEMO_SCHEDULE =
     \<lparr>sc_task_name = ''demo.echo'', sc_payload = JObj [(''message'', JStr ''cron heartbeat'')],
      sc_cron_expr = ''*/2 * * * *'', sc_queue = ''default'', sc_project_id = None, sc_priority = 0,
      sc_max_attempts = 3, sc_timeout_seconds = 300, sc_backoff_strategy = EXPONENTIAL,
      sc_backoff_base_seconds = 5, sc_backoff_factor = 2, sc_backoff_max_seconds = 300\<rparr>"

subsection \<open>The script\<close>

record seed_env =
  se_now :: time
  se_hash_password :: "string \<Rightarrow> string"
  se_cron_next :: "string \<Rightarrow> time \<Rightarrow> time option"
  se_org :: "nat \<Rightarrow> uuid"
  se_project :: "nat \<Rightarrow> uuid"
  se_user :: "nat \<Rightarrow> uuid"
  se_queue :: "nat \<Rightarrow> uuid"
  se_job :: "nat \<Rightarrow> fresh_ids"
  se_batch_queue :: "nat \<Rightarrow> uuid"
  se_batch_job :: "nat \<Rightarrow> uuid"
  se_batch :: uuid
  se_schedule :: uuid

definition register_nth :: "seed_env \<Rightarrow> nat \<Rightarrow> string \<Rightarrow> string \<Rightarrow> db \<Rightarrow> user call" where
  "register_nth env k email password d =
     register (se_hash_password env) (se_now env) (se_org env k) (se_project env k) (se_user env k) id
       email password d"

text \<open>\<open>scalar_one_or_none\<close>; the attributes of a missing user raise.\<close>

definition user_by_email :: "string \<Rightarrow> db \<Rightarrow> user call" where
  "user_by_email email d =
     (case get_by_email email d of
        None \<Rightarrow> (Inl (NotFoundError ''NoneType''), d)
      | Some usr \<Rightarrow> (Inr usr, d))"

definition make_viewer :: "user \<Rightarrow> user \<Rightarrow> db \<Rightarrow> unit call" where
  "make_viewer usr viewer d =
     (Inr (), d\<lparr>users := update_where (\<lambda>u. u_id u = u_id viewer)
        (\<lambda>u. u\<lparr>u_org_id := u_org_id usr, u_role := VIEWER\<rparr>) (users d)\<rparr>)"

definition seed_users :: "seed_env \<Rightarrow> db \<Rightarrow> unit call" where
  "seed_users env d =
     and_then (catching is_taken_email (register_nth env 0 DEMO_EMAIL DEMO_PASSWORD d)
                 (user_by_email DEMO_EMAIL)) (\<lambda>usr d1.
       catching is_taken_email
         (and_then (register_nth env 1 VIEWER_EMAIL VIEWER_PASSWORD d1) (make_viewer usr))
         (\<lambda>d2. (Inr (), d2)))"

definition seed_queue :: "seed_env \<Rightarrow> nat \<Rightarrow> user \<Rightarrow> QueueCreate \<Rightarrow> db \<Rightarrow> unit call" where
  "seed_queue env k usr data d =
     catching is_conflict (ignoring (create_queue (se_now env) (se_queue env k) usr data d)) (\<lambda>d1. (Inr (), d1))"

fun seed_jobs :: "seed_env \<Rightarrow> nat \<Rightarrow> user \<Rightarrow> JobCreate list \<Rightarrow> db \<Rightarrow> unit call" where
  "seed_jobs env k usr [] d = (Inr (), d)"
| "seed_jobs env k usr (data # rest) d =
     and_then (enqueue (se_now env) (se_job env k) id id usr data d) (\<lambda>_. seed_jobs env (Suc k) usr rest)"

definition seed_batch :: "seed_env \<Rightarrow> user \<Rightarrow> db \<Rightarrow> unit call" where
  "seed_batch env usr d =
     catching is_conflict
       (ignoring (enqueue_batch (se_now env) (se_batch_queue env) (se_batch_job env) (se_batch env) (\<lambda>x. x)
                usr DEMO_BATCH d)) (\<lambda>d1. (Inr (), d1))"

definition seed_workflow :: "seed_env \<Rightarrow> user \<Rightarrow> db \<Rightarrow> unit call" where
  "seed_workflow env usr d =
     catching is_conflict
       (and_then (enqueue (se_now env) (se_job env 6) id id usr (workflow_step ''A'' ''a'' []) d)
         (\<lambda>(job_a, created_a) d1.
            if \<not> created_a then (Inr (), d1)
            else and_then (enqueue (se_now env) (se_job env 7) id id usr (workflow_step ''B'' ''b'' [j_id job_a]) d1)
              (\<lambda>(job_b, _) d2. ignoring (enqueue (se_now env) (se_job env 8) id id usr
                 (workflow_step ''C'' ''c'' [j_id job_b]) d2))))
       (\<lambda>d1. (Inr (), d1))"

definition seed_schedule :: "seed_env \<Rightarrow> user \<Rightarrow> db \<Rightarrow> unit call" where
  "seed_schedule env usr d =
     (if list_ex (\<lambda>s. s_cron_expr s = sc_cron_expr DEMO_SCHEDULE) (fst (list_schedules usr 50 0 d))
      then (Inr (), d)
      else ignoring (create_schedule (se_cron_next env) (se_now env) (se_queue env 2) (se_schedule env) id usr
                   DEMO_SCHEDULE d))"

definition seed :: "seed_env \<Rightarrow> db \<Rightarrow> unit call" where
  "seed env d =
     and_then (seed_users env d) (\<lambda>_ d1.
     and_then (user_by_email DEMO_EMAIL d1) (\<lambda>usr d2.
     and_then (seed_queue env 0 usr ((queue_named ''capped'')\<lparr>qc_max_concurrency := Some 1\<rparr>) d2) (\<lambda>_ d3.
     and_then (seed_queue env 1 usr ((queue_named ''sharded'')\<lparr>qc_shard_key := 1\<rparr>) d3) (\<lambda>_ d4.
     and_then (seed_jobs env 0 usr DEMO_JOBS d4) (\<lambda>_ d5.
     and_then (seed_batch env usr d5) (\<lambda>_ d6.
     and_then (seed_workflow env usr d6) (\<lambda>_ d7. seed_schedule env usr d7)))))))"

end
