(* ===== verification/Seed_Props.thy ===== *)
theory Seed_Props
  imports Seed Cluster_Props
begin

section \<open>Properties of the demo data\<close>

text \<open>
  Seeding keeps the database consistent wherever it stops, creates the demo once, and repeats
  only the jobs that have no idempotency key.
\<close>

subsection \<open>Consistency\<close>

lemma and_then_keeps:
  "consistent (snd r) \<Longrightarrow> (\<And>x d. consistent d \<Longrightarrow> consistent (snd (next x d))) \<Longrightarrow> consistent (snd (and_then r next))"
  by (auto simp: and_then_def split: prod.splits sum.splits)

lemma catching_keeps:
  "consistent (snd r) \<Longrightarrow> (\<And>d. consistent d \<Longrightarrow> consistent (snd (recover d))) \<Longrightarrow> consistent (snd (catching caught r recover))"
  by (auto simp: catching_def split: prod.splits sum.splits)

lemma ignoring_keeps: "consistent (snd r) \<Longrightarrow> consistent (snd (ignoring r))"
  unfolding ignoring_def by (rule and_then_keeps) simp_all

lemma db_step_consistent: "db_step T d d' \<Longrightarrow> consistent d'"
  by (simp add: db_step_def)

lemma service_keeps:
  assumes "consistent d"
  shows "consistent (snd (register h now oi pid uid id email pw d))"
    and "consistent (snd (create_queue now q usr qdata d))"
    and "consistent (snd (enqueue now ids id id usr data d))"
    and "consistent (snd (enqueue_batch now qs js b (\<lambda>x. x) usr items d))"
    and "consistent (snd (create_schedule cn now q sid id usr sdata d))"
  by (rule db_step_consistent, rule user_steps, rule assms)+

lemma users_keep: "consistent d \<Longrightarrow> consistent (snd (seed_users env d))"
proof -
  have viewer: "consistent d \<Longrightarrow> consistent (snd (make_viewer usr v d))" for usr v d
    using consistent_frame [of "snd (make_viewer usr v d)" d] by (simp add: make_viewer_def)
  show "consistent d \<Longrightarrow> consistent (snd (seed_users env d))"
    unfolding seed_users_def register_nth_def
    by (intro and_then_keeps catching_keeps service_keeps viewer) (auto simp: user_by_email_def split: option.split)
qed

lemma jobs_keep: "consistent d \<Longrightarrow> consistent (snd (seed_jobs env k usr items d))"
  by (induction items arbitrary: k d) (simp_all add: and_then_keeps service_keeps)

lemma seed_consistent:
  assumes "consistent d"
  shows "consistent (snd (seed env d))"
  unfolding seed_def seed_queue_def seed_batch_def seed_workflow_def seed_schedule_def user_by_email_def
  using assms
  by (intro and_then_keeps catching_keeps ignoring_keeps users_keep jobs_keep service_keeps)
    (auto split: option.split prod.split intro!: and_then_keeps ignoring_keeps service_keeps)

subsection \<open>One run and another\<close>

text \<open>The tables have identifiers of their own, so the same numbers serve for all of them.\<close>

definition seed_sample :: "nat \<Rightarrow> seed_env" where
  "seed_sample n =
     \<lparr>se_now = 0, se_hash_password = (\<lambda>pw. pw), se_cron_next = (\<lambda>_ t. Some (t + 120000000)),
      se_org = (\<lambda>k. n + k), se_project = (\<lambda>k. n + k), se_user = (\<lambda>k. n + k), se_queue = (\<lambda>k. n + k),
      se_job = (\<lambda>k. \<lparr>i_queue = n + 3 + k, i_job = n + k, i_workflow = n + k, i_dependency = (\<lambda>t. n + k)\<rparr>),
      se_batch_queue = (\<lambda>k. n + 12 + k), se_batch_job = (\<lambda>k. n + 9 + k), se_batch = n, se_schedule = n\<rparr>"

text \<open>What a run leaves, without the rows' identifiers and times.\<close>

definition demo_rows where
  "demo_rows d =
     (map (\<lambda>u. (u_email u, u_role u)) (users d), map (\<lambda>q. (q_name q, q_max_concurrency q, q_shard_key q)) (queues d),
      map (\<lambda>j. (j_task_name j, j_queue j, j_idempotency_key j)) (jobs d),
      map (\<lambda>e. (d_job_id e, d_depends_on_job_id e)) (dependencies d), map s_cron_expr (schedules d))"

definition demo_keyless :: "(string \<times> string \<times> string option) list" where
  "demo_keyless = [(''demo.echo'', ''default'', None), (''demo.sleep'', ''default'', None),
     (''demo.fail_until'', ''default'', None), (''demo.flaky'', ''default'', None),
     (''demo.always_fail'', ''default'', None)]"

definition demo_keyed :: "(string \<times> string \<times> string option) list" where
  "demo_keyed = [(''demo.echo'', ''default'', Some ''seed-idempotent-job''),
     (''demo.sleep'', ''capped'', Some ''seed-capped-batch-0''), (''demo.sleep'', ''capped'', Some ''seed-capped-batch-1''),
     (''demo.sleep'', ''capped'', Some ''seed-capped-batch-2''), (''demo.echo'', ''default'', Some ''seed-workflow-a''),
     (''demo.echo'', ''default'', Some ''seed-workflow-b''), (''demo.echo'', ''default'', Some ''seed-workflow-c'')]"

lemma seeded:
  "case seed (seed_sample 0) empty_db of (r, d) \<Rightarrow> (case seed (seed_sample 20) d of (r', d') \<Rightarrow>
     r = Inr () \<and> r' = Inr () \<and>
     demo_rows d = ([(DEMO_EMAIL, OWNER), (VIEWER_EMAIL, VIEWER)],
       [(''capped'', Some 1, 0), (''sharded'', None, 1), (''default'', None, 0)], demo_keyless @ demo_keyed,
       [(7, 6), (8, 7)], [''*/2 * * * *'']) \<and>
     demo_rows d' = ([(DEMO_EMAIL, OWNER), (VIEWER_EMAIL, VIEWER)],
       [(''capped'', Some 1, 0), (''sharded'', None, 1), (''default'', None, 0)],
       demo_keyless @ demo_keyed @ demo_keyless, [(7, 6), (8, 7)], [''*/2 * * * *'']) \<and>
     map u_org_id (users d') = [0, 0])"
  by code_simp

text \<open>Seeding an empty database and seeding it again: both runs succeed and leave a consistent
  database; the first creates the owner and the viewer of one organization, the three queues
  with their cap and shard, twelve jobs, the workflow A, B, C and one schedule; the second adds
  no user, queue, dependency or schedule and no job with an idempotency key, but the five demo
  jobs without one are enqueued once more.\<close>

theorem second_seeding_repeats_keyless_jobs:
  "\<exists>d d'. seed (seed_sample 0) empty_db = (Inr (), d) \<and> seed (seed_sample 20) d = (Inr (), d') \<and>
     consistent d \<and> consistent d' \<and> length (jobs d) = 12 \<and>
     demo_rows d = ([(DEMO_EMAIL, OWNER), (VIEWER_EMAIL, VIEWER)],
       [(''capped'', Some 1, 0), (''sharded'', None, 1), (''default'', None, 0)], demo_keyless @ demo_keyed,
       [(7, 6), (8, 7)], [''*/2 * * * *'']) \<and>
     demo_rows d' = ([(DEMO_EMAIL, OWNER), (VIEWER_EMAIL, VIEWER)],
       [(''capped'', Some 1, 0), (''sharded'', None, 1), (''default'', None, 0)],
       demo_keyless @ demo_keyed @ demo_keyless, [(7, 6), (8, 7)], [''*/2 * * * *'']) \<and>
     map u_org_id (users d') = [0, 0]"
proof -
  obtain r d where first: "seed (seed_sample 0) empty_db = (r, d)" by (cases "seed (seed_sample 0) empty_db")
  obtain r' d' where second: "seed (seed_sample 20) d = (r', d')" by (cases "seed (seed_sample 20) d")
  have c: "consistent d" using seed_consistent [OF consistent_empty, of "seed_sample 0"] by (simp add: first)
  have c': "consistent d'" using seed_consistent [OF c, of "seed_sample 20"] by (simp add: second)
  note facts = seeded [unfolded first prod.case second]
  have "map (\<lambda>j. (j_task_name j, j_queue j, j_idempotency_key j)) (jobs d) = demo_keyless @ demo_keyed"
    using facts by (simp add: demo_rows_def)
  then have "length (jobs d) = length (demo_keyless @ demo_keyed)" by (metis length_map)
  then show ?thesis using first second c c' facts by (simp add: demo_keyless_def demo_keyed_def)
qed

end
