(* ===== verification/Worker_Life.thy ===== *)
theory Worker_Life
  imports Cluster
begin

section \<open>The life of a worker process (WorkerRunner.run)\<close>

text \<open>
  One process from its registration to its graceful exit, as the code writes it: a loop of claims
  and the shutdown after it.  What happens between two of its own transactions (requests, other
  workers, and its own heartbeat, reaper, scheduler and executions, which are tasks of the same
  process) is an argument, a function of the whole system; it may also kill the process.  Only
  a worker that is in the fleet goes on.
\<close>

subsection \<open>The consume loop\<close>

text \<open>
  A claim is answered, fails and is rolled back, or commits while the connection breaks.  The last
  two raise: the loop sleeps and turns again.
\<close>

datatype reply = Answered | Rolled_Back | Unanswered

record turn =
  t_meanwhile :: "system \<Rightarrow> system"
  t_attempt_id :: "uuid \<Rightarrow> uuid"
  t_now :: time
  t_locked_jobs :: "uuid \<Rightarrow> bool"
  t_locked_queues :: "uuid \<Rightarrow> bool"
  t_reply :: reply

definition runner_of :: "uuid \<Rightarrow> system \<Rightarrow> runner option" where
  "runner_of w \<sigma> = find (\<lambda>r. r_id r = w) (fleet \<sigma>)"

definition claim_turn :: "Settings \<Rightarrow> turn \<Rightarrow> runner \<Rightarrow> system \<Rightarrow> system" where
  "claim_turn s t r \<sigma> =
     (let (r', d) = consume s (t_attempt_id t) (t_now t) (t_locked_jobs t) (t_locked_queues t) r (store \<sigma>)
      in case t_reply t of
           Answered \<Rightarrow> \<lparr>store = d, fleet = replace_runner r' (fleet \<sigma>)\<rparr>
         | Rolled_Back \<Rightarrow> \<sigma>
         | Unanswered \<Rightarrow> \<sigma>\<lparr>store := d\<rparr>)"

definition loop_turn :: "Settings \<Rightarrow> uuid \<Rightarrow> turn \<Rightarrow> system \<Rightarrow> system" where
  "loop_turn s w t \<sigma> =
     (let \<sigma>1 = t_meanwhile t \<sigma>
      in case runner_of w \<sigma>1 of None \<Rightarrow> \<sigma>1 | Some r \<Rightarrow> claim_turn s t r \<sigma>1)"

text \<open>The list ends where the signal handler sets \<open>_draining\<close>; a turn that has begun is completed.\<close>

definition consume_loop :: "Settings \<Rightarrow> uuid \<Rightarrow> turn list \<Rightarrow> system \<Rightarrow> system" where
  "consume_loop s w turns \<sigma> = fold (loop_turn s w) turns \<sigma>"

subsection \<open>The shutdown and the whole life\<close>

record farewell =
  f_before :: "system \<Rightarrow> system"
  f_announced :: time
  f_grace :: "system \<Rightarrow> system"
  f_clock :: "uuid \<Rightarrow> time"
  f_stopped :: time

datatype life = Refused | Killed | Exited

text \<open>The worker announces DRAINING, waits for its executions, releases those still running and is
  OFFLINE.  The releases are consecutive here; \<open>Cluster.step\<close> lets others act between them.\<close>

definition shutdown :: "uuid \<Rightarrow> farewell \<Rightarrow> system \<Rightarrow> life \<times> system" where
  "shutdown w f \<sigma> =
     (let \<sigma>1 = f_before f \<sigma>
      in case runner_of w \<sigma>1 of
           None \<Rightarrow> (Killed, \<sigma>1)
         | Some r \<Rightarrow>
             (let \<sigma>2 = f_grace f \<lparr>store = announce_drain (f_announced f) r (store \<sigma>1),
                                  fleet = replace_runner (request_shutdown r) (fleet \<sigma>1)\<rparr>
              in case runner_of w \<sigma>2 of
                   None \<Rightarrow> (Killed, \<sigma>2)
                 | Some r2 \<Rightarrow>
                     (Exited, \<lparr>store = snd (finish_shutdown (f_clock f) (f_stopped f) r2 (store \<sigma>2)),
                             fleet = remove_runner w (fleet \<sigma>2)\<rparr>)))"

definition worker_run ::
  "Settings \<Rightarrow> time \<Rightarrow> uuid \<Rightarrow> string \<Rightarrow> turn list \<Rightarrow> farewell \<Rightarrow> system \<Rightarrow> life \<times> system" where
  "worker_run s now w nm turns f \<sigma> =
     (case register_worker now w nm (worker_concurrency s) (store \<sigma>) of
        Inl e \<Rightarrow> (Refused, \<sigma>)
      | Inr d \<Rightarrow> shutdown w f (consume_loop s w turns \<lparr>store = d, fleet = fleet \<sigma> @ [new_runner w nm]\<rparr>))"

subsection \<open>What may happen in between\<close>

text \<open>Any step, except that no second process boots under the identity of this one.\<close>

definition goes_on :: "hazard set \<Rightarrow> Settings \<Rightarrow> uuid \<Rightarrow> system \<Rightarrow> system \<Rightarrow> bool" where
  "goes_on H s w \<sigma> \<tau> \<longleftrightarrow> step H s \<sigma> \<tau> \<and> (w \<in> r_id ` set (fleet \<tau>) \<longrightarrow> w \<in> r_id ` set (fleet \<sigma>))"

definition meanwhile_ok :: "hazard set \<Rightarrow> Settings \<Rightarrow> uuid \<Rightarrow> (system \<Rightarrow> system) \<Rightarrow> bool" where
  "meanwhile_ok H s w g \<longleftrightarrow> (\<forall>\<sigma>. (goes_on H s w)\<^sup>*\<^sup>* \<sigma> (g \<sigma>))"

definition turn_ok :: "hazard set \<Rightarrow> Settings \<Rightarrow> uuid \<Rightarrow> turn \<Rightarrow> bool" where
  "turn_ok H s w t \<longleftrightarrow> meanwhile_ok H s w (t_meanwhile t) \<and> (t_reply t = Unanswered \<longrightarrow> Lost_Reply \<in> H)"

definition farewell_ok :: "hazard set \<Rightarrow> Settings \<Rightarrow> uuid \<Rightarrow> farewell \<Rightarrow> bool" where
  "farewell_ok H s w f \<longleftrightarrow> meanwhile_ok H s w (f_before f) \<and> meanwhile_ok H s w (f_grace f)"

subsection \<open>The life of a worker is a path of the cluster\<close>

lemma runner_ofD: "runner_of w \<sigma> = Some r \<Longrightarrow> r \<in> set (fleet \<sigma>) \<and> r_id r = w"
  by (auto simp: runner_of_def find_Some_iff)

lemma goes_on_step: "(goes_on H s w)\<^sup>*\<^sup>* \<sigma> \<tau> \<Longrightarrow> (step H s)\<^sup>*\<^sup>* \<sigma> \<tau>"
  by (rule mono_rtranclp [rule_format]) (simp_all add: goes_on_def)

lemma meanwhile_path: "meanwhile_ok H s w g \<Longrightarrow> (step H s)\<^sup>*\<^sup>* \<sigma> (g \<sigma>)"
  unfolding meanwhile_ok_def using goes_on_step by blast

lemma reachable_path: "(step H s)\<^sup>*\<^sup>* \<sigma> \<tau> \<Longrightarrow> reachable H s \<sigma> \<Longrightarrow> reachable H s \<tau>"
  by (induction rule: rtranclp_induct) (auto intro: reachable.step)

lemma claim_turn_path:
  assumes "turn_ok H s w t" and "Self_Reclaim \<in> H" and "r \<in> set (fleet \<sigma>)"
  shows "(step H s)\<^sup>*\<^sup>* \<sigma> (claim_turn s t r \<sigma>)"
proof -
  obtain r' d where c: "consume s (t_attempt_id t) (t_now t) (t_locked_jobs t) (t_locked_queues t) r (store \<sigma>) = (r', d)"
    by (metis surj_pair)
  show ?thesis
  proof (cases "t_reply t")
    case Answered
    then show ?thesis using step.consume [OF assms(3) c, of H] assms(2) by (simp add: claim_turn_def c r_into_rtranclp)
  next
    case Rolled_Back
    then show ?thesis by (simp add: claim_turn_def c)
  next
    case Unanswered
    then have "Lost_Reply \<in> H" using assms(1) by (simp add: turn_ok_def)
    then show ?thesis using Unanswered step.claim_lost [OF _ assms(3) c, of H] assms(2)
      by (simp add: claim_turn_def c r_into_rtranclp)
  qed
qed

lemma loop_turn_path:
  assumes "turn_ok H s w t" and "Self_Reclaim \<in> H"
  shows "(step H s)\<^sup>*\<^sup>* \<sigma> (loop_turn s w t \<sigma>)"
proof -
  have "(step H s)\<^sup>*\<^sup>* \<sigma> (t_meanwhile t \<sigma>)" using assms(1) meanwhile_path by (auto simp: turn_ok_def)
  moreover have "(step H s)\<^sup>*\<^sup>* (t_meanwhile t \<sigma>) (claim_turn s t r (t_meanwhile t \<sigma>))"
    if "runner_of w (t_meanwhile t \<sigma>) = Some r" for r
    using claim_turn_path [OF assms] runner_ofD [OF that] by blast
  ultimately show ?thesis
    by (cases "runner_of w (t_meanwhile t \<sigma>)") (auto simp: loop_turn_def intro: rtranclp_trans)
qed

lemma consume_loop_path:
  assumes "\<forall>t \<in> set turns. turn_ok H s w t" and "Self_Reclaim \<in> H"
  shows "(step H s)\<^sup>*\<^sup>* \<sigma> (consume_loop s w turns \<sigma>)"
  using assms(1) unfolding consume_loop_def
proof (induction turns arbitrary: \<sigma>)
  case (Cons t ts)
  then show ?case using rtranclp_trans [OF loop_turn_path [OF _ assms(2), of s w t \<sigma>]] by simp
qed simp

lemma replace_replace: "r_id b = r_id a \<Longrightarrow> replace_runner b (replace_runner a fs) = replace_runner b fs"
  by (simp add: replace_runner_def update_where_def)

lemma replaced_mem: "r \<in> set fs \<Longrightarrow> r_id a = r_id r \<Longrightarrow> a \<in> set (replace_runner a fs)"
  by (force simp: replace_runner_def update_where_def)

lemma replace_same: "\<forall>x \<in> set fs. r_id x = r_id r \<longrightarrow> x = r \<Longrightarrow> replace_runner r fs = fs"
  by (auto simp: replace_runner_def update_where_def intro!: map_idI)

text \<open>The releases of the shutdown, one report after the other.\<close>

lemma release_all_path:
  assumes "r \<in> set (fleet \<sigma>)" and "\<forall>x \<in> set (fleet \<sigma>). r_id x = r_id r \<longrightarrow> x = r"
  shows "(step H s)\<^sup>*\<^sup>* \<sigma> \<lparr>store = release_all clock (r_id r) (r_inflight r) (store \<sigma>),
                       fleet = replace_runner (r\<lparr>r_inflight := []\<rparr>) (fleet \<sigma>)\<rparr>"
  using assms
proof (induction "r_inflight r" arbitrary: r \<sigma>)
  case Nil
  have none: "r_inflight r = []" using Nil.hyps by simp
  then have "r\<lparr>r_inflight := []\<rparr> = r" by simp
  then have "replace_runner (r\<lparr>r_inflight := []\<rparr>) (fleet \<sigma>) = fleet \<sigma>"
    using replace_same [OF Nil.prems(2)] by simp
  then show ?case using none by (simp add: system_ext [of \<sigma>, OF refl refl, symmetric])
next
  case (Cons c cs)
  let ?r = "on_task_done c r"
  let ?d = "snd (release_job (clock (j_id c)) c (r_id r) (store \<sigma>))"
  let ?\<tau> = "\<lparr>store = ?d, fleet = replace_runner ?r (fleet \<sigma>)\<rparr>"
  have c: "c \<in> set (r_inflight r)" "r_inflight ?r = cs" using Cons.hyps(2) by (metis list.set_intros(1), metis remove1.simps(2) runner_kept(3))
  have "report (clock (j_id c)) 0 (clock (j_id c)) None id (r_id r) c Cancelled (store \<sigma>) =
      Inr (fst (release_job (clock (j_id c)) c (r_id r) (store \<sigma>)), ?d)"
    by (simp add: report_def)
  from step.report [OF Cons.prems(1) c(1) this, of H s] have first: "step H s \<sigma> ?\<tau>" .
  have "?r \<in> set (fleet ?\<tau>)" using replaced_mem [OF Cons.prems(1)] by simp
  moreover have "\<forall>x \<in> set (fleet ?\<tau>). r_id x = r_id ?r \<longrightarrow> x = ?r" by (auto elim: replace_runner_cases)
  ultimately have "(step H s)\<^sup>*\<^sup>* ?\<tau> \<lparr>store = release_all clock (r_id ?r) (r_inflight ?r) (store ?\<tau>),
      fleet = replace_runner (?r\<lparr>r_inflight := []\<rparr>) (fleet ?\<tau>)\<rparr>"
    using Cons.hyps(1) c(2) by metis
  moreover have "?r\<lparr>r_inflight := []\<rparr> = r\<lparr>r_inflight := []\<rparr>" by (simp add: on_task_done_def)
  ultimately show ?case
    using converse_rtranclp_into_rtranclp [where r = "step H s", OF first] c(2) Cons.hyps(2) [symmetric]
    by (simp add: replace_replace)
qed

lemma leave_path:
  assumes "r \<in> set (fleet \<sigma>)" and "\<forall>x \<in> set (fleet \<sigma>). r_id x = r_id r \<longrightarrow> x = r" and "r_draining r"
  shows "(step H s)\<^sup>*\<^sup>* \<sigma> \<lparr>store = snd (finish_shutdown clock now r (store \<sigma>)), fleet = remove_runner (r_id r) (fleet \<sigma>)\<rparr>"
proof -
  let ?r = "r\<lparr>r_inflight := []\<rparr>"
  let ?\<tau> = "\<lparr>store = release_all clock (r_id r) (r_inflight r) (store \<sigma>), fleet = replace_runner ?r (fleet \<sigma>)\<rparr>"
  have "?r \<in> set (fleet ?\<tau>)" using replaced_mem [OF assms(1)] by simp
  from step.leave [OF this, of H s now] assms(3)
  have "step H s ?\<tau> \<lparr>store = set_worker_status now (r_id r) OFFLINE True (store ?\<tau>),
      fleet = remove_runner (r_id r) (fleet ?\<tau>)\<rparr>" by simp
  moreover have "remove_runner (r_id r) (replace_runner ?r (fleet \<sigma>)) = remove_runner (r_id r) (fleet \<sigma>)" for \<sigma> :: system
  proof -
    have "remove_runner (r_id r) (replace_runner ?r fs) = remove_runner (r_id r) fs" for fs
      by (induction fs) (auto simp: remove_runner_def replace_runner_def update_where_def)
    then show ?thesis .
  qed
  ultimately show ?thesis
    using rtranclp.rtrancl_into_rtrancl [OF release_all_path [OF assms(1,2)]] by (simp add: finish_shutdown_def)
qed

text \<open>The flag \<open>_draining\<close> is never taken back.\<close>

definition draining :: "uuid \<Rightarrow> system \<Rightarrow> bool" where
  "draining w \<sigma> \<longleftrightarrow> (\<forall>r \<in> set (fleet \<sigma>). r_id r = w \<longrightarrow> r_draining r)"

lemma draining_replace:
  "draining w \<sigma> \<Longrightarrow> r \<in> set (fleet \<sigma>) \<Longrightarrow> r_id r' = r_id r \<Longrightarrow> (r_draining r \<Longrightarrow> r_draining r') \<Longrightarrow>
   draining w \<lparr>store = d, fleet = replace_runner r' (fleet \<sigma>)\<rparr>"
  by (auto simp: draining_def elim!: replace_runner_cases)

lemma draining_step:
  assumes "step H s \<sigma> \<tau>" and "w \<in> r_id ` set (fleet \<tau>) \<longrightarrow> w \<in> r_id ` set (fleet \<sigma>)" and "draining w \<sigma>"
  shows "draining w \<tau>"
  using assms
proof (induction rule: step.induct)
  case (boot now u nm n \<sigma> d)
  then show ?case by (auto simp: draining_def)
next
  case (consume r \<sigma> aid now lj lq r' d)
  have "r_draining r \<longrightarrow> r_draining r'" using consume.hyps(2) by (rule consume_cases) auto
  then show ?case using draining_replace [OF consume.prems(2) consume.hyps(1) consume_id [OF consume.hyps(2)]] by blast
next
  case (report r \<sigma> c now u oc ok d)
  then show ?case using draining_replace [OF report.prems(2) report.hyps(1)] by (simp add: on_task_done_def)
next
  case (report_lost r \<sigma> c)
  then show ?case using draining_replace [OF report_lost.prems(2) report_lost.hyps(2), of "on_task_done c r" "store \<sigma>"]
    by (simp add: on_task_done_def draining_def)
next
  case (drain r \<sigma> now)
  then show ?case using draining_replace [OF drain.prems(2) drain.hyps(1)] by (simp add: request_shutdown_def)
qed (auto simp: draining_def remove_runner_def)

lemma draining_meanwhile:
  assumes "meanwhile_ok H s w g" and "draining w \<sigma>"
  shows "draining w (g \<sigma>)"
proof -
  have "(goes_on H s w)\<^sup>*\<^sup>* \<sigma> (g \<sigma>)" using assms(1) by (simp add: meanwhile_ok_def)
  then show ?thesis
    by (induction rule: rtranclp_induct) (use assms(2) draining_step in \<open>auto simp: goes_on_def\<close>)
qed

lemma drain_draining:
  "r \<in> set (fleet \<sigma>) \<Longrightarrow> draining (r_id r) \<lparr>store = d, fleet = replace_runner (request_shutdown r) (fleet \<sigma>)\<rparr>"
  by (auto simp: draining_def request_shutdown_def elim!: replace_runner_cases)

end
