(* ===== verification/Worker_Life_Props.thy ===== *)
theory Worker_Life_Props
  imports Worker_Life Cluster_Props
begin

section \<open>Properties of the life of a worker\<close>

text \<open>
  A worker process as written, from registration to exit, makes only steps of \<open>Cluster\<close>, so every
  invariant of the reachable states holds while it lives; and it leaves nothing behind.
\<close>

lemma unique_runner: "reachable H s \<sigma> \<Longrightarrow> r \<in> set (fleet \<sigma>) \<Longrightarrow> \<forall>x \<in> set (fleet \<sigma>). r_id x = r_id r \<longrightarrow> x = r"
  using same_runner [OF reachable_fleet_ok] by blast

lemma no_runner: "runner_of w \<sigma> = None \<Longrightarrow> w \<notin> r_id ` set (fleet \<sigma>)"
  by (auto simp: runner_of_def find_None_iff)

text \<open>What holds when a life has ended, however it has ended.\<close>

definition ended_well :: "hazard set \<Rightarrow> uuid \<Rightarrow> time \<Rightarrow> life \<times> system \<Rightarrow> bool" where
  "ended_well H w stopped_at e \<longleftrightarrow>
     w \<notin> r_id ` set (fleet (snd e)) \<and>
     (fst e = Exited \<longrightarrow>
        (\<forall>x \<in> set (workers (store (snd e))). w_id x = w \<longrightarrow> w_status x = OFFLINE \<and> w_stopped_at x = Some stopped_at) \<and>
        (Lost_Reply \<notin> H \<longrightarrow> (\<forall>j \<in> set (jobs (store (snd e))). j_locked_by j \<noteq> Some w)))"

lemma offline_workers:
  assumes "x \<in> set (workers (set_worker_status now w OFFLINE True d))" and "w_id x = w"
  shows "w_status x = OFFLINE \<and> w_stopped_at x = Some now"
proof -
  obtain y where "x = (if w_id y = w then y\<lparr>w_status := OFFLINE, w_stopped_at := Some now\<rparr> else y)"
    using assms(1) by (auto simp: set_worker_status_def set_status_def in_update_where Let_def)
  then show ?thesis using assms(2) by (cases "w_id y = w") simp_all
qed

lemma shutdown_path:
  assumes "reachable H s \<sigma>" and "farewell_ok H s w f"
  shows "(step H s)\<^sup>*\<^sup>* \<sigma> (snd (shutdown w f \<sigma>)) \<and> ended_well H w (f_stopped f) (shutdown w f \<sigma>)"
proof -
  let ?\<sigma>1 = "f_before f \<sigma>"
  have ok: "meanwhile_ok H s w (f_before f)" "meanwhile_ok H s w (f_grace f)"
    using assms(2) by (simp_all add: farewell_ok_def)
  have p1: "(step H s)\<^sup>*\<^sup>* \<sigma> ?\<sigma>1" by (rule meanwhile_path [OF ok(1)])
  show ?thesis
  proof (cases "runner_of w ?\<sigma>1")
    case None
    then show ?thesis using p1 no_runner by (simp add: shutdown_def ended_well_def)
  next
    case (Some r)
    note r = runner_ofD [OF Some]
    let ?\<tau> = "\<lparr>store = announce_drain (f_announced f) r (store ?\<sigma>1), fleet = replace_runner (request_shutdown r) (fleet ?\<sigma>1)\<rparr>"
    let ?\<sigma>2 = "f_grace f ?\<tau>"
    have "step H s ?\<sigma>1 ?\<tau>" using step.drain [of r ?\<sigma>1 H s] r by blast
    then have p2: "(step H s)\<^sup>*\<^sup>* \<sigma> ?\<sigma>2"
      using p1 meanwhile_path [OF ok(2)] by (meson rtranclp.rtrancl_into_rtrancl rtranclp_trans)
    have drains: "draining w ?\<sigma>2"
      using draining_meanwhile [OF ok(2)] drain_draining [of r ?\<sigma>1] r by blast
    show ?thesis
    proof (cases "runner_of w ?\<sigma>2")
      case None
      then show ?thesis using p2 no_runner Some by (simp add: shutdown_def ended_well_def Let_def)
    next
      case two: (Some r2)
      note r2 = runner_ofD [OF two]
      have reach: "reachable H s ?\<sigma>2" by (rule reachable_path [OF p2 assms(1)])
      let ?d = "snd (finish_shutdown (f_clock f) (f_stopped f) r2 (store ?\<sigma>2))"
      let ?fin = "\<lparr>store = ?d, fleet = remove_runner w (fleet ?\<sigma>2)\<rparr>"
      have result: "shutdown w f \<sigma> = (Exited, ?fin)" by (simp add: shutdown_def Some two Let_def)
      have "r_draining r2" using drains r2 by (simp add: draining_def)
      from leave_path [OF _ unique_runner [OF reach] this] r2
      have "(step H s)\<^sup>*\<^sup>* ?\<sigma>2 ?fin" by blast
      then have "(step H s)\<^sup>*\<^sup>* \<sigma> ?fin" by (rule rtranclp_trans [OF p2])
      moreover have "w \<notin> r_id ` set (fleet ?fin)" by (auto simp: remove_runner_def)
      moreover have "w_status x = OFFLINE \<and> w_stopped_at x = Some (f_stopped f)"
        if "x \<in> set (workers ?d)" "w_id x = w" for x
        using offline_workers that r2 by (simp add: finish_shutdown_def)
      moreover have "j_locked_by j \<noteq> Some w" if "Lost_Reply \<notin> H" "j \<in> set (jobs ?d)" for j
        using finish_shutdown_unheld [OF reach that(1) _ prod.collapse [symmetric] that(2)] r2 by blast
      ultimately show ?thesis unfolding result ended_well_def by simp
    qed
  qed
qed

text \<open>C20: The life of a worker.  A process that registers under a fresh identity, turns its consume loop
  any number of times (each claim answered, rolled back, or committed without an answer), and
  shuts down or is killed on the way, with any steps of the rest of the system in between, makes
  only steps of the cluster: the state after it is reachable.  At the end it is out of the fleet.
  If it left by itself, its row is OFFLINE with the time of the stop, and unless a reply was
  lost no job is locked by it.\<close>

theorem worker_life_is_cluster_run:
  assumes "reachable H s \<sigma>" and "Self_Reclaim \<in> H"
    and "w \<notin> r_id ` set (fleet \<sigma>)" and "\<forall>j \<in> set (jobs (store \<sigma>)). j_locked_by j \<noteq> Some w"
    and "\<forall>t \<in> set turns. turn_ok H s w t" and "farewell_ok H s w f"
    and "worker_run s now w nm turns f \<sigma> = (e, \<tau>)"
  shows "(step H s)\<^sup>*\<^sup>* \<sigma> \<tau> \<and> reachable H s \<tau> \<and> w \<notin> r_id ` set (fleet \<tau>) \<and>
    (e = Exited \<longrightarrow>
       (\<forall>x \<in> set (workers (store \<tau>)). w_id x = w \<longrightarrow> w_status x = OFFLINE \<and> w_stopped_at x = Some (f_stopped f)) \<and>
       (Lost_Reply \<notin> H \<longrightarrow> (\<forall>j \<in> set (jobs (store \<tau>)). j_locked_by j \<noteq> Some w)))"
proof (cases "register_worker now w nm (worker_concurrency s) (store \<sigma>)")
  case (Inl err)
  then show ?thesis using assms(1,3,7) by (simp add: worker_run_def)
next
  case (Inr d)
  let ?\<sigma>0 = "\<lparr>store = d, fleet = fleet \<sigma> @ [new_runner w nm]\<rparr>"
  let ?\<sigma>1 = "consume_loop s w turns ?\<sigma>0"
  have "step H s \<sigma> ?\<sigma>0" by (rule step.boot [OF Inr assms(3,4)])
  then have p: "(step H s)\<^sup>*\<^sup>* \<sigma> ?\<sigma>1"
    using consume_loop_path [OF assms(5,2)] by (meson converse_rtranclp_into_rtranclp)
  have "shutdown w f ?\<sigma>1 = (e, \<tau>)" using assms(7) by (simp add: worker_run_def Inr)
  then have "(step H s)\<^sup>*\<^sup>* ?\<sigma>1 \<tau> \<and> ended_well H w (f_stopped f) (e, \<tau>)"
    using shutdown_path [OF reachable_path [OF p assms(1)] assms(6)] by simp
  moreover from this p have "(step H s)\<^sup>*\<^sup>* \<sigma> \<tau>" by (meson rtranclp_trans)
  ultimately show ?thesis using reachable_path assms(1) by (auto simp: ended_well_def)
qed

definition life_turn :: turn where
  "life_turn = \<lparr>t_meanwhile = (\<lambda>\<sigma>. \<sigma>), t_attempt_id = (\<lambda>i. i + 30), t_now = 1, t_locked_jobs = (\<lambda>_. False),
     t_locked_queues = (\<lambda>_. False), t_reply = Answered\<rparr>"

definition life_end :: farewell where
  "life_end = \<lparr>f_before = (\<lambda>\<sigma>. \<sigma>), f_announced = 2, f_grace = (\<lambda>\<sigma>. \<sigma>), f_clock = (\<lambda>_. 3), f_stopped = 4\<rparr>"

definition life_sample :: "life \<times> system" where
  "life_sample = worker_run default_settings 0 2 ''v'' [life_turn] life_end run_job"

lemma life_sample_eval: "case life_sample of (e, \<tau>) \<Rightarrow> e = Exited \<and>
    map (\<lambda>j. (j_id j, j_status j, j_run_at j)) (jobs (store \<tau>)) = [(20, PENDING, 3)] \<and>
    map (\<lambda>a. (a_job_id a, a_worker_id a, a_status a)) (attempts (store \<tau>)) = [(20, Some 2, A_ABORTED)] \<and>
    list_all (\<lambda>j. j_locked_by j = None) (jobs (store run_job))"
  by code_simp

theorem worker_life_is_cluster_run_witness:
  "\<exists>\<tau>. worker_run default_settings 0 2 ''v'' [life_turn] life_end run_job = (Exited, \<tau>) \<and>
     reachable {Self_Reclaim} default_settings \<tau> \<and> 2 \<notin> r_id ` set (fleet \<tau>) \<and>
     map (\<lambda>a. (a_job_id a, a_worker_id a, a_status a)) (attempts (store \<tau>)) = [(20, Some 2, A_ABORTED)] \<and>
     (\<forall>j \<in> set (jobs (store \<tau>)). j_locked_by j \<noteq> Some 2)"
proof -
  obtain e \<tau> where run: "life_sample = (e, \<tau>)" by (cases life_sample)
  note facts = life_sample_eval [unfolded run prod.case]
  have ok: "\<forall>t \<in> set [life_turn]. turn_ok {Self_Reclaim} default_settings 2 t"
    "farewell_ok {Self_Reclaim} default_settings 2 life_end"
    by (simp_all add: turn_ok_def farewell_ok_def meanwhile_ok_def life_turn_def life_end_def)
  have fresh: "2 \<notin> r_id ` set (fleet run_job)" "\<forall>j \<in> set (jobs (store run_job)). j_locked_by j \<noteq> Some 2"
    using facts by (simp_all add: run_job_def run_user_def run_boot_def list_all_iff)
  from worker_life_is_cluster_run [OF run_job_reachable _ fresh ok run [unfolded life_sample_def]]
  have "reachable {Self_Reclaim} default_settings \<tau> \<and> 2 \<notin> r_id ` set (fleet \<tau>) \<and>
      (\<forall>j \<in> set (jobs (store \<tau>)). j_locked_by j \<noteq> Some 2)" using facts by simp
  then show ?thesis using run facts unfolding life_sample_def by (intro exI [of _ \<tau>]) simp
qed

end
