(* ===== verification/Tools.thy ===== *)
theory Tools
  imports Prelude "HOL-Library.List_Lexorder" "HOL-Library.Char_ord"
begin

section \<open>The document tools (src/tools)\<close>

text \<open>
  Two scripts build one HTML page each from Markdown.  A text is the list of the bytes of its UTF-8
  encoding, which is also how the pages are written; its order is that of the code points.  The
  markdown package, base64 and the running service are arguments, and so are the style sheets,
  the script of the diagrams, the introduction and the captions, which are plain texts.
\<close>

subsection \<open>Texts\<close>

definition NL :: string where "NL = [CHR 0x0A]"
definition QUOTE :: string where "QUOTE = [CHR 0x22]"
definition DASH :: string where "DASH = [CHR 0xE2, CHR 0x80, CHR 0x94]"
definition DOT :: string where "DOT = '' '' @ [CHR 0xC2, CHR 0xB7] @ '' ''"
definition LOCK :: string where "LOCK = [CHR 0xF0, CHR 0x9F, CHR 0x94, CHR 0x92]"
definition TICKS :: string where "TICKS = ''```''"

definition strip_prefix :: "string \<Rightarrow> string \<Rightarrow> string option" where
  "strip_prefix p s = (if take (length p) s = p then Some (drop (length p) s) else None)"

text \<open>The text before and after the first occurrence of \<open>p\<close>.\<close>

fun split_first :: "string \<Rightarrow> string \<Rightarrow> (string \<times> string) option" where
  "split_first p [] = (if p = [] then Some ([], []) else None)"
| "split_first p (c # cs) =
     (case strip_prefix p (c # cs) of
        Some rest \<Rightarrow> Some ([], rest)
      | None \<Rightarrow> map_option (\<lambda>(before, rest). (c # before, rest)) (split_first p cs))"

lemma strip_prefix_Some: "strip_prefix p s = Some rest \<Longrightarrow> s = p @ rest"
  by (auto simp: strip_prefix_def split: if_splits) (metis append_take_drop_id)

lemma split_first_Some: "split_first p s = Some (before, rest) \<Longrightarrow> s = before @ p @ rest"
  by (induction p s arbitrary: before rule: split_first.induct)
    (auto dest: strip_prefix_Some split: if_splits option.splits)

text \<open>\<open>s.replace(old, new)\<close> of a pattern that is not empty.\<close>

function replace_all :: "string \<Rightarrow> string \<Rightarrow> string \<Rightarrow> string" where
  "replace_all old new s =
     (case (if old = [] then None else split_first old s) of
        None \<Rightarrow> s
      | Some (before, rest) \<Rightarrow> before @ new @ replace_all old new rest)"
  by auto
termination
  by (relation "measure (\<lambda>(old, new, s). length s)") (auto dest: split_first_Some split: if_splits)

declare replace_all.simps [simp del]

fun join :: "string \<Rightarrow> string list \<Rightarrow> string" where
  "join sep [] = []"
| "join sep [x] = x"
| "join sep (x # y # ys) = x @ sep @ join sep (y # ys)"

subsection \<open>build_report.py\<close>

text \<open>The diagrams are lifted out of the Markdown and put back into the page.\<close>

definition FENCE :: string where "FENCE = ''```mermaid'' @ NL"

definition DIGITS :: string where "DIGITS = ''0123456789''"

fun decimal :: "nat \<Rightarrow> string" where
  "decimal n = (if n < 10 then [DIGITS ! n] else decimal (n div 10) @ [DIGITS ! (n mod 10)])"

declare decimal.simps [simp del]

definition placeholder :: "nat \<Rightarrow> string" where
  "placeholder i = ''@@MERMAID'' @ decimal i @ ''@@''"

definition diagram :: "string \<Rightarrow> string" where
  "diagram block = ''<pre class='' @ QUOTE @ ''mermaid'' @ QUOTE @ ''>'' @ block @ ''</pre>''"

text \<open>\<open>re.sub\<close> with a lazy group: from each opening fence to the next three ticks.\<close>

function stash :: "nat \<Rightarrow> string \<Rightarrow> string list \<times> string" where
  "stash n s =
     (case split_first FENCE s of
        None \<Rightarrow> ([], s)
      | Some (before, rest) \<Rightarrow>
          (case split_first TICKS rest of
             None \<Rightarrow> ([], s)
           | Some (block, rest') \<Rightarrow>
               (let (blocks, t) = stash (Suc n) rest'
                in (block # blocks, before @ NL @ placeholder n @ NL @ t))))"
  by auto
termination
  by (relation "measure (\<lambda>(n, s). length s)") (auto dest!: split_first_Some simp: FENCE_def)

declare stash.simps [simp del]

fun restore :: "nat \<Rightarrow> string list \<Rightarrow> string \<Rightarrow> string" where
  "restore i [] html = html"
| "restore i (block # blocks) html =
     restore (Suc i) blocks
       (replace_all (''<p>'' @ placeholder i @ ''</p>'') (diagram block)
         (replace_all (placeholder i) (diagram block) html))"

definition convert :: "(string \<Rightarrow> string) \<Rightarrow> string \<Rightarrow> string" where
  "convert markdown md_text = (let (blocks, t) = stash 0 md_text in restore 0 blocks (markdown t))"

definition part_html :: "string \<Rightarrow> string" where
  "part_html html = ''<section class='' @ [CHR 0x27] @ ''part'' @ [CHR 0x27] @ ''>'' @ html @ ''</section>''"

definition in_quotes :: "string \<Rightarrow> string" where
  "in_quotes s = [CHR 0x27] @ s @ [CHR 0x27]"

definition head_html :: "string \<Rightarrow> string \<Rightarrow> string list" where
  "head_html title css =
     [''<!doctype html><html><head><meta charset='' @ in_quotes ''utf-8'' @ ''>'',
      ''<title>'' @ title @ ''</title>'',
      ''<style>'' @ css @ ''</style></head><body>'',
      ''<div class='' @ in_quotes ''cover'' @ ''><h1>Chronos</h1>'',
      ''<p>A production-inspired distributed job scheduler</p>'']"

definition report_page :: "(string \<Rightarrow> string) \<Rightarrow> string \<Rightarrow> string \<Rightarrow> string list \<Rightarrow> string" where
  "report_page markdown css mermaid sections =
     join NL (head_html (''Chronos '' @ DASH @ '' Engineering Report'') css
       @ [''<p>Engineering design document'' @ DOT @ ''benchmarks'' @ DOT @ ''protocol diagrams</p>'',
          ''<p>PostgreSQL SKIP LOCKED queue'' @ DOT @ ''leases &amp; heartbeats'' @ DOT @ ''fenced transitions''
            @ DOT @ ''retries &amp; DLQ'' @ DOT @ ''idempotent enqueue</p></div>'']
       @ map (\<lambda>text. part_html (convert markdown text)) sections
       @ [mermaid, ''</body></html>''])"

subsection \<open>build_submission.py\<close>

definition links_block :: "string \<Rightarrow> string \<Rightarrow> string \<Rightarrow> string" where
  "links_block frontend_url backend_url repo_url =
     (let rows =
        (if frontend_url \<noteq> [] then [''<p>Live dashboard: <code>'' @ frontend_url @ ''</code></p>''] else [])
        @ (if backend_url \<noteq> [] then [''<p>Live API (Swagger): <code>'' @ backend_url @ ''/docs</code></p>''] else [])
        @ (if repo_url \<noteq> [] then [''<p>Source code: <code>'' @ repo_url @ ''</code></p>''] else [])
      in join NL (if rows = []
           then [''<p>Runs locally in one command '' @ DASH @ '' see <em>How to run</em>.</p>''] else rows))"

text \<open>\<open>shot\<close> is the base64 text of a file of the directory; a missing file is skipped.\<close>

fun figures :: "(string \<Rightarrow> string option) \<Rightarrow> (string \<times> string) list \<Rightarrow> string list" where
  "figures shot [] = []"
| "figures shot ((nm, caption) # more) =
     (case shot nm of
        None \<Rightarrow> figures shot more
      | Some b64 \<Rightarrow>
          (''<figure class='' @ in_quotes ''shot'' @ ''><img src='' @ in_quotes (''data:image/png;base64,'' @ b64)
             @ ''/><figcaption>'' @ caption @ ''</figcaption></figure>'') # figures shot more)"

definition screenshots_html :: "(string \<Rightarrow> string option) \<Rightarrow> (string \<times> string) list \<Rightarrow> string" where
  "screenshots_html shot screenshots =
     join NL ([''<h1>Dashboard walkthrough</h1>'',
               ''<p>Captured from the running system with seeded demo data.</p>''] @ figures shot screenshots)"

text \<open>The document \<open>/openapi.json\<close>: the operations of each path; a field that is absent is empty.\<close>

record operation =
  op_tags :: "string list"
  op_summary :: string
  op_secured :: bool

type_synonym spec = "(string \<times> (string \<times> operation) list) list"
type_synonym api_row = "string \<times> string \<times> string \<times> bool"

definition upper_char :: "char \<Rightarrow> char" where
  "upper_char c = (if 97 \<le> (of_char c :: nat) \<and> (of_char c :: nat) \<le> 122 then char_of ((of_char c :: nat) - 32) else c)"

definition tag_of :: "operation \<Rightarrow> string" where
  "tag_of op = (case op_tags op of [] \<Rightarrow> ''misc'' | t # _ \<Rightarrow> t)"

definition api_row :: "string \<Rightarrow> string \<times> operation \<Rightarrow> string \<times> api_row" where
  "api_row path m = (tag_of (snd m), (map upper_char (fst m), path, op_summary (snd m), op_secured (snd m)))"

definition api_rows :: "spec \<Rightarrow> (string \<times> api_row) list" where
  "api_rows paths = concat (map (\<lambda>(path, methods). map (api_row path) methods) (sort_key fst paths))"

text \<open>\<open>by_tag.setdefault(tag, []).append(row)\<close>: a dict keeps the order of first insertion.\<close>

fun add_row :: "string \<Rightarrow> api_row \<Rightarrow> (string \<times> api_row list) list \<Rightarrow> (string \<times> api_row list) list" where
  "add_row tag entry [] = [(tag, [entry])]"
| "add_row tag entry ((t, rows) # groups) =
     (if t = tag then (t, rows @ [entry]) # groups else (t, rows) # add_row tag entry groups)"

definition by_tag :: "spec \<Rightarrow> (string \<times> api_row list) list" where
  "by_tag paths = fold (\<lambda>(tag, entry). add_row tag entry) (api_rows paths) []"

definition row_md :: "api_row \<Rightarrow> string" where
  "row_md entry = (case entry of (meth, path, summary, secured) \<Rightarrow>
     ''| `'' @ meth @ ''` | `'' @ path @ ''` | '' @ summary @ '' | '' @ (if secured then LOCK else []) @ '' |'')"

definition group_md :: "string \<times> api_row list \<Rightarrow> string list" where
  "group_md g = [''## '' @ fst g, [], ''| Method | Path | Summary | |'', ''|---|---|---|---|'']
     @ map row_md (snd g) @ [[]]"

definition api_reference_md :: "spec \<Rightarrow> string" where
  "api_reference_md paths =
     join NL ([''# API reference'', [],
       ''Generated from the service'' @ [CHR 0x27] @ ''s OpenAPI spec; the interactive version ''
         @ ''(request/response schemas, try-it-out) is served at `/docs`. ''
         @ ''All endpoints return structured errors, and list endpoints support ''
         @ ''`limit`/`offset` pagination plus field filters. '' @ LOCK @ '' = bearer JWT required.'', []]
       @ concat (map group_md (by_tag paths)))"

record submission =
  sub_author :: string
  sub_email :: string
  sub_frontend_url :: string
  sub_backend_url :: string
  sub_repo_url :: string
  sub_css :: string
  sub_mermaid :: string
  sub_intro :: string
  sub_screenshots :: "(string \<times> string) list"

definition submission_page ::
  "(string \<Rightarrow> string) \<Rightarrow> (string \<Rightarrow> string option) \<Rightarrow> spec \<Rightarrow> submission \<Rightarrow> string list \<Rightarrow> string" where
  "submission_page markdown shot paths s documents =
     (let sections = [convert markdown (sub_intro s), screenshots_html shot (sub_screenshots s),
                      convert markdown (api_reference_md paths)] @ map (convert markdown) documents
      in join NL (head_html (''Chronos '' @ DASH @ '' Distributed Job Scheduler '' @ DASH @ '' Submission'') (sub_css s)
        @ [''<p><strong>Intern Assignment Submission</strong></p>'',
           ''<div class='' @ in_quotes ''meta'' @ ''><p>'' @ sub_author s @ ''</p><p>'' @ sub_email s @ ''</p></div>'',
           ''<div class='' @ in_quotes ''links'' @ ''>''
             @ links_block (sub_frontend_url s) (sub_backend_url s) (sub_repo_url s) @ ''</div>'',
           ''<p style='' @ in_quotes ''margin-top:14pt;color:#777;font-size:9pt''
             @ ''>Contents: overview &amp; requirements coverage'' @ DOT @ ''dashboard screenshots'' @ DOT
             @ ''API reference'' @ DOT @ ''engineering design document'' @ DOT @ ''measured benchmarks'' @ DOT
             @ ''protocol &amp; ER diagrams</p></div>'']
        @ map part_html sections @ [sub_mermaid s, ''</body></html>'']))"

end
