(* ===== verification/Tools_Props.thy ===== *)
theory Tools_Props
  imports Tools "HOL-Library.Multiset"
begin

section \<open>Properties of the document tools\<close>

text \<open>
  The API reference lists every operation of the service exactly once, under its tag; the lifting
  of diagrams loses no text; and the second replacement of \<open>convert\<close> never does anything, so a
  diagram stays inside a paragraph.
\<close>

subsection \<open>The API reference\<close>

lemma add_row_rows: "mset (concat (map snd (add_row tag r groups))) = add_mset r (mset (concat (map snd groups)))"
  by (induction tag r groups rule: add_row.induct) (simp_all add: ac_simps)

lemma add_row_tags:
  "distinct (map fst groups) \<Longrightarrow> distinct (map fst (add_row tag r groups)) \<and>
     set (map fst (add_row tag r groups)) = insert tag (set (map fst groups))"
  by (induction tag r groups rule: add_row.induct) auto

lemma add_row_members:
  "(\<exists>rows. (t, rows) \<in> set (add_row tag r groups) \<and> x \<in> set rows) \<longleftrightarrow>
     (t = tag \<and> x = r) \<or> (\<exists>rows. (t, rows) \<in> set groups \<and> x \<in> set rows)"
  by (induction tag r groups rule: add_row.induct) auto

lemma by_tag_fold:
  assumes "distinct (map fst groups)"
  shows "mset (concat (map snd (fold (\<lambda>(tag, r). add_row tag r) entries groups))) =
      mset (map snd entries) + mset (concat (map snd groups)) \<and>
    distinct (map fst (fold (\<lambda>(tag, r). add_row tag r) entries groups)) \<and>
    ((\<exists>rows. (t, rows) \<in> set (fold (\<lambda>(tag, r). add_row tag r) entries groups) \<and> x \<in> set rows) \<longleftrightarrow>
       (t, x) \<in> set entries \<or> (\<exists>rows. (t, rows) \<in> set groups \<and> x \<in> set rows))"
  using assms
proof (induction entries arbitrary: groups)
  case (Cons e entries)
  obtain tag r where e: "e = (tag, r)" by (cases e)
  have "distinct (map fst (add_row tag r groups))" using add_row_tags [OF Cons.prems] by blast
  from Cons.IH [OF this] show ?case
    by (simp add: e add_row_rows add_row_members) blast
qed simp

lemma mset_concat_sum: "mset (concat (map f xs)) = (\<Sum>x\<in>#mset xs. mset (f x))"
  by (induction xs) simp_all

lemma api_rows_mset:
  "mset (map snd (api_rows paths)) =
   mset (concat (map (\<lambda>(path, methods). map (\<lambda>m. snd (api_row path m)) methods) paths))"
  unfolding api_rows_def map_concat map_map mset_concat_sum mset_sort
  by (simp add: case_prod_beta comp_def)

text \<open>Every operation of the specification is listed exactly once, each tag has one section, and a row
  stands in the section of its first tag, or of "misc" without one.\<close>

theorem api_reference_is_complete:
  "mset (concat (map snd (by_tag paths))) =
     mset (concat (map (\<lambda>(path, methods). map (\<lambda>m. snd (api_row path m)) methods) paths)) \<and>
   distinct (map fst (by_tag paths)) \<and>
   ((\<exists>rows. (t, rows) \<in> set (by_tag paths) \<and> x \<in> set rows) \<longleftrightarrow>
      (\<exists>p \<in> set paths. \<exists>m \<in> set (snd p). t = tag_of (snd m) \<and> x = snd (api_row (fst p) m)))"
proof -
  have "(t, x) \<in> set (api_rows paths) \<longleftrightarrow>
      (\<exists>p \<in> set paths. \<exists>m \<in> set (snd p). t = tag_of (snd m) \<and> x = snd (api_row (fst p) m))"
    unfolding api_rows_def set_concat set_map set_sort image_image case_prod_beta
    by (auto simp: api_row_def image_iff simp del: split_paired_Ex)
  then show ?thesis
    using by_tag_fold [of "[]" "api_rows paths" t x] api_rows_mset [of paths] by (simp add: by_tag_def del: mset_map)
qed

subsection \<open>The diagrams\<close>

definition occurs :: "string \<Rightarrow> string \<Rightarrow> bool" where
  "occurs p s \<longleftrightarrow> (\<exists>u v. s = u @ p @ v)"

lemma occurs_set: "occurs p s \<Longrightarrow> set p \<subseteq> set s"
  by (auto simp: occurs_def)

lemma occurs_tail: "occurs p s \<Longrightarrow> occurs p (u @ s)"
  unfolding occurs_def by (metis append.assoc)

text \<open>A pattern without the character \<open>c\<close> lies on one side of it.\<close>

lemma occurs_around:
  assumes "occurs p (xs @ c # ys)" and "c \<notin> set p"
  shows "occurs p xs \<or> occurs p ys"
proof -
  obtain u v where e: "xs @ c # ys = u @ p @ v" using assms(1) by (auto simp: occurs_def)
  then consider w where "xs = u @ w" "w @ c # ys = p @ v" | w where "u = xs @ w" "c # ys = w @ p @ v"
    by (auto simp: append_eq_append_conv2)
  then show ?thesis
  proof cases
    case 1
    from 1(2) assms(2) obtain w' where "w = p @ w'"
      by (auto simp: append_eq_append_conv2 Cons_eq_append_conv)
    then show ?thesis using 1(1) by (auto simp: occurs_def)
  next
    case 2
    show ?thesis
    proof (cases w)
      case Nil
      then have "p = []" using 2(2) assms(2) by (cases p) auto
      then have "occurs p xs" unfolding occurs_def by (metis append_Nil)
      then show ?thesis by simp
    next
      case (Cons x w')
      then show ?thesis using 2(2) by (auto simp: occurs_def)
    qed
  qed
qed

lemma split_first_None: "split_first p s = None \<Longrightarrow> \<not> occurs p s"
proof (induction p s rule: split_first.induct)
  case (2 p c cs)
  then have "strip_prefix p (c # cs) = None" "\<not> occurs p cs" by (auto split: option.splits)
  then show ?case by (auto simp: occurs_def strip_prefix_def Cons_eq_append_conv split: if_splits)
qed (auto simp: occurs_def split: if_splits)

lemma split_first_before: "split_first p s = Some (before, rest) \<Longrightarrow> p \<noteq> [] \<Longrightarrow> \<not> occurs p before"
proof (induction p s arbitrary: before rule: split_first.induct)
  case (2 p c cs)
  show ?case
  proof (cases "strip_prefix p (c # cs)")
    case None
    then obtain b where b: "split_first p cs = Some (b, rest)" "before = c # b" using 2(2) by auto
    have "\<not> occurs p b" by (rule 2(1) [OF None b(1) 2(3)])
    moreover have "take (length p) (c # cs) \<noteq> p" using None by (auto simp: strip_prefix_def split: if_splits)
    then have "before \<noteq> p @ v" for v
      using split_first_Some [OF b(1)] b(2) by (metis append_Cons append_assoc append_eq_conv_conj)
    ultimately show ?thesis using 2(3) b(2) by (auto simp: occurs_def Cons_eq_append_conv)
  next
    case (Some r)
    then show ?thesis using 2(2,3) by (auto simp: occurs_def)
  qed
qed (auto split: if_splits)

lemma replace_all_None: "split_first old s = None \<Longrightarrow> replace_all old new s = s"
  by (subst replace_all.simps) simp

lemma replace_all_removes:
  assumes "old \<noteq> []" and "x \<notin> set old" and "y \<notin> set old" and "\<not> occurs old mid"
  shows "\<not> occurs old (replace_all old (x # mid @ [y]) s)"
proof (induction "length s" arbitrary: s rule: less_induct)
  case less
  show ?case
  proof (cases "split_first old s")
    case None
    then show ?thesis using replace_all_None split_first_None by metis
  next
    case (Some br)
    obtain before rest where br: "split_first old s = Some (before, rest)" using Some by (cases br) simp
    have "length rest < length s" using split_first_Some [OF br] assms(1) by simp
    then have rest: "\<not> occurs old (replace_all old (x # mid @ [y]) rest)" by (rule less)
    have "replace_all old (x # mid @ [y]) s = before @ x # (mid @ y # replace_all old (x # mid @ [y]) rest)"
      using assms(1) br by (subst replace_all.simps) simp
    then show ?thesis
      using occurs_around [OF _ assms(2)] occurs_around [OF _ assms(3)] split_first_before [OF br assms(1)]
        assms(4) rest by metis
  qed
qed

lemma decimal_digits: "set (decimal n) \<subseteq> set DIGITS"
proof (induction n rule: decimal.induct)
  case (1 n)
  have "k < 10 \<Longrightarrow> DIGITS ! k \<in> set DIGITS" for k by (rule nth_mem) (simp add: DIGITS_def)
  then show ?case using 1 by (subst decimal.simps) auto
qed

lemma placeholder_plain:
  "CHR 0x3C \<notin> set (placeholder i)" "CHR 0x3E \<notin> set (placeholder i)" "CHR 0x40 \<in> set (placeholder i)"
  "placeholder i \<noteq> []"
  using decimal_digits [of i] by (auto simp: placeholder_def DIGITS_def)

text \<open>The second replacement never finds anything: after the first no placeholder is left, whatever
  the markdown package made of the text, so the paragraph around a diagram stays.\<close>

theorem paragraph_replacement_is_dead:
  assumes "\<not> occurs (placeholder i) block"
  shows "restore i (block # blocks) html = restore (Suc i) blocks (replace_all (placeholder i) (diagram block) html)"
proof -
  let ?p = "placeholder i"
  let ?html = "replace_all ?p (diagram block) html"
  define pre where "pre = ''pre class='' @ QUOTE @ ''mermaid'' @ QUOTE"
  have d: "diagram block = CHR 0x3C # (pre @ CHR 0x3E # (block @ CHR 0x3C # ''/pre'')) @ [CHR 0x3E]"
    by (simp add: diagram_def pre_def)
  have "\<not> occurs ?p t" if "CHR 0x40 \<notin> set t" for t
    using occurs_set placeholder_plain(3) that by blast
  then have "\<not> occurs ?p pre" "\<not> occurs ?p ''/pre''" by (simp_all add: pre_def QUOTE_def)
  then have "\<not> occurs ?p (pre @ CHR 0x3E # (block @ CHR 0x3C # ''/pre''))"
    using assms occurs_around placeholder_plain(1,2) by metis
  then have "\<not> occurs ?p ?html"
    unfolding d using replace_all_removes placeholder_plain by metis
  then have "\<not> occurs (''<p>'' @ ?p @ ''</p>'') ?html"
    unfolding occurs_def by (metis append.assoc)
  then have "split_first (''<p>'' @ ?p @ ''</p>'') ?html = None"
    using split_first_Some by (metis occurs_def option.exhaust surj_pair)
  then show ?thesis by (simp add: replace_all_None)
qed

end
