(* ===== verification/Spec2Isabelle.thy ===== *)
theory Spec2Isabelle
  imports Claim_Props Execution_Props Job_Service_Props Schedule_Props Cluster_Props Runner_Props
    Router_Props Session_Props Pipeline_Props Observability_Props Submission_Props Ledger_Props
    Schema_Props Migration_Props Api_Props Bench_Props Seed_Props
    Worker_Life_Props Tools_Props
begin

text \<open>
  Chronos is a job scheduler: an HTTP API stores jobs in PostgreSQL, a fleet of worker processes
  claims and executes them, a sweep takes the jobs of dead workers back, and schedules submit
  jobs by cron expression.  There is no queue beside the database: every coordination between
  processes is a guarded statement of one transaction.  This development models that program
  (src/backend/app) and proves what the statements and their composition guarantee.

  \<^bold>\<open>State.\<close>  A table is the list of its rows, and \<open>Models.db\<close> is the whole database between two
  transactions.  The order of the rows stands for the physical order PostgreSQL is free to
  choose; every statement is proved for every order.  A transaction is a function from \<open>db\<close> to a
  result or an error and a new \<open>db\<close>; one that rolls back returns the \<open>db\<close> it was given.  The
  clock, the identity of new rows and the random draws are arguments.  So are the rows other
  transactions have locked at the moment (\<open>FOR UPDATE SKIP LOCKED\<close>), whether the advisory lock of
  a sweep was obtained, and what other transactions commit inside a race window (a function
  \<open>db \<Rightarrow> db\<close>): a property that holds for all of them holds for every interleaving.

  \<^bold>\<open>Theories, from the bottom.\<close>

  \<^item> \<open>Prelude\<close>: identifiers, instants, JSON, and the statements against a table (\<open>update_where\<close>,
    \<open>returning\<close>, \<open>count_where\<close>, \<open>row\<close>) with their lemmas; \<open>Py_Text\<close>: the text renderings of
    Python the code uses; \<open>Samples\<close>: small tables for the witnesses.
  \<^item> \<open>Retry\<close> (domain/retry.py): backoff and the decision to retry.
  \<^item> \<open>Models\<close> (models): rows, enums, CHECK constraints, unique indexes; \<open>db_keys\<close> is what the
    schema enforces.
  \<^item> \<open>Job_Repo\<close> and \<open>Job_Claim\<close> (repositories/jobs.py): the guarded transitions and the queries,
    the state machine \<open>job_transition\<close>, and the claim with its uncapped and its capped pass;
    \<open>Attempt_Repo\<close>, \<open>Worker_Repo\<close>, \<open>Tenancy_Repo\<close>: the other repositories.
  \<^item> \<open>Exceptions\<close>, \<open>Schemas\<close>, \<open>Execution\<close> (services/execution_service.py: claim, reports, release,
    reaper, registration, heartbeat), \<open>Job_Service\<close>, \<open>Queue_Service\<close>, \<open>Schedule_Service\<close> (with the
    materializer and domain/cron.py), \<open>Access\<close> (accounts, tenancy, roles).
  \<^item> \<open>Security\<close> (core/security.py): passwords and tokens.  \<open>Routers\<close> and \<open>Session_Api\<close> (api): each
    endpoint as the status code of its answer and the database after it.  \<open>Api\<close> (main.py): the
    routes in the order of the application, what a request passes before its endpoint runs, the
    call of the endpoint and the middleware.
  \<^item> \<open>Events\<close> (events.py), \<open>Failure_Pipeline\<close> (services/failure_pipeline.py, ai_summary_service.py),
    \<open>Observability\<close> (services/stats_service.py, metrics_service.py), \<open>Config\<close> (core/config.py).
  \<^item> \<open>Runner\<close> (worker): the task registry, the execution of one job, one turn of each loop, the
    graceful shutdown.
  \<^item> \<open>System\<close>, \<open>Audit_Log\<close>, \<open>Cluster\<close>: the composition.  \<open>Cluster.step\<close> is the inductive relation
    of one database and a changing fleet: an API request, a turn of a loop of some worker, the
    report of an execution, the boot, drain, exit or crash of a worker.
  \<^item> \<open>Worker_Life\<close> (WorkerRunner.run): one process from its registration through the turns of its
    consume loop to its exit, as the code sequences them, beside arbitrary steps of the others.
  \<^item> \<open>Ledger\<close>: the abstract specification of a scheduler, a map from jobs to status, used attempts
    and holder with eight kinds of events, and the simulation of the cluster by it.
  \<^item> \<open>Ddl\<close>, \<open>Migrations\<close>, \<open>Orm_Schema\<close>, \<open>Backfill\<close> (alembic/versions against models): a catalog of
    enums, tables, constraints and indexes with the effect of the DDL operations alembic offers,
    the statements of the four revisions up and down, the tables the ORM classes declare, and
    the data statements of revision 0003 over the rows of an older database.
  \<^item> \<open>Script\<close>, \<open>Seed\<close> and \<open>Bench\<close> (scripts): the demo data and the benchmark, as sequences of
    transactions that end at the first error and keep what was committed; \<open>Tools\<close> (src/tools): the
    pages built from Markdown.

  The theories \<open>.._Props\<close> hold the properties of the theory they are named after;
  \<open>Submission_Props\<close> joins the schema, the job service and the reachable states of the cluster.

  \<^bold>\<open>Interfaces.\<close>  \<open>Prelude.keyed_update\<close> is an update that keeps the key of a row;
  \<open>Job_Repo.job_update\<close> extends it with what every guarded transition of a job owes the rest of
  the program (identity and contract of the row, the lease exactly while it runs, one edge of the
  state machine) and is interpreted for each transition of the repository, the claim and the
  reaper; \<open>System.db_operation\<close> is the contract of a whole transaction (it keeps the invariant
  \<open>consistent\<close>, moves the jobs along the given edges, extends the attempt log and leaves it alone
  when no run starts or ends) and is interpreted for each of the twenty-three kinds of transactions.
  The invariants of \<open>Cluster\<close> are proved from that contract alone, except for what a claim, a
  report and a sweep add to it.

  \<^bold>\<open>What the properties show.\<close>

  \<^item> Every reachable state is consistent; every step follows the state machine; without two named
    hazards a lease of a living worker is an execution it has in flight, no job exceeds its
    budget of attempts, and the audit log is exact (\<open>Cluster_Props\<close>).  \<open>Lost_Reply\<close> (a commit whose
    answer is lost) strands a job at its worker, and \<open>Self_Reclaim\<close> (a worker that claims a job it
    is still executing) breaks the fence: both failures are proved as properties too.
  \<^item> A worker that runs as written, from registration to exit, makes only steps of the cluster and
    leaves no lease behind (\<open>Worker_Life_Props\<close>).
  \<^item> The cluster implements the ledger: runs of a job never overlap in its history and a job
    succeeds at most once (\<open>Ledger_Props\<close>).
  \<^item> The migrations build the tables of the ORM classes, each downgrade undoes its upgrade, the
    CHECK constraints of the migrated schema are the predicates of the model, and the backfill
    turns every sound old database into a consistent one (\<open>Schema_Props\<close>, \<open>Migration_Props\<close>).
  \<^item> The claim flips exactly the rows it returns, never overlaps a concurrent claim, respects and
    saturates the concurrency cap, orders by aged priority and applies the gates of each pass
    (\<open>Claim_Props\<close>).
  \<^item> A report without the lease changes nothing, a failure retries or dies by the policy, the
    sweep takes exactly the expired leases and decides as a failure report would, a release undoes
    its claim, a job that kills its workers dies in the end (\<open>Execution_Props\<close>, \<open>Runner_Props\<close>).
  \<^item> A resubmitted key returns the first job, also when the race is lost; a batch is stored as a
    whole or not at all; the dependency graph stays acyclic; a request that passed the schema can
    violate a constraint in two ways only; a schedule fires once per tick and collapses missed
    ones (\<open>Job_Service_Props\<close>, \<open>Submission_Props\<close>, \<open>Schedule_Props\<close>).
  \<^item> Every HTTP request is a request of the cluster or leaves the database alone, no route hides
    another, and a token is accepted until it expires (\<open>Api_Props\<close>, \<open>Session_Props\<close>).
  \<^item> The benchmark leaves no row of its own wherever its cleanup runs, and no report of its jobs is
    accepted afterwards (\<open>Bench_Props\<close>); seeding keeps the database consistent and repeats only the
    jobs without a key (\<open>Seed_Props\<close>); the API reference lists every operation once
    (\<open>Tools_Props\<close>).
  \<^item> The role guards refuse, a registered account signs in, the failure pipeline ends, the
    throughput chart counts every attempt once (\<open>Router_Props\<close>, \<open>Session_Props\<close>,
    \<open>Pipeline_Props\<close>, \<open>Observability_Props\<close>).

  Some theorems state what the code does against its own documentation, on a concrete run: the
  capped pass ignores dependencies and shards, a report of an earlier attempt of the same worker
  is accepted, an exhausted cron expression stops the sweep of every tenant, an empty
  idempotency key or a repeated dependency is answered with 500, a cached failure note is shared
  across tenants.

  \<^bold>\<open>Bounds and termination.\<close>  The limits are those of the code: 100 jobs in a batch, 64 KB of
  payload, 50 dependencies, 100 rows in a sweep, 61 buckets of the hourly chart.  No definition has
  fuel.  The loops are structural recursions over finite lists; the graph of the failure
  analysis, the chunks of the benchmark and the scans over texts are \<open>function\<close>s with termination
  proofs.  The loops of a worker that run until shutdown
  are modelled by their turns, as steps of \<open>Cluster\<close>.

  \<^bold>\<open>Parameters.\<close>  croniter, bcrypt, the JWT library, Redis, the language model, the JSON codec and
  \<open>traceback.format_exception\<close> are arguments of the definitions that use them; so are the markdown
  package, base64 and the choice of a route by the web framework.  What a property needs of them
  is a hypothesis: a hash verifies its own password, a signed token decodes to its claims, the
  first matching route serves a request.

  \<^bold>\<open>Not modelled.\<close>  Floating-point rounding (seconds and factors are reals), column lengths, the
  expiry of ORM attributes after a rollback, waiting and wake-ups of the loops (no property depends
  on timing), the health file, the text of response bodies, reading the environment, the
  configuration of the logger, of the engine and of the CORS middleware, the metadata of the
  OpenAPI document, the installation of signal handlers, the environment of alembic and its
  naming convention: calls of libraries that hold no state or decision of the program.  The web
  frontend is another program.
\<close>

end
